(* ===== verification/Prelude.thy ===== *)
theory Prelude
  imports Main
begin

text \<open>
  Shared vocabulary of the development: the types every component uses
  (instants, identifiers, texts), results with errors, the JavaScript string
  operations the sources call (\<open>split\<close>, \<open>trim\<close>, \<open>slice\<close>, \<open>String(n)\<close>,
  \<open>Number(s)\<close>), and the list and table lemmas the component proofs share.

  An instant (a JavaScript \<open>Date\<close>) is its epoch time in milliseconds, an
  unbounded \<open>int\<close>. Identifiers and closed enum texts (uuids, catalog keys,
  queue job ids) are ASCII and are HOL \<open>string\<close>s. Free text (names, message
  bodies, quotes), which may be Hebrew, is a list of UTF-16 code units, which
  is what a JavaScript string is; \<open>jstr\<close> embeds an ASCII literal into it.
\<close>

named_theorems result_iff "when a computation that may fail succeeds, and with what"

section \<open>Types\<close>

type_synonym ms = int
type_synonym id = string
type_synonym utext = "nat list"

definition jstr :: "string \<Rightarrow> utext" where
  "jstr s = map of_char s"

lemma jstr_simps [simp]:
  "jstr [] = []"
  "jstr (c # s) = of_char c # jstr s"
  "jstr (s @ t) = jstr s @ jstr t"
  "length (jstr s) = length s"
  by (simp_all add: jstr_def)

section \<open>Results with errors\<close>

type_synonym ('e, 'a) result = "'e + 'a"

fun rbind :: "('e, 'a) result \<Rightarrow> ('a \<Rightarrow> ('e, 'b) result) \<Rightarrow> ('e, 'b) result" where
  "rbind (Inl e) f = Inl e"
| "rbind (Inr x) f = f x"

lemma rbind_Inr_iff [result_iff]: "rbind r f = Inr y \<longleftrightarrow> (\<exists>x. r = Inr x \<and> f x = Inr y)"
  by (cases r) auto

lemma rbind_Inl_iff: "rbind r f = Inl e \<longleftrightarrow> r = Inl e \<or> (\<exists>x. r = Inr x \<and> f x = Inl e)"
  by (cases r) auto

lemma guard_Inr_iff [result_iff]:
  "(if b then Inl e else r) = Inr y \<longleftrightarrow> \<not> b \<and> r = Inr y"
  "(if b then r else Inl e) = Inr y \<longleftrightarrow> b \<and> r = Inr y"
  by simp_all

lemma lookup_Inr_iff [result_iff]:
  "(case m of None \<Rightarrow> Inl e | Some x \<Rightarrow> f x) = Inr y \<longleftrightarrow> (\<exists>x. m = Some x \<and> f x = Inr y)"
  by (cases m) simp_all

lemma fault_Inr_iff [result_iff]:
  "(case m of None \<Rightarrow> r | Some x \<Rightarrow> Inl (e x)) = Inr y \<longleftrightarrow> m = None \<and> r = Inr y"
  by (cases m) simp_all

text \<open>A loop that pushes one validated entry per iteration and throws at the first fault.\<close>

fun rmap :: "('a \<Rightarrow> ('e, 'b) result) \<Rightarrow> 'a list \<Rightarrow> ('e, 'b list) result" where
  "rmap f [] = Inr []"
| "rmap f (x # xs) = rbind (f x) (\<lambda>y. rbind (rmap f xs) (\<lambda>ys. Inr (y # ys)))"

lemma rmap_Inr_iff: "rmap f xs = Inr ys \<longleftrightarrow> list_all2 (\<lambda>x y. f x = Inr y) xs ys"
  by (induction xs arbitrary: ys) (auto simp: rbind_Inr_iff list_all2_Cons1)

lemma rmap_Inr_mem:
  assumes "rmap f xs = Inr ys" and "y \<in> set ys"
  shows "\<exists>x \<in> set xs. f x = Inr y"
  using assms by (induction xs arbitrary: ys) (auto simp: rbind_Inr_iff)

lemma rmap_Inr_length: "rmap f xs = Inr ys \<Longrightarrow> length ys = length xs"
  by (auto simp: rmap_Inr_iff dest: list_all2_lengthD)

text \<open>The same loop refusing a key it has already seen.\<close>

fun each_once :: "('a \<Rightarrow> 'k) \<Rightarrow> ('k \<Rightarrow> 'e) \<Rightarrow> ('a \<Rightarrow> ('e, 'b) result) \<Rightarrow> 'k list \<Rightarrow> 'a list \<Rightarrow> ('e, 'b list) result" where
  "each_once key twice f seen [] = Inr []"
| "each_once key twice f seen (x # xs) =
     (if key x \<in> set seen then Inl (twice (key x))
      else rbind (f x) (\<lambda>y. rbind (each_once key twice f (key x # seen) xs) (\<lambda>ys. Inr (y # ys))))"

lemma each_once_Inr_iff [result_iff]:
  "each_once key twice f seen xs = Inr ys \<longleftrightarrow>
     list_all2 (\<lambda>x y. f x = Inr y) xs ys \<and> distinct (map key xs) \<and> key ` set xs \<inter> set seen = {}"
  by (induction xs arbitrary: seen ys) (auto simp: result_iff list_all2_Cons1)

section \<open>Strings as the sources use them\<close>

text \<open>\<open>s.split(c)\<close> for a one-character separator.\<close>

fun split_on :: "'a \<Rightarrow> 'a list \<Rightarrow> 'a list list" where
  "split_on c [] = [[]]"
| "split_on c (x # xs) =
     (if x = c then [] # split_on c xs
      else (case split_on c xs of [] \<Rightarrow> [[x]] | y # ys \<Rightarrow> (x # y) # ys))"

lemma split_on_not_Nil [simp]: "split_on c xs \<noteq> []"
  by (induction xs) (auto split: list.splits)

lemma split_on_no_sep: "c \<notin> set xs \<Longrightarrow> split_on c xs = [xs]"
  by (induction xs) auto

lemma split_on_append_sep: "c \<notin> set xs \<Longrightarrow> split_on c (xs @ c # ys) = xs # split_on c ys"
  by (induction xs) auto

lemma split_on_no_sep_elem: "x \<in> set (split_on c xs) \<Longrightarrow> c \<notin> set x"
  by (induction xs arbitrary: x) (auto split: list.splits if_splits)

text \<open>\<open>s.trim()\<close>, \<open>s.slice(0, n)\<close>. The white space of \<open>trim\<close> is ECMAScript's.\<close>

definition js_space :: "nat \<Rightarrow> bool" where
  "js_space c \<longleftrightarrow> c \<in> {9, 10, 11, 12, 13, 32, 160, 5760, 8232, 8233, 8239, 8287, 12288, 65279}
     \<or> (8192 \<le> c \<and> c \<le> 8202)"

definition js_trim :: "utext \<Rightarrow> utext" where
  "js_trim s = rev (dropWhile js_space (rev (dropWhile js_space s)))"

lemma js_trim_Nil [simp]: "js_trim [] = []"
  by (simp add: js_trim_def)

lemma dropWhile_idem_last:
  "s \<noteq> [] \<Longrightarrow> \<not> P (last s) \<Longrightarrow> dropWhile P (rev s) = rev s"
  by (cases s rule: rev_cases) auto

lemma js_trim_idem [simp]: "js_trim (js_trim s) = js_trim s"
proof -
  define a where "a = dropWhile js_space s"
  define t where "t = rev (dropWhile js_space (rev a))"
  have ta: "js_trim s = t" by (simp add: js_trim_def a_def t_def)
  have last_t: "t = [] \<or> \<not> js_space (last t)"
    using hd_dropWhile [of js_space "rev a"] by (auto simp: t_def last_rev)
  have hd_t: "t = [] \<or> \<not> js_space (hd t)"
  proof (cases "t = []")
    case False
    obtain z where z: "a = t @ z"
      using takeWhile_dropWhile_id [of js_space "rev a"] unfolding t_def
      by (metis rev_append rev_rev_ident)
    with False have "hd a = hd t" and "a \<noteq> []" by auto
    then show ?thesis using hd_dropWhile [of js_space s] by (simp add: a_def)
  qed simp
  have "dropWhile js_space t = t"
    using hd_t by (cases t) auto
  moreover have "dropWhile js_space (rev t) = rev t"
    using last_t by (cases "t = []") (auto simp: dropWhile_idem_last)
  ultimately show ?thesis by (simp add: ta) (simp add: js_trim_def)
qed

text \<open>\<open>hay.includes(needle)\<close>.\<close>

fun is_prefix :: "'a list \<Rightarrow> 'a list \<Rightarrow> bool" where
  "is_prefix [] ys = True"
| "is_prefix (x # xs) [] = False"
| "is_prefix (x # xs) (y # ys) = (x = y \<and> is_prefix xs ys)"

fun js_includes :: "'a list \<Rightarrow> 'a list \<Rightarrow> bool" where
  "js_includes [] needle = (needle = [])"
| "js_includes (x # xs) needle = (is_prefix needle (x # xs) \<or> js_includes xs needle)"

lemma is_prefix_iff: "is_prefix xs ys \<longleftrightarrow> (\<exists>zs. ys = xs @ zs)"
  by (induction xs ys rule: is_prefix.induct) auto

lemma js_includes_iff: "js_includes hay needle \<longleftrightarrow> (\<exists>as bs. hay = as @ needle @ bs)"
proof (induction hay)
  case Nil
  then show ?case by auto
next
  case (Cons x xs)
  show ?case
  proof
    assume "js_includes (x # xs) needle"
    then consider zs where "x # xs = needle @ zs" | "js_includes xs needle"
      by (auto simp: is_prefix_iff)
    then show "\<exists>as bs. x # xs = as @ needle @ bs"
    proof cases
      case 1
      then show ?thesis by (metis append_Nil)
    next
      case 2
      then show ?thesis by (metis Cons.IH append_Cons)
    qed
  next
    assume "\<exists>as bs. x # xs = as @ needle @ bs"
    then obtain as bs where e: "x # xs = as @ needle @ bs" by blast
    show "js_includes (x # xs) needle"
    proof (cases as)
      case Nil
      then have "is_prefix needle (x # xs)" using e by (simp add: is_prefix_iff)
      then show ?thesis by simp
    next
      case (Cons a as')
      then show ?thesis using e Cons.IH by auto
    qed
  qed
qed

section \<open>Decimal texts: \<open>String(n)\<close> and \<open>Number(s)\<close>\<close>

text \<open>
  \<open>String(n)\<close> of an integer, and \<open>Number(s)\<close> of a decimal integer text
  (\<open>Number('')\<close> is 0). Every other text is \<open>None\<close>, the NaN of the sources:
  the model reads back integers only, which is all the code stores.
\<close>

definition digit :: "nat \<Rightarrow> char" where
  "digit d = char_of (48 + d)"

definition digit_val :: "char \<Rightarrow> nat option" where
  "digit_val c = (let n = of_char c :: nat in if 48 \<le> n \<and> n \<le> 57 then Some (n - 48) else None)"

fun show_nat :: "nat \<Rightarrow> string" where
  "show_nat n = (if n < 10 then [digit n] else show_nat (n div 10) @ [digit (n mod 10)])"

declare show_nat.simps [simp del]

fun parse_digits :: "nat \<Rightarrow> string \<Rightarrow> nat option" where
  "parse_digits acc [] = Some acc"
| "parse_digits acc (c # cs) =
     (case digit_val c of None \<Rightarrow> None | Some d \<Rightarrow> parse_digits (10 * acc + d) cs)"

definition show_int :: "int \<Rightarrow> string" where
  "show_int i = (if i < 0 then CHR ''-'' # show_nat (nat (- i)) else show_nat (nat i))"

definition js_number :: "string \<Rightarrow> int option" where
  "js_number s = (case s of [] \<Rightarrow> Some 0
     | c # cs \<Rightarrow> if c = CHR ''-'' then (if cs = [] then None else map_option (\<lambda>n. - int n) (parse_digits 0 cs))
                else map_option int (parse_digits 0 s))"

lemma of_char_digit: "d < 10 \<Longrightarrow> of_char (digit d) = 48 + d"
  by (simp add: digit_def)

lemma digit_val_digit [simp]: "d < 10 \<Longrightarrow> digit_val (digit d) = Some d"
  by (simp add: digit_val_def of_char_digit Let_def)

lemma digit_not_minus: "d < 10 \<Longrightarrow> digit d \<noteq> CHR ''-''"
proof
  assume "d < 10" and "digit d = CHR ''-''"
  then have "of_char (digit d) = (of_char (CHR ''-'') :: nat)" by simp
  with \<open>d < 10\<close> show False by (simp add: of_char_digit)
qed

lemma parse_digits_append:
  "parse_digits acc (xs @ ys) = (case parse_digits acc xs of None \<Rightarrow> None | Some a \<Rightarrow> parse_digits a ys)"
  by (induction acc xs rule: parse_digits.induct) (auto split: option.splits)

lemma parse_show_nat: "parse_digits 0 (show_nat n) = Some n"
proof (induction n rule: show_nat.induct)
  case (1 n)
  show ?case
  proof (cases "n < 10")
    case True
    then show ?thesis by (subst show_nat.simps) simp
  next
    case False
    then show ?thesis by (subst show_nat.simps) (simp add: parse_digits_append "1.IH")
  qed
qed

lemma show_nat_digits: "\<forall>c \<in> set (show_nat n). \<exists>d < 10. c = digit d"
proof (induction n rule: show_nat.induct)
  case (1 n)
  show ?case
  proof (cases "n < 10")
    case True
    then show ?thesis by (subst show_nat.simps) auto
  next
    case False
    have "\<exists>d < 10. digit (n mod 10) = digit d" by (rule exI [of _ "n mod 10"]) simp
    with False "1.IH" show ?thesis by (subst show_nat.simps) auto
  qed
qed

lemma show_nat_not_Nil [simp]: "show_nat n \<noteq> []"
  by (subst show_nat.simps) simp

lemma js_number_show_int [simp]: "js_number (show_int i) = Some i"
proof (cases "i < 0")
  case True
  then show ?thesis by (simp add: js_number_def show_int_def parse_show_nat)
next
  case False
  obtain c cs where s: "show_nat (nat i) = c # cs" by (cases "show_nat (nat i)") auto
  have "c \<in> set (show_nat (nat i))" by (simp add: s)
  then have "\<exists>d < 10. c = digit d" by (rule show_nat_digits [rule_format])
  then obtain d where "d < 10" and "c = digit d" by (elim exE conjE)
  then have "c \<noteq> CHR ''-''" using digit_not_minus [of d] by simp
  moreover have "parse_digits 0 (c # cs) = Some (nat i)"
    using parse_show_nat [of "nat i"] by (simp only: s)
  ultimately show ?thesis
    using False s by (simp del: parse_digits.simps add: js_number_def show_int_def)
qed

lemma show_int_inj [simp]: "show_int i = show_int j \<longleftrightarrow> i = j"
  by (metis js_number_show_int option.inject)

section \<open>Tables\<close>

text \<open>
  A table is the list of its rows in storage order; \<open>update_where\<close> is SQL's
  \<open>UPDATE \<dots> WHERE\<close> and keeps the order and every row it does not name.
\<close>

definition update_where :: "('a \<Rightarrow> bool) \<Rightarrow> ('a \<Rightarrow> 'a) \<Rightarrow> 'a list \<Rightarrow> 'a list" where
  "update_where p f rows = map (\<lambda>r. if p r then f r else r) rows"

lemma update_where_simps [simp]:
  "update_where p f [] = []"
  "update_where p f (r # rows) = (if p r then f r else r) # update_where p f rows"
  by (simp_all add: update_where_def)

lemma set_update_where: "set (update_where p f rows) = (\<lambda>r. if p r then f r else r) ` set rows"
  by (simp add: update_where_def)

lemma length_update_where [simp]: "length (update_where p f rows) = length rows"
  by (simp add: update_where_def)

lemma map_update_where:
  "(\<And>r. r \<in> set rows \<Longrightarrow> p r \<Longrightarrow> g (f r) = g r) \<Longrightarrow> map g (update_where p f rows) = map g rows"
  by (simp add: update_where_def)

lemma map_filter_update_where:
  "(\<And>r. p r \<Longrightarrow> q (f r) = q r) \<Longrightarrow> (\<And>r. p r \<Longrightarrow> g (f r) = g r)
   \<Longrightarrow> map g (filter q (update_where p f rows)) = map g (filter q rows)"
  by (induction rows) auto

lemma update_where_none: "(\<And>r. r \<in> set rows \<Longrightarrow> \<not> p r) \<Longrightarrow> update_where p f rows = rows"
  by (induction rows) auto

lemma find_Some_mem: "List.find p xs = Some x \<Longrightarrow> x \<in> set xs \<and> p x"
  by (induction xs) (auto split: if_splits)

text \<open>\<open>Map.set\<close>: a key keeps its place, its value is the last one.\<close>

fun map_set :: "'a \<Rightarrow> 'b \<Rightarrow> ('a \<times> 'b) list \<Rightarrow> ('a \<times> 'b) list" where
  "map_set k v [] = [(k, v)]"
| "map_set k v ((k', v') # xs) = (if k' = k then (k, v) # xs else (k', v') # map_set k v xs)"

lemma map_of_map_set: "map_of (map_set k v xs) j = (if j = k then Some v else map_of xs j)"
  by (induction xs) auto

lemma keys_map_set: "map fst (map_set k v xs) = map fst xs @ (if k \<in> fst ` set xs then [] else [k])"
  by (induction xs) force+

lemma distinct_map_set: "distinct (map fst xs) \<Longrightarrow> distinct (map fst (map_set k v xs))"
  by (auto simp: keys_map_set)

lemma find_append: "List.find P (as @ bs) = (case List.find P as of Some c \<Rightarrow> Some c | None \<Rightarrow> List.find P bs)"
  by (induction as) auto

lemma find_None_all: "List.find p xs = None \<longleftrightarrow> (\<forall>x \<in> set xs. \<not> p x)"
  by (induction xs) auto

lemma find_key_unique:
  "distinct (map k xs) \<Longrightarrow> x \<in> set xs \<Longrightarrow> List.find (\<lambda>y. k y = k x) xs = Some x"
  by (induction xs) auto

lemma find_update_where:
  assumes "\<And>r. p r \<Longrightarrow> k (f r) = k r"
  shows "List.find (\<lambda>r. k r = i) (update_where p f rows)
    = map_option (\<lambda>r. if p r then f r else r) (List.find (\<lambda>r. k r = i) rows)"
  using assms by (induction rows) auto

end
