(* ===== verification/InboundTurn.thy ===== *)
theory InboundTurn
  imports Prelude
begin

text \<open>
  The inbound turn (\<open>orchestration/inboundTurnRules.ts\<close>,
  \<open>inboundTurnCore.ts\<close>): when the planner may run after a client wrote. The
  pure rules \<open>isTurnSettled\<close> and \<open>decideReplan\<close>; the per-client turn state
  kept in Redis behind the interface \<open>TurnRedis\<close> (a count of handlers in
  flight, the last inbound time, a dirty flag, every key with a time to live);
  and the debounced request for one planner run behind \<open>ReplanQueueLike\<close>.

  Redis and BullMQ are not part of the repository. Their operations are fields
  of the records \<open>turn_redis\<close> and \<open>replan_queue\<close> the definitions take, and
  the locales \<open>redis_laws\<close> and \<open>replan_queue_laws\<close> state their documented
  behaviour through a view of the store at an instant.
\<close>

section \<open>The pure rules\<close>

record turn_state =
  inflight :: int
  last_inbound :: "ms option"
  pending_files :: int

definition is_turn_settled :: "turn_state \<Rightarrow> ms \<Rightarrow> ms \<Rightarrow> bool" where
  "is_turn_settled st now quiet =
     (if inflight st > 0 then False
      else if pending_files st > 0 then False
      else (case last_inbound st of
              Some t \<Rightarrow> \<not> (now - t < quiet)
            | None \<Rightarrow> True))"

datatype replan_decision = Plan | Wait | Force

definition decide_replan :: "turn_state \<Rightarrow> ms \<Rightarrow> ms \<Rightarrow> ms \<Rightarrow> ms \<Rightarrow> replan_decision" where
  "decide_replan st started now quiet max_wait =
     (if is_turn_settled st now quiet then Plan
      else if now - started \<ge> max_wait then Force else Wait)"

lemma decide_replan_Wait_iff:
  "decide_replan st started now quiet max_wait = Wait \<longleftrightarrow>
     \<not> is_turn_settled st now quiet \<and> now - started < max_wait"
  by (auto simp: decide_replan_def)

lemma decide_replan_Plan_iff:
  "decide_replan st started now quiet max_wait = Plan \<longleftrightarrow> is_turn_settled st now quiet"
  by (auto simp: decide_replan_def)

section \<open>The turn store\<close>

text \<open>
  The ioredis calls the store uses. The first argument of each is the instant
  at which the server runs it (expiry is relative to it).
\<close>

record 'r turn_redis =
  r_incr :: "ms \<Rightarrow> id \<Rightarrow> 'r \<Rightarrow> int \<times> 'r"
  r_decr :: "ms \<Rightarrow> id \<Rightarrow> 'r \<Rightarrow> int \<times> 'r"
  r_expire :: "ms \<Rightarrow> id \<Rightarrow> int \<Rightarrow> 'r \<Rightarrow> 'r"
  r_set :: "ms \<Rightarrow> id \<Rightarrow> string \<Rightarrow> int \<Rightarrow> 'r \<Rightarrow> 'r"
  r_get :: "ms \<Rightarrow> id \<Rightarrow> 'r \<Rightarrow> string option"
  r_del :: "ms \<Rightarrow> id \<Rightarrow> 'r \<Rightarrow> 'r"

definition inflight_key :: "id \<Rightarrow> id" where
  "inflight_key c = ''inbound:{'' @ c @ ''}:inflight''"

definition last_key :: "id \<Rightarrow> id" where
  "last_key c = ''inbound:{'' @ c @ ''}:last''"

definition dirty_key :: "id \<Rightarrow> id" where
  "dirty_key c = ''inbound:{'' @ c @ ''}:dirty''"

definition mark_inbound_started :: "'r turn_redis \<Rightarrow> int \<Rightarrow> id \<Rightarrow> ms \<Rightarrow> 'r \<Rightarrow> 'r" where
  "mark_inbound_started R ttl c now r =
     (let r1 = snd (r_incr R now (inflight_key c) r);
          r2 = r_expire R now (inflight_key c) ttl r1
      in r_set R now (last_key c) (show_int now) ttl r2)"

definition mark_inbound_finished :: "'r turn_redis \<Rightarrow> id \<Rightarrow> ms \<Rightarrow> 'r \<Rightarrow> 'r" where
  "mark_inbound_finished R c now r =
     (let (n, r1) = r_decr R now (inflight_key c) r
      in if n \<le> 0 then r_del R now (inflight_key c) r1 else r1)"

text \<open>\<open>Math.max(0, Number(inflight ?? '0') || 0)\<close>, and the last time when it is a number.\<close>

definition turn_read :: "'r turn_redis \<Rightarrow> id \<Rightarrow> ms \<Rightarrow> 'r \<Rightarrow> int \<times> ms option" where
  "turn_read R c now r =
     (let n = (case r_get R now (inflight_key c) r of None \<Rightarrow> Some 0 | Some s \<Rightarrow> js_number s);
          l = (case r_get R now (last_key c) r of None \<Rightarrow> None | Some s \<Rightarrow> js_number s)
      in (max 0 (case n of None \<Rightarrow> 0 | Some i \<Rightarrow> i), l))"

definition set_dirty :: "'r turn_redis \<Rightarrow> int \<Rightarrow> id \<Rightarrow> ms \<Rightarrow> 'r \<Rightarrow> 'r" where
  "set_dirty R ttl c now r = r_set R now (dirty_key c) ''1'' ttl r"

definition clear_dirty :: "'r turn_redis \<Rightarrow> id \<Rightarrow> ms \<Rightarrow> 'r \<Rightarrow> 'r" where
  "clear_dirty R c now r = r_del R now (dirty_key c) r"

definition take_dirty :: "'r turn_redis \<Rightarrow> id \<Rightarrow> ms \<Rightarrow> 'r \<Rightarrow> bool \<times> 'r" where
  "take_dirty R c now r =
     (let dirty = (r_get R now (dirty_key c) r \<noteq> None)
      in (dirty, if dirty then r_del R now (dirty_key c) r else r))"

text \<open>\<open>withInboundInFlight\<close>: the handler's own work \<open>fn\<close> runs between the two marks,
  and the second one runs whether it returned or threw.\<close>

definition with_inbound_in_flight ::
  "'r turn_redis \<Rightarrow> int \<Rightarrow> id \<Rightarrow> ms \<Rightarrow> ms \<Rightarrow> ('r \<Rightarrow> ('e, 'a) result \<times> 'r) \<Rightarrow> 'r \<Rightarrow> ('e, 'a) result \<times> 'r"
where
  "with_inbound_in_flight R ttl c t0 t1 fn r =
     (let (res, r1) = fn (mark_inbound_started R ttl c t0 r)
      in (res, mark_inbound_finished R c t1 r1))"

lemma turn_keys_inj [simp]:
  "inflight_key c = inflight_key d \<longleftrightarrow> c = d"
  "last_key c = last_key d \<longleftrightarrow> c = d"
  "dirty_key c = dirty_key d \<longleftrightarrow> c = d"
  by (simp_all add: inflight_key_def last_key_def dirty_key_def)

lemma turn_keys_differ [simp]:
  "inflight_key c \<noteq> last_key d" "last_key d \<noteq> inflight_key c"
  "inflight_key c \<noteq> dirty_key d" "dirty_key d \<noteq> inflight_key c"
  "last_key c \<noteq> dirty_key d" "dirty_key d \<noteq> last_key c"
proof -
  have e: "take 2 (rev (inflight_key c)) = ''th''" "take 2 (rev (last_key d)) = ''ts''"
    "take 2 (rev (last_key c)) = ''ts''" "take 2 (rev (dirty_key d)) = ''yt''" for c d
    by (simp_all add: inflight_key_def last_key_def dirty_key_def)
  show "inflight_key c \<noteq> last_key d" "inflight_key c \<noteq> dirty_key d" "last_key c \<noteq> dirty_key d"
    using e(1) [of c] e(2) [of d] e(3) [of c] e(4) [of d] by auto
  then show "last_key d \<noteq> inflight_key c" "dirty_key d \<noteq> inflight_key c" "dirty_key d \<noteq> last_key c"
    by simp_all
qed

section \<open>What the store relies on in Redis\<close>

definition counter_of :: "string option \<Rightarrow> int" where
  "counter_of v = (case v of None \<Rightarrow> 0 | Some s \<Rightarrow> (case js_number s of None \<Rightarrow> 0 | Some i \<Rightarrow> i))"

lemma counter_of_simps [simp]: "counter_of None = 0" "counter_of (Some (show_int i)) = i"
  by (simp_all add: counter_of_def)

text \<open>
  \<open>live r t k\<close> is the value a client reads under key \<open>k\<close> at instant \<open>t\<close>. INCR
  and DECR keep the key's expiry, create a missing key without one and return
  the new value; EXPIRE replaces the expiry of an existing key; SET with EX
  replaces value and expiry; DEL removes the key; no operation touches another
  key; and between operations a value can only expire.
\<close>

locale redis_laws =
  fixes R :: "'r turn_redis" and live :: "'r \<Rightarrow> ms \<Rightarrow> id \<Rightarrow> string option"
  assumes get_live: "r_get R t k r = live r t k"
    and incr_ret: "fst (r_incr R t k r) = counter_of (live r t k) + 1"
    and incr_live: "t \<le> u \<Longrightarrow> live (snd (r_incr R t k r)) u k =
          (if live r t k \<noteq> None \<and> live r u k = None then None
           else Some (show_int (counter_of (live r t k) + 1)))"
    and incr_frame: "k' \<noteq> k \<Longrightarrow> live (snd (r_incr R t k r)) u k' = live r u k'"
    and decr_ret: "fst (r_decr R t k r) = counter_of (live r t k) - 1"
    and decr_live: "t \<le> u \<Longrightarrow> live (snd (r_decr R t k r)) u k =
          (if live r t k \<noteq> None \<and> live r u k = None then None
           else Some (show_int (counter_of (live r t k) - 1)))"
    and decr_frame: "k' \<noteq> k \<Longrightarrow> live (snd (r_decr R t k r)) u k' = live r u k'"
    and expire_live: "t \<le> u \<Longrightarrow> live (r_expire R t k s r) u k =
          (if u < t + 1000 * s then live r t k else None)"
    and expire_frame: "k' \<noteq> k \<Longrightarrow> live (r_expire R t k s r) u k' = live r u k'"
    and set_live: "t \<le> u \<Longrightarrow> live (r_set R t k v s r) u k = (if u < t + 1000 * s then Some v else None)"
    and set_frame: "k' \<noteq> k \<Longrightarrow> live (r_set R t k v s r) u k' = live r u k'"
    and del_live: "t \<le> u \<Longrightarrow> live (r_del R t k r) u k = None"
    and del_frame: "k' \<noteq> k \<Longrightarrow> live (r_del R t k r) u k' = live r u k'"
begin

lemmas frames = incr_frame decr_frame expire_frame set_frame del_frame

lemma started_inflight:
  assumes "0 < ttl" and "t \<le> u"
  shows "live (mark_inbound_started R ttl c t r) u (inflight_key c) =
    (if u < t + 1000 * ttl then Some (show_int (counter_of (live r t (inflight_key c)) + 1)) else None)"
  using assms by (auto simp: mark_inbound_started_def Let_def frames expire_live incr_live)

lemma started_last:
  "t \<le> u \<Longrightarrow> live (mark_inbound_started R ttl c t r) u (last_key c) =
    (if u < t + 1000 * ttl then Some (show_int t) else None)"
  by (simp add: mark_inbound_started_def Let_def set_live)

lemma started_frame:
  "k \<noteq> inflight_key c \<Longrightarrow> k \<noteq> last_key c \<Longrightarrow> live (mark_inbound_started R ttl c t r) u k = live r u k"
  by (simp add: mark_inbound_started_def Let_def frames)

lemma finished_inflight:
  assumes "t \<le> u"
  shows "live (mark_inbound_finished R c t r) u (inflight_key c) =
    (let n = counter_of (live r t (inflight_key c)) - 1
     in if n \<le> 0 then None
        else if live r t (inflight_key c) \<noteq> None \<and> live r u (inflight_key c) = None then None
        else Some (show_int n))"
proof -
  obtain n r1 where d: "r_decr R t (inflight_key c) r = (n, r1)" by (cases "r_decr R t (inflight_key c) r")
  have n: "n = counter_of (live r t (inflight_key c)) - 1" and r1: "r1 = snd (r_decr R t (inflight_key c) r)"
    using decr_ret [of t "inflight_key c" r] d by simp_all
  have "live r1 u (inflight_key c) =
      (if live r t (inflight_key c) \<noteq> None \<and> live r u (inflight_key c) = None then None
       else Some (show_int n))"
    unfolding r1 n using assms by (rule decr_live)
  then show ?thesis using assms d n
    by (auto simp: mark_inbound_finished_def Let_def del_live)
qed

lemma finished_frame:
  "k \<noteq> inflight_key c \<Longrightarrow> live (mark_inbound_finished R c t r) u k = live r u k"
  by (simp add: mark_inbound_finished_def Let_def frames split: prod.splits)
     (metis decr_frame del_frame snd_conv)

lemma take_dirty_once:
  assumes "t \<le> u"
  shows "fst (take_dirty R c u (snd (take_dirty R c t (set_dirty R ttl c t r)))) = False"
  using assms by (auto simp: take_dirty_def Let_def set_dirty_def get_live del_live set_live split: if_splits)

end

section \<open>What the store promises: a counter that forgets\<close>

text \<open>
  The abstract state of one client's turn: how many handlers are counted and
  until when the count is believed. A start counts one more and extends the
  deadline by the time to live; a finish counts one less, never below zero; a
  count past its deadline is zero.
\<close>

datatype turn_event = Started ms | Finished ms

fun event_time :: "turn_event \<Rightarrow> ms" where
  "event_time (Started t) = t"
| "event_time (Finished t) = t"

record turn_clock =
  counted :: int
  believed_until :: ms

definition clock_read :: "turn_clock \<Rightarrow> ms \<Rightarrow> int" where
  "clock_read a t = (if t < believed_until a then counted a else 0)"

fun clock_step :: "int \<Rightarrow> turn_event \<Rightarrow> turn_clock \<Rightarrow> turn_clock" where
  "clock_step ttl (Started t) a = \<lparr>counted = clock_read a t + 1, believed_until = t + 1000 * ttl\<rparr>"
| "clock_step ttl (Finished t) a = a\<lparr>counted := max 0 (clock_read a t - 1)\<rparr>"

fun store_step :: "'r turn_redis \<Rightarrow> int \<Rightarrow> id \<Rightarrow> turn_event \<Rightarrow> 'r \<Rightarrow> 'r" where
  "store_step R ttl c (Started t) r = mark_inbound_started R ttl c t r"
| "store_step R ttl c (Finished t) r = mark_inbound_finished R c t r"

definition run_store :: "'r turn_redis \<Rightarrow> int \<Rightarrow> id \<Rightarrow> turn_event list \<Rightarrow> 'r \<Rightarrow> 'r" where
  "run_store R ttl c es r = fold (store_step R ttl c) es r"

definition run_clock :: "int \<Rightarrow> turn_event list \<Rightarrow> turn_clock \<Rightarrow> turn_clock" where
  "run_clock ttl es a = fold (clock_step ttl) es a"

fun ordered_from :: "ms \<Rightarrow> turn_event list \<Rightarrow> bool" where
  "ordered_from t [] = True"
| "ordered_from t (e # es) = (t \<le> event_time e \<and> ordered_from (event_time e) es)"

lemma clock_counted_nonneg: "0 \<le> counted a \<Longrightarrow> 0 \<le> counted (clock_step ttl e a)"
  by (cases e) (auto simp: clock_read_def)

context redis_laws begin

definition agrees :: "id \<Rightarrow> ms \<Rightarrow> 'r \<Rightarrow> turn_clock \<Rightarrow> bool" where
  "agrees c t r a \<longleftrightarrow> 0 \<le> counted a \<and>
     (\<forall>u \<ge> t. live r u (inflight_key c) =
        (if u < believed_until a \<and> 0 < counted a then Some (show_int (counted a)) else None))"

lemma agrees_count: "agrees c t r a \<Longrightarrow> t \<le> u \<Longrightarrow> counter_of (live r u (inflight_key c)) = clock_read a u"
  by (auto simp: agrees_def clock_read_def)

lemma agrees_step:
  assumes "agrees c t r a" and "t \<le> event_time e" and "0 < ttl"
  shows "agrees c (event_time e) (store_step R ttl c e r) (clock_step ttl e a)"
proof (cases e)
  case (Started s)
  have n: "counter_of (live r s (inflight_key c)) = clock_read a s"
    using assms Started by (simp add: agrees_count)
  have "0 \<le> clock_read a s" using assms(1) by (simp add: agrees_def clock_read_def)
  then show ?thesis using Started assms(3)
    by (auto simp: agrees_def started_inflight n)
next
  case (Finished s)
  have n: "counter_of (live r s (inflight_key c)) = clock_read a s"
    using assms Finished by (simp add: agrees_count)
  have pos: "0 \<le> counted a"
    and view: "s \<le> u \<Longrightarrow> live r u (inflight_key c) =
      (if u < believed_until a \<and> 0 < counted a then Some (show_int (counted a)) else None)" for u
    using assms(1,2) Finished by (auto simp: agrees_def)
  show ?thesis using Finished pos
    by (auto simp: agrees_def finished_inflight n view Let_def clock_read_def)
qed

lemma agrees_run:
  "agrees c t r a \<Longrightarrow> ordered_from t es \<Longrightarrow> 0 < ttl \<Longrightarrow>
   \<exists>t'. (t' = t \<or> t' \<in> event_time ` set es) \<and> agrees c t' (run_store R ttl c es r) (run_clock ttl es a)"
proof (induction es arbitrary: t r a)
  case Nil
  then show ?case by (auto simp: run_store_def run_clock_def)
next
  case (Cons e es)
  from Cons.prems have "agrees c (event_time e) (store_step R ttl c e r) (clock_step ttl e a)"
    by (intro agrees_step) auto
  from Cons.IH [OF this] Cons.prems show ?case
    by (auto simp: run_store_def run_clock_def)
qed

lemma run_store_read:
  assumes "live r t (inflight_key c) = None" and "\<forall>u \<ge> t. live r u (inflight_key c) = None"
    and "ordered_from t es" and "0 < ttl" and "t \<le> u" and "\<forall>e \<in> set es. event_time e \<le> u"
  shows "fst (turn_read R c u (run_store R ttl c es r)) =
    clock_read (run_clock ttl es \<lparr>counted = 0, believed_until = t\<rparr>) u"
proof -
  have a0: "agrees c t r \<lparr>counted = 0, believed_until = t\<rparr>"
    using assms(2) by (simp add: agrees_def)
  obtain t' where t': "t' = t \<or> t' \<in> event_time ` set es"
    and ag: "agrees c t' (run_store R ttl c es r) (run_clock ttl es \<lparr>counted = 0, believed_until = t\<rparr>)"
    using agrees_run [OF a0 assms(3,4)] by blast
  have "t' \<le> u" using t' assms(5,6) by auto
  with ag show ?thesis
    by (auto simp: agrees_def turn_read_def Let_def get_live clock_read_def)
qed

end

section \<open>Redis as a store of values with deadlines\<close>

text \<open>
  The documented behaviour is realisable: a map from keys to a value and an
  optional deadline (the repository's tests run the store against such a map,
  \<open>fakeRedis\<close>, without the expiry).
\<close>

type_synonym map_store = "id \<Rightarrow> (string \<times> ms option) option"

definition map_live :: "map_store \<Rightarrow> ms \<Rightarrow> id \<Rightarrow> string option" where
  "map_live m t k = (case m k of None \<Rightarrow> None
     | Some (v, d) \<Rightarrow> (case d of None \<Rightarrow> Some v | Some e \<Rightarrow> if t < e then Some v else None))"

definition map_bump :: "int \<Rightarrow> ms \<Rightarrow> id \<Rightarrow> map_store \<Rightarrow> int \<times> map_store" where
  "map_bump by t k m =
     (let n = counter_of (map_live m t k) + by;
          d = (if map_live m t k = None then None else snd (the (m k)))
      in (n, m(k := Some (show_int n, d))))"

definition map_redis :: "map_store turn_redis" where
  "map_redis = \<lparr>r_incr = map_bump 1, r_decr = map_bump (- 1),
     r_expire = (\<lambda>t k s m. if map_live m t k = None then m(k := None)
        else m(k := Some (fst (the (m k)), Some (t + 1000 * s)))),
     r_set = (\<lambda>t k v s m. m(k := Some (v, Some (t + 1000 * s)))),
     r_get = (\<lambda>t k m. map_live m t k),
     r_del = (\<lambda>t k m. m(k := None))\<rparr>"

interpretation redis_map: redis_laws map_redis map_live
proof unfold_locales
  show "r_get map_redis t k r = map_live r t k" for t k r
    by (simp add: map_redis_def)
qed (auto simp: map_redis_def map_bump_def map_live_def Let_def split: option.splits prod.splits if_splits)

section \<open>The request for one planner run\<close>

text \<open>
  \<open>ReplanQueueLike\<close> and \<open>ReplanJobLike\<close>: \<open>q_get\<close> is \<open>getJob\<close> with
  \<open>getState\<close> and the job's \<open>turnStartedAt\<close>; \<open>q_remove\<close> is \<open>None\<close> when the
  call throws (the worker picked the job up meanwhile); \<open>q_add\<close> takes the job
  id, the client, the turn start, the delay and the instant of the call.
\<close>

record 'q replan_queue =
  q_get :: "id \<Rightarrow> 'q \<Rightarrow> (string \<times> ms) option"
  q_remove :: "id \<Rightarrow> 'q \<Rightarrow> 'q option"
  q_add :: "id \<Rightarrow> id \<Rightarrow> ms \<Rightarrow> int \<Rightarrow> ms \<Rightarrow> 'q \<Rightarrow> 'q"

definition replan_job_id :: "id \<Rightarrow> id" where
  "replan_job_id c = ''replan-'' @ c"

definition MIN_DELAY_MS :: int where
  "MIN_DELAY_MS = 1000"

definition NOT_STARTED :: "string set" where
  "NOT_STARTED = {''delayed'', ''waiting'', ''prioritized'', ''paused'', ''waiting-children''}"

definition delay_for :: "int \<Rightarrow> ms option \<Rightarrow> ms \<Rightarrow> int" where
  "delay_for quiet seen now =
     (case seen of None \<Rightarrow> quiet
      | Some t \<Rightarrow> min quiet (max MIN_DELAY_MS (t + quiet - now)))"

text \<open>\<open>createReplanRequester\<close>; one instant \<open>now\<close> stands for the clock reads of one call.\<close>

definition request_replan ::
  "'q replan_queue \<Rightarrow> 'r turn_redis \<Rightarrow> int \<Rightarrow> int \<Rightarrow> id \<Rightarrow> ms \<Rightarrow> 'q \<times> 'r \<Rightarrow> 'q \<times> 'r"
where
  "request_replan Q R quiet ttl c now s =
     (let q = fst s; r = snd s; job = replan_job_id c;
          delay = delay_for quiet (snd (turn_read R c now r)) now
      in case q_get Q job q of
           None \<Rightarrow> (q_add Q job c now delay now q, r)
         | Some (state, started) \<Rightarrow>
             if state = ''active'' then (q, set_dirty R ttl c now r)
             else (let turn_started = (if state \<in> NOT_STARTED then started else now)
                   in case q_remove Q job q of
                        None \<Rightarrow> (q, set_dirty R ttl c now r)
                      | Some q1 \<Rightarrow> (q_add Q job c turn_started delay now q1, r)))"

lemma delay_for_bounds:
  assumes "MIN_DELAY_MS \<le> quiet"
  shows "MIN_DELAY_MS \<le> delay_for quiet l now \<and> delay_for quiet l now \<le> quiet"
  using assms by (auto simp: delay_for_def split: option.splits)

lemma delay_for_quiet:
  assumes "l = Some t" and "t \<le> now"
  shows "t + quiet \<le> now + delay_for quiet l now"
  using assms by (auto simp: delay_for_def)

text \<open>
  BullMQ with custom job ids, as documented: \<open>jobs\<close> shows state, turn start and
  firing time of the job under an id; \<open>add\<close> under an id in use changes
  nothing; \<open>remove\<close> throws only for a job that is running.
\<close>

locale replan_queue_laws =
  fixes Q :: "'q replan_queue" and jobs :: "'q \<Rightarrow> id \<Rightarrow> (string \<times> ms \<times> ms) option"
  assumes get_jobs: "q_get Q j q = map_option (\<lambda>(st, start, _). (st, start)) (jobs q j)"
    and add_new: "jobs q j = None \<Longrightarrow>
          jobs (q_add Q j c start delay now q) j = Some (''delayed'', start, now + delay)"
    and add_taken: "jobs q j \<noteq> None \<Longrightarrow> jobs (q_add Q j c start delay now q) j = jobs q j"
    and add_frame: "k \<noteq> j \<Longrightarrow> jobs (q_add Q j c start delay now q) k = jobs q k"
    and remove_gone: "q_remove Q j q = Some q' \<Longrightarrow> jobs q' j = None"
    and remove_frame: "q_remove Q j q = Some q' \<Longrightarrow> k \<noteq> j \<Longrightarrow> jobs q' k = jobs q k"
    and remove_idle: "jobs q j = Some (st, start, f) \<Longrightarrow> st \<noteq> ''active'' \<Longrightarrow> q_remove Q j q \<noteq> None"
begin

lemma request_idle:
  assumes "jobs q (replan_job_id c) = None"
  shows "jobs (fst (request_replan Q R quiet ttl c now (q, r))) (replan_job_id c) =
    Some (''delayed'', now, now + delay_for quiet (snd (turn_read R c now r)) now)"
  using assms by (simp add: request_replan_def Let_def get_jobs add_new)

lemma request_pending:
  assumes "jobs q (replan_job_id c) = Some (st, start, f)" and "st \<in> NOT_STARTED"
  shows "jobs (fst (request_replan Q R quiet ttl c now (q, r))) (replan_job_id c) =
    Some (''delayed'', start, now + delay_for quiet (snd (turn_read R c now r)) now)"
proof -
  have na: "st \<noteq> ''active''" using assms(2) by (auto simp: NOT_STARTED_def)
  obtain q1 where q1: "q_remove Q (replan_job_id c) q = Some q1"
    using remove_idle [OF assms(1) na] by auto
  show ?thesis using assms na q1 remove_gone [OF q1]
    by (simp add: request_replan_def Let_def get_jobs add_new)
qed

lemma request_active:
  assumes "jobs q (replan_job_id c) = Some (''active'', start, f)"
  shows "request_replan Q R quiet ttl c now (q, r) = (q, set_dirty R ttl c now r)"
  using assms by (simp add: request_replan_def Let_def get_jobs)

lemma request_other_client:
  assumes "replan_job_id d \<noteq> replan_job_id c"
  shows "jobs (fst (request_replan Q R quiet ttl c now (q, r))) (replan_job_id d) = jobs q (replan_job_id d)"
  using assms remove_frame by (auto simp: request_replan_def Let_def add_frame split: option.splits prod.splits)

text \<open>A burst of requests leaves one job with the first request's turn start.\<close>

lemma burst_one_job:
  assumes "jobs q (replan_job_id c) = Some (''delayed'', start, f)"
  shows "\<exists>f'. jobs (fst (fold (request_replan Q R quiet ttl c) ts (q, r))) (replan_job_id c) = Some (''delayed'', start, f')"
  using assms
proof (induction ts arbitrary: q r f)
  case Nil
  then show ?case by simp
next
  case (Cons t ts)
  obtain q1 r1 where s1: "request_replan Q R quiet ttl c t (q, r) = (q1, r1)"
    by (cases "request_replan Q R quiet ttl c t (q, r)")
  have "jobs q1 (replan_job_id c) = Some (''delayed'', start, t + delay_for quiet (snd (turn_read R c t r)) t)"
    using request_pending [OF Cons.prems, where R = R and quiet = quiet and ttl = ttl and now = t and r = r] s1
    by (simp add: NOT_STARTED_def)
  from Cons.IH [OF this, of r1] s1 show ?case by simp
qed

end

type_synonym map_queue = "id \<Rightarrow> (string \<times> ms \<times> ms) option"

definition map_replan_queue :: "map_queue replan_queue" where
  "map_replan_queue = \<lparr>
     q_get = (\<lambda>j q. map_option (\<lambda>(st, start, _). (st, start)) (q j)),
     q_remove = (\<lambda>j q. case q j of Some (st, _) \<Rightarrow> if st = ''active'' then None else Some (q(j := None)) | None \<Rightarrow> Some q),
     q_add = (\<lambda>j c start delay now q. if q j = None then q(j := Some (''delayed'', start, now + delay)) else q)\<rparr>"

interpretation replan_map: replan_queue_laws map_replan_queue "\<lambda>q. q"
  by unfold_locales (auto simp: map_replan_queue_def split: option.splits prod.splits if_splits)

lemma replan_job_id_inj [simp]: "replan_job_id c = replan_job_id d \<longleftrightarrow> c = d"
  by (simp add: replan_job_id_def)

section \<open>Properties\<close>

lemma clock_until_bound:
  "believed_until a \<le> m + 1000 * ttl \<Longrightarrow> \<forall>e \<in> set es. event_time e \<le> m \<Longrightarrow>
   believed_until (run_clock ttl es a) \<le> m + 1000 * ttl"
proof (induction es arbitrary: a)
  case Nil
  then show ?case by (simp add: run_clock_def)
next
  case (Cons e es)
  have "believed_until (clock_step ttl e a) \<le> m + 1000 * ttl"
    using Cons.prems by (cases e) auto
  from Cons.IH [OF this] Cons.prems show ?case by (simp add: run_clock_def)
qed

text \<open>C16: The turn store implements a counter that forgets: whatever the interleaving of handler
  starts and finishes of one client, starting from an idle client, reading the in-flight count
  gives exactly the value of the abstract counter (one more per start, one less per finish but
  never below zero, zero once the time to live since the last start has passed).\<close>

theorem turn_store_refines_counter:
  assumes "redis_laws R live" and "\<forall>u \<ge> t. live r u (inflight_key c) = None"
    and "ordered_from t es" and "0 < ttl" and "t \<le> u" and "\<forall>e \<in> set es. event_time e \<le> u"
  shows "fst (turn_read R c u (run_store R ttl c es r)) =
    clock_read (run_clock ttl es \<lparr>counted = 0, believed_until = t\<rparr>) u"
  using assms by (intro redis_laws.run_store_read) auto

theorem turn_store_refines_counter_witness:
  "fst (turn_read map_redis ''c1'' 5000
      (run_store map_redis 300 ''c1'' [Started 1000, Started 2000, Finished 3000] (\<lambda>_. None))) = 1"
proof -
  have "fst (turn_read map_redis ''c1'' 5000
      (run_store map_redis 300 ''c1'' [Started 1000, Started 2000, Finished 3000] (\<lambda>_. None))) =
    clock_read (run_clock 300 [Started 1000, Started 2000, Finished 3000]
      \<lparr>counted = 0, believed_until = 1000\<rparr>) 5000"
    by (rule turn_store_refines_counter [OF redis_map.redis_laws_axioms]) (simp_all add: map_live_def)
  then show ?thesis by (simp add: run_clock_def clock_read_def)
qed

text \<open>A crashed handler cannot block the planner: after any starts and finishes of a client's
  handlers (any number of which may never have finished), once the time to live has passed since
  the latest of them the count of handlers in flight reads zero.\<close>

theorem crashed_handlers_forgotten:
  assumes "redis_laws R live" and "\<forall>u \<ge> t. live r u (inflight_key c) = None"
    and "ordered_from t es" and "0 < ttl" and "\<forall>e \<in> set es. event_time e \<le> m"
    and "t \<le> m" and "m + 1000 * ttl \<le> u"
  shows "fst (turn_read R c u (run_store R ttl c es r)) = 0"
proof -
  have "fst (turn_read R c u (run_store R ttl c es r)) =
      clock_read (run_clock ttl es \<lparr>counted = 0, believed_until = t\<rparr>) u"
    using assms by (intro redis_laws.run_store_read) force+
  moreover have "believed_until (run_clock ttl es \<lparr>counted = 0, believed_until = t\<rparr>) \<le> m + 1000 * ttl"
    using assms by (intro clock_until_bound) auto
  ultimately show ?thesis using assms(7) by (simp add: clock_read_def)
qed

theorem crashed_handlers_forgotten_witness:
  "fst (turn_read map_redis ''c1'' 303000
      (run_store map_redis 300 ''c1'' [Started 1000, Started 2000, Finished 3000] (\<lambda>_. None))) = 0"
  by (rule crashed_handlers_forgotten [OF redis_map.redis_laws_axioms, where t = 1000 and m = 3000])
     (simp_all add: map_live_def)

text \<open>A request for a planner run never fires early or at once: with no job pending or one that
  has not started, the single job under the client's id is delayed by between one second and the
  quiet window, it fires no earlier than the quiet window after the client's last known inbound,
  and it keeps the turn start of the pending job, or now when there was none.\<close>

theorem replan_request_debounced:
  assumes "replan_queue_laws Q jobs" and "MIN_DELAY_MS \<le> quiet"
    and "jobs q (replan_job_id c) = None \<and> start = now
       \<or> (\<exists>st f. st \<in> NOT_STARTED \<and> jobs q (replan_job_id c) = Some (st, start, f))"
    and "snd (turn_read R c now r) = Some t \<Longrightarrow> t \<le> now"
  shows "\<exists>fire. jobs (fst (request_replan Q R quiet ttl c now (q, r))) (replan_job_id c) =
        Some (''delayed'', start, fire)
      \<and> now + 1000 \<le> fire \<and> fire \<le> now + quiet
      \<and> (snd (turn_read R c now r) = Some t \<longrightarrow> t + quiet \<le> fire)"
proof -
  have planned: "jobs (fst (request_replan Q R quiet ttl c now (q, r))) (replan_job_id c) =
      Some (''delayed'', start, now + delay_for quiet (snd (turn_read R c now r)) now)"
    using assms(3) by (elim disjE exE conjE)
      (simp_all add: replan_queue_laws.request_idle [OF assms(1)] replan_queue_laws.request_pending [OF assms(1)])
  show ?thesis
    using planned delay_for_bounds [OF assms(2)] delay_for_quiet assms(4)
    by (auto simp: MIN_DELAY_MS_def)
qed

theorem replan_request_debounced_witness:
  "\<exists>fire. fst (request_replan map_replan_queue map_redis 15000 300 ''c1'' 20000
        (\<lambda>_. None, mark_inbound_started map_redis 300 ''c1'' 8000 (\<lambda>_. None))) (replan_job_id ''c1'') =
      Some (''delayed'', 20000, fire) \<and> 20000 + 1000 \<le> fire \<and> fire \<le> 20000 + 15000 \<and> 8000 + 15000 \<le> fire"
proof -
  have l: "snd (turn_read map_redis ''c1'' 20000 (mark_inbound_started map_redis 300 ''c1'' 8000 (\<lambda>_. None))) = Some 8000"
    by (simp add: turn_read_def Let_def redis_map.get_live redis_map.started_last)
  show ?thesis
    using replan_request_debounced [OF replan_map.replan_queue_laws_axioms, of 15000 "\<lambda>_. None" "''c1''" 20000 20000
        map_redis "mark_inbound_started map_redis 300 ''c1'' 8000 (\<lambda>_. None)" 8000 300] l
    by (simp add: MIN_DELAY_MS_def)
qed

text \<open>A burst of webhooks ends in one planner run: from an idle client, however many requests
  arrive before the job starts, there is one job under the client's id and its turn start is the
  instant of the first request, so the maximum wait counts from there.\<close>

theorem burst_leaves_one_replan:
  assumes "replan_queue_laws Q jobs" and "jobs q (replan_job_id c) = None"
  shows "\<exists>fire. jobs (fst (fold (request_replan Q R quiet ttl c) (t # ts) (q, r))) (replan_job_id c) =
    Some (''delayed'', t, fire)"
proof -
  obtain q1 r1 where s1: "request_replan Q R quiet ttl c t (q, r) = (q1, r1)"
    by (cases "request_replan Q R quiet ttl c t (q, r)")
  have "jobs q1 (replan_job_id c) = Some (''delayed'', t, t + delay_for quiet (snd (turn_read R c t r)) t)"
    using replan_queue_laws.request_idle [OF assms, of R quiet ttl t r] s1 by simp
  from replan_queue_laws.burst_one_job [OF assms(1) this] s1 show ?thesis by simp
qed

theorem burst_leaves_one_replan_witness:
  "\<exists>fire. fst (fold (request_replan map_replan_queue map_redis 15000 300 ''c1'') [100, 900, 7000]
      (\<lambda>_. None, \<lambda>_. None)) (replan_job_id ''c1'') = Some (''delayed'', 100, fire)"
  by (rule burst_leaves_one_replan [OF replan_map.replan_queue_laws_axioms]) simp

end
