(* ===== verification/SendState.thy ===== *)
theory SendState
  imports Prelude
begin

text \<open>
  The state the scheduling of outbound messages works on: the rows of
  \<open>db/types.ts\<close> it reads and writes, the world they live in, the SQL statements
  of \<open>db/queries/emails.ts\<close>, \<open>scheduledJobs.ts\<close> and \<open>clients.ts\<close> as functions
  on the world, and the BullMQ queue \<open>send_email\<close> behind an interface.

  Not represented: SSE notifications (\<open>publishClientUpdated\<close>), log lines, and
  the review alert e-mails to the admin, none of which the code reads back. The
  columns of a row no operation here reads are left out.
\<close>

section \<open>Rows\<close>

datatype email_direction = Inbound | Outbound
datatype email_status = EDraft | EHeld | ESent | EReceived
datatype message_channel = ChEmail | ChWhatsapp
datatype review_status = RPending | RApproved | RSuperseded
datatype goal_status = GPending | GComplete

record email_row =
  em_id :: id
  em_client :: id
  em_dir :: email_direction
  em_status :: email_status
  em_channel :: message_channel
  em_body :: utext
  em_content_sid :: "string option"
  em_review :: "review_status option"
  em_held_at :: "ms option"
  em_sent_at :: "ms option"
  em_created_at :: ms

record client_row =
  cl_instance :: "id option"
  cl_user :: "id option"
  cl_goal :: goal_status
  cl_paused :: bool
  cl_admin_paused :: bool
  cl_drafting_since :: "ms option"
  cl_draft_failed_at :: "ms option"
  cl_wa_enabled :: bool
  cl_wa_phone :: "string option"
  cl_due_date :: "string option"
  cl_deleted_at :: "ms option"

record instance_row =
  in_agent_type :: string
  in_enabled :: bool
  in_review_mode :: bool
  in_admin_paused :: bool
  in_first_message_approval :: bool
  in_collection_window_days :: int

record scheduled_job_row =
  sj_job_id :: id
  sj_scheduled_for :: ms
  sj_send_failed_at :: "ms option"

text \<open>
  \<open>w_sent\<close> records every call in which a provider accepted a message: the
  client, the draft and the draft's review status at that instant. It is history
  kept for the theorems; the code stores no such list.
\<close>

record 'q world =
  w_clients :: "id \<Rightarrow> client_row option"
  w_instances :: "id \<Rightarrow> instance_row option"
  w_emails :: "email_row list"
  w_jobs :: "id \<Rightarrow> scheduled_job_row option"
  w_queue :: 'q
  w_kill_switch :: bool
  w_sent :: "(id \<times> id \<times> review_status option) list"
  w_audit :: "(string \<times> id) list"

section \<open>Queries on clients\<close>

text \<open>\<open>clients.getById\<close>: live rows only.\<close>

definition client_by_id :: "id \<Rightarrow> 'q world \<Rightarrow> client_row option" where
  "client_by_id c w = (case w_clients w c of None \<Rightarrow> None
     | Some cl \<Rightarrow> if cl_deleted_at cl = None then Some cl else None)"

definition update_client :: "id \<Rightarrow> (client_row \<Rightarrow> client_row) \<Rightarrow> 'q world \<Rightarrow> 'q world" where
  "update_client c f w = w\<lparr>w_clients := (w_clients w)(c := map_option f (w_clients w c))\<rparr>"

definition mark_drafting_started :: "id \<Rightarrow> ms \<Rightarrow> 'q world \<Rightarrow> 'q world" where
  "mark_drafting_started c now = update_client c (\<lambda>cl. cl\<lparr>cl_drafting_since := Some now, cl_draft_failed_at := None\<rparr>)"

definition mark_drafting_failed :: "id \<Rightarrow> ms \<Rightarrow> 'q world \<Rightarrow> 'q world" where
  "mark_drafting_failed c now = update_client c (\<lambda>cl. cl\<lparr>cl_drafting_since := None, cl_draft_failed_at := Some now\<rparr>)"

definition clear_drafting_state :: "id \<Rightarrow> 'q world \<Rightarrow> 'q world" where
  "clear_drafting_state c = update_client c (\<lambda>cl. cl\<lparr>cl_drafting_since := None, cl_draft_failed_at := None\<rparr>)"

definition set_paused :: "id \<Rightarrow> bool \<Rightarrow> 'q world \<Rightarrow> 'q world" where
  "set_paused c b = update_client c (\<lambda>cl. cl\<lparr>cl_paused := b\<rparr>)"

definition set_admin_paused :: "id \<Rightarrow> bool \<Rightarrow> 'q world \<Rightarrow> 'q world" where
  "set_admin_paused c b = update_client c (\<lambda>cl. cl\<lparr>cl_admin_paused := b\<rparr>)"

definition update_goal_status :: "id \<Rightarrow> goal_status \<Rightarrow> 'q world \<Rightarrow> 'q world" where
  "update_goal_status c g = update_client c (\<lambda>cl. cl\<lparr>cl_goal := g\<rparr>)"

text \<open>\<open>clients.setDueDateIfAbsent\<close>: whether it wrote, and the state.\<close>

definition set_due_date_if_absent :: "id \<Rightarrow> string \<Rightarrow> 'q world \<Rightarrow> bool \<times> 'q world" where
  "set_due_date_if_absent c d w = (case w_clients w c of
       Some cl \<Rightarrow> if cl_deleted_at cl = None \<and> cl_due_date cl = None then (True, update_client c (\<lambda>cl. cl\<lparr>cl_due_date := Some d\<rparr>) w) else (False, w)
     | None \<Rightarrow> (False, w))"

definition record_audit :: "string \<Rightarrow> id \<Rightarrow> 'q world \<Rightarrow> 'q world" where
  "record_audit a t w = w\<lparr>w_audit := w_audit w @ [(a, t)]\<rparr>"

section \<open>Queries on e-mails\<close>

definition email_by_id :: "id \<Rightarrow> 'q world \<Rightarrow> email_row option" where
  "email_by_id e w = List.find (\<lambda>m. em_id m = e) (w_emails w)"

definition update_emails :: "(email_row \<Rightarrow> bool) \<Rightarrow> (email_row \<Rightarrow> email_row) \<Rightarrow> 'q world \<Rightarrow> 'q world" where
  "update_emails p f w = w\<lparr>w_emails := update_where p f (w_emails w)\<rparr>"

text \<open>\<open>emails.listForClient\<close>: the delivered and received messages (the order by time is not read here).\<close>

definition list_for_client :: "id \<Rightarrow> 'q world \<Rightarrow> email_row list" where
  "list_for_client c w = filter (\<lambda>m. em_client m = c \<and> em_status m \<in> {ESent, EReceived}) (w_emails w)"

definition insert_draft ::
  "id \<Rightarrow> id \<Rightarrow> message_channel \<Rightarrow> utext \<Rightarrow> string option \<Rightarrow> ms \<Rightarrow> 'q world \<Rightarrow> 'q world"
where
  "insert_draft new_id c ch body sid now w = w\<lparr>w_emails := w_emails w @
     [\<lparr>em_id = new_id, em_client = c, em_dir = Outbound, em_status = EDraft, em_channel = ch, em_body = body,
       em_content_sid = sid, em_review = None, em_held_at = None, em_sent_at = None, em_created_at = now\<rparr>]\<rparr>"

definition mark_sent :: "id \<Rightarrow> ms \<Rightarrow> 'q world \<Rightarrow> 'q world" where
  "mark_sent e now = update_emails (\<lambda>m. em_id m = e) (\<lambda>m. m\<lparr>em_status := ESent, em_sent_at := Some now\<rparr>)"

definition mark_review_pending :: "id \<Rightarrow> 'q world \<Rightarrow> 'q world" where
  "mark_review_pending e = update_emails (\<lambda>m. em_id m = e \<and> em_status m = EDraft \<and> em_review m = None)
     (\<lambda>m. m\<lparr>em_review := Some RPending\<rparr>)"

definition mark_held :: "id \<Rightarrow> ms \<Rightarrow> 'q world \<Rightarrow> 'q world" where
  "mark_held e now = update_emails (\<lambda>m. em_id m = e \<and> em_status m = EDraft)
     (\<lambda>m. m\<lparr>em_status := EHeld, em_held_at := Some now, em_review := Some RPending\<rparr>)"

definition approve_pending :: "id \<Rightarrow> 'q world \<Rightarrow> 'q world" where
  "approve_pending e = update_emails (\<lambda>m. em_id m = e \<and> em_review m = Some RPending)
     (\<lambda>m. m\<lparr>em_review := Some RApproved, em_status := EDraft\<rparr>)"

definition supersede_pending_review :: "id \<Rightarrow> 'q world \<Rightarrow> 'q world" where
  "supersede_pending_review c = update_emails (\<lambda>m. em_client m = c \<and> em_review m = Some RPending)
     (\<lambda>m. m\<lparr>em_review := Some RSuperseded, em_status := EDraft\<rparr>)"

definition has_delivered_outbound :: "id \<Rightarrow> 'q world \<Rightarrow> bool" where
  "has_delivered_outbound c w = list_ex (\<lambda>m. em_client m = c \<and> em_dir m = Outbound
     \<and> em_channel m = ChWhatsapp \<and> em_status m = ESent) (w_emails w)"

text \<open>\<open>MAX(COALESCE(sent_at, created_at))\<close> over the client's inbound WhatsApp rows; \<open>None\<close> when there is none.\<close>

fun max_ms :: "ms list \<Rightarrow> ms option" where
  "max_ms [] = None"
| "max_ms (t # ts) = (case max_ms ts of None \<Rightarrow> Some t | Some u \<Rightarrow> Some (max t u))"

definition last_inbound_whatsapp_at :: "id \<Rightarrow> 'q world \<Rightarrow> ms option" where
  "last_inbound_whatsapp_at c w = max_ms (map (\<lambda>m. case em_sent_at m of Some t \<Rightarrow> t | None \<Rightarrow> em_created_at m)
     (filter (\<lambda>m. em_client m = c \<and> em_dir m = Inbound \<and> em_channel m = ChWhatsapp) (w_emails w)))"

text \<open>\<open>emails.insertInboundIfNew\<close> for a WhatsApp message; \<open>known\<close> says whether the client already
  has a row with this provider id (\<open>ON CONFLICT DO NOTHING\<close>).\<close>

definition insert_inbound_if_new :: "id \<Rightarrow> id \<Rightarrow> utext \<Rightarrow> ms \<Rightarrow> bool \<Rightarrow> 'q world \<Rightarrow> 'q world" where
  "insert_inbound_if_new new_id c body now known w =
     (if known then w
      else w\<lparr>w_emails := w_emails w @
        [\<lparr>em_id = new_id, em_client = c, em_dir = Inbound, em_status = EReceived, em_channel = ChWhatsapp, em_body = body,
          em_content_sid = None, em_review = None, em_held_at = None, em_sent_at = Some now, em_created_at = now\<rparr>]\<rparr>)"

section \<open>Queries on scheduled jobs\<close>

definition job_for_client :: "id \<Rightarrow> 'q world \<Rightarrow> scheduled_job_row option" where
  "job_for_client c w = w_jobs w c"

definition upsert_job :: "id \<Rightarrow> id \<Rightarrow> ms \<Rightarrow> 'q world \<Rightarrow> 'q world" where
  "upsert_job c j t w = w\<lparr>w_jobs := (w_jobs w)(c := Some \<lparr>sj_job_id = j, sj_scheduled_for = t, sj_send_failed_at = None\<rparr>)\<rparr>"

definition mark_send_failed :: "id \<Rightarrow> ms \<Rightarrow> 'q world \<Rightarrow> 'q world" where
  "mark_send_failed c now w = w\<lparr>w_jobs := (w_jobs w)(c := map_option (\<lambda>r. r\<lparr>sj_send_failed_at := Some now\<rparr>) (w_jobs w c))\<rparr>"

definition delete_job :: "id \<Rightarrow> 'q world \<Rightarrow> 'q world" where
  "delete_job c w = w\<lparr>w_jobs := (w_jobs w)(c := None)\<rparr>"

section \<open>Job ids\<close>

text \<open>
  \<open>send_email:<client>:<draft>\<close>, and the parse every consumer does:
  \<open>[, clientId, emailId] = id.split(':')\<close>, refused when either part is missing or empty.
\<close>

definition send_job_id :: "id \<Rightarrow> id \<Rightarrow> id" where
  "send_job_id c e = ''send_email:'' @ c @ '':'' @ e"

definition approved_job_id :: "id \<Rightarrow> id \<Rightarrow> id" where
  "approved_job_id c e = ''send_email_approved:'' @ c @ '':'' @ e"

definition job_part :: "nat \<Rightarrow> id \<Rightarrow> id option" where
  "job_part n j = (let ps = split_on (CHR '':'') j
     in if n < length ps \<and> ps ! n \<noteq> [] then Some (ps ! n) else None)"

definition parse_job_id :: "id \<Rightarrow> (id \<times> id) option" where
  "parse_job_id j = (case job_part 1 j of None \<Rightarrow> None
     | Some c \<Rightarrow> (case job_part 2 j of None \<Rightarrow> None | Some e \<Rightarrow> Some (c, e)))"

definition plain_id :: "id \<Rightarrow> bool" where
  "plain_id i \<longleftrightarrow> i \<noteq> [] \<and> CHR '':'' \<notin> set i"

lemma split_send_job_id:
  assumes "plain_id c" and "plain_id e"
  shows "split_on (CHR '':'') (send_job_id c e) = [''send_email'', c, e]"
    and "split_on (CHR '':'') (approved_job_id c e) = [''send_email_approved'', c, e]"
proof -
  have "split_on (CHR '':'') (p @ CHR '':'' # c @ CHR '':'' # e) = [p, c, e]" if "CHR '':'' \<notin> set p" for p
    using assms that by (simp add: plain_id_def split_on_append_sep split_on_no_sep)
  from this [of "''send_email''"] this [of "''send_email_approved''"]
  show "split_on (CHR '':'') (send_job_id c e) = [''send_email'', c, e]"
    and "split_on (CHR '':'') (approved_job_id c e) = [''send_email_approved'', c, e]"
    by (simp_all add: send_job_id_def approved_job_id_def)
qed

lemma parse_send_job_id [simp]:
  assumes "plain_id c" and "plain_id e"
  shows "parse_job_id (send_job_id c e) = Some (c, e)" and "parse_job_id (approved_job_id c e) = Some (c, e)"
    and "job_part 2 (send_job_id c e) = Some e" and "job_part 2 (approved_job_id c e) = Some e"
  using split_send_job_id [OF assms] assms
  by (simp_all add: parse_job_id_def job_part_def Let_def plain_id_def)

end
