(* ===== verification/SendOps.thy ===== *)
theory SendOps
  imports SendState
begin

text \<open>
  The operations on a client's one pending send (\<open>orchestration/\<close>,
  \<open>api/reviewAdmin.ts\<close>, \<open>queue/resyncScheduledJobs.ts\<close>): draft and schedule,
  cancel, pause, resume, send now, retry, approve, restore after a Redis loss.

  Every operation runs under the client's advisory lock in the code, so each is
  one function on the world. BullMQ, the agent's planner, the database's uuid
  generator and the mailbox and sender tables are fields of \<open>send_env\<close>.
\<close>

section \<open>The environment\<close>

text \<open>
  The BullMQ calls on the queue \<open>send_email\<close>. \<open>sq_state\<close> is \<open>getJob\<close> with
  \<open>getState\<close>; \<open>sq_add\<close> takes the job id, the data, the delay and the instant
  and returns the id of the job object; \<open>sq_promote\<close> is \<open>None\<close> when it throws.
\<close>

record 'q send_queue =
  sq_state :: "id \<Rightarrow> 'q \<Rightarrow> string option"
  sq_add :: "id \<Rightarrow> id \<times> id \<Rightarrow> int \<Rightarrow> ms \<Rightarrow> 'q \<Rightarrow> id option \<times> 'q"
  sq_remove :: "id \<Rightarrow> 'q \<Rightarrow> 'q"
  sq_promote :: "id \<Rightarrow> ms \<Rightarrow> 'q \<Rightarrow> 'q option"
  sq_retry :: "id \<Rightarrow> ms \<Rightarrow> 'q \<Rightarrow> 'q"

text \<open>What one planning step asked for: nothing to send, the goal completed, or one message with its delay.\<close>

datatype plan_outcome =
    PlanNothing
  | PlanComplete
  | PlanMessage message_channel utext "string option" int

record 'q send_env =
  se_queue :: "'q send_queue"
  se_plan :: "id \<Rightarrow> bool \<Rightarrow> 'q world \<Rightarrow> (string, plan_outcome) result"
  se_fresh :: "'q world \<Rightarrow> id"
  se_sender :: "id \<Rightarrow> string option"
  se_mailbox :: "id option \<Rightarrow> id option \<Rightarrow> string option"
  se_deliver :: "email_row \<Rightarrow> bool"
  se_due_date :: "ms \<Rightarrow> int \<Rightarrow> string"

section \<open>Pure rules\<close>

definition is_supervised :: "instance_row option \<Rightarrow> bool" where
  "is_supervised i = (case i of None \<Rightarrow> False | Some r \<Rightarrow> in_agent_type r = ''declaration_of_capital'')"

text \<open>The registry holds one agent type, which starts only on the accountant's kickoff.\<close>

definition agent_type_known :: "string \<Rightarrow> bool" where
  "agent_type_known t = (t = ''declaration_of_capital'')"

definition manual_kickoff :: "string \<Rightarrow> bool" where
  "manual_kickoff t = agent_type_known t"

definition holds_first_message :: "bool \<Rightarrow> bool \<Rightarrow> nat \<Rightarrow> bool" where
  "holds_first_message paused manual contacted = (paused \<and> manual \<and> contacted = 0)"

definition enrolls_paused :: "bool \<Rightarrow> bool \<Rightarrow> bool" where
  "enrolls_paused manual approval = (manual \<and> approval)"

definition kickoff_startable :: "goal_status \<Rightarrow> ms option \<Rightarrow> nat \<Rightarrow> bool \<Rightarrow> bool" where
  "kickoff_startable goal drafting messages has_job =
     (goal = GPending \<and> drafting = None \<and> messages = 0 \<and> \<not> has_job)"

text \<open>\<open>orchestration/reviewWait.ts\<close>.\<close>

definition awaits_admin_review :: "email_row option \<Rightarrow> bool" where
  "awaits_admin_review d = (case d of None \<Rightarrow> False | Some m \<Rightarrow> em_review m = Some RPending)"

definition review_wait_state :: "email_row option \<Rightarrow> bool \<times> ms option" where
  "review_wait_state d = (awaits_admin_review d,
     (case d of None \<Rightarrow> None
      | Some m \<Rightarrow> if em_status m = EHeld \<and> awaits_admin_review d then em_held_at m else None))"

text \<open>\<open>orchestration/resumeDecision.ts\<close>.\<close>

datatype resume_action = Restore | SendNow | AlreadyQueued | Keep | Redraft

definition QUEUED_STATES :: "string set" where
  "QUEUED_STATES = {''delayed'', ''waiting'', ''waiting-children'', ''active'', ''prioritized''}"

definition decide_resume :: "scheduled_job_row option \<Rightarrow> string option \<Rightarrow> bool \<Rightarrow> ms \<Rightarrow> resume_action" where
  "decide_resume row state held now =
     (case row of None \<Rightarrow> Redraft
      | Some r \<Rightarrow>
          if held then Keep
          else if (case state of None \<Rightarrow> False | Some st \<Rightarrow> st \<in> QUEUED_STATES) then AlreadyQueued
          else if parse_job_id (sj_job_id r) = None \<or> state \<noteq> None then Redraft
          else if now < sj_scheduled_for r then Restore else SendNow)"

text \<open>\<open>orchestration/whatsappWindow.ts\<close>.\<close>

definition WHATSAPP_WINDOW_MS :: int where
  "WHATSAPP_WINDOW_MS = 24 * 60 * 60 * 1000"

definition window_close_time :: "ms option \<Rightarrow> ms option" where
  "window_close_time t = map_option (\<lambda>u. u + WHATSAPP_WINDOW_MS) t"

definition is_whatsapp_window_open :: "id \<Rightarrow> ms \<Rightarrow> 'q world \<Rightarrow> bool" where
  "is_whatsapp_window_open c now w =
     (case window_close_time (last_inbound_whatsapp_at c w) of None \<Rightarrow> False | Some t \<Rightarrow> now < t)"

section \<open>Guards that read the state\<close>

definition instance_of :: "client_row \<Rightarrow> 'q world \<Rightarrow> instance_row option" where
  "instance_of cl w = (case cl_instance cl of None \<Rightarrow> None | Some i \<Rightarrow> w_instances w i)"

definition admin_comms_paused :: "client_row \<Rightarrow> 'q world \<Rightarrow> bool" where
  "admin_comms_paused cl w =
     (case instance_of cl w of None \<Rightarrow> False
      | Some i \<Rightarrow> is_supervised (Some i) \<and> (cl_admin_paused cl \<or> in_admin_paused i))"

datatype blocked_reason = KillSwitch | InstanceDisabled

definition agent_work_blocked :: "client_row \<Rightarrow> 'q world \<Rightarrow> blocked_reason option" where
  "agent_work_blocked cl w =
     (if w_kill_switch w then Some KillSwitch
      else case instance_of cl w of None \<Rightarrow> Some InstanceDisabled
           | Some i \<Rightarrow> if in_enabled i then None else Some InstanceDisabled)"

definition is_held_first_message_client :: "id \<Rightarrow> client_row \<Rightarrow> 'q world \<Rightarrow> bool" where
  "is_held_first_message_client c cl w =
     (if \<not> cl_paused cl then False
      else case instance_of cl w of None \<Rightarrow> False
           | Some i \<Rightarrow> if \<not> manual_kickoff (in_agent_type i) then False
                      else holds_first_message (cl_paused cl) True (length (list_for_client c w)))"

section \<open>Drafting and scheduling\<close>

definition in_review :: "id \<Rightarrow> 'q world \<Rightarrow> bool" where
  "in_review c w = (case client_by_id c w of None \<Rightarrow> False
     | Some cl \<Rightarrow> (case instance_of cl w of None \<Rightarrow> False
         | Some i \<Rightarrow> is_supervised (Some i) \<and> in_review_mode i))"

text \<open>\<open>scheduleDraftMessage\<close>; the error is the job object without an id.\<close>

definition schedule_draft_message ::
  "'q send_env \<Rightarrow> id \<Rightarrow> message_channel \<Rightarrow> utext \<Rightarrow> string option \<Rightarrow> int \<Rightarrow> bool \<Rightarrow> ms \<Rightarrow> 'q world
   \<Rightarrow> (string, id \<times> id) result \<times> 'q world"
where
  "schedule_draft_message E c ch body sid delay hold now w =
     (let e = se_fresh E w;
          w1 = insert_draft e c ch body sid now w;
          w2 = (if in_review c w1 then record_audit ''review.message_pending'' e (mark_review_pending e w1) else w1);
          job = send_job_id c e
      in if hold then (Inr (e, job), upsert_job c job (now + delay) w2)
         else (let (jid, q) = sq_add (se_queue E) job (c, e) delay now (w_queue w2);
                   w3 = w2\<lparr>w_queue := q\<rparr>
               in case jid of None \<Rightarrow> (Inl ''scheduleDraftMessage: enqueued job has no id'', w3)
                  | Some j \<Rightarrow> (Inr (e, j), upsert_job c j (now + delay) w3)))"

text \<open>
  \<open>setFutureEmail\<close>: the guards, the drafting stamps and the planning step. A
  paused client that gets past the pause guard is holding its first message.
\<close>

definition run_plan :: "'q send_env \<Rightarrow> id \<Rightarrow> client_row \<Rightarrow> bool \<Rightarrow> ms \<Rightarrow> 'q world \<Rightarrow> (string, unit) result \<times> 'q world" where
  "run_plan E c cl hold now w =
     (case instance_of cl w of
        None \<Rightarrow> (Inl ''client has no agent instance'', w)
      | Some i \<Rightarrow>
          if \<not> agent_type_known (in_agent_type i) then (Inl ''unknown agent type'', w)
          else (case se_plan E c hold w of
                  Inl err \<Rightarrow> (Inl err, w)
                | Inr PlanNothing \<Rightarrow> (Inr (), w)
                | Inr PlanComplete \<Rightarrow> (Inr (), record_audit ''goal.completed'' c (update_goal_status c GComplete w))
                | Inr (PlanMessage ch body sid delay) \<Rightarrow>
                    (case schedule_draft_message E c ch body sid (max 0 delay) hold now w of
                       (Inl err, w1) \<Rightarrow> (Inl err, w1)
                     | (Inr _, w1) \<Rightarrow> (Inr (), w1))))"

definition set_future_email :: "'q send_env \<Rightarrow> id \<Rightarrow> ms \<Rightarrow> 'q world \<Rightarrow> (string, unit) result \<times> 'q world" where
  "set_future_email E c now w =
     (case client_by_id c w of None \<Rightarrow> (Inr (), w)
      | Some cl \<Rightarrow>
          if cl_goal cl = GComplete then (Inr (), w)
          else if cl_paused cl \<and> \<not> is_held_first_message_client c cl w then (Inr (), w)
          else if admin_comms_paused cl w then (Inr (), w)
          else (case run_plan E c cl (cl_paused cl) now (mark_drafting_started c now w) of
                  (Inl err, w1) \<Rightarrow> (Inl err, mark_drafting_failed c now w1)
                | (Inr _, w1) \<Rightarrow> (Inr (), clear_drafting_state c w1)))"

section \<open>Cancelling, pausing\<close>

definition CANCELABLE :: "string set" where
  "CANCELABLE = {''delayed'', ''waiting'', ''waiting-children''}"

definition drop_cancelable :: "'q send_env \<Rightarrow> id \<Rightarrow> 'q \<Rightarrow> 'q" where
  "drop_cancelable E j q = (case sq_state (se_queue E) j q of None \<Rightarrow> q
     | Some st \<Rightarrow> if st \<in> CANCELABLE then sq_remove (se_queue E) j q else q)"

definition remove_future_email :: "'q send_env \<Rightarrow> id \<Rightarrow> 'q world \<Rightarrow> 'q world" where
  "remove_future_email E c w =
     (let w1 = supersede_pending_review c w
      in case job_for_client c w1 of None \<Rightarrow> w1
         | Some row \<Rightarrow> delete_job c (w1\<lparr>w_queue := drop_cancelable E (sj_job_id row) (w_queue w1)\<rparr>))"

definition pause_future_email :: "'q send_env \<Rightarrow> id \<Rightarrow> 'q world \<Rightarrow> 'q world" where
  "pause_future_email E c w =
     (case job_for_client c w of None \<Rightarrow> w
      | Some row \<Rightarrow> w\<lparr>w_queue := drop_cancelable E (sj_job_id row) (w_queue w)\<rparr>)"

text \<open>Cancel and plan afresh: the sequence every replan path runs under the lock.\<close>

definition replan :: "'q send_env \<Rightarrow> id \<Rightarrow> ms \<Rightarrow> 'q world \<Rightarrow> (string, unit) result \<times> 'q world" where
  "replan E c now w = set_future_email E c now (remove_future_email E c w)"

section \<open>Send now, retry\<close>

definition enqueue_preserved_send_now :: "'q send_env \<Rightarrow> id \<Rightarrow> id \<Rightarrow> ms \<Rightarrow> 'q world \<Rightarrow> bool \<times> 'q world" where
  "enqueue_preserved_send_now E c j now w =
     (case parse_job_id j of None \<Rightarrow> (False, w)
      | Some (jc, e) \<Rightarrow>
          (True, upsert_job c j now (w\<lparr>w_queue := snd (sq_add (se_queue E) j (jc, e) 0 now (w_queue w))\<rparr>)))"

datatype send_now_result = Promoted | AlreadySending | NoneScheduled | SendFailed | AwaitingReview

definition draft_of_job :: "id \<Rightarrow> 'q world \<Rightarrow> email_row option" where
  "draft_of_job j w = (case job_part 2 j of None \<Rightarrow> None | Some e \<Rightarrow> email_by_id e w)"

definition is_draft_held :: "id \<Rightarrow> 'q world \<Rightarrow> bool" where
  "is_draft_held j w = (case draft_of_job j w of None \<Rightarrow> False | Some m \<Rightarrow> em_status m = EHeld)"

definition send_future_email_now :: "'q send_env \<Rightarrow> id \<Rightarrow> ms \<Rightarrow> 'q world \<Rightarrow> send_now_result \<times> 'q world" where
  "send_future_email_now E c now w =
     (case job_for_client c w of None \<Rightarrow> (NoneScheduled, w)
      | Some row \<Rightarrow>
        let j = sj_job_id row in
        if sj_send_failed_at row \<noteq> None then (SendFailed, w)
        else if awaits_admin_review (draft_of_job j w) then (AwaitingReview, w)
        else (case sq_state (se_queue E) j (w_queue w) of
          None \<Rightarrow> (case enqueue_preserved_send_now E c j now w of
                     (False, w1) \<Rightarrow> (NoneScheduled, w1) | (True, w1) \<Rightarrow> (Promoted, w1))
        | Some st \<Rightarrow>
            if st \<in> {''waiting'', ''active'', ''prioritized''} then (AlreadySending, w)
            else if st = ''failed'' then (SendFailed, mark_send_failed c now w)
            else if st \<noteq> ''delayed'' then
              (if is_draft_held j w then (AlreadySending, w) else (NoneScheduled, delete_job c w))
            else (case sq_promote (se_queue E) j now (w_queue w) of
                    None \<Rightarrow> (AlreadySending, w)
                  | Some q \<Rightarrow> (Promoted, upsert_job c j now (w\<lparr>w_queue := q\<rparr>)))))"

datatype retry_result = Retried | NoFailedSend

definition retry_failed_send :: "'q send_env \<Rightarrow> id \<Rightarrow> ms \<Rightarrow> 'q world \<Rightarrow> retry_result \<times> 'q world" where
  "retry_failed_send E c now w =
     (case job_for_client c w of None \<Rightarrow> (NoFailedSend, w)
      | Some row \<Rightarrow>
        let j = sj_job_id row in
        if sj_send_failed_at row = None then (NoFailedSend, w)
        else (case sq_state (se_queue E) j (w_queue w) of
          Some st \<Rightarrow> (Retried, upsert_job c j now
             (if st = ''failed'' then w\<lparr>w_queue := sq_retry (se_queue E) j now (w_queue w)\<rparr> else w))
        | None \<Rightarrow> (case parse_job_id j of None \<Rightarrow> (NoFailedSend, w)
             | Some (jc, e) \<Rightarrow> (Retried, upsert_job c j now
                 (w\<lparr>w_queue := snd (sq_add (se_queue E) j (jc, e) 0 now (w_queue w))\<rparr>)))))"

section \<open>Resume\<close>

definition resume_future_email :: "'q send_env \<Rightarrow> id \<Rightarrow> ms \<Rightarrow> 'q world \<Rightarrow> (string, unit) result \<times> 'q world" where
  "resume_future_email E c now w =
     (let row = job_for_client c w;
          state = (case row of None \<Rightarrow> None | Some r \<Rightarrow> sq_state (se_queue E) (sj_job_id r) (w_queue w));
          held = (case row of None \<Rightarrow> False | Some r \<Rightarrow> is_draft_held (sj_job_id r) w);
          action = decide_resume row state held now
      in case row of None \<Rightarrow> replan E c now w
         | Some r \<Rightarrow>
             (case action of
                AlreadyQueued \<Rightarrow> (Inr (), w)
              | Keep \<Rightarrow> (Inr (), w)
              | Restore \<Rightarrow> (let e = (case job_part 2 (sj_job_id r) of None \<Rightarrow> [] | Some e \<Rightarrow> e)
                  in (Inr (), w\<lparr>w_queue := snd (sq_add (se_queue E) (sj_job_id r) (c, e) (sj_scheduled_for r - now) now (w_queue w))\<rparr>))
              | SendNow \<Rightarrow> (Inr (), snd (enqueue_preserved_send_now E c (sj_job_id r) now w))
              | Redraft \<Rightarrow> replan E c now w))"

section \<open>Admin review, admin unpause, boot resync\<close>

definition approve_refused :: "id \<Rightarrow> 'q world \<Rightarrow> bool" where
  "approve_refused c w = (case client_by_id c w of None \<Rightarrow> True
     | Some cl \<Rightarrow> cl_goal cl = GComplete \<or> cl_paused cl \<or> admin_comms_paused cl w)"

text \<open>\<open>adminApproveReviewMessage\<close>; the result says whether it answered 200.\<close>

definition admin_approve :: "'q send_env \<Rightarrow> id \<Rightarrow> ms \<Rightarrow> 'q world \<Rightarrow> bool \<times> 'q world" where
  "admin_approve E e now w =
     (case email_by_id e w of None \<Rightarrow> (False, w)
      | Some m \<Rightarrow>
        let c = em_client m in
        if em_review m \<noteq> Some RPending then (False, w)
        else if approve_refused c w then (False, w)
        else (let w1 = approve_pending e w
              in (True, if em_status m = EHeld
                   then upsert_job c (approved_job_id c e) now
                     (w1\<lparr>w_queue := snd (sq_add (se_queue E) (approved_job_id c e) (c, e) 0 now (w_queue w1))\<rparr>)
                   else w1)))"

definition replan_after_unpause :: "'q send_env \<Rightarrow> id \<Rightarrow> ms \<Rightarrow> 'q world \<Rightarrow> 'q world" where
  "replan_after_unpause E c now w =
     (case client_by_id c w of None \<Rightarrow> w
      | Some cl \<Rightarrow> if cl_goal cl = GComplete \<or> cl_paused cl \<or> cl_admin_paused cl then w
                  else if admin_comms_paused cl w then w
                  else snd (replan E c now w))"

text \<open>\<open>resyncScheduledJobs\<close> for one mirrored row, as read before the lock was taken.\<close>

definition resync_row :: "'q send_env \<Rightarrow> ms \<Rightarrow> id \<times> id \<Rightarrow> 'q world \<Rightarrow> 'q world" where
  "resync_row E now row w =
     (let (c, j) = row in
      case job_for_client c w of None \<Rightarrow> w
      | Some cur \<Rightarrow>
        if sj_job_id cur \<noteq> j then w
        else (case client_by_id c w of None \<Rightarrow> w
          | Some cl \<Rightarrow>
              if cl_paused cl then w
              else if sj_send_failed_at cur \<noteq> None then w
              else if sq_state (se_queue E) j (w_queue w) \<noteq> None then w
              else (case parse_job_id j of None \<Rightarrow> w
                | Some (jc, e) \<Rightarrow> w\<lparr>w_queue := snd (sq_add (se_queue E) j (jc, e)
                      (max 0 (sj_scheduled_for cur - now)) now (w_queue w))\<rparr>)))"

definition resync_scheduled_jobs :: "'q send_env \<Rightarrow> ms \<Rightarrow> (id \<times> id) list \<Rightarrow> 'q world \<Rightarrow> 'q world" where
  "resync_scheduled_jobs E now rows w = fold (resync_row E now) rows w"

end
