(* ===== verification/SendQueue.thy ===== *)
theory SendQueue
  imports SendOps
begin

text \<open>
  The contract of the BullMQ queue \<open>send_email\<close> as the operations of
  \<^theory_text>\<open>SendOps\<close> rely on it, what those operations promise to a client's one
  pending send under it, and the queue as a table of jobs, which satisfies it.

  A job is seen as its state, its data and the instant it becomes due. An
  \<open>add\<close> under an id in use changes nothing (BullMQ deduplicates by job id),
  \<open>promote\<close> works on a delayed job only, \<open>retry\<close> re-fires a failed one, and no
  call touches a job of another id.
\<close>

section \<open>The contract\<close>

type_synonym job_view = "string \<times> (id \<times> id) \<times> ms"

definition queued_state :: "int \<Rightarrow> string" where
  "queued_state delay = (if 0 < delay then ''delayed'' else ''waiting'')"

locale send_queue_laws =
  fixes Q :: "'q send_queue"
    and view :: "id \<Rightarrow> 'q \<Rightarrow> job_view option"
  assumes state_view: "sq_state Q j q = map_option fst (view j q)"
    and add_new: "view j q = None \<Longrightarrow>
      fst (sq_add Q j d delay now q) = Some j \<and>
      view j (snd (sq_add Q j d delay now q)) = Some (queued_state delay, d, now + max 0 delay)"
    and add_used: "view j q \<noteq> None \<Longrightarrow> snd (sq_add Q j d delay now q) = q \<and> fst (sq_add Q j d delay now q) = Some j"
    and add_frame: "k \<noteq> j \<Longrightarrow> view k (snd (sq_add Q j d delay now q)) = view k q"
    and remove_gone: "view j q = Some (st, d, t) \<Longrightarrow> st \<in> CANCELABLE \<Longrightarrow> view j (sq_remove Q j q) = None"
    and remove_frame: "k \<noteq> j \<Longrightarrow> view k (sq_remove Q j q) = view k q"
    and promote_Some: "sq_promote Q j now q = Some q' \<Longrightarrow>
      \<exists>d t. view j q = Some (''delayed'', d, t) \<and> view j q' = Some (''waiting'', d, now)"
    and promote_delayed: "view j q = Some (''delayed'', d, t) \<Longrightarrow> sq_promote Q j now q \<noteq> None"
    and promote_frame: "sq_promote Q j now q = Some q' \<Longrightarrow> k \<noteq> j \<Longrightarrow> view k q' = view k q"
    and retry_failed: "view j q = Some (''failed'', d, t) \<Longrightarrow> view j (sq_retry Q j now q) = Some (''waiting'', d, now)"
    and retry_frame: "k \<noteq> j \<Longrightarrow> view k (sq_retry Q j now q) = view k q"
begin

lemma drop_gone:
  "se_queue E = Q \<Longrightarrow> view j (drop_cancelable E j q) = None \<or>
     (view j (drop_cancelable E j q) = view j q \<and> (\<forall>st d t. view j q = Some (st, d, t) \<longrightarrow> st \<notin> CANCELABLE))"
  by (auto simp: drop_cancelable_def state_view remove_gone split: option.splits)

lemma drop_frame: "se_queue E = Q \<Longrightarrow> k \<noteq> j \<Longrightarrow> view k (drop_cancelable E j q) = view k q"
  by (auto simp: drop_cancelable_def remove_frame split: option.splits)

lemma drop_not_cancelable:
  "se_queue E = Q \<Longrightarrow> view j (drop_cancelable E j q) = Some (st, d, t) \<Longrightarrow> st \<notin> CANCELABLE"
  using drop_gone [of E j q] by (metis option.distinct(1))

lemma drop_cancelled:
  "se_queue E = Q \<Longrightarrow> view j q = Some (st, d, t) \<Longrightarrow> st \<in> CANCELABLE \<Longrightarrow> view j (drop_cancelable E j q) = None"
  using drop_gone [of E j q] by (cases d) force

lemma drop_absent: "se_queue E = Q \<Longrightarrow> view j q = None \<Longrightarrow> drop_cancelable E j q = q"
  by (simp add: drop_cancelable_def state_view)

lemma drop_idem: "se_queue E = Q \<Longrightarrow> drop_cancelable E j (drop_cancelable E j q) = drop_cancelable E j q"
  using drop_gone [of E j q] by (auto simp: drop_cancelable_def state_view remove_gone split: option.splits if_splits)

end

section \<open>Reading and writing the world\<close>

lemma world_frames [simp]:
  "w_jobs (update_emails p f w) = w_jobs w" "w_queue (update_emails p f w) = w_queue w"
  "w_clients (update_emails p f w) = w_clients w" "w_instances (update_emails p f w) = w_instances w"
  "w_sent (update_emails p f w) = w_sent w" "w_kill_switch (update_emails p f w) = w_kill_switch w"
  "w_emails (update_emails p f w) = update_where p f (w_emails w)"
  "w_emails (update_client c g w) = w_emails w" "w_jobs (update_client c g w) = w_jobs w"
  "w_queue (update_client c g w) = w_queue w" "w_sent (update_client c g w) = w_sent w"
  "w_instances (update_client c g w) = w_instances w" "w_kill_switch (update_client c g w) = w_kill_switch w"
  "w_emails (record_audit a t w) = w_emails w" "w_jobs (record_audit a t w) = w_jobs w"
  "w_queue (record_audit a t w) = w_queue w" "w_sent (record_audit a t w) = w_sent w"
  "w_clients (record_audit a t w) = w_clients w" "w_instances (record_audit a t w) = w_instances w"
  "w_kill_switch (record_audit a t w) = w_kill_switch w"
  "w_emails (upsert_job c j t' w) = w_emails w" "w_queue (upsert_job c j t' w) = w_queue w"
  "w_sent (upsert_job c j t' w) = w_sent w" "w_clients (upsert_job c j t' w) = w_clients w"
  "w_instances (upsert_job c j t' w) = w_instances w" "w_kill_switch (upsert_job c j t' w) = w_kill_switch w"
  "w_emails (delete_job c w) = w_emails w" "w_queue (delete_job c w) = w_queue w"
  "w_sent (delete_job c w) = w_sent w" "w_clients (delete_job c w) = w_clients w"
  "w_instances (delete_job c w) = w_instances w" "w_kill_switch (delete_job c w) = w_kill_switch w"
  "w_emails (mark_send_failed c n w) = w_emails w" "w_sent (mark_send_failed c n w) = w_sent w"
  "w_queue (mark_send_failed c n w) = w_queue w" "w_clients (mark_send_failed c n w) = w_clients w"
  "w_instances (mark_send_failed c n w) = w_instances w" "w_kill_switch (mark_send_failed c n w) = w_kill_switch w"
  by (simp_all add: update_emails_def update_client_def record_audit_def upsert_job_def delete_job_def mark_send_failed_def)

lemma jobs_writes [simp]:
  "job_for_client c (upsert_job c' j t w) =
     (if c = c' then Some \<lparr>sj_job_id = j, sj_scheduled_for = t, sj_send_failed_at = None\<rparr> else job_for_client c w)"
  "job_for_client c (delete_job c' w) = (if c = c' then None else job_for_client c w)"
  "job_for_client c (update_emails p f w) = job_for_client c w"
  "job_for_client c (update_client c' g w) = job_for_client c w"
  "job_for_client c (record_audit a e w) = job_for_client c w"
  "job_for_client c (w\<lparr>w_queue := q\<rparr>) = job_for_client c w"
  "job_for_client c (w\<lparr>w_emails := es\<rparr>) = job_for_client c w"
  by (simp_all add: job_for_client_def upsert_job_def delete_job_def update_emails_def update_client_def record_audit_def)

lemma email_by_id_frames [simp]:
  "email_by_id e (w\<lparr>w_queue := q\<rparr>) = email_by_id e w"
  "email_by_id e (upsert_job c j t w) = email_by_id e w"
  "email_by_id e (delete_job c w) = email_by_id e w"
  "email_by_id e (update_client c g w) = email_by_id e w"
  "email_by_id e (record_audit a t' w) = email_by_id e w"
  by (simp_all add: email_by_id_def)

lemma draft_held_frames [simp]:
  "draft_of_job j (w\<lparr>w_queue := q\<rparr>) = draft_of_job j w"
  "is_draft_held j (w\<lparr>w_queue := q\<rparr>) = is_draft_held j w"
  by (simp_all add: is_draft_held_def draft_of_job_def split: option.split)

text \<open>A row the resync restores when its job is missing: current, of a live unpaused client, not failed, parseable.\<close>

definition restorable :: "id \<times> id \<Rightarrow> 'q world \<Rightarrow> bool" where
  "restorable row w \<longleftrightarrow> (\<exists>cur cl. job_for_client (fst row) w = Some cur \<and> sj_job_id cur = snd row
     \<and> client_by_id (fst row) w = Some cl \<and> \<not> cl_paused cl \<and> sj_send_failed_at cur = None
     \<and> parse_job_id (snd row) \<noteq> None)"

lemma restorable_cong:
  "w_jobs w' = w_jobs w \<Longrightarrow> w_clients w' = w_clients w \<Longrightarrow> restorable row w' = restorable row w"
  by (simp add: restorable_def job_for_client_def client_by_id_def)

section \<open>The operations under the contract\<close>

context send_queue_laws
begin

lemma remove_future_email_jobs:
  assumes "se_queue E = Q"
  shows "job_for_client c (remove_future_email E c w) = None"
    and "c' \<noteq> c \<Longrightarrow> job_for_client c' (remove_future_email E c w) = job_for_client c' w"
    and "\<And>r st d t. job_for_client c w = Some r \<Longrightarrow>
          view (sj_job_id r) (w_queue (remove_future_email E c w)) = Some (st, d, t) \<Longrightarrow> st \<notin> CANCELABLE"
    and "\<And>k. (\<forall>r. job_for_client c w = Some r \<longrightarrow> sj_job_id r \<noteq> k) \<Longrightarrow>
          view k (w_queue (remove_future_email E c w)) = view k (w_queue w)"
  using assms
  by (auto simp: remove_future_email_def supersede_pending_review_def Let_def drop_frame drop_not_cancelable
      split: option.splits)

lemma pause_future_email_frame:
  "w_emails (pause_future_email E c w) = w_emails w \<and> w_jobs (pause_future_email E c w) = w_jobs w \<and>
   w_clients (pause_future_email E c w) = w_clients w"
  by (auto simp: pause_future_email_def split: option.splits)

lemma pause_then_resume:
  assumes "se_queue E = Q" and "job_for_client c w = Some r" and "sj_job_id r = send_job_id c e"
    and "plain_id c" and "plain_id e" and "\<not> is_draft_held (sj_job_id r) w"
    and "view (sj_job_id r) (w_queue w) = Some (st, (c, e), t)" and "st \<in> CANCELABLE"
    and "now < sj_scheduled_for r"
  shows "let w' = snd (resume_future_email E c now (pause_future_email E c w))
    in view (sj_job_id r) (w_queue w') = Some (''delayed'', (c, e), sj_scheduled_for r)
     \<and> w_emails w' = w_emails w \<and> w_jobs w' = w_jobs w \<and> w_clients w' = w_clients w
     \<and> (\<forall>k. k \<noteq> sj_job_id r \<longrightarrow> view k (w_queue w') = view k (w_queue w))"
proof -
  let ?j = "sj_job_id r" and ?p = "pause_future_email E c w"
  have p: "?p = w\<lparr>w_queue := drop_cancelable E ?j (w_queue w)\<rparr>"
    using assms(2) by (simp add: pause_future_email_def)
  have gone: "view ?j (w_queue ?p) = None"
    using drop_cancelled [OF assms(1,7,8)] by (simp add: p)
  have held: "\<not> is_draft_held ?j ?p"
    using assms(6) by (simp add: p)
  have row: "job_for_client c ?p = Some r" using assms(2) by (simp add: p)
  have act: "decide_resume (Some r) (sq_state Q ?j (w_queue ?p)) False now = Restore"
    using assms(3-5,9) gone by (simp add: decide_resume_def state_view)
  have "snd (resume_future_email E c now ?p)
      = ?p\<lparr>w_queue := snd (sq_add Q ?j (c, e) (sj_scheduled_for r - now) now (w_queue ?p))\<rparr>"
    using row act held assms(1,3-5) by (simp add: resume_future_email_def Let_def)
  then show ?thesis
    using add_new [OF gone, of "(c, e)" "sj_scheduled_for r - now" now] assms(1,9)
    by (auto simp: p queued_state_def add_frame drop_frame)
qed

lemma resume_due:
  assumes "se_queue E = Q" and "job_for_client c w = Some r" and "sj_job_id r = send_job_id c e"
    and "plain_id c" and "plain_id e" and "\<not> is_draft_held (sj_job_id r) w"
    and "view (sj_job_id r) (w_queue w) = None" and "sj_scheduled_for r \<le> now"
  shows "let w' = snd (resume_future_email E c now w)
    in view (sj_job_id r) (w_queue w') = Some (''waiting'', (c, e), now)
     \<and> job_for_client c w' = Some \<lparr>sj_job_id = sj_job_id r, sj_scheduled_for = now, sj_send_failed_at = None\<rparr>
     \<and> w_emails w' = w_emails w"
proof -
  have act: "decide_resume (Some r) (sq_state Q (sj_job_id r) (w_queue w)) False now = SendNow"
    using assms(3-5,7,8) by (simp add: decide_resume_def state_view)
  show ?thesis
    using assms act add_new [OF assms(7), of "(c, e)" 0 now]
    by (simp add: resume_future_email_def Let_def enqueue_preserved_send_now_def queued_state_def)
qed

lemma resync_row_view:
  assumes "se_queue E = Q"
  shows "view k (w_queue w) \<noteq> None \<Longrightarrow> view k (w_queue (resync_row E now row w)) = view k (w_queue w)"
    and "w_emails (resync_row E now row w) = w_emails w" and "w_jobs (resync_row E now row w) = w_jobs w"
    and "w_clients (resync_row E now row w) = w_clients w"
proof -
  show "view k (w_queue w) \<noteq> None \<Longrightarrow> view k (w_queue (resync_row E now row w)) = view k (w_queue w)"
    unfolding resync_row_def assms by (cases "k = snd row") (auto simp: Let_def state_view add_frame
      split: option.splits prod.splits)
qed (use assms in \<open>auto simp: resync_row_def Let_def split: option.splits prod.splits\<close>)

lemma resync_row_frame:
  assumes "se_queue E = Q" and "k \<noteq> snd row"
  shows "view k (w_queue (resync_row E now row w)) = view k (w_queue w)"
  using assms(2) unfolding resync_row_def assms(1) by (auto simp: Let_def add_frame split: option.splits prod.splits)

lemma resync_row_noop:
  assumes "se_queue E = Q" and "restorable row w \<Longrightarrow> view (snd row) (w_queue w) \<noteq> None"
  shows "resync_row E now row w = w"
  using assms(2) unfolding resync_row_def restorable_def assms(1)
  by (auto simp: state_view split: option.splits prod.splits)

lemma add_present: "view j (snd (sq_add Q j d delay now q)) \<noteq> None"
  using add_new [of j q d delay now] add_used [of j q d delay now] by (cases "view j q") auto

lemma resync_row_restores:
  assumes "se_queue E = Q" and "restorable row w"
  shows "view (snd row) (w_queue (resync_row E now row w)) \<noteq> None"
  using assms(2) unfolding resync_row_def restorable_def assms(1)
  by (auto simp: state_view add_present split: option.splits prod.splits simp del: not_None_eq)

lemma resync_frame:
  assumes "se_queue E = Q"
  shows "w_jobs (resync_scheduled_jobs E now rows w) = w_jobs w"
    and "w_clients (resync_scheduled_jobs E now rows w) = w_clients w"
    and "view k (w_queue w) \<noteq> None \<Longrightarrow> view k (w_queue (resync_scheduled_jobs E now rows w)) = view k (w_queue w)"
  unfolding resync_scheduled_jobs_def
  by (induction rows arbitrary: w) (auto simp: resync_row_view [OF assms] simp del: not_None_eq)

lemma resync_restores:
  assumes "se_queue E = Q" and "row \<in> set rows" and "restorable row w"
  shows "view (snd row) (w_queue (resync_scheduled_jobs E now rows w)) \<noteq> None"
  using assms(2,3)
proof (induction rows arbitrary: w)
  case (Cons r rows)
  have r: "resync_scheduled_jobs E now (r # rows) w = resync_scheduled_jobs E now rows (resync_row E now r w)"
    by (simp add: resync_scheduled_jobs_def)
  have same: "restorable row (resync_row E now r w)"
    using Cons.prems(2) resync_row_view [OF assms(1)] restorable_cong by blast
  show ?case
  proof (cases "row = r")
    case True
    then have "view (snd row) (w_queue (resync_row E now r w)) \<noteq> None"
      using resync_row_restores [OF assms(1)] Cons.prems(2) by simp
    then show ?thesis unfolding r using resync_frame(3) [OF assms(1)] by simp
  next
    case False
    then show ?thesis unfolding r using Cons.IH [OF _ same] Cons.prems(1) by simp
  qed
qed simp

lemma resync_twice:
  assumes "se_queue E = Q"
  shows "resync_scheduled_jobs E now' rows (resync_scheduled_jobs E now rows w) = resync_scheduled_jobs E now rows w"
proof -
  let ?w = "resync_scheduled_jobs E now rows w"
  have "resync_row E now' row ?w = ?w" if "row \<in> set rows" for row
    using resync_restores [OF assms that] restorable_cong [of ?w w row] resync_frame(1,2) [OF assms]
    by (intro resync_row_noop [OF assms]) simp
  then have "fold (resync_row E now') rs ?w = ?w" if "set rs \<subseteq> set rows" for rs
    using that by (induction rs) auto
  then show ?thesis unfolding resync_scheduled_jobs_def [of E now'] by simp
qed

end

section \<open>The queue as a table of jobs\<close>

type_synonym job_table = "(id \<times> job_view) list"

definition table_queue :: "job_table send_queue" where
  "table_queue = \<lparr>
     sq_state = (\<lambda>j q. map_option fst (map_of q j)),
     sq_add = (\<lambda>j d delay now q. (Some j,
        if map_of q j = None then (j, queued_state delay, d, now + max 0 delay) # q else q)),
     sq_remove = (\<lambda>j q. filter (\<lambda>r. fst r \<noteq> j) q),
     sq_promote = (\<lambda>j now q. case map_of q j of None \<Rightarrow> None
        | Some (st, d, t) \<Rightarrow> if st = ''delayed'' then Some ((j, ''waiting'', d, now) # q) else None),
     sq_retry = (\<lambda>j now q. case map_of q j of None \<Rightarrow> q
        | Some (st, d, t) \<Rightarrow> (j, ''waiting'', d, now) # q)\<rparr>"

lemma map_of_filter_neq: "map_of (filter (\<lambda>r. fst r \<noteq> j) q) k = (if k = j then None else map_of q k)"
  by (induction q) auto

interpretation table: send_queue_laws table_queue "\<lambda>j q. map_of q j"
  by unfold_locales
    (auto simp: table_queue_def queued_state_def map_of_filter_neq split: option.splits prod.splits if_splits)

end
