(* ===== verification/SendWorker.thy ===== *)
theory SendWorker
  imports SendQueue
begin

text \<open>
  The worker of the queue \<open>send_email\<close> (\<open>queue/sendEmailWorker.ts\<close>): what a due
  job does with its draft, and the runs of the whole send machinery, in which
  the worker, the accountant's and the admin's operations, inbound messages and
  the queue's own progress interleave.

  A provider call that throws is \<open>se_deliver\<close> answering False. The worker's
  error is a value: BullMQ marks the job failed and does not fire it again by
  itself (the queue is created without \<open>attempts\<close>).
\<close>

section \<open>Delivering a draft\<close>

datatype send_outcome = SentOk | NotSent | SkipPlanning

definition truthy_text :: "string option \<Rightarrow> bool" where
  "truthy_text s = (s \<noteq> None \<and> s \<noteq> Some [])"

definition log_sent :: "id \<Rightarrow> email_row \<Rightarrow> 'q world \<Rightarrow> 'q world" where
  "log_sent c m w = w\<lparr>w_sent := w_sent w @ [(c, em_id m, em_review m)]\<rparr>"

definition provider_call ::
  "'q send_env \<Rightarrow> string \<Rightarrow> id \<Rightarrow> email_row \<Rightarrow> ms \<Rightarrow> 'q world \<Rightarrow> (string, send_outcome) result \<times> 'q world"
where
  "provider_call E action c m now w =
     (if se_deliver E m
      then (Inr SentOk, record_audit action (em_id m) (mark_sent (em_id m) now (log_sent c m w)))
      else (Inl ''provider rejected the send'', w))"

definition send_email_draft ::
  "'q send_env \<Rightarrow> id \<Rightarrow> client_row \<Rightarrow> email_row \<Rightarrow> ms \<Rightarrow> 'q world \<Rightarrow> (string, send_outcome) result \<times> 'q world"
where
  "send_email_draft E c cl m now w =
     (if se_mailbox E (cl_instance cl) (cl_user cl) = None then (Inr SkipPlanning, w)
      else provider_call E ''email.client_sent'' c m now w)"

definition send_whatsapp_draft ::
  "'q send_env \<Rightarrow> id \<Rightarrow> client_row \<Rightarrow> email_row \<Rightarrow> ms \<Rightarrow> 'q world \<Rightarrow> (string, send_outcome) result \<times> 'q world"
where
  "send_whatsapp_draft E c cl m now w =
     (let sender = (case cl_instance cl of None \<Rightarrow> None | Some i \<Rightarrow> se_sender E i) in
      if \<not> cl_wa_enabled cl \<or> \<not> truthy_text (cl_wa_phone cl) \<or> sender = None then (Inr NotSent, w)
      else if truthy_text (em_content_sid m) then provider_call E ''wa.template_sent'' c m now w
      else if \<not> is_whatsapp_window_open c now w then (Inr NotSent, w)
      else provider_call E ''wa.text_sent'' c m now w)"

definition send_draft ::
  "'q send_env \<Rightarrow> id \<Rightarrow> client_row \<Rightarrow> email_row \<Rightarrow> ms \<Rightarrow> 'q world \<Rightarrow> (string, send_outcome) result \<times> 'q world"
where
  "send_draft E c cl m now w =
     (if em_channel m = ChWhatsapp then send_whatsapp_draft E c cl m now w else send_email_draft E c cl m now w)"

text \<open>The first-contact hook: the collection window's due date, unless one is set. It never fails the send.\<close>

definition on_first_contact :: "'q send_env \<Rightarrow> id \<Rightarrow> instance_row option \<Rightarrow> ms \<Rightarrow> 'q world \<Rightarrow> 'q world" where
  "on_first_contact E c inst now w =
     (case inst of None \<Rightarrow> w
      | Some i \<Rightarrow> if \<not> agent_type_known (in_agent_type i) then w
                  else snd (set_due_date_if_absent c (se_due_date E now (in_collection_window_days i)) w))"

section \<open>The handler\<close>

text \<open>The guards before the draft is touched, in the code's order.\<close>

definition send_blocked :: "client_row \<Rightarrow> 'q world \<Rightarrow> bool" where
  "send_blocked cl w = (cl_goal cl = GComplete \<or> cl_paused cl \<or> agent_work_blocked cl w \<noteq> None \<or> admin_comms_paused cl w)"

definition review_gate :: "instance_row option \<Rightarrow> email_row \<Rightarrow> bool" where
  "review_gate inst m = (case inst of None \<Rightarrow> False
     | Some i \<Rightarrow> is_supervised (Some i) \<and> in_review_mode i \<and> em_review m \<noteq> Some RApproved)"

definition on_scheduled_send ::
  "'q send_env \<Rightarrow> id \<times> id \<Rightarrow> ms \<Rightarrow> 'q world \<Rightarrow> (string, unit) result \<times> 'q world"
where
  "on_scheduled_send E d now w =
     (let c = fst d; e = snd d in
      case client_by_id c w of None \<Rightarrow> (Inr (), w)
      | Some cl \<Rightarrow>
        if send_blocked cl w then (Inr (), w)
        else (case email_by_id e w of None \<Rightarrow> (Inr (), w)
          | Some m \<Rightarrow>
            if em_status m \<noteq> EDraft then (Inr (), w)
            else if review_gate (instance_of cl w) m
            then (Inr (), record_audit ''review.message_held'' e (mark_held e now w))
            else (let contacted = has_delivered_outbound c w in
              case send_draft E c cl m now w of
                (Inl err, w1) \<Rightarrow> (Inl err, mark_send_failed c now w1)
              | (Inr out, w1) \<Rightarrow>
                  (let w2 = (if out = SentOk \<and> \<not> contacted then on_first_contact E c (instance_of cl w) now w1 else w1)
                   in if out = SkipPlanning then (Inr (), w2) else replan E c now w2))))"

section \<open>What an operation may do to the messages\<close>

text \<open>
  A message is final when it went out and was not awaiting review. \<open>quiet\<close> is
  what every operation but a delivery does to the log and the messages: it
  delivers nothing, invents no duplicate id and leaves final messages alone.
\<close>

definition final :: "email_row \<Rightarrow> bool" where
  "final m \<longleftrightarrow> em_status m = ESent \<and> em_review m \<noteq> Some RPending"

definition fresh_ids :: "'q send_env \<Rightarrow> bool" where
  "fresh_ids E \<longleftrightarrow> (\<forall>w. se_fresh E w \<notin> em_id ` set (w_emails w))"

definition quiet :: "'q world \<Rightarrow> 'q world \<Rightarrow> bool" where
  "quiet w w' \<longleftrightarrow> w_sent w' = w_sent w \<and>
     (distinct (map em_id (w_emails w)) \<longrightarrow> distinct (map em_id (w_emails w')) \<and>
       (\<forall>m \<in> set (w_emails w). final m \<longrightarrow> m \<in> set (w_emails w')))"

named_theorems quiet_intros "operations that deliver nothing and keep final messages"

lemma quiet_same: "w_sent w' = w_sent w \<Longrightarrow> w_emails w' = w_emails w \<Longrightarrow> quiet w w'"
  by (simp add: quiet_def)

lemma quiet_refl [simp]: "quiet w w"
  by (simp add: quiet_same)

lemma quiet_trans: "quiet w w1 \<Longrightarrow> quiet w1 w2 \<Longrightarrow> quiet w w2"
  by (simp add: quiet_def)

lemma quiet_update_emails:
  assumes "\<And>m. p m \<Longrightarrow> em_id (f m) = em_id m" and "\<And>m. p m \<Longrightarrow> \<not> final m"
  shows "quiet w (update_emails p f w)"
proof -
  have "map em_id (update_where p f (w_emails w)) = map em_id (w_emails w)"
    using assms(1) by (intro map_update_where)
  moreover have "m \<in> set (update_where p f (w_emails w))" if "m \<in> set (w_emails w)" "final m" for m
    using assms(2) that by (auto simp: set_update_where image_iff intro!: bexI [of _ m])
  ultimately show ?thesis by (simp add: quiet_def)
qed

lemma quiet_email_ops [quiet_intros]:
  "quiet w (mark_review_pending e w)" "quiet w (mark_held e now w)"
  "quiet w (supersede_pending_review c w)" "quiet w (approve_pending e w)"
  unfolding mark_review_pending_def mark_held_def supersede_pending_review_def approve_pending_def
  by (rule quiet_update_emails; simp add: final_def)+

lemma quiet_insert_draft [quiet_intros]: "e \<notin> em_id ` set (w_emails w) \<Longrightarrow> quiet w (insert_draft e c ch b s now w)"
  by (auto simp: quiet_def insert_draft_def)

lemma quiet_insert_inbound [quiet_intros]:
  "e \<notin> em_id ` set (w_emails w) \<Longrightarrow> quiet w (insert_inbound_if_new e c b now known w)"
  by (auto simp: quiet_def insert_inbound_if_new_def)

lemma drafting_frames [simp]:
  "w_emails (mark_drafting_started c n w) = w_emails w" "w_sent (mark_drafting_started c n w) = w_sent w"
  "w_emails (mark_drafting_failed c n w) = w_emails w" "w_sent (mark_drafting_failed c n w) = w_sent w"
  "w_emails (clear_drafting_state c w) = w_emails w" "w_sent (clear_drafting_state c w) = w_sent w"
  "w_emails (update_goal_status c g w) = w_emails w" "w_sent (update_goal_status c g w) = w_sent w"
  "w_queue (mark_drafting_started c n w) = w_queue w" "w_jobs (mark_drafting_started c n w) = w_jobs w"
  "w_queue (mark_drafting_failed c n w) = w_queue w" "w_jobs (mark_drafting_failed c n w) = w_jobs w"
  "w_queue (clear_drafting_state c w) = w_queue w" "w_jobs (clear_drafting_state c w) = w_jobs w"
  "w_queue (update_goal_status c g w) = w_queue w" "w_jobs (update_goal_status c g w) = w_jobs w"
  by (simp_all add: mark_drafting_started_def mark_drafting_failed_def clear_drafting_state_def update_goal_status_def)

lemma quiet_same_right: "quiet w w1 \<Longrightarrow> w_sent w2 = w_sent w1 \<Longrightarrow> w_emails w2 = w_emails w1 \<Longrightarrow> quiet w w2"
  by (simp add: quiet_def)

lemma quiet_same_left: "quiet w1 w2 \<Longrightarrow> w_sent w1 = w_sent w \<Longrightarrow> w_emails w1 = w_emails w \<Longrightarrow> quiet w w2"
  by (simp add: quiet_def)

section \<open>Every operation but the delivery is quiet\<close>

lemma quiet_schedule [quiet_intros]:
  assumes "fresh_ids E"
  shows "quiet w (snd (schedule_draft_message E c ch b s delay hold now w))"
proof -
  let ?e = "se_fresh E w"
  let ?w1 = "insert_draft ?e c ch b s now w"
  let ?w2 = "if in_review c ?w1 then record_audit ''review.message_pending'' ?e (mark_review_pending ?e ?w1) else ?w1"
  have 1: "quiet w ?w1"
    using assms by (auto simp: fresh_ids_def intro: quiet_insert_draft)
  have 2: "quiet ?w1 ?w2"
    using quiet_email_ops(1) [of ?w1 ?e] by (auto intro: quiet_same_right)
  show ?thesis
    by (rule quiet_same_right [OF quiet_trans [OF 1 2]])
      (auto simp: schedule_draft_message_def Let_def split: prod.splits option.splits)
qed

lemma quiet_run_plan [quiet_intros]:
  assumes "fresh_ids E" shows "quiet w (snd (run_plan E c cl hold now w))"
  using quiet_schedule [OF assms, of w c]
  by (auto simp: run_plan_def quiet_same split: option.split sum.split plan_outcome.split prod.split) (metis snd_conv)+

lemma quiet_set_future_email [quiet_intros]:
  assumes "fresh_ids E" shows "quiet w (snd (set_future_email E c now w))"
proof -
  have plan: "quiet w w2" if "run_plan E c cl h now (mark_drafting_started c now w) = (r, w1)"
    "w_sent w2 = w_sent w1" "w_emails w2 = w_emails w1" for cl h r w1 w2
    using quiet_run_plan [OF assms, of "mark_drafting_started c now w" c cl h now] that
    by (simp add: quiet_def)
  show ?thesis
    by (auto simp: set_future_email_def split: option.split sum.split prod.split elim!: plan)
qed

lemma quiet_remove_future_email [quiet_intros]: "quiet w (remove_future_email E c w)"
  using quiet_email_ops(3) [of w c]
  by (auto simp: remove_future_email_def Let_def intro: quiet_same_right split: option.splits)

lemma quiet_replan [quiet_intros]: "fresh_ids E \<Longrightarrow> quiet w (snd (replan E c now w))"
  unfolding replan_def by (blast intro: quiet_trans quiet_intros)

lemma quiet_pause [quiet_intros]: "quiet w (pause_future_email E c w)"
  by (auto simp: pause_future_email_def intro: quiet_same split: option.splits)

lemma preserved_frames [simp]:
  "w_emails (snd (enqueue_preserved_send_now E c j now w)) = w_emails w"
  "w_sent (snd (enqueue_preserved_send_now E c j now w)) = w_sent w"
  by (simp_all add: enqueue_preserved_send_now_def split: option.split prod.split)

lemma send_now_frames [simp]:
  "w_emails (snd (send_future_email_now E c now w)) = w_emails w"
  "w_sent (snd (send_future_email_now E c now w)) = w_sent w"
  by (simp_all add: send_future_email_now_def enqueue_preserved_send_now_def Let_def split: option.split prod.split)

lemma retry_frames [simp]:
  "w_emails (snd (retry_failed_send E c now w)) = w_emails w"
  "w_sent (snd (retry_failed_send E c now w)) = w_sent w"
  by (simp_all add: retry_failed_send_def Let_def split: option.split prod.split)

lemma quiet_same_ops [quiet_intros]:
  "quiet w (snd (enqueue_preserved_send_now E c j now w))"
  "quiet w (snd (send_future_email_now E c now w))" "quiet w (snd (retry_failed_send E c now w))"
  by (simp_all add: quiet_same)

lemma quiet_resume [quiet_intros]: "fresh_ids E \<Longrightarrow> quiet w (snd (resume_future_email E c now w))"
  by (simp add: resume_future_email_def Let_def quiet_replan quiet_same split: option.split resume_action.split)

lemma quiet_approve [quiet_intros]: "quiet w (snd (admin_approve E e now w))"
  using quiet_email_ops(4) [of w e]
  by (simp add: admin_approve_def Let_def quiet_def split: option.split)

lemma quiet_unpause [quiet_intros]: "fresh_ids E \<Longrightarrow> quiet w (replan_after_unpause E c now w)"
  by (simp add: replan_after_unpause_def quiet_replan split: option.split)

lemma resync_row_frames [simp]:
  "w_emails (resync_row E now row w) = w_emails w" "w_sent (resync_row E now row w) = w_sent w"
  by (simp_all add: resync_row_def Let_def split: option.split prod.split)

lemma resync_frames [simp]:
  "w_emails (resync_scheduled_jobs E now rows w) = w_emails w" "w_sent (resync_scheduled_jobs E now rows w) = w_sent w"
  unfolding resync_scheduled_jobs_def by (induction rows arbitrary: w) simp_all

lemma quiet_resync [quiet_intros]: "quiet w (resync_scheduled_jobs E now rows w)"
  by (simp add: quiet_same)

end
