(* ===== verification/SendRuns.thy ===== *)
theory SendRuns
  imports SendWorker
begin

text \<open>
  Runs of the send machinery. \<open>send_step\<close> interleaves everything that changes a
  client's messages, its scheduled send or a switch the guards read: due jobs
  (with any data the queue may hold), replans, the accountant's pause, resume,
  send now and retry, the admin's approval, regeneration, review mode and
  emergency brake, inbound messages, restarts with a resync, deletions, and any
  movement of jobs inside the queue. The invariants are proved over all of them.
\<close>

section \<open>One delivery\<close>

definition deliverable :: "'q send_env \<Rightarrow> id \<Rightarrow> client_row \<Rightarrow> email_row \<Rightarrow> ms \<Rightarrow> 'q world \<Rightarrow> bool" where
  "deliverable E c cl m now w = (if em_channel m = ChWhatsapp
     then cl_wa_enabled cl \<and> truthy_text (cl_wa_phone cl)
       \<and> (truthy_text (em_content_sid m) \<or> is_whatsapp_window_open c now w)
     else se_mailbox E (cl_instance cl) (cl_user cl) \<noteq> None)"

definition delivered :: "id \<Rightarrow> email_row \<Rightarrow> ms \<Rightarrow> 'q world \<Rightarrow> 'q world \<Rightarrow> bool" where
  "delivered c m now w w1 \<longleftrightarrow> w_sent w1 = w_sent w @ [(c, em_id m, em_review m)] \<and>
     w_emails w1 = w_emails (mark_sent (em_id m) now w)"

lemma send_draft_cases:
  assumes "send_draft E c cl m now w = (r, w1)"
  shows "(w1 = w \<and> r \<noteq> Inr SentOk) \<or>
         (r = Inr SentOk \<and> se_deliver E m \<and> deliverable E c cl m now w \<and> delivered c m now w w1)"
  using assms
  by (auto simp: send_draft_def send_whatsapp_draft_def send_email_draft_def provider_call_def Let_def log_sent_def
      mark_sent_def deliverable_def delivered_def update_emails_def record_audit_def split: if_splits)

lemma whatsapp_sends:
  assumes "deliverable E c cl m now w" and "se_deliver E m" and "em_channel m = ChWhatsapp"
    and "cl_instance cl = Some i" and "se_sender E i \<noteq> None"
  shows "\<exists>w2. send_draft E c cl m now w = (Inr SentOk, w2) \<and> w_sent w2 = w_sent w @ [(c, em_id m, em_review m)]"
  using assms
  by (cases "truthy_text (em_content_sid m)")
    (auto simp: send_draft_def send_whatsapp_draft_def provider_call_def deliverable_def log_sent_def mark_sent_def Let_def)

lemma quiet_first_contact [quiet_intros]: "quiet w (on_first_contact E c inst now w)"
  by (simp add: on_first_contact_def set_due_date_if_absent_def quiet_same split: option.split)

lemma fire_guards:
  "snd (on_scheduled_send E (c, e) now w) = w \<or>
   snd (on_scheduled_send E (c, e) now w) = record_audit ''review.message_held'' e (mark_held e now w) \<or>
   (\<exists>cl m. client_by_id c w = Some cl \<and> \<not> send_blocked cl w \<and> email_by_id e w = Some m \<and>
      em_status m = EDraft \<and> \<not> review_gate (instance_of cl w) m)"
proof (cases "client_by_id c w")
  case None
  then show ?thesis by (simp add: on_scheduled_send_def)
next
  case cl: (Some cl)
  show ?thesis
  proof (cases "send_blocked cl w")
    case True
    with cl show ?thesis by (simp add: on_scheduled_send_def)
  next
    case False
    with cl show ?thesis
      by (cases "email_by_id e w") (simp_all add: on_scheduled_send_def)
  qed
qed

text \<open>A due job either delivers nothing, or delivers its own draft past every guard and then replans.\<close>

lemma fire_cases:
  assumes "fresh_ids E"
  obtains (silent) "quiet w (snd (on_scheduled_send E (c, e) now w))"
  | (sent) cl m w1 where "client_by_id c w = Some cl" and "\<not> send_blocked cl w"
      and "email_by_id e w = Some m" and "em_status m = EDraft" and "\<not> review_gate (instance_of cl w) m"
      and "se_deliver E m" and "deliverable E c cl m now w" and "delivered c m now w w1"
      and "on_scheduled_send E (c, e) now w = replan E c now w1"
proof -
  consider (skip) "snd (on_scheduled_send E (c, e) now w) = w"
    | (hold) "snd (on_scheduled_send E (c, e) now w) = record_audit ''review.message_held'' e (mark_held e now w)"
    | (send) cl m where "client_by_id c w = Some cl" "\<not> send_blocked cl w" "email_by_id e w = Some m"
        "em_status m = EDraft" "\<not> review_gate (instance_of cl w) m"
    using fire_guards [of E c e now w] by blast
  then show thesis
  proof cases
    case skip
    then show thesis by (intro silent) simp
  next
    case hold
    have "quiet w (record_audit ''review.message_held'' e (mark_held e now w))"
      by (rule quiet_same_right [OF quiet_email_ops(2)]) simp_all
    with hold show thesis by (intro silent) simp
  next
    case send
    obtain r w1 where sd: "send_draft E c cl m now w = (r, w1)" by fastforce
    have eq: "on_scheduled_send E (c, e) now w = (case r of Inl err \<Rightarrow> (Inl err, mark_send_failed c now w1)
        | Inr out \<Rightarrow> (let w2 = (if out = SentOk \<and> \<not> has_delivered_outbound c w
              then on_first_contact E c (instance_of cl w) now w1 else w1)
            in if out = SkipPlanning then (Inr (), w2) else replan E c now w2))"
      using send sd by (simp add: on_scheduled_send_def Let_def)
    show thesis
      using send_draft_cases [OF sd]
    proof (elim disjE conjE)
      assume "w1 = w" and "r \<noteq> Inr SentOk"
      then show thesis
        using eq quiet_replan [OF assms, of w c now] by (intro silent) (auto simp: Let_def quiet_same split: sum.split)
    next
      assume r: "r = Inr SentOk" and "se_deliver E m" and "deliverable E c cl m now w" and d: "delivered c m now w w1"
      define w2 where "w2 = (if has_delivered_outbound c w then w1 else on_first_contact E c (instance_of cl w) now w1)"
      have "w_sent w2 = w_sent w1 \<and> w_emails w2 = w_emails w1"
        by (simp add: w2_def on_first_contact_def set_due_date_if_absent_def split: option.split)
      with d have "delivered c m now w w2" by (simp add: delivered_def)
      moreover have "on_scheduled_send E (c, e) now w = replan E c now w2"
        using eq r by (simp add: w2_def)
      ultimately show thesis
        using send \<open>se_deliver E m\<close> \<open>deliverable E c cl m now w\<close> by (intro sent)
    qed
  qed
qed

section \<open>Runs\<close>

text \<open>The switches the handlers read, and the deletion of a client, as the routes write them.\<close>

definition set_instance :: "id \<Rightarrow> (instance_row \<Rightarrow> instance_row) \<Rightarrow> 'q world \<Rightarrow> 'q world" where
  "set_instance i f w = w\<lparr>w_instances := (w_instances w)(i := map_option f (w_instances w i))\<rparr>"

definition admin_set_review_mode :: "id \<Rightarrow> bool \<Rightarrow> 'q world \<Rightarrow> 'q world" where
  "admin_set_review_mode i b w = (if is_supervised (w_instances w i) then set_instance i (\<lambda>r. r\<lparr>in_review_mode := b\<rparr>) w else w)"

definition admin_set_agent_pause :: "id \<Rightarrow> bool \<Rightarrow> 'q world \<Rightarrow> 'q world" where
  "admin_set_agent_pause i b w = (if is_supervised (w_instances w i) then set_instance i (\<lambda>r. r\<lparr>in_admin_paused := b\<rparr>) w else w)"

definition admin_set_client_pause :: "id \<Rightarrow> bool \<Rightarrow> 'q world \<Rightarrow> 'q world" where
  "admin_set_client_pause c b w = (case client_by_id c w of None \<Rightarrow> w
     | Some cl \<Rightarrow> if is_supervised (instance_of cl w) then set_admin_paused c b w else w)"

definition delete_client :: "'q send_env \<Rightarrow> id \<Rightarrow> ms \<Rightarrow> 'q world \<Rightarrow> 'q world" where
  "delete_client E c now w = update_client c (\<lambda>cl. if cl_deleted_at cl = None then cl\<lparr>cl_deleted_at := Some now\<rparr> else cl) (remove_future_email E c w)"

text \<open>\<open>adminRegenerateReviewMessage\<close> up to its answer; the planning step that follows is a \<open>SetFuture\<close> step.\<close>

definition admin_regenerate :: "'q send_env \<Rightarrow> id \<Rightarrow> ms \<Rightarrow> 'q world \<Rightarrow> bool \<times> 'q world" where
  "admin_regenerate E e now w = (case email_by_id e w of None \<Rightarrow> (False, w)
     | Some m \<Rightarrow> if em_review m \<noteq> Some RPending then (False, w)
       else if approve_refused (em_client m) w then (False, w)
       else (True, mark_drafting_started (em_client m) now (remove_future_email E (em_client m) w)))"

inductive send_step :: "'q send_env \<Rightarrow> 'q world \<Rightarrow> 'q world \<Rightarrow> bool" for E where
  Fire: "send_step E w (snd (on_scheduled_send E (c, e) now w))"
| Replan: "send_step E w (snd (replan E c now w))"
| SetFuture: "send_step E w (snd (set_future_email E c now w))"
| Pause: "send_step E w (pause_future_email E c w)"
| Resume: "send_step E w (snd (resume_future_email E c now w))"
| SendNow: "send_step E w (snd (send_future_email_now E c now w))"
| Retry: "send_step E w (snd (retry_failed_send E c now w))"
| Approve: "send_step E w (snd (admin_approve E e now w))"
| Regenerate: "send_step E w (snd (admin_regenerate E e now w))"
| Unpause: "send_step E w (replan_after_unpause E c now w)"
| Resync: "send_step E w (resync_scheduled_jobs E now rows w)"
| SetPaused: "send_step E w (set_paused c b w)"
| AgentPause: "send_step E w (admin_set_agent_pause i b w)"
| ClientPause: "send_step E w (admin_set_client_pause c b w)"
| ReviewMode: "send_step E w (admin_set_review_mode i b w)"
| Enable: "send_step E w (set_instance i (\<lambda>r. r\<lparr>in_enabled := b\<rparr>) w)"
| KillSwitchFlip: "send_step E w (w\<lparr>w_kill_switch := b\<rparr>)"
| Goal: "send_step E w (update_goal_status c g w)"
| Delete: "send_step E w (delete_client E c now w)"
| InboundMessage: "send_step E w (insert_inbound_if_new (se_fresh E w) c body now known w)"
| QueueMoves: "send_step E w (w\<lparr>w_queue := q\<rparr>)"

inductive_cases send_stepE: "send_step E w w'"

definition send_run :: "'q send_env \<Rightarrow> 'q world \<Rightarrow> 'q world \<Rightarrow> bool" where
  "send_run E = (send_step E)\<^sup>*\<^sup>*"

lemma quiet_regenerate [quiet_intros]: "quiet w (snd (admin_regenerate E e now w))"
  using quiet_remove_future_email [of w E]
  by (simp add: admin_regenerate_def quiet_def split: option.split)

lemma quiet_delete_client [quiet_intros]: "quiet w (delete_client E c now w)"
  using quiet_remove_future_email [of w E c] by (simp add: delete_client_def quiet_def)

lemma quiet_flags [quiet_intros]:
  "quiet w (set_paused c b w)" "quiet w (admin_set_agent_pause i b w)" "quiet w (admin_set_client_pause c b w)"
  "quiet w (admin_set_review_mode i b w)" "quiet w (set_instance i f w)" "quiet w (w\<lparr>w_kill_switch := b\<rparr>)"
  "quiet w (update_goal_status c g w)" "quiet w (w\<lparr>w_queue := q\<rparr>)"
  by (simp_all add: quiet_same set_paused_def admin_set_agent_pause_def admin_set_client_pause_def set_admin_paused_def
      admin_set_review_mode_def set_instance_def split: option.split)

lemma step_quiet_or_fire_disj:
  assumes "send_step E w w'" and "fresh_ids E"
  shows "quiet w w' \<or> (\<exists>c e now. w' = snd (on_scheduled_send E (c, e) now w))"
proof -
  have "quiet w (insert_inbound_if_new (se_fresh E w) c body now known w)" for c body now known
    using assms(2) by (intro quiet_insert_inbound) (auto simp: fresh_ids_def)
  with assms(1) show ?thesis
    by (cases rule: send_step.cases) (simp_all add: quiet_intros assms(2) del: world_frames, blast)
qed

lemma step_quiet_or_fire:
  assumes "send_step E w w'" and "fresh_ids E"
  obtains (quiet) "quiet w w'" | (fire) c e now where "w' = snd (on_scheduled_send E (c, e) now w)"
  using step_quiet_or_fire_disj [OF assms] by blast

section \<open>The invariant of the runs\<close>

definition unreviewed_log :: "'q world \<Rightarrow> id list" where
  "unreviewed_log w = map (\<lambda>s. fst (snd s)) (filter (\<lambda>s. snd (snd s) \<noteq> Some RPending) (w_sent w))"

definition send_inv :: "'q world \<Rightarrow> bool" where
  "send_inv w \<longleftrightarrow> distinct (map em_id (w_emails w)) \<and> distinct (unreviewed_log w) \<and>
     (\<forall>e \<in> set (unreviewed_log w). \<exists>m \<in> set (w_emails w). em_id m = e \<and> final m)"

lemma send_inv_quiet: "quiet w w' \<Longrightarrow> send_inv w \<Longrightarrow> send_inv w'"
  by (fastforce simp: quiet_def send_inv_def unreviewed_log_def)

lemma same_id_same_row:
  "distinct (map em_id es) \<Longrightarrow> m \<in> set es \<Longrightarrow> m' \<in> set es \<Longrightarrow> em_id m = em_id m' \<Longrightarrow> m = m'"
  by (metis distinct_map inj_onD)

lemma delivered_keeps_final:
  assumes "delivered c m now w w1" and "distinct (map em_id (w_emails w))" and "m \<in> set (w_emails w)"
    and "em_status m = EDraft" and "x \<in> set (w_emails w)" and "final x"
  shows "x \<in> set (w_emails w1)"
proof -
  have "em_id x \<noteq> em_id m"
    using assms same_id_same_row [of "w_emails w" x m] by (auto simp: final_def)
  then show ?thesis
    using assms(1,5) by (auto simp: delivered_def mark_sent_def set_update_where image_iff intro!: bexI [of _ x])
qed

lemma delivered_ids: "delivered c m now w w1 \<Longrightarrow> map em_id (w_emails w1) = map em_id (w_emails w)"
  by (simp add: delivered_def mark_sent_def map_update_where)

lemma delivered_row:
  assumes "delivered c m now w w1" and "m \<in> set (w_emails w)"
  shows "m\<lparr>em_status := ESent, em_sent_at := Some now\<rparr> \<in> set (w_emails w1)"
  using assms by (auto simp: delivered_def mark_sent_def set_update_where image_iff intro!: bexI [of _ m])

lemma delivered_send_inv:
  assumes "delivered c m now w w1" and "send_inv w" and "m \<in> set (w_emails w)" and "em_status m = EDraft"
  shows "send_inv w1"
proof -
  have d: "distinct (map em_id (w_emails w))" using assms(2) by (simp add: send_inv_def)
  have log: "unreviewed_log w1 = unreviewed_log w @ (if em_review m = Some RPending then [] else [em_id m])"
    using assms(1) by (simp add: delivered_def unreviewed_log_def)
  have old: "\<exists>x \<in> set (w_emails w1). em_id x = e \<and> final x" if "e \<in> set (unreviewed_log w)" for e
    using assms that delivered_keeps_final [OF assms(1) d assms(3,4)] by (force simp: send_inv_def)
  have new: "em_id m \<notin> set (unreviewed_log w)"
  proof
    assume "em_id m \<in> set (unreviewed_log w)"
    then obtain x where "x \<in> set (w_emails w)" and "em_id x = em_id m" and "final x"
      using assms(2) by (auto simp: send_inv_def)
    then have "x = m" using same_id_same_row [OF d _ assms(3)] by blast
    then show False using \<open>final x\<close> assms(4) by (simp add: final_def)
  qed
  have "\<exists>x \<in> set (w_emails w1). em_id x = em_id m \<and> final x" if "em_review m \<noteq> Some RPending"
    using that by (intro bexI [OF _ delivered_row [OF assms(1,3)]]) (simp add: final_def)
  then show ?thesis
    using old new assms(2) d by (auto simp: send_inv_def log delivered_ids [OF assms(1)])
qed

lemma email_by_id_mem: "email_by_id e w = Some m \<Longrightarrow> m \<in> set (w_emails w) \<and> em_id m = e"
  unfolding email_by_id_def by (drule find_Some_mem) auto

lemma send_inv_step:
  assumes "send_step E w w'" and "fresh_ids E" and "send_inv w"
  shows "send_inv w'"
  using assms(1,2)
proof (cases rule: step_quiet_or_fire)
  case quiet
  then show ?thesis using assms(3) by (rule send_inv_quiet)
next
  case (fire c e now)
  show ?thesis
  proof (rule fire_cases [OF assms(2), of w c e now])
    assume "quiet w (snd (on_scheduled_send E (c, e) now w))"
    then show ?thesis using assms(3) fire by (simp add: send_inv_quiet)
  next
    fix cl m w1
    assume "email_by_id e w = Some m" and "em_status m = EDraft" and "delivered c m now w w1"
      and eq: "on_scheduled_send E (c, e) now w = replan E c now w1"
    then have "send_inv w1" using delivered_send_inv assms(3) email_by_id_mem by blast
    then show ?thesis using fire eq quiet_replan [OF assms(2)] send_inv_quiet by metis
  qed
qed

lemma send_inv_run: "send_run E w w' \<Longrightarrow> fresh_ids E \<Longrightarrow> send_inv w \<Longrightarrow> send_inv w'"
  unfolding send_run_def by (induction rule: rtranclp_induct) (blast intro: send_inv_step)+

lemma final_step:
  assumes "send_step E w w'" and "fresh_ids E" and "send_inv w" and "m \<in> set (w_emails w)" and "final m"
  shows "m \<in> set (w_emails w')"
proof -
  have d: "distinct (map em_id (w_emails w))" using assms(3) by (simp add: send_inv_def)
  from assms(1,2) show ?thesis
  proof (cases rule: step_quiet_or_fire)
    case quiet
    then show ?thesis using d assms(4,5) by (simp add: quiet_def)
  next
    case (fire c e now)
    show ?thesis
    proof (rule fire_cases [OF assms(2), of w c e now])
      assume "quiet w (snd (on_scheduled_send E (c, e) now w))"
      then show ?thesis using d assms(4,5) fire by (simp add: quiet_def)
    next
      fix cl x w1
      assume x: "email_by_id e w = Some x" "em_status x = EDraft" and del: "delivered c x now w w1"
        and eq: "on_scheduled_send E (c, e) now w = replan E c now w1"
      have "m \<in> set (w_emails w1)"
        using delivered_keeps_final [OF del d _ x(2) assms(4,5)] email_by_id_mem [OF x(1)] by simp
      then show ?thesis
        using quiet_replan [OF assms(2), of w1 c now] d assms(5) fire eq delivered_ids [OF del]
        by (simp add: quiet_def)
    qed
  qed
qed

lemma final_run:
  assumes "send_run E w w'" and "fresh_ids E" and "send_inv w" and "m \<in> set (w_emails w)" and "final m"
  shows "m \<in> set (w_emails w')"
  using assms(1) unfolding send_run_def
proof (induction rule: rtranclp_induct)
  case (step y z)
  then have "send_inv y" using send_inv_run assms(2,3) unfolding send_run_def by blast
  then show ?case using step final_step assms(2,5) by blast
qed (rule assms(4))

end
