(* ===== verification/SendProps.thy ===== *)
theory SendProps
  imports SendRuns
begin

text \<open>
  What the send machinery promises: the properties of one operation, of an
  operation followed by its undo, and of every run. The concrete world at the
  start (one supervised client, the queue as a table of jobs) is where the
  witnesses evaluate them.
\<close>

section \<open>A concrete environment and world\<close>

definition demo_fresh :: "'q world \<Rightarrow> id" where
  "demo_fresh w = concat (map em_id (w_emails w)) @ ''n''"

definition demo_env :: "job_table send_env" where
  "demo_env = \<lparr>se_queue = table_queue, se_plan = (\<lambda>_ _ _. Inr PlanNothing), se_fresh = demo_fresh,
     se_sender = (\<lambda>_. Some ''+972''), se_mailbox = (\<lambda>_ _. None), se_deliver = (\<lambda>_. True), se_due_date = (\<lambda>_ _. ''2026-01-01'')\<rparr>"

definition demo_client :: client_row where
  "demo_client = \<lparr>cl_instance = Some ''i'', cl_user = None, cl_goal = GPending, cl_paused = False, cl_admin_paused = False,
     cl_drafting_since = None, cl_draft_failed_at = None, cl_wa_enabled = True, cl_wa_phone = Some ''+1'',
     cl_due_date = None, cl_deleted_at = None\<rparr>"

definition demo_instance :: "bool \<Rightarrow> instance_row" where
  "demo_instance review = \<lparr>in_agent_type = ''declaration_of_capital'', in_enabled = True, in_review_mode = review,
     in_admin_paused = False, in_first_message_approval = False, in_collection_window_days = 14\<rparr>"

definition demo_draft :: "email_status \<Rightarrow> review_status option \<Rightarrow> email_row" where
  "demo_draft st r = \<lparr>em_id = ''d'', em_client = ''c'', em_dir = Outbound, em_status = st, em_channel = ChWhatsapp,
     em_body = [], em_content_sid = Some ''HX'', em_review = r, em_held_at = None, em_sent_at = None, em_created_at = 0\<rparr>"

definition demo_world :: "bool \<Rightarrow> email_status \<Rightarrow> review_status option \<Rightarrow> job_table world" where
  "demo_world review st r = \<lparr>w_clients = [''c'' \<mapsto> demo_client], w_instances = [''i'' \<mapsto> demo_instance review],
     w_emails = [demo_draft st r],
     w_jobs = [''c'' \<mapsto> \<lparr>sj_job_id = send_job_id ''c'' ''d'', sj_scheduled_for = 500, sj_send_failed_at = None\<rparr>],
     w_queue = [(send_job_id ''c'' ''d'', ''delayed'', (''c'', ''d''), 500)],
     w_kill_switch = False, w_sent = [], w_audit = []\<rparr>"

lemmas demo_defs = demo_env_def demo_client_def demo_instance_def demo_draft_def demo_world_def

lemma demo_fresh_ids: "fresh_ids demo_env"
proof -
  have len: "length (em_id m) \<le> length (concat (map em_id es))" if "m \<in> set es" for m es
    using that by (induction es) auto
  have "demo_fresh w \<noteq> em_id m" if "m \<in> set (w_emails w)" for w :: "job_table world" and m
  proof
    assume "demo_fresh w = em_id m"
    then have "length (em_id m) = Suc (length (concat (map em_id (w_emails w))))"
      unfolding demo_fresh_def by (metis length_append_singleton)
    with len [OF that] show False by linarith
  qed
  then have "demo_fresh w \<notin> em_id ` set (w_emails w)" for w :: "job_table world"
    by (metis imageE)
  then show ?thesis by (simp add: fresh_ids_def demo_env_def)
qed

lemma demo_fields [simp]:
  "em_id (demo_draft st r) = ''d''" "em_status (demo_draft st r) = st" "em_review (demo_draft st r) = r"
  "in_review_mode (demo_instance b) = b" "is_supervised (Some (demo_instance b))" "in_enabled (demo_instance b)"
  "w_sent (demo_world b st r) = []" "w_emails (demo_world b st r) = [demo_draft st r]"
  by (simp_all add: demo_draft_def demo_instance_def demo_world_def is_supervised_def)

lemma demo_reads [simp]:
  "client_by_id ''c'' (demo_world b st r) = Some demo_client"
  "email_by_id ''d'' (demo_world b st r) = Some (demo_draft st r)"
  "instance_of demo_client (demo_world b st r) = Some (demo_instance b)"
  by (simp_all add: client_by_id_def email_by_id_def demo_client_def instance_of_def) (simp_all add: demo_world_def demo_client_def)

lemma demo_open [simp]: "\<not> send_blocked demo_client (demo_world b st r)"
  by (simp add: send_blocked_def agent_work_blocked_def admin_comms_paused_def)
    (simp add: demo_client_def demo_world_def demo_instance_def)

section \<open>Runs\<close>

text \<open>a message that went out without awaiting review stays in the history exactly as it was sent, in every run of the machinery.\<close>

theorem sent_messages_final:
  assumes "send_run E w w'" and "fresh_ids E" and "distinct (map em_id (w_emails w))" and "w_sent w = []"
    and "m \<in> set (w_emails w)" and "em_status m = ESent" and "em_review m \<noteq> Some RPending"
  shows "m \<in> set (w_emails w')"
proof (rule final_run [OF assms(1,2) _ assms(5)])
  show "send_inv w" using assms(3,4) by (simp add: send_inv_def unreviewed_log_def)
  show "final m" using assms(6,7) by (simp add: final_def)
qed

lemma sent_messages_final_witness:
  "demo_draft ESent None \<in> set (w_emails (set_paused ''c'' True (demo_world False ESent None)))"
  by (rule sent_messages_final [OF _ demo_fresh_ids, of "demo_world False ESent None"])
    (auto simp: send_run_def intro: send_step.SetPaused)



section \<open>The due job\<close>

lemma keeps_superseded_set_future:
  assumes "fresh_ids E" and "m \<in> set (w_emails w)" and "em_review m \<noteq> None"
  shows "m \<in> set (w_emails (snd (set_future_email E c now w)))"
proof -
  have sched: "m \<in> set (w_emails (snd (schedule_draft_message E c ch b s dl h now v)))"
    if "m \<in> set (w_emails v)" for ch b s dl h v
    using that assms(3)
    by (auto simp: schedule_draft_message_def Let_def insert_draft_def mark_review_pending_def set_update_where
        image_iff split: prod.split option.split intro!: bexI [of _ m])
  have plan: "m \<in> set (w_emails (snd (run_plan E c cl h now v)))" if "m \<in> set (w_emails v)" for cl h v
    using sched [OF that] that
    by (auto simp: run_plan_def split: option.split sum.split plan_outcome.split prod.split) (metis snd_conv)+
  show ?thesis
    using assms(2) plan [of "mark_drafting_started c now w"]
    by (auto simp: set_future_email_def split: option.split sum.split prod.split) (metis drafting_frames(1) snd_conv)+
qed



text \<open>while the agent is in review mode, a due job of a draft that is not approved parks it: the draft becomes held and pending, and neither the queue, the scheduled row nor the client changes and nothing is delivered.\<close>

theorem review_mode_parks:
  assumes "client_by_id c w = Some cl" and "\<not> send_blocked cl w" and "email_by_id e w = Some m"
    and "em_status m = EDraft" and "instance_of cl w = Some i" and "is_supervised (Some i)" and "in_review_mode i"
    and "em_review m \<noteq> Some RApproved"
  shows "let (r, w') = on_scheduled_send E (c, e) now w in
    r = Inr () \<and> w_queue w' = w_queue w \<and> w_jobs w' = w_jobs w \<and> w_clients w' = w_clients w \<and> w_sent w' = w_sent w
    \<and> email_by_id e w' = Some (m\<lparr>em_status := EHeld, em_held_at := Some now, em_review := Some RPending\<rparr>)"
proof -
  have "email_by_id e (mark_held e now w)
      = map_option (\<lambda>m. if em_id m = e \<and> em_status m = EDraft
          then m\<lparr>em_status := EHeld, em_held_at := Some now, em_review := Some RPending\<rparr> else m) (email_by_id e w)"
    unfolding email_by_id_def mark_held_def world_frames by (rule find_update_where) simp
  then show ?thesis
    using assms email_by_id_mem [OF assms(3)]
    by (simp add: on_scheduled_send_def Let_def review_gate_def mark_held_def)
qed

lemma review_mode_parks_witness:
  "fst (on_scheduled_send demo_env (''c'', ''d'') 600 (demo_world True EDraft (Some RPending))) = Inr ()"
  using review_mode_parks [of "''c''" "demo_world True EDraft (Some RPending)" demo_client "''d''" "demo_draft EDraft (Some RPending)" "demo_instance True" demo_env 600]
  by (simp split: prod.splits)

text \<open>a delivery of a draft still awaiting review, which review mode switched off in between allows, is undone in the records by the replan that follows it in the same handler: the row of the message the client received is a superseded draft again.\<close>

theorem unreviewed_delivery_lost:
  assumes "fresh_ids E" and "distinct (map em_id (w_emails w))"
    and "w_sent (snd (on_scheduled_send E (c, e) now w)) = w_sent w @ [(c, e, Some RPending)]"
    and "email_by_id e w = Some m" and "em_client m = c"
  shows "\<exists>m' \<in> set (w_emails (snd (on_scheduled_send E (c, e) now w))).
    em_id m' = e \<and> em_status m' = EDraft \<and> em_review m' = Some RSuperseded"
proof (rule fire_cases [OF assms(1), of w c e now])
  assume "quiet w (snd (on_scheduled_send E (c, e) now w))"
  with assms(3) show ?thesis by (simp add: quiet_def)
next
  fix cl m0 w1
  assume "email_by_id e w = Some m0" and del: "delivered c m0 now w w1"
    and eq: "on_scheduled_send E (c, e) now w = replan E c now w1"
  with assms(4) have m: "m0 = m" "em_id m = e" "m \<in> set (w_emails w)" using email_by_id_mem by auto
  have "w_sent (snd (replan E c now w1)) = w_sent w1"
    using quiet_replan [OF assms(1), of w1 c now] by (simp add: quiet_def)
  then have rev: "em_review m = Some RPending"
    using del assms(3) by (simp add: eq delivered_def m)
  have row: "m\<lparr>em_status := ESent, em_sent_at := Some now\<rparr> \<in> set (w_emails w1)"
    using delivered_row del m by blast
  let ?m = "m\<lparr>em_status := EDraft, em_sent_at := Some now, em_review := Some RSuperseded\<rparr>"
  have "?m \<in> set (w_emails (supersede_pending_review c w1))"
    using row rev assms(5) by (force simp: supersede_pending_review_def set_update_where image_iff
      intro!: bexI [of _ "m\<lparr>em_status := ESent, em_sent_at := Some now\<rparr>"])
  then have in2: "?m \<in> set (w_emails (remove_future_email E c w1))"
    by (simp add: remove_future_email_def Let_def split: option.split)
  have "?m \<in> set (w_emails (snd (replan E c now w1)))"
    unfolding replan_def by (rule keeps_superseded_set_future [OF assms(1) in2]) simp_all
  then show ?thesis using m(2) by (intro bexI [of _ ?m]) (simp_all add: eq)
qed

lemma unreviewed_delivery_lost_witness:
  "\<exists>m' \<in> set (w_emails (snd (on_scheduled_send demo_env (''c'', ''d'') 600 (demo_world False EDraft (Some RPending))))).
    em_id m' = ''d'' \<and> em_status m' = EDraft \<and> em_review m' = Some RSuperseded"
proof -
  have "w_sent (snd (on_scheduled_send demo_env (''c'', ''d'') 600 (demo_world False EDraft (Some RPending))))
      = w_sent (demo_world False EDraft (Some RPending)) @ [(''c'', ''d'', Some RPending)]"
    by code_simp
  from unreviewed_delivery_lost [OF demo_fresh_ids _ this, of "demo_draft EDraft (Some RPending)"]
  show ?thesis by (simp add: demo_draft_def [of EDraft "Some RPending"])
qed

section \<open>Cancel, pause, send now\<close>

text \<open>C19: cancelling a client's pending send leaves no scheduled row, no draft awaiting review, and its job either gone from the queue or no longer cancelable (already running or finished); no other client's row and no other job changes.\<close>

theorem cancel_leaves_nothing_pending:
  assumes "send_queue_laws Q view" and "se_queue E = Q"
  shows "let w' = remove_future_email E c w in job_for_client c w' = None
     \<and> (\<forall>m \<in> set (w_emails w'). em_client m = c \<longrightarrow> em_review m \<noteq> Some RPending)
     \<and> (\<forall>r st d t. job_for_client c w = Some r \<longrightarrow> view (sj_job_id r) (w_queue w') = Some (st, d, t) \<longrightarrow> st \<notin> CANCELABLE)
     \<and> (\<forall>c'. c' \<noteq> c \<longrightarrow> job_for_client c' w' = job_for_client c' w)
     \<and> (\<forall>k. (\<forall>r. job_for_client c w = Some r \<longrightarrow> sj_job_id r \<noteq> k) \<longrightarrow> view k (w_queue w') = view k (w_queue w))"
  unfolding Let_def
proof (intro conjI)
  note facts = send_queue_laws.remove_future_email_jobs [OF assms]
  have "w_emails (remove_future_email E c w) = w_emails (supersede_pending_review c w)"
    by (simp add: remove_future_email_def Let_def split: option.split)
  then show "\<forall>m \<in> set (w_emails (remove_future_email E c w)). em_client m = c \<longrightarrow> em_review m \<noteq> Some RPending"
    by (simp only: supersede_pending_review_def world_frames set_update_where ball_simps) simp
  show "\<forall>r st d t. job_for_client c w = Some r \<longrightarrow>
      view (sj_job_id r) (w_queue (remove_future_email E c w)) = Some (st, d, t) \<longrightarrow> st \<notin> CANCELABLE"
    by (intro allI impI) (rule facts(3))
qed (use send_queue_laws.remove_future_email_jobs(1,2,4) [OF assms] in simp_all)

lemma cancel_leaves_nothing_pending_witness:
  "job_for_client ''c'' (remove_future_email demo_env ''c'' (demo_world True EDraft (Some RPending))) = None"
  using cancel_leaves_nothing_pending [OF table.send_queue_laws_axioms, of demo_env]
  by (simp add: demo_env_def Let_def)

text \<open>C20: pausing a client takes its job out of the queue and keeps the draft and the planned time; resuming before that time puts the same job back, with the same data and due at exactly the preserved time, and changes nothing else.\<close>

theorem pause_resume_restores:
  assumes "send_queue_laws Q view" and "se_queue E = Q"
    and "job_for_client c w = Some r" and "sj_job_id r = send_job_id c e" and "plain_id c" and "plain_id e"
    and "\<not> is_draft_held (sj_job_id r) w"
    and "view (sj_job_id r) (w_queue w) = Some (st, (c, e), t)" and "st \<in> CANCELABLE" and "now < sj_scheduled_for r"
  shows "let w' = snd (resume_future_email E c now (pause_future_email E c w))
    in view (sj_job_id r) (w_queue w') = Some (''delayed'', (c, e), sj_scheduled_for r)
     \<and> w_emails w' = w_emails w \<and> w_jobs w' = w_jobs w \<and> w_clients w' = w_clients w
     \<and> (\<forall>k. k \<noteq> sj_job_id r \<longrightarrow> view k (w_queue w') = view k (w_queue w))"
  by (rule send_queue_laws.pause_then_resume [OF assms])

lemma pause_resume_restores_witness:
  "map_of (w_queue (snd (resume_future_email demo_env ''c'' 400 (pause_future_email demo_env ''c'' (demo_world False EDraft None)))))
     (send_job_id ''c'' ''d'') = Some (''delayed'', (''c'', ''d''), 500)"
  using pause_resume_restores [OF table.send_queue_laws_axioms, of demo_env "''c''" "demo_world False EDraft None"
      "\<lparr>sj_job_id = send_job_id ''c'' ''d'', sj_scheduled_for = 500, sj_send_failed_at = None\<rparr>" "''d''" "''delayed''" 500 400]
  by (simp add: demo_env_def demo_world_def job_for_client_def plain_id_def is_draft_held_def draft_of_job_def
      email_by_id_def CANCELABLE_def demo_draft_def Let_def)

text \<open>resuming after the planned time has passed re-fires the same draft immediately instead of drafting anew.\<close>

theorem resume_overdue_sends_same_draft:
  assumes "send_queue_laws Q view" and "se_queue E = Q"
    and "job_for_client c w = Some r" and "sj_job_id r = send_job_id c e" and "plain_id c" and "plain_id e"
    and "\<not> is_draft_held (sj_job_id r) w" and "view (sj_job_id r) (w_queue w) = None" and "sj_scheduled_for r \<le> now"
  shows "let w' = snd (resume_future_email E c now w)
    in view (sj_job_id r) (w_queue w') = Some (''waiting'', (c, e), now)
     \<and> job_for_client c w' = Some \<lparr>sj_job_id = sj_job_id r, sj_scheduled_for = now, sj_send_failed_at = None\<rparr>
     \<and> w_emails w' = w_emails w"
  by (rule send_queue_laws.resume_due [OF assms])

lemma resume_overdue_sends_same_draft_witness:
  "map_of (w_queue (snd (resume_future_email demo_env ''c'' 600 ((demo_world False EDraft None)\<lparr>w_queue := []\<rparr>))))
     (send_job_id ''c'' ''d'') = Some (''waiting'', (''c'', ''d''), 600)"
  using resume_overdue_sends_same_draft [OF table.send_queue_laws_axioms, of demo_env "''c''" "(demo_world False EDraft None)\<lparr>w_queue := []\<rparr>"
      "\<lparr>sj_job_id = send_job_id ''c'' ''d'', sj_scheduled_for = 500, sj_send_failed_at = None\<rparr>" "''d''" 600]
  by (simp add: demo_env_def demo_world_def job_for_client_def plain_id_def is_draft_held_def draft_of_job_def
      email_by_id_def demo_draft_def Let_def)

text \<open>"send now" never moves a message the admin has still to approve: it is refused before the queue or the planned time is touched.\<close>

theorem send_now_respects_review:
  assumes "job_for_client c w = Some r" and "job_part 2 (sj_job_id r) = Some e"
    and "email_by_id e w = Some m" and "em_review m = Some RPending"
  shows "snd (send_future_email_now E c now w) = w
    \<and> fst (send_future_email_now E c now w) = (if sj_send_failed_at r = None then AwaitingReview else SendFailed)"
  using assms by (simp add: send_future_email_now_def Let_def draft_of_job_def awaits_admin_review_def)

lemma send_now_respects_review_witness:
  "fst (send_future_email_now demo_env ''c'' 100 (demo_world True EHeld (Some RPending))) = AwaitingReview"
  using send_now_respects_review [of "''c''" "demo_world True EHeld (Some RPending)"
      "\<lparr>sj_job_id = send_job_id ''c'' ''d'', sj_scheduled_for = 500, sj_send_failed_at = None\<rparr>" "''d''"
      "demo_draft EHeld (Some RPending)" demo_env 100]
  by (simp add: plain_id_def) (simp add: demo_world_def job_for_client_def)

section \<open>Failure and retry, approval, restart\<close>

text \<open>when the provider rejects a send, the draft and its row stay and only the row is stamped as failed; a retry then clears the stamp and queues the same draft for immediate sending, also when the queue has lost the failed job.\<close>

theorem failed_send_retried:
  assumes "send_queue_laws Q view" and "se_queue E = Q" and "plain_id c" and "plain_id e"
    and "job_for_client c w = Some r" and "sj_job_id r = send_job_id c e" and "sj_send_failed_at r \<noteq> None"
    and "view (sj_job_id r) (w_queue w) = None \<or> view (sj_job_id r) (w_queue w) = Some (''failed'', (c, e), t)"
  shows "let (res, w') = retry_failed_send E c now w in res = Retried
     \<and> view (sj_job_id r) (w_queue w') = Some (''waiting'', (c, e), now)
     \<and> job_for_client c w' = Some \<lparr>sj_job_id = sj_job_id r, sj_scheduled_for = now, sj_send_failed_at = None\<rparr>
     \<and> w_emails w' = w_emails w"
  using assms(3-8) send_queue_laws.add_new [OF assms(1), of "sj_job_id r" "w_queue w" "(c, e)" 0 now]
    send_queue_laws.retry_failed [OF assms(1), of "sj_job_id r" "w_queue w" "(c, e)" t now]
  by (elim disjE) (simp_all add: retry_failed_send_def Let_def assms(2) send_queue_laws.state_view [OF assms(1)] queued_state_def)

lemma failed_send_retried_witness:
  "fst (retry_failed_send demo_env ''c'' 700 ((demo_world False EDraft None)\<lparr>w_queue := [],
     w_jobs := [''c'' \<mapsto> \<lparr>sj_job_id = send_job_id ''c'' ''d'', sj_scheduled_for = 500, sj_send_failed_at = Some 600\<rparr>]\<rparr>)) = Retried"
  using failed_send_retried [OF table.send_queue_laws_axioms, of demo_env "''c''" "''d''" "(demo_world False EDraft None)\<lparr>w_queue := [],
     w_jobs := [''c'' \<mapsto> \<lparr>sj_job_id = send_job_id ''c'' ''d'', sj_scheduled_for = 500, sj_send_failed_at = Some 600\<rparr>]\<rparr>"
     "\<lparr>sj_job_id = send_job_id ''c'' ''d'', sj_scheduled_for = 500, sj_send_failed_at = Some 600\<rparr>" 0 700]
  by (simp add: demo_env_def plain_id_def job_for_client_def Let_def split: prod.splits)

text \<open>approving a held draft makes it an approved draft again and queues it for immediate sending under an id of its own; the due job of that id, run while no guard blocks the client, passes the review gate and delivers it when the channel and the provider accept it.\<close>

theorem approval_releases_held_draft:
  assumes "send_queue_laws Q view" and "se_queue E = Q" and "fresh_ids E"
    and "email_by_id e w = Some m" and "em_client m = c" and "em_status m = EHeld" and "em_review m = Some RPending"
    and "\<not> approve_refused c w" and "view (approved_job_id c e) (w_queue w) = None"
    and "client_by_id c w = Some cl" and "\<not> send_blocked cl w"
    and "se_deliver E (m\<lparr>em_status := EDraft, em_review := Some RApproved\<rparr>)"
    and "deliverable E c cl m later w" and "em_channel m = ChWhatsapp"
    and "cl_instance cl = Some i" and "se_sender E i \<noteq> None"
  shows "let w1 = snd (admin_approve E e now w) in fst (admin_approve E e now w)
     \<and> view (approved_job_id c e) (w_queue w1) = Some (''waiting'', (c, e), now)
     \<and> w_sent (snd (on_scheduled_send E (c, e) later w1)) = w_sent w @ [(c, e, Some RApproved)]"
proof -
  let ?w1 = "snd (admin_approve E e now w)" and ?m1 = "m\<lparr>em_status := EDraft, em_review := Some RApproved\<rparr>"
  have m: "em_id m = e" using assms(4) email_by_id_mem by blast
  have w1: "?w1 = upsert_job c (approved_job_id c e) now ((approve_pending e w)\<lparr>w_queue :=
      snd (sq_add Q (approved_job_id c e) (c, e) 0 now (w_queue w))\<rparr>)" and ok: "fst (admin_approve E e now w)"
    using assms(2,4-8) by (simp_all add: admin_approve_def Let_def approve_pending_def)
  have mail: "email_by_id e ?w1 = Some ?m1"
    using assms(4,7) m unfolding w1 email_by_id_frames approve_pending_def
    by (simp add: email_by_id_def find_update_where)
  have same: "client_by_id c ?w1 = client_by_id c w" "send_blocked cl ?w1 = send_blocked cl w"
    "instance_of cl ?w1 = instance_of cl w" "w_sent ?w1 = w_sent w"
    by (simp_all add: w1 client_by_id_def send_blocked_def agent_work_blocked_def admin_comms_paused_def instance_of_def
        approve_pending_def split: option.split)
  have "last_inbound_whatsapp_at c ?w1 = last_inbound_whatsapp_at c w"
    unfolding last_inbound_whatsapp_at_def w1 approve_pending_def
    by simp (rule arg_cong [where f = max_ms], rule map_filter_update_where, simp_all split: option.split)
  then have window: "is_whatsapp_window_open c later ?w1 = is_whatsapp_window_open c later w"
    by (simp add: is_whatsapp_window_open_def)
  have gate: "\<not> review_gate (instance_of cl ?w1) ?m1" by (simp add: review_gate_def split: option.split)
  obtain w2 where send: "send_draft E c cl ?m1 later ?w1 = (Inr SentOk, w2)" "w_sent w2 = w_sent w @ [(c, e, Some RApproved)]"
    using whatsapp_sends [of E c cl ?m1 later ?w1 i] assms(12-16) window m same(4) by (auto simp: deliverable_def)
  have "\<exists>w3. on_scheduled_send E (c, e) later ?w1 = replan E c later w3 \<and> w_sent w3 = w_sent w2"
    using send(1) mail gate same assms(10,11)
    by (auto simp: on_scheduled_send_def Let_def on_first_contact_def set_due_date_if_absent_def split: option.split)
  then have "w_sent (snd (on_scheduled_send E (c, e) later ?w1)) = w_sent w @ [(c, e, Some RApproved)]"
    using send(2) quiet_replan [OF assms(3)] by (auto simp: quiet_def)
  then show ?thesis
    using ok send_queue_laws.add_new [OF assms(1,9), of "(c, e)" 0 now] by (simp add: w1 queued_state_def)
qed

lemma approval_releases_held_draft_witness:
  "w_sent (snd (on_scheduled_send demo_env (''c'', ''d'') 900 (snd (admin_approve demo_env ''d'' 800 (demo_world True EHeld (Some RPending))))))
     = [(''c'', ''d'', Some RApproved)]"
  using approval_releases_held_draft [OF table.send_queue_laws_axioms _ demo_fresh_ids, of "''d''"
      "demo_world True EHeld (Some RPending)" "demo_draft EHeld (Some RPending)" "''c''" demo_client 900 "''i''" 800]
  by (simp add: approve_refused_def demo_env_def Let_def)
    (simp add: demo_world_def demo_client_def demo_draft_def demo_instance_def admin_comms_paused_def instance_of_def
      deliverable_def truthy_text_def approved_job_id_def send_job_id_def)

text \<open>the boot resync restores every mirrored send that Redis lost and that is still current, of a live unpaused client, and not failed; it touches no job that is in the queue, and running it again changes nothing.\<close>

theorem resync_restores_and_idempotent:
  assumes "send_queue_laws Q view" and "se_queue E = Q"
  shows "let w' = resync_scheduled_jobs E now rows w in
     (\<forall>c j r cl. (c, j) \<in> set rows \<and> job_for_client c w = Some r \<and> sj_job_id r = j \<and> client_by_id c w = Some cl
        \<and> \<not> cl_paused cl \<and> sj_send_failed_at r = None \<and> parse_job_id j \<noteq> None \<longrightarrow> view j (w_queue w') \<noteq> None)
     \<and> (\<forall>k. view k (w_queue w) \<noteq> None \<longrightarrow> view k (w_queue w') = view k (w_queue w))
     \<and> w_jobs w' = w_jobs w \<and> w_emails w' = w_emails w
     \<and> resync_scheduled_jobs E now' rows w' = w'"
  unfolding Let_def
proof (intro conjI allI impI)
  note frame = send_queue_laws.resync_frame [OF assms]
  show "view k (w_queue (resync_scheduled_jobs E now rows w)) = view k (w_queue w)"
    if "view k (w_queue w) \<noteq> None" for k by (rule frame(3) [OF that])
  show "view j (w_queue (resync_scheduled_jobs E now rows w)) \<noteq> None"
    if "(c, j) \<in> set rows \<and> job_for_client c w = Some r \<and> sj_job_id r = j \<and> client_by_id c w = Some cl
        \<and> \<not> cl_paused cl \<and> sj_send_failed_at r = None \<and> parse_job_id j \<noteq> None" for c j r cl
    using send_queue_laws.resync_restores [OF assms, of "(c, j)" rows w now] that by (simp add: restorable_def)
  show "w_jobs (resync_scheduled_jobs E now rows w) = w_jobs w" by (rule frame(1))
  show "resync_scheduled_jobs E now' rows (resync_scheduled_jobs E now rows w) = resync_scheduled_jobs E now rows w"
    by (rule send_queue_laws.resync_twice [OF assms])
qed simp

lemma resync_restores_and_idempotent_witness:
  "map_of (w_queue (resync_scheduled_jobs demo_env 100 [(''c'', send_job_id ''c'' ''d'')] ((demo_world False EDraft None)\<lparr>w_queue := []\<rparr>)))
     (send_job_id ''c'' ''d'') \<noteq> None"
proof -
  let ?w = "(demo_world False EDraft None)\<lparr>w_queue := []\<rparr>"
  have "\<exists>r cl. job_for_client ''c'' ?w = Some r \<and> sj_job_id r = send_job_id ''c'' ''d'' \<and> client_by_id ''c'' ?w = Some cl
      \<and> \<not> cl_paused cl \<and> sj_send_failed_at r = None"
    by (simp add: demo_world_def job_for_client_def client_by_id_def demo_client_def)
  moreover have "parse_job_id (send_job_id ''c'' ''d'') \<noteq> None" by (simp add: plain_id_def)
  moreover have "se_queue demo_env = table_queue" by (simp add: demo_env_def)
  ultimately show ?thesis
    using resync_restores_and_idempotent [OF table.send_queue_laws_axioms, of demo_env 100 "[(''c'', send_job_id ''c'' ''d'')]" ?w 0]
    unfolding Let_def by (metis list.set_intros(1))
qed

end
