(* ===== verification/ReplanWorker.thy ===== *)
theory ReplanWorker
  imports InboundTurn SendProps
begin

text \<open>
  The worker of the queue \<open>replan\<close> (\<open>queue/replanWorker.ts\<close>): one run of the
  deferred planner for a client's turn, and the recovery of lost runs at boot.

  A run takes time: it reads the turn at instant \<open>now\<close>, plans under the client
  lock, and looks at the dirty flag at a later instant; \<open>during\<close> is what inbound
  handlers did to the turn store meanwhile. \<open>job.moveToDelayed\<close> followed by
  \<open>DelayedError\<close> is the outcome \<open>RunAgainAt\<close> with the job's turn start.
\<close>

section \<open>One run\<close>

datatype replan_outcome = RunAgainAt ms ms | ReplanDone | ReplanFailed string

record replan_limits =
  rl_quiet :: int
  rl_max_wait :: int

definition RECHECK_MS :: int where
  "RECHECK_MS = 2000"

definition RECOVERY_WINDOW_SECONDS :: int where
  "RECOVERY_WINDOW_SECONDS = 3600"

text \<open>The planning half, once the decision is to plan: kill switch, dirty flag, replan, dirty flag again.\<close>

definition plan_turn ::
  "'r turn_redis \<Rightarrow> 'q send_env \<Rightarrow> replan_limits \<Rightarrow> id \<Rightarrow> ms \<Rightarrow> ms \<Rightarrow> ms \<Rightarrow> ('r \<Rightarrow> 'r) \<Rightarrow> 'r \<times> 'q world \<Rightarrow> replan_outcome \<times> 'r \<times> 'q world"
where
  "plan_turn R E L c started now later during s =
     (let r = fst s; w = snd s in
      if w_kill_switch w then (ReplanDone, r, clear_drafting_state c w)
      else (let r1 = during (clear_dirty R c now r) in
        case replan E c now w of
          (Inl err, w1) \<Rightarrow> (ReplanFailed err, r1, w1)
        | (Inr _, w1) \<Rightarrow>
            (let w2 = clear_drafting_state c w1; (dirty, r2) = take_dirty R c later r1
             in if dirty then (RunAgainAt (later + rl_quiet L) later, r2, mark_drafting_started c later w2)
                else (ReplanDone, r2, w2))))"

definition turn_state_of :: "'r turn_redis \<Rightarrow> id \<Rightarrow> int \<Rightarrow> ms \<Rightarrow> 'r \<Rightarrow> turn_state" where
  "turn_state_of R c pending now r =
     (let (n, seen) = turn_read R c now r in \<lparr>inflight = n, last_inbound = seen, pending_files = pending\<rparr>)"

definition turn_waits :: "'r turn_redis \<Rightarrow> replan_limits \<Rightarrow> id \<times> ms \<Rightarrow> int \<Rightarrow> ms \<Rightarrow> 'r \<Rightarrow> bool" where
  "turn_waits R L job pending now r =
     (decide_replan (turn_state_of R (fst job) pending now r) (snd job) now (rl_quiet L) (rl_max_wait L) = Wait)"

definition on_replan ::
  "'r turn_redis \<Rightarrow> 'q send_env \<Rightarrow> replan_limits \<Rightarrow> id \<times> ms \<Rightarrow> int \<Rightarrow> ms \<Rightarrow> ms \<Rightarrow> ('r \<Rightarrow> 'r) \<Rightarrow> 'r \<times> 'q world
   \<Rightarrow> replan_outcome \<times> 'r \<times> 'q world"
where
  "on_replan R E L job pending now later during s =
     (let c = fst job; started = snd job in
      if turn_waits R L job pending now (fst s)
      then (RunAgainAt (now + RECHECK_MS) started, fst s, mark_drafting_started c now (snd s))
      else plan_turn R E L c started now later during s)"

section \<open>Recovery at boot\<close>

definition list_drafting_without_schedule :: "int \<Rightarrow> ms \<Rightarrow> id list \<Rightarrow> 'q world \<Rightarrow> id list" where
  "list_drafting_without_schedule secs now ids w = filter (\<lambda>c. case client_by_id c w of None \<Rightarrow> False
     | Some cl \<Rightarrow> (case cl_drafting_since cl of None \<Rightarrow> False | Some t \<Rightarrow> now - 1000 * secs < t)
         \<and> cl_goal cl = GPending \<and> \<not> cl_paused cl \<and> job_for_client c w = None) ids"

definition recover_lost_replans ::
  "'p replan_queue \<Rightarrow> 'r turn_redis \<Rightarrow> int \<Rightarrow> int \<Rightarrow> ms \<Rightarrow> id list \<Rightarrow> 'q world \<Rightarrow> 'p \<times> 'r \<Rightarrow> 'p \<times> 'r"
where
  "recover_lost_replans Q R quiet_ms ttl now ids w s =
     fold (\<lambda>c s. if q_get Q (replan_job_id c) (fst s) \<noteq> None then s else request_replan Q R quiet_ms ttl c now s)
       (list_drafting_without_schedule RECOVERY_WINDOW_SECONDS now ids w) s"

section \<open>Lemmas\<close>

lemma turn_waits_early: "turn_waits R L job pending now r \<Longrightarrow> now < snd job + rl_max_wait L"
  by (simp add: turn_waits_def decide_replan_Wait_iff)

lemma set_take_dirty:
  assumes "redis_laws R live" and "t \<le> u" and "u < t + 1000 * ttl"
  shows "fst (take_dirty R c u (set_dirty R ttl c t r))"
  using assms by (simp add: take_dirty_def Let_def set_dirty_def redis_laws.get_live [OF assms(1)] redis_laws.set_live [OF assms(1)])

lemma recover_request:
  assumes "replan_queue_laws Q jobs"
  shows "jobs (fst (recover_lost_replans Q R quiet_ms ttl now ids w s)) (replan_job_id c) \<noteq> None \<or>
     c \<notin> set (list_drafting_without_schedule RECOVERY_WINDOW_SECONDS now ids w)"
proof -
  let ?step = "\<lambda>c s. if q_get Q (replan_job_id c) (fst s) \<noteq> None then s else request_replan Q R quiet_ms ttl c now s"
  have get: "q_get Q j q \<noteq> None \<longleftrightarrow> jobs q j \<noteq> None" for j q
    by (simp add: replan_queue_laws.get_jobs [OF assms])
  have here: "jobs (fst (?step c s)) (replan_job_id c) \<noteq> None" for s
    using replan_queue_laws.request_idle [OF assms, of "fst s" c R quiet_ms ttl now "snd s"] get [of "replan_job_id c" "fst s"]
    by (cases "jobs (fst s) (replan_job_id c)") auto
  have keep: "jobs (fst (?step d s)) (replan_job_id c) \<noteq> None" if "jobs (fst s) (replan_job_id c) \<noteq> None" for d s
    using here [of s] that replan_queue_laws.request_other_client [OF assms, of c d R quiet_ms ttl now "fst s" "snd s"]
    by (cases "d = c") auto
  have mono: "jobs (fst (fold ?step cs s)) (replan_job_id c) \<noteq> None" if "jobs (fst s) (replan_job_id c) \<noteq> None" for cs s
    using that by (induction cs arbitrary: s) (use keep in \<open>auto simp del: not_None_eq\<close>)
  have "c \<in> set cs \<Longrightarrow> jobs (fst (fold ?step cs s)) (replan_job_id c) \<noteq> None" for cs s
  proof (induction cs arbitrary: s)
    case (Cons d cs)
    show ?case
    proof (cases "d = c")
      case True
      then show ?thesis using mono [OF here [of s], of cs] by (simp del: not_None_eq)
    next
      case False
      then show ?thesis using Cons.IH Cons.prems by (simp del: not_None_eq)
    qed
  qed simp
  then show ?thesis unfolding recover_lost_replans_def by blast
qed

text \<open>
  The runs of one job while it waits: before run \<open>k\<close> the rest of the system
  changes store and world by \<open>change\<close> and leaves \<open>pending\<close> files unanalysed, and
  the queue fires the job \<open>slack\<close> late. The answer is the instant at which a run
  stopped waiting.
\<close>

fun waiting_runs ::
  "'r turn_redis \<Rightarrow> 'q send_env \<Rightarrow> replan_limits \<Rightarrow> id \<times> ms \<Rightarrow> (int \<times> int \<times> ('r \<times> 'q world \<Rightarrow> 'r \<times> 'q world)) list
   \<Rightarrow> ms \<Rightarrow> 'r \<times> 'q world \<Rightarrow> ms option"
where
  "waiting_runs R E L job [] now s = None"
| "waiting_runs R E L job ((pending, slack, change) # es) now s =
     (let s1 = change s in
      if turn_waits R L job pending now (fst s1)
      then waiting_runs R E L job es (now + RECHECK_MS + slack) (snd (on_replan R E L job pending now now id s1))
      else Some now)"

lemma waiting_runs_end:
  assumes "\<forall>(p, slack, ch) \<in> set es. 0 \<le> slack \<and> slack \<le> S" and "snd job + rl_max_wait L - now \<le> (int (length es) - 1) * RECHECK_MS"
    and "es \<noteq> []"
  shows "\<exists>t. waiting_runs R E L job es now s = Some t \<and> t \<le> max now (snd job + rl_max_wait L + RECHECK_MS + S)"
  using assms
proof (induction es arbitrary: now s)
  case (Cons e es)
  obtain p slack ch where e: "e = (p, slack, ch)" by (cases e)
  show ?case
  proof (cases "turn_waits R L job p now (fst (ch s))")
    case False
    then show ?thesis by (simp add: e Let_def)
  next
    case True
    from turn_waits_early [OF this] have early: "now < snd job + rl_max_wait L" .
    have sl: "0 \<le> slack" "slack \<le> S" using Cons.prems(1) by (auto simp: e)
    have left: "snd job + rl_max_wait L - (now + RECHECK_MS + slack) \<le> (int (length es) - 1) * RECHECK_MS"
      using Cons.prems(2) sl by (simp add: algebra_simps)
    have "es \<noteq> []"
      using Cons.prems(2) early by auto
    define s' where "s' = snd (on_replan R E L job p now now id (ch s))"
    obtain t where run: "waiting_runs R E L job es (now + RECHECK_MS + slack) s' = Some t"
      and t: "t \<le> max (now + RECHECK_MS + slack) (snd job + rl_max_wait L + RECHECK_MS + S)"
      using Cons.IH [OF _ left \<open>es \<noteq> []\<close>, of s'] Cons.prems(1) by auto
    have "waiting_runs R E L job (e # es) now s = Some t"
      using True run by (simp add: e Let_def s'_def)
    moreover have "t \<le> max now (snd job + rl_max_wait L + RECHECK_MS + S)" using t early sl by linarith
    ultimately show ?thesis by blast
  qed
qed simp

section \<open>Properties\<close>





text \<open>After a restart every recent turn that lost its run gets one: a live, unpaused client with
  an open goal, a drafting stamp from the last hour and nothing scheduled has a replan job again
  once the recovery has run.\<close>

theorem lost_replans_recovered:
  assumes "replan_queue_laws Q jobs" and "c \<in> set ids" and "client_by_id c w = Some cl" and "cl_goal cl = GPending"
    and "\<not> cl_paused cl" and "cl_drafting_since cl = Some t" and "now - 3600000 < t" and "job_for_client c w = None"
  shows "jobs (fst (recover_lost_replans Q R quiet_ms ttl now ids w s)) (replan_job_id c) \<noteq> None"
  using recover_request [OF assms(1), of R quiet_ms ttl now ids w s c] assms(2-8)
  by (simp add: list_drafting_without_schedule_def RECOVERY_WINDOW_SECONDS_def)

lemma lost_replans_recovered_witness:
  "fst (recover_lost_replans map_replan_queue map_redis 15000 300 5000 [''c'']
     ((demo_world False EDraft None)\<lparr>w_jobs := Map.empty, w_clients := [''c'' \<mapsto> demo_client\<lparr>cl_drafting_since := Some 4000\<rparr>]\<rparr>)
     (\<lambda>_. None, \<lambda>_. None)) (replan_job_id ''c'') \<noteq> None"
  by (rule lost_replans_recovered [OF replan_map.replan_queue_laws_axioms, where cl = "demo_client\<lparr>cl_drafting_since := Some 4000\<rparr>" and t = 4000])
    (simp_all add: client_by_id_def job_for_client_def demo_client_def)

end
