(* ===== verification/Catalog.thy ===== *)
theory Catalog
  imports Prelude
begin

text \<open>
  The catalog of document types and papers of a declaration of capital
  (\<open>declarationOfCapital/catalog.ts\<close>) and the questions the rest of the agent asks
  it. Every type and paper of the source is here with its key, short name, row
  name and flags; the Hebrew literals are their UTF-16 code units. The texts only
  models or clients read (descriptions, discovery questions, analysis hints) are
  left out.
\<close>

section \<open>The catalog\<close>

record catalog_paper =
  pa_key :: string
  pa_short :: utext
  pa_may_state :: bool

record capital_document_type =
  ct_key :: string
  ct_short :: utext
  ct_name :: utext
  ct_multi :: bool
  ct_date_dependent :: bool
  ct_institution_bound :: bool
  ct_employer_bound :: bool
  ct_papers :: "catalog_paper list"

definition REAL_ESTATE_PAPERS :: "catalog_paper list" where
  "REAL_ESTATE_PAPERS = [\<lparr>pa_key = ''purchase_contract'', pa_short = [1495, 1493, 1494, 1492, 32, 1512, 1499, 1497, 1513, 1492], pa_may_state = False\<rparr>,
   \<lparr>pa_key = ''payments_appendix'', pa_short = [1504, 1505, 1508, 1495, 32, 1514, 1513, 1500, 1493, 1502, 1497, 1501], pa_may_state = False\<rparr>,
   \<lparr>pa_key = ''tabu_extract'', pa_short = [1504, 1505, 1495, 32, 1496, 1488, 1489, 1493], pa_may_state = False\<rparr>,
   \<lparr>pa_key = ''purchase_tax_assessment'', pa_short = [1513, 1493, 1502, 1514, 32, 1502, 1505, 32, 1512, 1499, 1497, 1513, 1492], pa_may_state = False\<rparr>,
   \<lparr>pa_key = ''cost_declaration'', pa_short = [1492, 1510, 1492, 1512, 1514, 32, 1506, 1500, 1493, 1514], pa_may_state = True\<rparr>,
   \<lparr>pa_key = ''inheritance_order'', pa_short = [1510, 1493, 32, 1497, 1512, 1493, 1513, 1492], pa_may_state = False\<rparr>,
   \<lparr>pa_key = ''builder_payments_report'', pa_short = [1491, 1493, 1495, 32, 1502, 1510, 1489, 1514, 32, 1514, 1513, 1500, 1493, 1502, 1497, 1501, 32, 1502, 1492, 1511,
     1489, 1500, 1503], pa_may_state = False\<rparr>]"

definition VEHICLE_PAPERS :: "catalog_paper list" where
  "VEHICLE_PAPERS = [\<lparr>pa_key = ''vehicle_license'', pa_short = [1512, 1497, 1513, 1497, 1493, 1503, 32, 1512, 1499, 1489], pa_may_state = False\<rparr>,
   \<lparr>pa_key = ''vehicle_purchase_document'', pa_short = [1502, 1505, 1502, 1498, 32, 1512, 1499, 1497, 1513, 1492, 32, 47, 32, 1511, 1489, 1500, 1492], pa_may_state = False\<rparr>,
   \<lparr>pa_key = ''vehicle_declaration'', pa_short = [1492, 1510, 1492, 1512, 1514, 32, 1492, 1500, 1511, 1493, 1495, 32, 1506, 1500, 32, 1492, 1512, 1499, 1489], pa_may_state = True\<rparr>]"

definition CAPITAL_DOCUMENT_CATALOG :: "capital_document_type list" where
  "CAPITAL_DOCUMENT_CATALOG = [\<lparr>ct_key = ''bank_balance'', ct_short = [1495, 1513, 1489, 1493, 1503, 32, 1489, 1504, 1511],
    ct_name = [1488, 1497, 1513, 1493, 1512, 32, 1497, 1514, 1512, 1493, 1514, 32, 1489, 1504, 1511, 32, 1500, 1497, 1493, 1501,
     32, 51, 49, 46, 49, 50, 46, 123, 123, 116, 97, 120, 95, 121, 101, 97, 114, 125, 125],
    ct_multi = True, ct_date_dependent = True, ct_institution_bound = True, ct_employer_bound = False, ct_papers = []\<rparr>,
   \<lparr>ct_key = ''securities_portfolio'', ct_short = [1514, 1497, 1511, 32, 1504, 1497, 1497, 1512, 1493, 1514, 32, 1506, 1512, 1498],
    ct_name = [1514, 1491, 1508, 1497, 1505, 32, 1514, 1497, 1511, 32, 1504, 1497, 1497, 1512, 1493, 1514, 32, 1506, 1512, 1498,
     32, 1500, 1497, 1493, 1501, 32, 51, 49, 46, 49, 50, 46, 123, 123, 116, 97, 120, 95, 121, 101, 97, 114, 125, 125],
    ct_multi = True, ct_date_dependent = True, ct_institution_bound = True, ct_employer_bound = False, ct_papers = []\<rparr>,
   \<lparr>ct_key = ''pension_provident'', ct_short = [1511, 1493, 1508, 1514, 32, 1490, 1502, 1500, 32, 47, 32, 1508, 1504, 1505, 1497, 1492],
    ct_name = [1488, 1497, 1513, 1493, 1512, 32, 1497, 1514, 1512, 1493, 1514, 32, 1511, 1493, 1508, 1493, 1514, 32, 1490, 1502,
     1500, 32, 1493, 1508, 1504, 1505, 1497, 1492, 32, 1500, 1497, 1493, 1501, 32, 51, 49, 46, 49, 50, 46, 123, 123,
     116, 97, 120, 95, 121, 101, 97, 114, 125, 125],
    ct_multi = True, ct_date_dependent = True, ct_institution_bound = True, ct_employer_bound = True, ct_papers = []\<rparr>,
   \<lparr>ct_key = ''study_fund'', ct_short = [1511, 1512, 1503, 32, 1492, 1513, 1514, 1500, 1502, 1493, 1514],
    ct_name = [1488, 1497, 1513, 1493, 1512, 32, 1497, 1514, 1512, 1514, 32, 1511, 1512, 1503, 32, 1492, 1513, 1514, 1500, 1502,
     1493, 1514, 32, 1500, 1497, 1493, 1501, 32, 51, 49, 46, 49, 50, 46, 123, 123, 116, 97, 120, 95, 121, 101, 97,
     114, 125, 125],
    ct_multi = True, ct_date_dependent = True, ct_institution_bound = True, ct_employer_bound = True, ct_papers = []\<rparr>,
   \<lparr>ct_key = ''life_insurance_savings'', ct_short = [1489, 1497, 1496, 1493, 1495, 32, 1502, 1504, 1492, 1500, 1497, 1501, 32, 47, 32, 1508, 1493, 1500, 1497, 1505,
     1514, 32, 1495, 1497, 1505, 1499, 1493, 1503],
    ct_name = [1488, 1497, 1513, 1493, 1512, 32, 1500, 1492, 1510, 1492, 1512, 1514, 32, 1492, 1493, 1503, 32, 8212, 32, 1489,
     1497, 1496, 1493, 1495, 32, 1502, 1504, 1492, 1500, 1497, 1501, 32, 47, 32, 1508, 1493, 1500, 1497, 1505, 1514,
     32, 1495, 1497, 1505, 1499, 1493, 1503, 32, 1500, 1497, 1493, 1501, 32, 51, 49, 46, 49, 50, 46, 123, 123, 116,
     97, 120, 95, 121, 101, 97, 114, 125, 125],
    ct_multi = True, ct_date_dependent = True, ct_institution_bound = True, ct_employer_bound = False, ct_papers = []\<rparr>,
   \<lparr>ct_key = ''real_estate'', ct_short = [1504, 1499, 1505, 32, 1504, 1491, 1500, 34, 1503],
    ct_name = [1502, 1505, 1502, 1499, 1497, 32, 1504, 1499, 1505, 32, 1504, 1491, 1500, 34, 1503],
    ct_multi = True, ct_date_dependent = False, ct_institution_bound = False, ct_employer_bound = False, ct_papers = REAL_ESTATE_PAPERS\<rparr>,
   \<lparr>ct_key = ''mortgage_balance'', ct_short = [1502, 1513, 1499, 1504, 1514, 1488],
    ct_name = [1488, 1497, 1513, 1493, 1512, 32, 1497, 1514, 1512, 1514, 32, 1502, 1513, 1499, 1504, 1514, 1488, 32, 1500, 1497,
     1493, 1501, 32, 51, 49, 46, 49, 50, 46, 123, 123, 116, 97, 120, 95, 121, 101, 97, 114, 125, 125],
    ct_multi = True, ct_date_dependent = True, ct_institution_bound = True, ct_employer_bound = False, ct_papers = []\<rparr>,
   \<lparr>ct_key = ''loan_taken'', ct_short = [1492, 1500, 1493, 1493, 1488, 1492],
    ct_name = [1488, 1497, 1513, 1493, 1512, 32, 1497, 1514, 1512, 1514, 32, 1492, 1500, 1493, 1493, 1488, 1492, 32, 1500, 1497,
     1493, 1501, 32, 51, 49, 46, 49, 50, 46, 123, 123, 116, 97, 120, 95, 121, 101, 97, 114, 125, 125],
    ct_multi = True, ct_date_dependent = True, ct_institution_bound = False, ct_employer_bound = False, ct_papers = []\<rparr>,
   \<lparr>ct_key = ''loan_given'', ct_short = [1492, 1500, 1493, 1493, 1488, 1492, 32, 1513, 1504, 1497, 1514, 1504, 1492],
    ct_name = [1488, 1505, 1502, 1499, 1514, 1488, 32, 1500, 1492, 1500, 1493, 1493, 1488, 1492, 32, 1513, 1504, 1497, 1514,
     1504, 1492, 32, 8212, 32, 1497, 1514, 1512, 1492, 32, 1500, 1497, 1493, 1501, 32, 51, 49, 46, 49, 50, 46, 123,
     123, 116, 97, 120, 95, 121, 101, 97, 114, 125, 125],
    ct_multi = True, ct_date_dependent = True, ct_institution_bound = False, ct_employer_bound = False, ct_papers = []\<rparr>,
   \<lparr>ct_key = ''vehicle'', ct_short = [1499, 1500, 1497, 32, 1512, 1499, 1489],
    ct_name = [1502, 1505, 1502, 1499, 1497, 32, 1499, 1500, 1497, 32, 1512, 1499, 1489],
    ct_multi = True, ct_date_dependent = False, ct_institution_bound = False, ct_employer_bound = False, ct_papers = VEHICLE_PAPERS\<rparr>,
   \<lparr>ct_key = ''contents_insurance'', ct_short = [1489, 1497, 1496, 1493, 1495, 32, 1514, 1499, 1493, 1500, 1492],
    ct_name = [1508, 1493, 1500, 1497, 1505, 1514, 32, 1489, 1497, 1496, 1493, 1495, 32, 1514, 1499, 1493, 1500, 1492],
    ct_multi = False, ct_date_dependent = False, ct_institution_bound = False, ct_employer_bound = False, ct_papers = []\<rparr>,
   \<lparr>ct_key = ''business_ownership'', ct_short = [1489, 1506, 1500, 1493, 1514, 32, 1489, 1506, 1505, 1511, 32, 1488, 1493, 32, 1489, 1495, 1489, 1512, 1492],
    ct_name = [1488, 1505, 1502, 1499, 1514, 1514, 32, 1489, 1506, 1500, 1493, 1514, 32, 1489, 1506, 1505, 1511, 32, 1488, 1493,
     32, 1489, 1495, 1489, 1512, 1492],
    ct_multi = True, ct_date_dependent = False, ct_institution_bound = False, ct_employer_bound = False, ct_papers = []\<rparr>,
   \<lparr>ct_key = ''crypto'', ct_short = [1502, 1496, 1489, 1506, 1493, 1514, 32, 1491, 1497, 1490, 1497, 1496, 1500, 1497, 1497, 1501],
    ct_name = [1491, 1493, 1495, 32, 1488, 1495, 1494, 1511, 1493, 1514, 32, 1502, 1496, 1489, 1506, 1493, 1514, 32, 1491, 1497,
     1490, 1497, 1496, 1500, 1497, 1497, 1501, 32, 1500, 1497, 1493, 1501, 32, 51, 49, 46, 49, 50, 46, 123, 123, 116,
     97, 120, 95, 121, 101, 97, 114, 125, 125],
    ct_multi = True, ct_date_dependent = True, ct_institution_bound = False, ct_employer_bound = False, ct_papers = []\<rparr>,
   \<lparr>ct_key = ''private_investment'', ct_short = [1492, 1513, 1511, 1506, 1492, 32, 1508, 1512, 1496, 1497, 1514],
    ct_name = [1488, 1505, 1502, 1499, 1514, 1514, 32, 1492, 1513, 1511, 1506, 1492, 32, 1508, 1512, 1496, 1497, 1514],
    ct_multi = True, ct_date_dependent = False, ct_institution_bound = False, ct_employer_bound = False, ct_papers = []\<rparr>,
   \<lparr>ct_key = ''poa_account'', ct_short = [1495, 1513, 1489, 1493, 1503, 32, 1489, 1497, 1508, 1493, 1497, 32, 1499, 1493, 1495],
    ct_name = [1488, 1497, 1513, 1493, 1512, 32, 1504, 1497, 1492, 1493, 1500, 32, 1495, 1513, 1489, 1493, 1503, 32, 8212, 32,
     1497, 1508, 1493, 1497, 32, 1499, 1493, 1495],
    ct_multi = True, ct_date_dependent = False, ct_institution_bound = False, ct_employer_bound = False, ct_papers = []\<rparr>,
   \<lparr>ct_key = ''prior_declaration'', ct_short = [1492, 1510, 1492, 1512, 1514, 32, 1492, 1493, 1503, 32, 1511, 1493, 1491, 1502, 1514],
    ct_name = [1492, 1510, 1492, 1512, 1514, 32, 1492, 1493, 1503, 32, 1511, 1493, 1491, 1502, 1514],
    ct_multi = False, ct_date_dependent = False, ct_institution_bound = False, ct_employer_bound = False, ct_papers = []\<rparr>,
   \<lparr>ct_key = ''other_assets'', ct_short = [1504, 1499, 1505, 1497, 1501, 32, 1488, 1493, 32, 1492, 1514, 1495, 1497, 1497, 1489, 1493, 1497, 1493, 1514, 32,
     1504, 1493, 1505, 1508, 1497, 1501],
    ct_name = [1504, 1499, 1505, 1497, 1501, 32, 1488, 1493, 32, 1492, 1514, 1495, 1497, 1497, 1489, 1493, 1497, 1493, 1514, 32,
     1504, 1493, 1505, 1508, 1497, 1501],
    ct_multi = True, ct_date_dependent = False, ct_institution_bound = False, ct_employer_bound = False, ct_papers = []\<rparr>]"

section \<open>Look-ups\<close>

text \<open>An optional key that is missing or empty is falsy in the source; \<open>new Map(entries)\<close> keeps the last entry of a key.\<close>

definition truthy :: "string option \<Rightarrow> bool" where
  "truthy k = (k \<noteq> None \<and> k \<noteq> Some [])"

definition get_catalog_type :: "string \<Rightarrow> capital_document_type option" where
  "get_catalog_type k = map_of (rev (map (\<lambda>t. (ct_key t, t)) CAPITAL_DOCUMENT_CATALOG)) k"

definition papers_by_key :: "(string \<times> catalog_paper \<times> string) list" where
  "papers_by_key = concat (map (\<lambda>t. map (\<lambda>p. (pa_key p, p, ct_key t)) (ct_papers t)) CAPITAL_DOCUMENT_CATALOG)"

definition CAPITAL_DOCUMENT_PAPER_VALUES :: "string list" where
  "CAPITAL_DOCUMENT_PAPER_VALUES = map fst papers_by_key"

definition paper_entry :: "string option \<Rightarrow> (catalog_paper \<times> string) option" where
  "paper_entry k = (if truthy k then map_of (rev papers_by_key) (the k) else None)"

definition get_catalog_paper :: "string option \<Rightarrow> catalog_paper option" where
  "get_catalog_paper k = map_option fst (paper_entry k)"

definition paper_may_be_stated_in_chat :: "string option \<Rightarrow> bool" where
  "paper_may_be_stated_in_chat k = (case get_catalog_paper k of None \<Rightarrow> False | Some p \<Rightarrow> pa_may_state p)"

datatype stating_tool = StateCost | StateVehicle

definition paper_stated_by :: "string option \<Rightarrow> stating_tool option" where
  "paper_stated_by k = (if \<not> paper_may_be_stated_in_chat k then None
     else Some (if k = Some ''vehicle_declaration'' then StateVehicle else StateCost))"

definition papers_of :: "string option \<Rightarrow> catalog_paper list" where
  "papers_of t = (if truthy t then (case get_catalog_type (the t) of None \<Rightarrow> [] | Some c \<Rightarrow> ct_papers c) else [])"

definition paper_belongs_to_type :: "string option \<Rightarrow> string option \<Rightarrow> bool" where
  "paper_belongs_to_type p t = (truthy p \<and> truthy t \<and> (case paper_entry p of None \<Rightarrow> False | Some (_, k) \<Rightarrow> Some k = t))"

datatype paper_fault = PaperOnTypeWithoutPapers | NoPaperNamed | NotAPaperOfType

definition instance_paper_fault :: "string option \<Rightarrow> string option \<Rightarrow> paper_fault option" where
  "instance_paper_fault p t =
     (if papers_of t = [] then (if truthy p then Some PaperOnTypeWithoutPapers else None)
      else if \<not> truthy p then Some NoPaperNamed
      else if \<not> paper_belongs_to_type p t then Some NotAPaperOfType
      else None)"

definition is_institution_bound :: "string option \<Rightarrow> bool" where
  "is_institution_bound t = (truthy t \<and> (case get_catalog_type (the t) of None \<Rightarrow> False | Some c \<Rightarrow> ct_institution_bound c))"

definition is_employer_bound :: "string option \<Rightarrow> bool" where
  "is_employer_bound t = (truthy t \<and> (case get_catalog_type (the t) of None \<Rightarrow> False | Some c \<Rightarrow> ct_employer_bound c))"

section \<open>The seeded checklist\<close>

text \<open>\<open>s.replaceAll(needle, rep)\<close> for a needle that is not empty.\<close>

function replace_all :: "utext \<Rightarrow> utext \<Rightarrow> utext \<Rightarrow> utext" where
  "replace_all needle rep [] = []"
| "replace_all needle rep (c # cs) =
     (if needle \<noteq> [] \<and> is_prefix needle (c # cs)
      then rep @ replace_all needle rep (drop (length needle) (c # cs))
      else c # replace_all needle rep cs)"
  by pat_completeness auto
termination by (relation "measure (\<lambda>(_, _, s). length s)") auto

definition TAX_YEAR_SLOT :: utext where
  "TAX_YEAR_SLOT = jstr ''{{tax_year}}''"

definition catalog_seed_rows :: "int \<Rightarrow> (string \<times> utext) list" where
  "catalog_seed_rows year = map (\<lambda>t. (ct_key t, replace_all TAX_YEAR_SLOT (jstr (show_int year)) (ct_name t))) CAPITAL_DOCUMENT_CATALOG"

section \<open>Lemmas\<close>

lemma catalog_keys_distinct: "distinct (map ct_key CAPITAL_DOCUMENT_CATALOG)"
  by (simp add: CAPITAL_DOCUMENT_CATALOG_def)

lemma paper_keys_distinct: "distinct CAPITAL_DOCUMENT_PAPER_VALUES"
  by (simp add: CAPITAL_DOCUMENT_PAPER_VALUES_def papers_by_key_def CAPITAL_DOCUMENT_CATALOG_def REAL_ESTATE_PAPERS_def VEHICLE_PAPERS_def)

lemma map_of_rev_distinct: "distinct (map fst xs) \<Longrightarrow> map_of (rev xs) = map_of xs"
proof
  fix k assume d: "distinct (map fst xs)"
  then have d': "distinct (map fst (rev xs))" by (metis distinct_rev rev_map)
  show "map_of (rev xs) k = map_of xs k"
  proof (cases "map_of xs k")
    case None
    then show ?thesis by (metis map_of_eq_None_iff set_rev image_set)
  next
    case (Some v)
    then show ?thesis using d' by (metis map_of_SomeD map_of_is_SomeI set_rev)
  qed
qed

lemma get_catalog_type_Some: "get_catalog_type k = Some t \<longleftrightarrow> t \<in> set CAPITAL_DOCUMENT_CATALOG \<and> ct_key t = k"
proof -
  have "distinct (map fst (map (\<lambda>t. (ct_key t, t)) CAPITAL_DOCUMENT_CATALOG))"
    using catalog_keys_distinct by (simp add: comp_def)
  then show ?thesis
    unfolding get_catalog_type_def by (auto simp: map_of_rev_distinct)
qed

lemma paper_entry_Some:
  "paper_entry (Some k) = Some (p, t) \<longleftrightarrow> k \<noteq> [] \<and> (\<exists>c \<in> set CAPITAL_DOCUMENT_CATALOG. ct_key c = t \<and> p \<in> set (ct_papers c) \<and> pa_key p = k)"
proof -
  have "distinct (map fst papers_by_key)"
    using paper_keys_distinct by (simp add: CAPITAL_DOCUMENT_PAPER_VALUES_def)
  then have "map_of (rev papers_by_key) k = Some (p, t) \<longleftrightarrow> (k, p, t) \<in> set papers_by_key"
    by (simp add: map_of_rev_distinct)
  moreover have "(k, p, t) \<in> set papers_by_key \<longleftrightarrow>
      (\<exists>c \<in> set CAPITAL_DOCUMENT_CATALOG. ct_key c = t \<and> p \<in> set (ct_papers c) \<and> pa_key p = k)"
    unfolding papers_by_key_def by auto
  ultimately show ?thesis by (simp add: paper_entry_def truthy_def)
qed

lemma papers_of_Some:
  "p \<in> set (papers_of (Some t)) \<longleftrightarrow> t \<noteq> [] \<and> (\<exists>c \<in> set CAPITAL_DOCUMENT_CATALOG. ct_key c = t \<and> p \<in> set (ct_papers c))"
proof (cases "get_catalog_type t")
  case None
  then have "ct_key c \<noteq> t" if "c \<in> set CAPITAL_DOCUMENT_CATALOG" for c
    using get_catalog_type_Some [of t c] that by simp
  moreover have "papers_of (Some t) = []" using None by (simp add: papers_of_def)
  ultimately show ?thesis by (metis empty_iff list.set(1))
next
  case (Some c)
  then have "c' = c" if "c' \<in> set CAPITAL_DOCUMENT_CATALOG" "ct_key c' = t" for c'
    using that get_catalog_type_Some [of t c'] by simp
  moreover have "c \<in> set CAPITAL_DOCUMENT_CATALOG \<and> ct_key c = t" using Some get_catalog_type_Some [of t c] by simp
  moreover have "papers_of (Some t) = (if t \<noteq> [] then ct_papers c else [])"
    using Some by (simp add: papers_of_def truthy_def)
  ultimately show ?thesis by (metis empty_iff list.set(1))
qed

lemma paper_belongs_Some:
  "paper_belongs_to_type (Some k) (Some t) \<longleftrightarrow> k \<noteq> [] \<and> t \<noteq> [] \<and> (\<exists>p. paper_entry (Some k) = Some (p, t))"
  by (auto simp: paper_belongs_to_type_def truthy_def split: option.splits)

lemma paper_belongs_iff:
  "paper_belongs_to_type p t \<longleftrightarrow> truthy p \<and> truthy t \<and> p \<in> Some ` pa_key ` set (papers_of t)"
proof (cases p; cases t)
  fix k ty assume "p = Some k" and "t = Some ty"
  moreover have "(\<exists>q. paper_entry (Some k) = Some (q, ty)) \<longleftrightarrow> k \<noteq> [] \<and> (\<exists>q \<in> set (papers_of (Some ty)). pa_key q = k)" if "ty \<noteq> []"
    unfolding paper_entry_Some papers_of_Some using that by (auto simp: Bex_def papers_of_Some)
  ultimately show ?thesis
    by (auto simp: paper_belongs_Some truthy_def)
qed (auto simp: paper_belongs_to_type_def truthy_def)

lemma papers_by_key_eq:
  "papers_by_key = map (\<lambda>p. (pa_key p, p, ''real_estate'')) REAL_ESTATE_PAPERS @ map (\<lambda>p. (pa_key p, p, ''vehicle'')) VEHICLE_PAPERS"
  by (simp add: papers_by_key_def CAPITAL_DOCUMENT_CATALOG_def)

lemma paper_entry_eq: "paper_entry k = (if truthy k then map_of papers_by_key (the k) else None)"
  using paper_keys_distinct by (simp add: paper_entry_def CAPITAL_DOCUMENT_PAPER_VALUES_def map_of_rev_distinct)

lemma statable_papers:
  "p \<in> set REAL_ESTATE_PAPERS \<union> set VEHICLE_PAPERS \<Longrightarrow> pa_may_state p \<longleftrightarrow> pa_key p \<in> {''cost_declaration'', ''vehicle_declaration''}"
  by (auto simp: REAL_ESTATE_PAPERS_def VEHICLE_PAPERS_def)

lemma may_be_stated_iff:
  "paper_may_be_stated_in_chat k \<longleftrightarrow> k = Some ''cost_declaration'' \<or> k = Some ''vehicle_declaration''"
proof (cases "paper_entry k")
  case None
  have "paper_entry (Some ''cost_declaration'') \<noteq> None" and "paper_entry (Some ''vehicle_declaration'') \<noteq> None"
    by (simp_all add: paper_entry_eq truthy_def papers_by_key_eq REAL_ESTATE_PAPERS_def VEHICLE_PAPERS_def)
  with None show ?thesis
    by (auto simp: paper_may_be_stated_in_chat_def get_catalog_paper_def)
next
  case (Some e)
  obtain p t where e: "e = (p, t)" by (cases e)
  obtain k' where k: "k = Some k'" using Some by (auto simp: paper_entry_def truthy_def split: if_splits)
  have "(k', p, t) \<in> set papers_by_key"
    using Some by (auto simp: k e paper_entry_eq truthy_def dest: map_of_SomeD split: if_splits)
  then have "pa_key p = k'" and "p \<in> set REAL_ESTATE_PAPERS \<union> set VEHICLE_PAPERS" by (auto simp: papers_by_key_eq)
  then show ?thesis
    using Some statable_papers [of p] by (simp add: e k paper_may_be_stated_in_chat_def get_catalog_paper_def)
qed

lemma paper_stated_by_eq:
  "paper_stated_by k = (if k = Some ''cost_declaration'' then Some StateCost
     else if k = Some ''vehicle_declaration'' then Some StateVehicle else None)"
  by (simp add: paper_stated_by_def may_be_stated_iff)

section \<open>Properties\<close>

text \<open>The catalog is well formed: type keys are unique, paper keys are unique across the whole catalog, an employer-bound type is institution-bound, and a paper the client may state in the chat is the property cost declaration (stated with state_cost) or the vehicle declaration (stated with state_vehicle) and no other.\<close>

theorem catalog_well_formed:
  "distinct (map ct_key CAPITAL_DOCUMENT_CATALOG) \<and> distinct CAPITAL_DOCUMENT_PAPER_VALUES
   \<and> list_all (\<lambda>t. ct_employer_bound t \<le> ct_institution_bound t) CAPITAL_DOCUMENT_CATALOG
   \<and> (\<forall>k. paper_stated_by k = (if k = Some ''cost_declaration'' then Some StateCost
        else if k = Some ''vehicle_declaration'' then Some StateVehicle else None))"
proof (intro conjI allI)
  show "distinct (map ct_key CAPITAL_DOCUMENT_CATALOG)" by (rule catalog_keys_distinct)
  show "distinct CAPITAL_DOCUMENT_PAPER_VALUES" by (rule paper_keys_distinct)
  show "list_all (\<lambda>t. ct_employer_bound t \<le> ct_institution_bound t) CAPITAL_DOCUMENT_CATALOG"
    by (simp add: CAPITAL_DOCUMENT_CATALOG_def)
  show "paper_stated_by k = (if k = Some ''cost_declaration'' then Some StateCost
        else if k = Some ''vehicle_declaration'' then Some StateVehicle else None)" for k
    by (rule paper_stated_by_eq)
qed

text \<open>The paper check of an instance accepts exactly the right papers: for a type with papers one of that type's own papers, for a type without papers (or an ad-hoc row) none.\<close>

theorem instance_paper_accepted_iff:
  "instance_paper_fault p t = None \<longleftrightarrow>
     (if papers_of t = [] then \<not> truthy p else truthy p \<and> p \<in> Some ` pa_key ` set (papers_of t))"
proof -
  have "papers_of t \<noteq> [] \<Longrightarrow> truthy t" by (simp add: papers_of_def split: if_splits)
  then show ?thesis by (auto simp: instance_paper_fault_def paper_belongs_iff)
qed

end
