(* ===== verification/Institutions.thy ===== *)
theory Institutions
  imports Catalog
begin

text \<open>
  Which company a text names (\<open>declarationOfCapital/institutions.ts\<close>) and when
  a file may be tied to an item of a company. The table of companies is an
  argument, as the source's functions take it; text is a list of UTF-16 code
  units. The regular expression of an als, \<open>" [prefix]{0,2}als(?= )"\<close> run
  with the flag \<open>g\<close>, is written out as a scan.
\<close>

section \<open>Normalised text\<close>

record institution =
  is_key :: string
  is_name :: utext
  is_name_he :: "utext option"
  is_aliases :: "utext list"

text \<open>
  \<open>toLowerCase\<close>, exact on every unit the next steps keep: besides A-Z only the
  Kelvin sign (8490) and the dotted capital I (304) lower to a Latin letter.
\<close>

definition lower_unit :: "nat \<Rightarrow> nat list" where
  "lower_unit c = (if 65 \<le> c \<and> c \<le> 90 then [c + 32] else if c = 8490 then [107] else if c = 304 then [105, 775] else [c])"

definition invisible :: "nat \<Rightarrow> bool" where
  "invisible c = ((8203 \<le> c \<and> c \<le> 8207) \<or> (8234 \<le> c \<and> c \<le> 8238) \<or> (8294 \<le> c \<and> c \<le> 8297) \<or> c = 65279)"

definition hebrew_point :: "nat \<Rightarrow> bool" where
  "hebrew_point c = (1425 \<le> c \<and> c \<le> 1479)"

definition hebrew_letter :: "nat \<Rightarrow> bool" where
  "hebrew_letter c = (1488 \<le> c \<and> c \<le> 1514)"

definition word_unit :: "nat \<Rightarrow> bool" where
  "word_unit c = (hebrew_letter c \<or> (97 \<le> c \<and> c \<le> 122) \<or> (48 \<le> c \<and> c \<le> 57))"

text \<open>\<open>s.replace(/[^word]+/g, ' ')\<close>: every maximal run of other units becomes one space.\<close>

fun squeeze :: "bool \<Rightarrow> utext \<Rightarrow> utext" where
  "squeeze gap [] = []"
| "squeeze gap (c # cs) =
     (if word_unit c then c # squeeze False cs else if gap then squeeze True cs else 32 # squeeze True cs)"

definition company_words :: "utext \<Rightarrow> utext" where
  "company_words t = js_trim (squeeze False (filter (\<lambda>c. \<not> hebrew_point c)
     (filter (\<lambda>c. \<not> invisible c) (concat (map lower_unit t)))))"

definition normalize_company_text :: "utext \<Rightarrow> utext" where
  "normalize_company_text t = 32 # company_words t @ [32]"

section \<open>Alias matches\<close>

record alias_pattern =
  ap_key :: string
  ap_alias :: utext

definition build_patterns :: "institution list \<Rightarrow> alias_pattern list" where
  "build_patterns table = concat (map (\<lambda>e. concat (map (\<lambda>a. let n = js_trim (normalize_company_text a) in
      if n = [] then [] else [\<lparr>ap_key = is_key e, ap_alias = n\<rparr>]) (is_aliases e))) table)"

definition prefix_letter :: "nat \<Rightarrow> bool" where
  "prefix_letter c = (c \<in> {1489, 1500, 1502, 1492, 1493, 1513, 1499})"

text \<open>
  A match at the head of \<open>hs\<close> with \<open>k\<close> prefix letters; the group is greedy and
  backtracks, so two letters are tried first. The answer is the match's length.
\<close>

definition match_with :: "nat \<Rightarrow> utext \<Rightarrow> utext \<Rightarrow> bool" where
  "match_with k als hs = (case hs of [] \<Rightarrow> False
     | c # cs \<Rightarrow> c = 32 \<and> k \<le> length cs \<and> list_all prefix_letter (take k cs) \<and> is_prefix (als @ [32]) (drop k cs))"

definition match_here :: "utext \<Rightarrow> utext \<Rightarrow> nat option" where
  "match_here als hs =
     (let heb = (als \<noteq> [] \<and> hebrew_letter (hd als)) in
      if heb \<and> match_with 2 als hs then Some (3 + length als)
      else if heb \<and> match_with 1 als hs then Some (2 + length als)
      else if match_with 0 als hs then Some (1 + length als)
      else None)"

text \<open>\<open>pattern.exec\<close> until it answers null: matches from left to right, none inside another. A match is not empty.\<close>

function exec_all :: "utext \<Rightarrow> nat \<Rightarrow> utext \<Rightarrow> (nat \<times> nat) list" where
  "exec_all als i hs =
     (case hs of [] \<Rightarrow> []
      | c # cs \<Rightarrow> (case match_here als hs of
           None \<Rightarrow> exec_all als (i + 1) cs
         | Some n \<Rightarrow> (i, i + n) # exec_all als (i + n) (drop n hs)))"
  by pat_completeness auto
termination
  by (relation "measure (\<lambda>(_, _, hs). length hs)") (auto simp: match_here_def Let_def split: if_splits)

declare exec_all.simps [simp del]

type_synonym company_hit = "string \<times> nat \<times> nat"

definition company_hits :: "institution list \<Rightarrow> utext \<Rightarrow> company_hit list" where
  "company_hits table t = concat (map (\<lambda>p. map (\<lambda>(a, b). (ap_key p, a, b)) (exec_all (ap_alias p) 0 (normalize_company_text t)))
     (build_patterns table))"

text \<open>A hit inside a strictly longer hit is part of that longer name.\<close>

definition inside_longer :: "company_hit \<Rightarrow> company_hit \<Rightarrow> bool" where
  "inside_longer h p = (let (_, a, b) = h; (_, c, d) = p in c \<le> a \<and> b \<le> d \<and> b - a < d - c)"

definition outer_hits :: "company_hit list \<Rightarrow> company_hit list" where
  "outer_hits hs = filter (\<lambda>h. \<not> list_ex (inside_longer h) hs) hs"

definition identify_institution :: "utext option \<Rightarrow> institution list \<Rightarrow> string option" where
  "identify_institution t table = (case t of None \<Rightarrow> None
     | Some s \<Rightarrow> if s = [] then None
        else (case remdups (map fst (outer_hits (company_hits table s))) of [k] \<Rightarrow> Some k | _ \<Rightarrow> None))"

definition institution_label :: "string \<Rightarrow> institution list \<Rightarrow> utext" where
  "institution_label k table = (case List.find (\<lambda>e. is_key e = k) table of None \<Rightarrow> jstr k | Some e \<Rightarrow> is_name e)"

definition institution_label_he :: "string \<Rightarrow> institution list \<Rightarrow> utext" where
  "institution_label_he k table = (case List.find (\<lambda>e. is_key e = k) table of None \<Rightarrow> jstr k
     | Some e \<Rightarrow> (case is_name_he e of Some n \<Rightarrow> n | None \<Rightarrow> is_name e))"

section \<open>Comparing two companies\<close>

datatype company_comparison =
    SameCompany string
  | DifferentCompanies string string
  | FileUnidentified "string option"
  | ItemUnidentified string

definition compare_companies :: "utext option \<Rightarrow> utext \<Rightarrow> institution list \<Rightarrow> company_comparison" where
  "compare_companies issuer item table =
     (case identify_institution issuer table of
        None \<Rightarrow> FileUnidentified (identify_institution (Some item) table)
      | Some f \<Rightarrow> (case identify_institution (Some item) table of
           None \<Rightarrow> ItemUnidentified f
         | Some i \<Rightarrow> if f = i then SameCompany f else DifferentCompanies f i))"

definition tie_allowed_by_company :: "company_comparison \<Rightarrow> bool \<Rightarrow> bool" where
  "tie_allowed_by_company cmp has_evidence = (case cmp of
       SameCompany _ \<Rightarrow> True | ItemUnidentified _ \<Rightarrow> True | DifferentCompanies _ _ \<Rightarrow> False
     | FileUnidentified _ \<Rightarrow> has_evidence)"

section \<open>Lemmas\<close>

lemma match_here_Some:
  assumes "match_here als hs = Some n"
  shows "\<exists>pre rest. hs = 32 # pre @ als @ 32 # rest \<and> list_all prefix_letter pre \<and> length pre \<le> 2
    \<and> n = 1 + length pre + length als \<and> (pre \<noteq> [] \<longrightarrow> als \<noteq> [] \<and> hebrew_letter (hd als))"
proof -
  obtain k where k: "match_with k als hs" "k \<le> 2" "n = 1 + k + length als" "k \<noteq> 0 \<longrightarrow> als \<noteq> [] \<and> hebrew_letter (hd als)"
    using assms by (auto simp: match_here_def Let_def split: if_splits)
  then obtain cs where cs: "hs = 32 # cs" "k \<le> length cs" "list_all prefix_letter (take k cs)" "is_prefix (als @ [32]) (drop k cs)"
    by (auto simp: match_with_def split: list.splits)
  then obtain rest where "drop k cs = als @ 32 # rest" by (auto simp: is_prefix_iff)
  then have "hs = 32 # take k cs @ als @ 32 # rest" using cs(1) by (metis append_take_drop_id)
  then show ?thesis using cs k by (intro exI [of _ "take k cs"] exI [of _ rest]) (auto simp: min_def)
qed

lemma exec_all_match:
  "(a, b) \<in> set (exec_all als i hs) \<Longrightarrow> \<exists>n. match_here als (drop (a - i) hs) = Some n \<and> b = a + n \<and> i \<le> a"
proof (induction als i hs rule: exec_all.induct)
  case (1 als i hs)
  show ?case
  proof (cases hs)
    case Nil
    with "1.prems" show ?thesis by (simp add: exec_all.simps)
  next
    case (Cons c cs)
    show ?thesis
    proof (cases "match_here als hs")
      case None
      then have "(a, b) \<in> set (exec_all als (i + 1) cs)"
        using "1.prems" Cons by (subst (asm) exec_all.simps) simp
      from "1.IH"(1) [OF Cons None this] obtain n
        where "match_here als (drop (a - (i + 1)) cs) = Some n" "b = a + n" "i + 1 \<le> a" by blast
      moreover from this have "drop (a - i) hs = drop (a - (i + 1)) cs"
        by (metis Cons Suc_diff_le Suc_eq_plus1 diff_Suc_Suc drop_Suc_Cons)
      ultimately show ?thesis by auto
    next
      case (Some n)
      then consider "a = i" "b = i + n" | "(a, b) \<in> set (exec_all als (i + n) (drop n hs))"
        using "1.prems" Cons by (subst (asm) exec_all.simps) auto
      then show ?thesis
      proof cases
        case 1
        then show ?thesis using Some by simp
      next
        case 2
        from "1.IH"(2) [OF Cons Some 2] obtain m
          where m: "match_here als (drop (a - (i + n)) (drop n hs)) = Some m" "b = a + m" "i + n \<le> a" by blast
        then have "drop (a - (i + n)) (drop n hs) = drop (a - i) hs" by simp
        with m show ?thesis by auto
      qed
    qed
  qed
qed

lemma distinct_singleton_list: "distinct xs \<Longrightarrow> set xs = {k} \<Longrightarrow> xs = [k]"
proof (cases xs)
  case (Cons x ys)
  moreover assume "distinct xs" and "set xs = {k}"
  ultimately have "x = k" and "set ys \<subseteq> {k}" and "k \<notin> set ys" by auto
  then show ?thesis using Cons by (cases ys) auto
qed simp

lemma remdups_single: "remdups xs = [k] \<longleftrightarrow> set xs = {k}"
  using distinct_singleton_list [of "remdups xs" k] by (metis distinct_remdups empty_set list.simps(15) set_remdups)

lemma identify_Some_iff:
  "identify_institution (Some s) table = Some k \<longleftrightarrow> s \<noteq> [] \<and> fst ` set (outer_hits (company_hits table s)) = {k}"
  using remdups_single [of "map fst (outer_hits (company_hits table s))" k]
  by (auto simp: identify_institution_def split: list.splits)

text \<open>A hit is an als of the table, as whole words of the text, after at most two prefix letters for a Hebrew als.\<close>

definition names_alias :: "utext \<Rightarrow> utext \<Rightarrow> bool" where
  "names_alias t als \<longleftrightarrow> (\<exists>before pre after. normalize_company_text t = before @ 32 # pre @ als @ 32 # after
     \<and> list_all prefix_letter pre \<and> length pre \<le> 2 \<and> (pre \<noteq> [] \<longrightarrow> hebrew_letter (hd als)))"

lemma company_hit_names:
  assumes "(k, a, b) \<in> set (company_hits table t)"
  shows "\<exists>e \<in> set table. is_key e = k \<and> (\<exists>x \<in> set (is_aliases e). names_alias t (js_trim (normalize_company_text x)))"
proof -
  obtain p where p: "p \<in> set (build_patterns table)" "ap_key p = k"
    and hit: "(a, b) \<in> set (exec_all (ap_alias p) 0 (normalize_company_text t))"
    using assms by (auto simp: company_hits_def)
  obtain e x where e: "e \<in> set table" "x \<in> set (is_aliases e)" "is_key e = k" "ap_alias p = js_trim (normalize_company_text x)"
    using p by (auto simp: build_patterns_def Let_def split: if_splits)
  obtain n where "match_here (ap_alias p) (drop a (normalize_company_text t)) = Some n"
    using exec_all_match [OF hit] by auto
  from match_here_Some [OF this] obtain pre rest where m:
    "drop a (normalize_company_text t) = 32 # pre @ ap_alias p @ 32 # rest" "list_all prefix_letter pre" "length pre \<le> 2"
    "pre \<noteq> [] \<longrightarrow> hebrew_letter (hd (ap_alias p))" by blast
  then have "normalize_company_text t = take a (normalize_company_text t) @ 32 # pre @ ap_alias p @ 32 # rest"
    by (metis append_take_drop_id)
  with m have "names_alias t (ap_alias p)" unfolding names_alias_def by blast
  with e show ?thesis by auto
qed

lemma outer_hit_exists:
  assumes "h \<in> set hs"
  shows "\<exists>p \<in> set (outer_hits hs). p = h \<or> inside_longer h p"
  using assms
proof (induction "Max ((\<lambda>(_, a, b). b - a) ` set hs) - (snd (snd h) - fst (snd h))" arbitrary: h rule: less_induct)
  case less
  show ?case
  proof (cases "h \<in> set (outer_hits hs)")
    case False
    then obtain p where p: "p \<in> set hs" "inside_longer h p"
      using less.prems by (auto simp: outer_hits_def list_ex_iff)
    obtain k a b where h: "h = (k, a, b)" by (cases h)
    obtain k' c d where pp: "p = (k', c, d)" by (cases p)
    have "d - c \<le> Max ((\<lambda>(_, a, b). b - a) ` set hs)"
      using p(1) by (intro Max_ge) (auto simp: pp image_iff intro!: bexI [of _ p])
    moreover have "b - a < d - c" using p(2) by (simp add: h pp inside_longer_def)
    ultimately have "Max ((\<lambda>(_, a, b). b - a) ` set hs) - (snd (snd p) - fst (snd p))
        < Max ((\<lambda>(_, a, b). b - a) ` set hs) - (snd (snd h) - fst (snd h))"
      by (simp add: h pp)
    from less.hyps [OF this p(1)] obtain q where q: "q \<in> set (outer_hits hs)" "q = p \<or> inside_longer p q" by blast
    then have "inside_longer h q" using p(2) by (auto simp: inside_longer_def split: prod.splits)
    then show ?thesis using q(1) by blast
  qed blast
qed

section \<open>Properties\<close>

text \<open>The company a text is said to name is really written in it: one of that company's aliases from the table stands in the normalised text as whole words (a Hebrew als after at most two prefix letters), and every mention of any other company lies inside a longer mention of this one.\<close>

theorem identified_company_written:
  assumes "identify_institution (Some t) table = Some k"
  shows "(\<exists>e \<in> set table. is_key e = k \<and> (\<exists>x \<in> set (is_aliases e). names_alias t (js_trim (normalize_company_text x))))
    \<and> (\<forall>h \<in> set (company_hits table t). fst h \<noteq> k \<longrightarrow> (\<exists>p \<in> set (company_hits table t). fst p = k \<and> inside_longer h p))"
proof (intro conjI ballI impI)
  have only: "fst ` set (outer_hits (company_hits table t)) = {k}"
    using assms by (simp add: identify_Some_iff)
  then obtain h where "h \<in> set (outer_hits (company_hits table t))" and "fst h = k" by (metis imageE insertI1)
  moreover obtain a b where "h = (k, a, b)" using \<open>fst h = k\<close> by (cases h) auto
  ultimately have "(k, a, b) \<in> set (company_hits table t)" by (simp add: outer_hits_def)
  from company_hit_names [OF this]
  show "\<exists>e \<in> set table. is_key e = k \<and> (\<exists>x \<in> set (is_aliases e). names_alias t (js_trim (normalize_company_text x)))" .
  fix h assume "h \<in> set (company_hits table t)" and "fst h \<noteq> k"
  from outer_hit_exists [OF this(1)] obtain p
    where p: "p \<in> set (outer_hits (company_hits table t))" "p = h \<or> inside_longer h p" by blast
  then have "fst p = k" using only by blast
  then show "\<exists>p \<in> set (company_hits table t). fst p = k \<and> inside_longer h p"
    using p \<open>fst h \<noteq> k\<close> by (auto simp: outer_hits_def)
qed

text \<open>A table of two companies, one named inside the other's name.\<close>

definition demo_table :: "institution list" where
  "demo_table = [\<lparr>is_key = ''a'', is_name = jstr ''A'', is_name_he = None, is_aliases = [jstr ''ab'']\<rparr>,
     \<lparr>is_key = ''b'', is_name = jstr ''B'', is_name_he = None, is_aliases = [jstr ''ab c'']\<rparr>]"

lemma demo_identified: "identify_institution (Some (jstr ''AB-c'')) demo_table = Some ''b''"
  by (simp add: identify_institution_def company_hits_def build_patterns_def demo_table_def normalize_company_text_def
      company_words_def lower_unit_def invisible_def hebrew_point_def word_unit_def hebrew_letter_def js_trim_def js_space_def
      exec_all.simps match_here_def match_with_def outer_hits_def inside_longer_def Let_def)

lemma identified_company_written_witness:
  "\<exists>e \<in> set demo_table. is_key e = ''b'' \<and> (\<exists>x \<in> set (is_aliases e). names_alias (jstr ''AB-c'') (js_trim (normalize_company_text x)))"
  using identified_company_written [OF demo_identified] by blast

text \<open>Code never ties a file of one identified company to an item that names another: the tie is allowed exactly when the companies agree, when the item names none the table knows, or, with the client's quoted words, when the file's own company cannot be identified.\<close>

theorem tie_never_across_companies:
  "tie_allowed_by_company (compare_companies issuer item table) evidence \<longleftrightarrow>
     (case identify_institution issuer table of None \<Rightarrow> evidence
      | Some f \<Rightarrow> identify_institution (Some item) table = None \<or> identify_institution (Some item) table = Some f)"
  by (auto simp: compare_companies_def tie_allowed_by_company_def split: option.split)

end
