(* ===== verification/Identity.thy ===== *)
theory Identity
  imports Prelude
begin

text \<open>
  Whom a document is about (\<open>declarationOfCapital/spouseIdentity.ts\<close>): the
  client's one spouse and the trust order of its sources, Israeli id numbers,
  the loose comparison of names, and the rule that resolves the owners a document
  names against the client and the spouse. The Hebrew texts of the trace (reasons,
  observed and expected values) are left out: a check is its key and its outcome.

  The lower-case map of Unicode is an argument (\<open>lower\<close>); ids, names and texts
  are lists of UTF-16 units.
\<close>

section \<open>The spouse on file\<close>

datatype spouse_source = FromQuestionnaire | FromCrm | FromDocument
datatype marital_status = Married | NotMarried

record spouse_on_file =
  sp_name :: "utext option"
  sp_id :: "utext option"
  sp_name_source :: "spouse_source option"
  sp_id_source :: "spouse_source option"

definition EMPTY_SPOUSE :: spouse_on_file where
  "EMPTY_SPOUSE = \<lparr>sp_name = None, sp_id = None, sp_name_source = None, sp_id_source = None\<rparr>"

fun TRUST :: "spouse_source \<Rightarrow> nat" where
  "TRUST FromQuestionnaire = 3"
| "TRUST FromCrm = 2"
| "TRUST FromDocument = 1"

definition non_empty :: "utext option \<Rightarrow> utext option" where
  "non_empty v = (case v of None \<Rightarrow> None | Some s \<Rightarrow> if js_trim s \<noteq> [] then Some (js_trim s) else None)"

text \<open>The stored JSON of a spouse: the four values as texts when they are texts, \<open>None\<close> for anything else.\<close>

record stored_spouse =
  st_name :: "utext option"
  st_id :: "utext option"
  st_name_source :: "utext option"
  st_id_source :: "utext option"

definition source_text :: "spouse_source \<Rightarrow> utext" where
  "source_text s = (case s of FromQuestionnaire \<Rightarrow> jstr ''questionnaire'' | FromCrm \<Rightarrow> jstr ''crm'' | FromDocument \<Rightarrow> jstr ''document'')"

definition source_of_text :: "utext option \<Rightarrow> spouse_source option" where
  "source_of_text v = (case v of None \<Rightarrow> None
     | Some t \<Rightarrow> List.find (\<lambda>s. source_text s = t) [FromQuestionnaire, FromCrm, FromDocument])"

definition read_spouse :: "stored_spouse option \<Rightarrow> spouse_on_file" where
  "read_spouse raw = (case raw of None \<Rightarrow> EMPTY_SPOUSE
     | Some r \<Rightarrow> (let name = non_empty (st_name r); i = non_empty (st_id r)
         in \<lparr>sp_name = name, sp_id = i,
              sp_name_source = (if name \<noteq> None then source_of_text (st_name_source r) else None),
              sp_id_source = (if i \<noteq> None then source_of_text (st_id_source r) else None)\<rparr>))"

definition spouse_to_stored :: "spouse_on_file \<Rightarrow> stored_spouse" where
  "spouse_to_stored s = \<lparr>st_name = sp_name s, st_id = sp_id s,
     st_name_source = map_option source_text (sp_name_source s), st_id_source = map_option source_text (sp_id_source s)\<rparr>"

definition read_marital_status :: "utext option \<Rightarrow> marital_status option" where
  "read_marital_status raw = (if raw = Some (jstr ''married'') then Some Married
     else if raw = Some (jstr ''not_married'') then Some NotMarried else None)"

definition same_spouse :: "spouse_on_file \<Rightarrow> spouse_on_file \<Rightarrow> bool" where
  "same_spouse a b = (sp_name a = sp_name b \<and> sp_id a = sp_id b \<and> sp_name_source a = sp_name_source b \<and> sp_id_source a = sp_id_source b)"

definition replaces :: "spouse_source \<Rightarrow> utext option \<Rightarrow> spouse_source option \<Rightarrow> bool" where
  "replaces src cur cur_src = ((case cur of None \<Rightarrow> True | Some t \<Rightarrow> t = [])
     \<or> (case cur_src of None \<Rightarrow> True | Some c \<Rightarrow> TRUST c < TRUST src))"

definition merge_spouse :: "spouse_on_file \<Rightarrow> utext option \<Rightarrow> utext option \<Rightarrow> spouse_source \<Rightarrow> spouse_on_file" where
  "merge_spouse cur name_in id_in src =
     (let n1 = (case non_empty name_in of None \<Rightarrow> cur
            | Some n \<Rightarrow> if replaces src (sp_name cur) (sp_name_source cur)
                then cur\<lparr>sp_name := Some n, sp_name_source := Some src\<rparr> else cur)
      in (case non_empty id_in of None \<Rightarrow> n1
            | Some i \<Rightarrow> if replaces src (sp_id cur) (sp_id_source cur)
                then n1\<lparr>sp_id := Some i, sp_id_source := Some src\<rparr> else n1))"

section \<open>Id numbers\<close>

definition is_digit :: "nat \<Rightarrow> bool" where
  "is_digit c = (48 \<le> c \<and> c \<le> 57)"

definition pad_start :: "nat \<Rightarrow> nat \<Rightarrow> utext \<Rightarrow> utext" where
  "pad_start n c s = replicate (n - length s) c @ s"

definition normalize_id :: "utext option \<Rightarrow> utext" where
  "normalize_id raw =
     (let digits = filter is_digit (case raw of None \<Rightarrow> [] | Some s \<Rightarrow> s) in
      if digits = [] then digits
      else (let significant = dropWhile (\<lambda>c. c = 48) digits
            in if 9 < length significant then digits else pad_start 9 48 significant))"

text \<open>The check digit: weights 1 and 2 in turn, the digits of a product added.\<close>

definition luhn_value :: "nat \<Rightarrow> nat \<Rightarrow> nat" where
  "luhn_value i d = (let v = d * (if i mod 2 = 0 then 1 else 2) in if 9 < v then v - 9 else v)"

fun luhn_sum :: "nat \<Rightarrow> utext \<Rightarrow> nat" where
  "luhn_sum i [] = 0"
| "luhn_sum i (c # cs) = luhn_value i (c - 48) + luhn_sum (i + 1) cs"

definition is_valid_israeli_id :: "utext option \<Rightarrow> bool" where
  "is_valid_israeli_id i =
     (let digits = normalize_id i in
      if digits = [] \<or> 9 < length digits then False
      else luhn_sum 0 (pad_start 9 48 digits) mod 10 = 0)"

section \<open>Names\<close>

definition name_punct :: "nat \<Rightarrow> bool" where
  "name_punct c = (c \<in> {34, 39, 96, 1524, 1523, 46, 44, 40, 41, 45})"

text \<open>\<open>s.split(/\s+/)\<close> without the empty pieces, which the next filter drops.\<close>

fun split_ws_from :: "utext \<Rightarrow> utext \<Rightarrow> utext list" where
  "split_ws_from acc [] = (if acc = [] then [] else [rev acc])"
| "split_ws_from acc (c # cs) =
     (if js_space c then (if acc = [] then [] else [rev acc]) @ split_ws_from [] cs else split_ws_from (c # acc) cs)"

definition name_tokens :: "(utext \<Rightarrow> utext) \<Rightarrow> utext \<Rightarrow> utext list" where
  "name_tokens lower name =
     (let printed = filter (\<lambda>t. 2 \<le> length t) (split_ws_from [] (map (\<lambda>c. if name_punct c then 32 else c) (lower name)))
      in printed @ map tl (filter (\<lambda>t. hd t = 1493 \<and> 3 \<le> length t) printed))"

definition shared_name_tokens :: "(utext \<Rightarrow> utext) \<Rightarrow> utext \<Rightarrow> utext \<Rightarrow> nat" where
  "shared_name_tokens lower a b = length (remdups (filter (\<lambda>t. t \<in> set (name_tokens lower b)) (name_tokens lower a)))"

definition names_loosely_match :: "(utext \<Rightarrow> utext) \<Rightarrow> utext \<Rightarrow> utext \<Rightarrow> bool" where
  "names_loosely_match lower a b = (0 < shared_name_tokens lower a b)"

section \<open>One party\<close>

datatype party_role = Owner | Counterparty | OtherRole
datatype party_kind = PClient | PSpouse | PAdoptable | PNobody

record party_input =
  pi_name :: "utext option"
  pi_printed_id :: utext
  pi_id_valid :: bool
  pi_role :: party_role

record identity_context =
  ic_client_name :: utext
  ic_client_id :: utext
  ic_spouse :: spouse_on_file
  ic_marital :: "marital_status option"
  ic_subject_match :: bool

datatype nobody_reason = BadChecksum | ThirdPerson | RegisteredUnmarried | ContradictsSpouseName

record resolved_party =
  rp_party :: party_input
  rp_kind :: party_kind
  rp_uncompared :: bool
  rp_reason :: "nobody_reason option"

definition truthy_name :: "utext option \<Rightarrow> bool" where
  "truthy_name n = (n \<noteq> None \<and> n \<noteq> Some [])"

definition party_named :: "(utext \<Rightarrow> utext) \<Rightarrow> party_input \<Rightarrow> utext option \<Rightarrow> bool" where
  "party_named lower p n = (truthy_name (pi_name p) \<and> truthy_name n \<and> names_loosely_match lower (the (pi_name p)) (the n))"

definition kind_by_name :: "(utext \<Rightarrow> utext) \<Rightarrow> party_input \<Rightarrow> identity_context \<Rightarrow> party_kind" where
  "kind_by_name lower p ctx =
     (if truthy_name (pi_name p) \<and> names_loosely_match lower (the (pi_name p)) (ic_client_name ctx) then PClient
      else if party_named lower p (sp_name (ic_spouse ctx)) then PSpouse
      else PNobody)"

definition resolve_party :: "(utext \<Rightarrow> utext) \<Rightarrow> party_input \<Rightarrow> identity_context \<Rightarrow> resolved_party" where
  "resolve_party lower p ctx =
     (let spouse_id = normalize_id (sp_id (ic_spouse ctx));
          spouse_name = sp_name (ic_spouse ctx);
          printed = normalize_id (Some (pi_printed_id p));
          answer = (\<lambda>k u r. \<lparr>rp_party = p, rp_kind = k, rp_uncompared = u, rp_reason = r\<rparr>)
      in if printed = [] then answer (kind_by_name lower p ctx) False None
         else if ic_client_id ctx \<noteq> [] \<and> printed = ic_client_id ctx then answer PClient False None
         else if spouse_id \<noteq> [] \<and> printed = spouse_id then answer PSpouse False None
         else if ic_client_id ctx = [] then answer (kind_by_name lower p ctx) True None
         else if \<not> pi_id_valid p then answer PNobody False (Some BadChecksum)
         else if spouse_id \<noteq> [] then answer PNobody False (Some ThirdPerson)
         else if ic_marital ctx = Some NotMarried then answer PNobody False (Some RegisteredUnmarried)
         else if truthy_name spouse_name \<and> \<not> party_named lower p spouse_name then answer PNobody False (Some ContradictsSpouseName)
         else answer PAdoptable False None)"

section \<open>The document's owners\<close>

text \<open>\<open>spouseName ?? candidate.party.name\<close> falls through on null only.\<close>

definition choose_spouse_to_adopt ::
  "(utext \<Rightarrow> utext) \<Rightarrow> resolved_party list \<Rightarrow> identity_context \<Rightarrow> (utext \<times> utext option) option"
where
  "choose_spouse_to_adopt lower owners ctx =
     (case filter (\<lambda>r. rp_kind r = PAdoptable) owners of
        [cand] \<Rightarrow>
          (let spouse_name = sp_name (ic_spouse ctx) in
           if length owners = 1 \<or> party_named lower (rp_party cand) spouse_name
           then Some (normalize_id (Some (pi_printed_id (rp_party cand))),
                      (case spouse_name of Some n \<Rightarrow> Some n | None \<Rightarrow> pi_name (rp_party cand)))
           else None)
      | _ \<Rightarrow> None)"

datatype matched_as = MatchedClient | MatchedSpouse | MatchedBoth

record check_result =
  ck_key :: string
  ck_passed :: "bool option"

definition entry :: "string \<Rightarrow> bool \<Rightarrow> check_result" where
  "entry k b = \<lparr>ck_key = k, ck_passed = Some b\<rparr>"

definition skipped :: "string \<Rightarrow> check_result" where
  "skipped k = \<lparr>ck_key = k, ck_passed = None\<rparr>"

datatype trace_resolution = TClient | TSpouse | TAdopted | TCoOwner | TUncompared | TNone

record identity_verdict =
  iv_matched :: "matched_as option"
  iv_adopt :: "(utext \<times> utext option) option"
  iv_checks :: "check_result list"
  iv_parties :: "trace_resolution list"

definition resolved_owners :: "(utext \<Rightarrow> utext) \<Rightarrow> party_input list \<Rightarrow> identity_context \<Rightarrow> resolved_party list" where
  "resolved_owners lower parties ctx = map (\<lambda>p. resolve_party lower p ctx) (filter (\<lambda>p. pi_role p = Owner) parties)"

definition matched_owners :: "resolved_party list \<Rightarrow> (utext \<times> utext option) option \<Rightarrow> matched_as option" where
  "matched_owners owners adopt =
     (let client_hit = list_ex (\<lambda>r. rp_kind r = PClient) owners;
          spouse_hit = list_ex (\<lambda>r. rp_kind r = PSpouse) owners \<or> adopt \<noteq> None
      in if client_hit \<and> spouse_hit then Some MatchedBoth
         else if client_hit then Some MatchedClient
         else if spouse_hit then Some MatchedSpouse else None)"

text \<open>
  When a spouse is adopted the adopted owner is the only adoptable one, so the
  owners that are adoptable and not it exist only when nobody is adopted.
\<close>

definition is_co_owner :: "(utext \<times> utext option) option \<Rightarrow> resolved_party \<Rightarrow> bool" where
  "is_co_owner adopt r = (rp_kind r = PNobody \<or> (rp_kind r = PAdoptable \<and> adopt = None))"

definition resolve_document_owners ::
  "(utext \<Rightarrow> utext) \<Rightarrow> party_input list \<Rightarrow> identity_context \<Rightarrow> identity_verdict"
where
  "resolve_document_owners lower parties ctx =
     (let owners = resolved_owners lower parties ctx;
          adopt = choose_spouse_to_adopt lower owners ctx;
          matched = matched_owners owners adopt;
          co_owners = (if matched \<noteq> None then filter (is_co_owner adopt) owners else []);
          with_id = filter (\<lambda>r. pi_printed_id (rp_party r) \<noteq> []) owners;
          comparable = list_ex (\<lambda>r. \<not> rp_uncompared r) with_id;
          subject = (if ic_subject_match ctx then [entry ''subject'' (owners \<noteq> [] \<and> matched \<noteq> None)] else []);
          ids = (if with_id = [] then []
                 else if matched \<noteq> None \<and> comparable
                   then entry ''id_matches_client'' True # (if adopt \<noteq> None then [entry ''spouse_adopted'' True] else [])
                 else if ic_client_id ctx \<noteq> [] then [entry ''id_matches_client'' False]
                 else [entry ''client_id_on_file'' False]);
          co = (if co_owners \<noteq> [] then [entry ''co_owners'' True] else []);
          trace = (\<lambda>p. if pi_role p \<noteq> Owner then TNone
             else (let r = resolve_party lower p ctx in
               if adopt \<noteq> None \<and> rp_kind r = PAdoptable then TAdopted
               else if rp_kind r = PClient then TClient
               else if rp_kind r = PSpouse then TSpouse
               else if matched \<noteq> None \<and> is_co_owner adopt r then TCoOwner
               else if rp_uncompared r then TUncompared else TNone))
      in \<lparr>iv_matched = matched, iv_adopt = adopt, iv_checks = subject @ ids @ co, iv_parties = map trace parties\<rparr>)"

section \<open>Lemmas on id numbers\<close>

lemma pad_strip: "length s = 9 \<Longrightarrow> pad_start 9 48 (dropWhile (\<lambda>c. c = 48) s) = s"
proof -
  assume l: "length s = 9"
  have "takeWhile (\<lambda>c. c = 48) s = replicate (length (takeWhile (\<lambda>c. c = 48) s)) 48"
    using set_takeWhileD by (intro replicate_eqI) fastforce+
  moreover have "length (takeWhile (\<lambda>c. c = 48) s) + length (dropWhile (\<lambda>c. c = 48) s) = 9"
    using l by (metis length_append takeWhile_dropWhile_id)
  ultimately show ?thesis
    unfolding pad_start_def by (metis add_diff_cancel_right' takeWhile_dropWhile_id)
qed

lemma normalize_id_nine: "length s = 9 \<Longrightarrow> list_all is_digit s \<Longrightarrow> normalize_id (Some s) = s"
proof -
  assume l: "length s = 9" and d: "list_all is_digit s"
  then have f: "filter is_digit s = s" by (simp add: list_all_iff)
  moreover have "length (dropWhile (\<lambda>c. c = 48) s) \<le> 9" using l by (metis length_dropWhile_le)
  moreover have "s \<noteq> []" using l by auto
  ultimately show ?thesis using pad_strip [OF l] by (simp add: normalize_id_def Let_def)
qed

lemma normalize_id_digits: "list_all is_digit (normalize_id raw)"
proof -
  define ds where "ds = filter is_digit (case raw of None \<Rightarrow> [] | Some s \<Rightarrow> s)"
  have ds: "\<forall>c \<in> set ds. is_digit c" by (simp add: ds_def)
  moreover have "\<forall>c \<in> set (pad_start 9 48 (dropWhile (\<lambda>c. c = 48) ds)). is_digit c"
  proof
    fix c assume "c \<in> set (pad_start 9 48 (dropWhile (\<lambda>c. c = 48) ds))"
    then have "c = 48 \<or> c \<in> set (dropWhile (\<lambda>c. c = 48) ds)" unfolding pad_start_def set_append by auto
    then show "is_digit c" using ds set_dropWhileD [of c "\<lambda>c. c = 48" ds] by (auto simp: is_digit_def)
  qed
  moreover have "normalize_id raw \<in> {ds, pad_start 9 48 (dropWhile (\<lambda>c. c = 48) ds)}"
    unfolding normalize_id_def ds_def [symmetric] Let_def by (simp del: dropWhile_eq_Nil_conv)
  ultimately show ?thesis by (auto simp: list_all_iff)
qed

lemma normalize_id_long:
  "normalize_id raw = [] \<or> 9 \<le> length (normalize_id raw)"
proof -
  have "length (dropWhile P s) \<le> length s" for P and s :: utext by (rule length_dropWhile_le)
  then show ?thesis
    by (auto simp: normalize_id_def Let_def pad_start_def) (meson le_trans less_imp_le_nat)
qed

lemma normalize_id_idem: "normalize_id (Some (normalize_id raw)) = normalize_id raw"
proof -
  define ds where "ds = filter is_digit (case raw of None \<Rightarrow> [] | Some s \<Rightarrow> s)"
  have n: "normalize_id raw = (if ds = [] then ds else if 9 < length (dropWhile (\<lambda>c. c = 48) ds) then ds
      else pad_start 9 48 (dropWhile (\<lambda>c. c = 48) ds))"
    by (simp add: normalize_id_def ds_def Let_def)
  have f: "filter is_digit ds = ds" by (simp add: ds_def)
  show ?thesis
  proof (cases "ds = [] \<or> 9 < length (dropWhile (\<lambda>c. c = 48) ds)")
    case True
    then have "normalize_id raw = ds" by (auto simp: n)
    then show ?thesis using True f by (auto simp: normalize_id_def Let_def)
  next
    case False
    then have "length (normalize_id raw) = 9" by (simp add: n pad_start_def)
    then show ?thesis by (simp add: normalize_id_nine normalize_id_digits)
  qed
qed

lemma luhn_value_small: "d < 10 \<Longrightarrow> luhn_value i d < 10"
  by (auto simp: luhn_value_def Let_def)

lemma luhn_value_inj: "a < 10 \<Longrightarrow> b < 10 \<Longrightarrow> luhn_value i a = luhn_value i b \<Longrightarrow> a = b"
  by (auto simp: luhn_value_def Let_def split: if_splits) presburger+

lemma luhn_sum_update:
  "k < length xs \<Longrightarrow> luhn_sum i (xs[k := c]) + luhn_value (i + k) (xs ! k - 48) = luhn_sum i xs + luhn_value (i + k) (c - 48)"
proof (induction i xs arbitrary: k rule: luhn_sum.induct)
  case (2 i x xs)
  show ?case
  proof (cases k)
    case (Suc j)
    then show ?thesis using "2.IH" [of j] "2.prems" by simp
  qed simp
qed simp

lemma valid_nine:
  "length s = 9 \<Longrightarrow> list_all is_digit s \<Longrightarrow> is_valid_israeli_id (Some s) \<longleftrightarrow> luhn_sum 0 s mod 10 = 0"
  by (auto simp: is_valid_israeli_id_def Let_def normalize_id_nine pad_start_def)

section \<open>Properties of ids and of the spouse on file\<close>

text \<open>The check digit catches every single wrong digit: an id number of nine digits that differs from a valid one in exactly one place is not valid.\<close>

theorem id_checksum_detects_one_error:
  assumes "length s = 9" and "list_all is_digit s" and "is_valid_israeli_id (Some s)"
    and "k < 9" and "is_digit c" and "c \<noteq> s ! k"
  shows "\<not> is_valid_israeli_id (Some (s[k := c]))"
proof
  assume v: "is_valid_israeli_id (Some (s[k := c]))"
  have d: "list_all is_digit (s[k := c])"
    using assms(2,5) by (auto simp: list_all_iff dest!: set_update_subset_insert [THEN subsetD])
  define a b where "a = s ! k - 48" and "b = c - 48"
  have sk: "is_digit (s ! k)" using assms(1,2,4) by (simp add: list_all_iff)
  have ab: "a < 10" "b < 10" "a \<noteq> b" using sk assms(5,6) by (auto simp: a_def b_def is_digit_def)
  have "luhn_sum 0 s mod 10 = 0" and "luhn_sum 0 (s[k := c]) mod 10 = 0"
    using assms(1-3) v d by (simp_all add: valid_nine)
  moreover have "luhn_sum 0 (s[k := c]) + luhn_value k a = luhn_sum 0 s + luhn_value k b"
    using luhn_sum_update [of k s 0 c] assms(1,4) by (simp add: a_def b_def)
  ultimately have "luhn_value k a mod 10 = luhn_value k b mod 10" by (metis add_0 mod_add_left_eq)
  then have "luhn_value k a = luhn_value k b" using ab luhn_value_small by (metis mod_less)
  then show False using luhn_value_inj ab by blast
qed

lemma id_checksum_detects_one_error_witness:
  "\<not> is_valid_israeli_id (Some ((jstr ''123456782'')[4 := 54]))"
proof -
  have "is_valid_israeli_id (Some (jstr ''123456782''))"
    by (simp add: valid_nine is_digit_def luhn_value_def)
  then show ?thesis
    by (intro id_checksum_detects_one_error) (simp_all add: is_digit_def)
qed

text \<open>An id compares equal however it is zero-padded: dropping or adding leading zeros to an id of at most nine significant digits does not change its normal form, which is nine digits long.\<close>

theorem id_padding_irrelevant:
  assumes "list_all is_digit s" and "s \<noteq> []" and "length (dropWhile (\<lambda>c. c = 48) s) \<le> 9"
  shows "normalize_id (Some (replicate n 48 @ s)) = normalize_id (Some s) \<and> length (normalize_id (Some s)) = 9"
proof -
  have f: "filter is_digit s = s" using assms(1) by (simp add: list_all_iff)
  have g: "filter is_digit (replicate n 48) = replicate n 48" by (simp add: is_digit_def)
  have "dropWhile (\<lambda>c. c = 48) (replicate n 48 @ s) = dropWhile (\<lambda>c. c = 48) s" by (induction n) auto
  then show ?thesis using assms(2,3) by (simp add: normalize_id_def Let_def f g pad_start_def)
qed

lemma id_padding_irrelevant_witness:
  "normalize_id (Some (replicate 8 48 @ jstr ''25699448'')) = normalize_id (Some (jstr ''25699448''))"
  using id_padding_irrelevant [of "jstr ''25699448''" 8] by (simp add: is_digit_def)

text \<open>What is on file about the spouse is never displaced by a less trusted source: merging a value keeps every stored name and id whose source is at least as trusted, an absent or blank value changes nothing, and merging the same value from the same source again changes nothing.\<close>

theorem spouse_trust_never_drops:
  "(truthy_name (sp_name cur) \<and> sp_name_source cur = Some s \<and> TRUST src \<le> TRUST s
      \<longrightarrow> sp_name (merge_spouse cur n i src) = sp_name cur \<and> sp_name_source (merge_spouse cur n i src) = Some s)
   \<and> (truthy_name (sp_id cur) \<and> sp_id_source cur = Some s' \<and> TRUST src \<le> TRUST s'
      \<longrightarrow> sp_id (merge_spouse cur n i src) = sp_id cur \<and> sp_id_source (merge_spouse cur n i src) = Some s')
   \<and> (non_empty n = None \<and> non_empty i = None \<longrightarrow> merge_spouse cur n i src = cur)
   \<and> merge_spouse (merge_spouse cur n i src) n i src = merge_spouse cur n i src"
proof (intro conjI impI)
  show "merge_spouse (merge_spouse cur n i src) n i src = merge_spouse cur n i src"
    by (auto simp: merge_spouse_def replaces_def Let_def split: option.splits)
qed (auto simp: merge_spouse_def replaces_def truthy_name_def Let_def split: option.splits)

lemma spouse_trust_never_drops_witness:
  "sp_name (merge_spouse \<lparr>sp_name = Some [1488, 1489], sp_id = None, sp_name_source = Some FromQuestionnaire, sp_id_source = None\<rparr>
     (Some [1490]) None FromDocument) = Some [1488, 1489]"
  using spouse_trust_never_drops [of "\<lparr>sp_name = Some [1488, 1489], sp_id = None, sp_name_source = Some FromQuestionnaire, sp_id_source = None\<rparr>"
      FromQuestionnaire FromDocument "Some [1490]" None FromCrm]
  by (simp add: truthy_name_def)

section \<open>Adoption of a spouse\<close>

lemma js_trim_digits: "list_all is_digit s \<Longrightarrow> js_trim s = s"
proof -
  assume d: "list_all is_digit s"
  have nd: "\<not> js_space c" if "c \<in> set s" for c
    using d that by (auto simp: js_space_def is_digit_def list_all_iff)
  have "dropWhile js_space s = s" using nd by (cases s) auto
  moreover have "dropWhile js_space (rev s) = rev s" using nd by (cases s rule: rev_cases) auto
  ultimately show ?thesis by (simp add: js_trim_def)
qed

lemma non_empty_digits: "i \<noteq> [] \<Longrightarrow> list_all is_digit i \<Longrightarrow> non_empty (Some i) = Some i"
  by (simp add: non_empty_def js_trim_digits)

lemma resolved_adoptable:
  "rp_kind (resolve_party lower p ctx) = PAdoptable \<Longrightarrow>
     normalize_id (Some (pi_printed_id p)) \<noteq> [] \<and> pi_id_valid p
   \<and> ic_client_id ctx \<noteq> [] \<and> normalize_id (Some (pi_printed_id p)) \<noteq> ic_client_id ctx
   \<and> normalize_id (sp_id (ic_spouse ctx)) = [] \<and> ic_marital ctx \<noteq> Some NotMarried
   \<and> (truthy_name (sp_name (ic_spouse ctx)) \<longrightarrow> party_named lower p (sp_name (ic_spouse ctx)))"
  by (simp add: resolve_party_def kind_by_name_def Let_def split: if_splits)

lemma resolved_party [simp]: "rp_party (resolve_party lower p ctx) = p"
  by (simp add: resolve_party_def Let_def)

lemma no_adoptable_with_spouse_id:
  "normalize_id (sp_id (ic_spouse ctx)) \<noteq> [] \<Longrightarrow> rp_kind (resolve_party lower p ctx) \<noteq> PAdoptable"
  using resolved_adoptable by blast

lemma chosen_spouse:
  assumes "choose_spouse_to_adopt lower (resolved_owners lower ps ctx) ctx = Some (i, n)"
  shows "\<exists>p \<in> set ps. pi_role p = Owner \<and> rp_kind (resolve_party lower p ctx) = PAdoptable
      \<and> i = normalize_id (Some (pi_printed_id p))
      \<and> n = (case sp_name (ic_spouse ctx) of Some m \<Rightarrow> Some m | None \<Rightarrow> pi_name p)
      \<and> (\<forall>q \<in> set ps. pi_role q = Owner \<and> rp_kind (resolve_party lower q ctx) = PAdoptable \<longrightarrow> q = p)"
proof -
  obtain c where f: "filter (\<lambda>r. rp_kind r = PAdoptable) (resolved_owners lower ps ctx) = [c]"
    and i: "i = normalize_id (Some (pi_printed_id (rp_party c)))"
    and n: "n = (case sp_name (ic_spouse ctx) of Some m \<Rightarrow> Some m | None \<Rightarrow> pi_name (rp_party c))"
    using assms by (auto simp: choose_spouse_to_adopt_def Let_def split: list.splits if_splits)
  have f': "{r \<in> set (resolved_owners lower ps ctx). rp_kind r = PAdoptable} = {c}"
    using arg_cong [OF f, of set] by simp
  have only: "r = c" if "r \<in> set (resolved_owners lower ps ctx)" "rp_kind r = PAdoptable" for r
    using that f' by blast
  have "c \<in> set (resolved_owners lower ps ctx) \<and> rp_kind c = PAdoptable"
    using f' by blast
  then obtain p where p: "p \<in> set ps" "pi_role p = Owner" "c = resolve_party lower p ctx" "rp_kind c = PAdoptable"
    by (auto simp: resolved_owners_def)
  have same: "q = p" if "q \<in> set ps" "pi_role q = Owner" "rp_kind (resolve_party lower q ctx) = PAdoptable" for q
  proof -
    have "resolve_party lower q ctx \<in> set (resolved_owners lower ps ctx)" using that by (simp add: resolved_owners_def)
    then have "resolve_party lower q ctx = resolve_party lower p ctx" using only that(3) p(3) by metis
    then show ?thesis using resolved_party by metis
  qed
  have "i = normalize_id (Some (pi_printed_id p))" and "n = (case sp_name (ic_spouse ctx) of Some m \<Rightarrow> Some m | None \<Rightarrow> pi_name p)"
    and "rp_kind (resolve_party lower p ctx) = PAdoptable"
    using i n p(4) unfolding p(3) resolved_party by blast+
  then show ?thesis using p(1,2) same by blast
qed

text \<open>A printed id is adopted as the spouse's only when the client's own id is on file, no spouse id is on file, the client is not registered as unmarried, the id differs from the client's and has a valid check digit, any spouse name on file agrees, and no other owner of the document could have been adopted. Once it is stored, the same owner resolves to the spouse in the next document and no document adopts anybody again.\<close>

theorem spouse_adoption_guarded:
  assumes "iv_adopt (resolve_document_owners lower ps ctx) = Some (i, n)"
  shows "\<exists>p \<in> set ps. pi_role p = Owner \<and> i = normalize_id (Some (pi_printed_id p)) \<and> i \<noteq> [] \<and> pi_id_valid p
     \<and> ic_client_id ctx \<noteq> [] \<and> i \<noteq> ic_client_id ctx \<and> normalize_id (sp_id (ic_spouse ctx)) = []
     \<and> ic_marital ctx \<noteq> Some NotMarried
     \<and> (truthy_name (sp_name (ic_spouse ctx)) \<longrightarrow> party_named lower p (sp_name (ic_spouse ctx)))
     \<and> (\<forall>q \<in> set ps. pi_role q = Owner \<and> rp_kind (resolve_party lower q ctx) = PAdoptable \<longrightarrow> q = p)
     \<and> (sp_id (ic_spouse ctx) = None \<longrightarrow>
         (let ctx' = ctx\<lparr>ic_spouse := merge_spouse (ic_spouse ctx) n (Some i) FromDocument\<rparr>
          in rp_kind (resolve_party lower p ctx') = PSpouse
             \<and> (\<forall>ps'. iv_adopt (resolve_document_owners lower ps' ctx') = None)))"
  unfolding Let_def
proof -
  have ch: "choose_spouse_to_adopt lower (resolved_owners lower ps ctx) ctx = Some (i, n)"
    using assms by (simp add: resolve_document_owners_def Let_def)
  obtain p where p: "p \<in> set ps" "pi_role p = Owner" "rp_kind (resolve_party lower p ctx) = PAdoptable"
      "i = normalize_id (Some (pi_printed_id p))"
      "\<forall>q \<in> set ps. pi_role q = Owner \<and> rp_kind (resolve_party lower q ctx) = PAdoptable \<longrightarrow> q = p"
    using chosen_spouse [OF ch] by blast
  note g = resolved_adoptable [OF p(3), folded p(4)]
  let ?ctx = "ctx\<lparr>ic_spouse := merge_spouse (ic_spouse ctx) n (Some i) FromDocument\<rparr>"
  have next_time: "rp_kind (resolve_party lower p ?ctx) = PSpouse
      \<and> (\<forall>ps'. iv_adopt (resolve_document_owners lower ps' ?ctx) = None)" if none: "sp_id (ic_spouse ctx) = None"
  proof -
    have "sp_id (ic_spouse ?ctx) = Some i"
      using non_empty_digits [of i] g none normalize_id_digits [of "Some (pi_printed_id p)", folded p(4)]
      by (simp add: merge_spouse_def replaces_def Let_def split: option.split)
    then have sid: "normalize_id (sp_id (ic_spouse ?ctx)) = i"
      using normalize_id_idem [of "Some (pi_printed_id p)"] p(4) by simp
    have "iv_adopt (resolve_document_owners lower ps' ?ctx) = None" for ps'
    proof (rule ccontr)
      assume "iv_adopt (resolve_document_owners lower ps' ?ctx) \<noteq> None"
      then obtain j m where "choose_spouse_to_adopt lower (resolved_owners lower ps' ?ctx) ?ctx = Some (j, m)"
        by (auto simp: resolve_document_owners_def Let_def)
      then show False using chosen_spouse no_adoptable_with_spouse_id [of ?ctx lower] sid g by metis
    qed
    moreover have "rp_kind (resolve_party lower p ?ctx) = PSpouse"
      using g sid p(4) by (simp add: resolve_party_def Let_def)
    ultimately show ?thesis by blast
  qed
  show "\<exists>p \<in> set ps. pi_role p = Owner \<and> i = normalize_id (Some (pi_printed_id p)) \<and> i \<noteq> [] \<and> pi_id_valid p
     \<and> ic_client_id ctx \<noteq> [] \<and> i \<noteq> ic_client_id ctx \<and> normalize_id (sp_id (ic_spouse ctx)) = []
     \<and> ic_marital ctx \<noteq> Some NotMarried
     \<and> (truthy_name (sp_name (ic_spouse ctx)) \<longrightarrow> party_named lower p (sp_name (ic_spouse ctx)))
     \<and> (\<forall>q \<in> set ps. pi_role q = Owner \<and> rp_kind (resolve_party lower q ctx) = PAdoptable \<longrightarrow> q = p)
     \<and> (sp_id (ic_spouse ctx) = None \<longrightarrow> rp_kind (resolve_party lower p ?ctx) = PSpouse
             \<and> (\<forall>ps'. iv_adopt (resolve_document_owners lower ps' ?ctx) = None))"
    by (rule bexI [OF _ p(1)], intro conjI) (use p g in blast, use p in blast, use g in blast, use g in blast, use g in blast,
      use g in blast, use g in blast, use g in blast, use g in blast, use p in blast, use next_time in blast)
qed

lemma spouse_adoption_guarded_witness:
  "\<exists>p \<in> set [\<lparr>pi_name = None, pi_printed_id = jstr ''123456782'', pi_id_valid = True, pi_role = Owner\<rparr>].
     pi_role p = Owner \<and> jstr ''123456782'' = normalize_id (Some (pi_printed_id p)) \<and> pi_id_valid p"
proof -
  have n: "normalize_id (Some (jstr ''123456782'')) = jstr ''123456782''"
    by (rule normalize_id_nine) (simp_all add: is_digit_def)
  have "iv_adopt (resolve_document_owners (\<lambda>s. s) [\<lparr>pi_name = None, pi_printed_id = jstr ''123456782'', pi_id_valid = True, pi_role = Owner\<rparr>]
      \<lparr>ic_client_name = [1488], ic_client_id = jstr ''000000018'', ic_spouse = EMPTY_SPOUSE, ic_marital = Some Married, ic_subject_match = True\<rparr>)
      = Some (jstr ''123456782'', None)"
    using n by (simp add: resolve_document_owners_def resolved_owners_def resolve_party_def choose_spouse_to_adopt_def
        EMPTY_SPOUSE_def truthy_name_def normalize_id_def [of None] Let_def)
  from spouse_adoption_guarded [OF this] show ?thesis by blast
qed

end
