(* ===== verification/VerifyChecks.thy ===== *)
theory VerifyChecks
  imports Identity Catalog Complex_Main
begin

text \<open>
  The deterministic half of document verification
  (\<open>declarationOfCapital/verifyChecks.ts\<close>): the extraction's answer, the check
  helpers every document type composes and the verdict. A check is its key and
  its outcome; the Hebrew texts of the trace are left out. JavaScript numbers are
  rationals, with NaN as a value of its own (doubles' rounding is not modelled).
\<close>

section \<open>The extraction's answer\<close>

record document_party =
  dp_name :: "utext option"
  dp_id :: "utext option"
  dp_role :: "party_role option"

text \<open>The raw value of one typed field: absent or null, a finite number with its \<open>String(v)\<close>, a text, or anything else with its \<open>String(v)\<close>.\<close>

datatype raw_value = RawNull | RawNumber rat utext | RawText utext | RawOther utext

record extracted_answer =
  ea_is_expected_type :: bool
  ea_parties :: "document_party option list option"
  ea_as_of_date :: "utext option"
  ea_legible :: bool
  ea_injection_suspected :: bool
  ea_field :: "string \<Rightarrow> raw_value"

datatype field_kind = KText | KNumber | KDate | KYear

record type_field =
  tf_key :: string
  tf_kind :: field_kind
  tf_required :: bool
  tf_pattern :: "(utext \<Rightarrow> bool) option"
  tf_min :: "rat option"

record check_context =
  cc_client_name :: utext
  cc_client_id :: "utext option"
  cc_spouse :: "spouse_on_file option"
  cc_marital :: "marital_status option"
  cc_tax_year :: int

record checks_verdict =
  cv_passed :: bool
  cv_failed :: "string list"
  cv_checks :: "check_result list"
  cv_matched :: "matched_as option"
  cv_adopt :: "(utext \<times> utext option) option"

definition MAX_PARTIES :: nat where
  "MAX_PARTIES = 10"

definition MIN_PLAUSIBLE_YEAR :: rat where
  "MIN_PLAUSIBLE_YEAR = 1950"

section \<open>\<open>Number(text)\<close>\<close>

definition radix_digit :: "nat \<Rightarrow> nat option" where
  "radix_digit c = (if 48 \<le> c \<and> c \<le> 57 then Some (c - 48)
     else if 97 \<le> c \<and> c \<le> 102 then Some (c - 87) else if 65 \<le> c \<and> c \<le> 70 then Some (c - 55) else None)"

fun radix_value :: "nat \<Rightarrow> nat \<Rightarrow> utext \<Rightarrow> nat option" where
  "radix_value r acc [] = Some acc"
| "radix_value r acc (c # cs) = (case radix_digit c of None \<Rightarrow> None
     | Some d \<Rightarrow> if d < r then radix_value r (r * acc + d) cs else None)"

definition non_empty_radix :: "nat \<Rightarrow> utext \<Rightarrow> nat option" where
  "non_empty_radix r s = (if s = [] then None else radix_value r 0 s)"

text \<open>An exponent part: nothing, or \<open>e\<close> with an optionally signed decimal.\<close>

definition exponent_of :: "utext \<Rightarrow> int option" where
  "exponent_of s = (case s of [] \<Rightarrow> Some 0
     | c # cs \<Rightarrow> if c \<noteq> 101 \<and> c \<noteq> 69 then None
         else (case cs of [] \<Rightarrow> None
           | d # ds \<Rightarrow> if d = 45 then map_option (\<lambda>n. - int n) (non_empty_radix 10 ds)
               else if d = 43 then map_option int (non_empty_radix 10 ds)
               else map_option int (non_empty_radix 10 cs)))"

definition decimal_of :: "utext \<Rightarrow> rat option" where
  "decimal_of s =
     (let whole = takeWhile is_digit s; rest = dropWhile is_digit s;
          fraction = (case rest of c # cs \<Rightarrow> if c = 46 then takeWhile is_digit cs else [] | [] \<Rightarrow> []);
          tail = (case rest of c # cs \<Rightarrow> if c = 46 then dropWhile is_digit cs else rest | [] \<Rightarrow> [])
      in if whole = [] \<and> fraction = [] then None
         else (case (radix_value 10 0 (whole @ fraction), exponent_of tail) of
             (Some n, Some e) \<Rightarrow> Some (of_nat n * (if 0 \<le> e then 10 ^ nat e else 1 / 10 ^ nat (- e)) / 10 ^ length fraction)
           | _ \<Rightarrow> None))"

text \<open>Finite values only: \<open>None\<close> stands for NaN and the infinities, which the callers treat alike.\<close>

definition number_of_text :: "utext \<Rightarrow> rat option" where
  "number_of_text t =
     (case js_trim t of [] \<Rightarrow> Some 0
      | c # cs \<Rightarrow>
          if c = 48 \<and> cs \<noteq> [] \<and> hd cs \<in> {120, 88} then map_option of_nat (non_empty_radix 16 (tl cs))
          else if c = 48 \<and> cs \<noteq> [] \<and> hd cs \<in> {111, 79} then map_option of_nat (non_empty_radix 8 (tl cs))
          else if c = 48 \<and> cs \<noteq> [] \<and> hd cs \<in> {98, 66} then map_option of_nat (non_empty_radix 2 (tl cs))
          else if c = 45 then map_option uminus (decimal_of cs)
          else if c = 43 then decimal_of cs
          else decimal_of (c # cs))"

section \<open>Typed fields\<close>

datatype field_value = FvNull | FvText utext | FvNumber rat | FvNaN

definition type_field_value :: "extracted_answer \<Rightarrow> string \<Rightarrow> field_kind \<Rightarrow> field_value" where
  "type_field_value answer key kind =
     (let raw = ea_field answer key in
      if raw = RawNull then FvNull
      else if kind = KNumber \<or> kind = KYear then
        (case raw of RawNumber q _ \<Rightarrow> FvNumber q
         | RawText t \<Rightarrow> (if js_trim t = [] then FvNaN
             else (case number_of_text t of Some q \<Rightarrow> FvNumber q | None \<Rightarrow> FvNaN))
         | _ \<Rightarrow> FvNull)
      else (case raw of RawText t \<Rightarrow>
              (if js_trim t = [] \<or> js_trim t = [47] then FvNull else FvText (js_trim t))
            | RawOther s \<Rightarrow> FvText s
            | RawNumber _ s \<Rightarrow> FvText s
            | RawNull \<Rightarrow> FvNull))"

definition is_date_text :: "utext \<Rightarrow> bool" where
  "is_date_text t = (length t = 10 \<and> t ! 4 = 45 \<and> t ! 7 = 45
     \<and> list_all is_digit (take 4 t) \<and> list_all is_digit (take 2 (drop 5 t)) \<and> list_all is_digit (drop 8 t))"

definition is_integer :: "rat \<Rightarrow> bool" where
  "is_integer q = (snd (quotient_of q) = 1)"

text \<open>What is wrong with one field: the branches of the loop body, by kind.\<close>

definition field_problem :: "int \<Rightarrow> type_field \<Rightarrow> field_value \<Rightarrow> bool" where
  "field_problem tax_year f v =
     (if v = FvNull then tf_required f
      else (case tf_kind f of
         KDate \<Rightarrow> (case v of FvText t \<Rightarrow> \<not> is_date_text t | _ \<Rightarrow> True)
       | KYear \<Rightarrow> (case v of FvNumber q \<Rightarrow> \<not> is_integer q \<or> q < MIN_PLAUSIBLE_YEAR \<or> q > of_int (tax_year + 1) | _ \<Rightarrow> True)
       | KNumber \<Rightarrow> (case v of FvNumber q \<Rightarrow> (case tf_min f of None \<Rightarrow> False | Some m \<Rightarrow> q < m) | _ \<Rightarrow> True)
       | KText \<Rightarrow> (case tf_pattern f of None \<Rightarrow> False
           | Some p \<Rightarrow> (case v of FvText t \<Rightarrow> \<not> p t | _ \<Rightarrow> True))))"

definition type_fields_check :: "extracted_answer \<Rightarrow> check_context \<Rightarrow> type_field list \<Rightarrow> string list \<Rightarrow> check_result" where
  "type_fields_check answer ctx fs any_of =
     (let value = (\<lambda>f. type_field_value answer (tf_key f) (tf_kind f));
          problem = list_ex (\<lambda>f. field_problem (cc_tax_year ctx) f (value f)) fs;
          none_read = (any_of \<noteq> [] \<and> list_all (\<lambda>f. tf_key f \<notin> set any_of \<or> value f = FvNull) fs)
      in entry ''type_fields'' (\<not> problem \<and> \<not> none_read))"

section \<open>The other checks\<close>

definition legible_check :: "extracted_answer \<Rightarrow> check_result" where
  "legible_check answer = entry ''legible'' (ea_legible answer)"

definition expected_type_check :: "extracted_answer \<Rightarrow> check_result" where
  "expected_type_check answer = entry ''expected_type'' (ea_is_expected_type answer)"

definition party_inputs :: "document_party option list option \<Rightarrow> party_input list" where
  "party_inputs parties = map (\<lambda>p. (let printed = normalize_id (dp_id p) in
        \<lparr>pi_name = non_empty (dp_name p), pi_printed_id = printed,
         pi_id_valid = (printed \<noteq> [] \<and> is_valid_israeli_id (Some printed)),
         pi_role = (case dp_role p of None \<Rightarrow> OtherRole | Some r \<Rightarrow> r)\<rparr>))
      (take MAX_PARTIES (List.map_filter (\<lambda>p. p) (case parties of None \<Rightarrow> [] | Some ps \<Rightarrow> ps)))"

definition identity_context_of :: "check_context \<Rightarrow> bool \<Rightarrow> identity_context" where
  "identity_context_of ctx subject_match = \<lparr>ic_client_name = cc_client_name ctx, ic_client_id = normalize_id (cc_client_id ctx),
     ic_spouse = (case cc_spouse ctx of None \<Rightarrow> EMPTY_SPOUSE | Some s \<Rightarrow> s), ic_marital = cc_marital ctx, ic_subject_match = subject_match\<rparr>"

definition find_check :: "string \<Rightarrow> check_result list \<Rightarrow> check_result option" where
  "find_check k cs = List.find (\<lambda>c. ck_key c = k) (rev cs)"

definition identity_checks ::
  "(utext \<Rightarrow> utext) \<Rightarrow> extracted_answer \<Rightarrow> check_context \<Rightarrow> bool \<Rightarrow> check_result list \<times> identity_verdict"
where
  "identity_checks lower answer ctx subject_match =
     (let parties = party_inputs (ea_parties answer);
          verdict = resolve_document_owners lower parties (identity_context_of ctx subject_match);
          owner_ids = filter (\<lambda>p. pi_role p = Owner \<and> pi_printed_id p \<noteq> []) parties;
          judged = iv_checks verdict @ (if owner_ids \<noteq> [] then [entry ''id_checksum'' (list_all pi_id_valid owner_ids)] else []);
          order = (if subject_match then [''subject''] else [])
            @ [''id_checksum'', ''id_matches_client'', ''client_id_on_file'', ''spouse_adopted'', ''co_owners'']
      in (map (\<lambda>k. case find_check k judged of Some c \<Rightarrow> c | None \<Rightarrow> skipped k) order, verdict))"

text \<open>\<open>`${taxYear}-12-31`\<close> and the order of strings by code units.\<close>

definition valuation_date :: "int \<Rightarrow> utext" where
  "valuation_date y = jstr (show_int y @ ''-12-31'')"

fun lex_le :: "utext \<Rightarrow> utext \<Rightarrow> bool" where
  "lex_le [] ys = True"
| "lex_le (x # xs) [] = False"
| "lex_le (x # xs) (y # ys) = (x < y \<or> (x = y \<and> lex_le xs ys))"

definition as_of_date_check :: "extracted_answer \<Rightarrow> check_context \<Rightarrow> check_result" where
  "as_of_date_check answer ctx = entry ''as_of_date'' (ea_as_of_date answer = Some (valuation_date (cc_tax_year ctx)))"

definition date_field :: "extracted_answer \<Rightarrow> type_field list \<Rightarrow> string \<Rightarrow> utext option" where
  "date_field answer fs key = (case List.find (\<lambda>f. tf_key f = key) fs of None \<Rightarrow> None
     | Some f \<Rightarrow> (case type_field_value answer (tf_key f) (tf_kind f) of
          FvText t \<Rightarrow> if is_date_text t then Some t else None
        | _ \<Rightarrow> None))"

definition period_covers_valuation_date_check ::
  "extracted_answer \<Rightarrow> check_context \<Rightarrow> type_field list \<Rightarrow> string \<Rightarrow> string \<Rightarrow> check_result"
where
  "period_covers_valuation_date_check answer ctx fs from_key to_key =
     (case (date_field answer fs from_key, date_field answer fs to_key) of
        (Some from, Some until) \<Rightarrow> entry ''period_covers_valuation_date''
           (lex_le from (valuation_date (cc_tax_year ctx)) \<and> lex_le (valuation_date (cc_tax_year ctx)) until)
      | _ \<Rightarrow> skipped ''period_covers_valuation_date'')"

section \<open>The verdict\<close>

definition fails :: "check_result \<Rightarrow> bool" where
  "fails c = (ck_passed c = Some False \<and> ck_key c \<noteq> ''client_id_on_file'')"

definition verdict_of :: "check_result list \<Rightarrow> identity_verdict \<Rightarrow> checks_verdict" where
  "verdict_of checks verdict = \<lparr>cv_passed = (filter fails checks = []), cv_failed = map ck_key (filter fails checks),
     cv_checks = checks, cv_matched = iv_matched verdict, cv_adopt = iv_adopt verdict\<rparr>"

section \<open>Properties\<close>

lemma owners_found: "List.find P (rev xs) = Some x \<Longrightarrow> P x \<and> x \<in> set xs"
  by (auto simp: find_Some_iff) (metis nth_mem set_rev length_rev)

lemma find_check_key: "find_check k cs = Some c \<Longrightarrow> ck_key c = k \<and> c \<in> set cs"
  unfolding find_check_def by (drule owners_found) simp

lemma find_check_here: "c \<in> set cs \<Longrightarrow> find_check (ck_key c) cs \<noteq> None"
  by (auto simp: find_check_def find_None_iff)

lemma entry_simps [simp]: "ck_key (entry k b) = k" "ck_passed (entry k b) = Some b"
  "ck_key (skipped k) = k" "ck_passed (skipped k) = None"
  by (simp_all add: entry_def skipped_def)

lemma verdict_simps [simp]: "cv_passed (verdict_of cs v) = (\<forall>c \<in> set cs. \<not> fails c)"
  "cv_matched (verdict_of cs v) = iv_matched v" "cv_adopt (verdict_of cs v) = iv_adopt v" "cv_checks (verdict_of cs v) = cs"
  by (auto simp: verdict_of_def filter_empty_conv)

lemma fails_entry [simp]: "fails (entry k b) = (\<not> b \<and> k \<noteq> ''client_id_on_file'')" "\<not> fails (skipped k)"
  by (auto simp: fails_def)

lemma find_check_append:
  "find_check k (xs @ ys) = (case find_check k ys of Some c \<Rightarrow> Some c | None \<Rightarrow> find_check k xs)"
  by (simp add: find_check_def find_append split: option.split)

lemma find_check_none: "\<forall>c \<in> set cs. ck_key c \<noteq> k \<Longrightarrow> find_check k cs = None"
  by (simp add: find_check_def find_None_iff)

lemma find_check_Nil [simp]: "find_check k [] = None"
  by (simp add: find_check_def)

lemma find_check_single: "find_check k [c] = (if ck_key c = k then Some c else None)"
  by (simp add: find_check_def)

text \<open>What the identity checks report, key by key.\<close>

definition owner_inputs :: "extracted_answer \<Rightarrow> party_input list" where
  "owner_inputs a = filter (\<lambda>p. pi_role p = Owner) (party_inputs (ea_parties a))"

lemma owner_verdict_keys:
  "\<exists>rest. iv_checks (resolve_document_owners lower ps ctx)
      = (if ic_subject_match ctx then [entry ''subject'' (resolved_owners lower ps ctx \<noteq> [] \<and> iv_matched (resolve_document_owners lower ps ctx) \<noteq> None)] else []) @ rest
    \<and> (\<forall>c \<in> set rest. ck_key c \<in> {''id_matches_client'', ''spouse_adopted'', ''client_id_on_file'', ''co_owners''})"
  unfolding resolve_document_owners_def Let_def identity_verdict.simps
  by (rule exI, rule conjI, rule refl) (auto split: if_splits)

lemma identity_checks_reported:
  assumes "k \<in> set ((if m then [''subject''] else []) @ [''id_checksum'', ''id_matches_client'', ''client_id_on_file'', ''spouse_adopted'', ''co_owners''])"
    and "find_check k (iv_checks (snd (identity_checks lower a ctx m))
        @ (if filter (\<lambda>p. pi_role p = Owner \<and> pi_printed_id p \<noteq> []) (party_inputs (ea_parties a)) \<noteq> []
           then [entry ''id_checksum'' (list_all pi_id_valid (filter (\<lambda>p. pi_role p = Owner \<and> pi_printed_id p \<noteq> []) (party_inputs (ea_parties a))))] else [])) = Some c"
  shows "c \<in> set (fst (identity_checks lower a ctx m))"
proof -
  have "fst (identity_checks lower a ctx m) = map (\<lambda>k. case find_check k (iv_checks (snd (identity_checks lower a ctx m))
        @ (if filter (\<lambda>p. pi_role p = Owner \<and> pi_printed_id p \<noteq> []) (party_inputs (ea_parties a)) \<noteq> []
           then [entry ''id_checksum'' (list_all pi_id_valid (filter (\<lambda>p. pi_role p = Owner \<and> pi_printed_id p \<noteq> []) (party_inputs (ea_parties a))))] else []))
      of Some c \<Rightarrow> c | None \<Rightarrow> skipped k) ((if m then [''subject''] else []) @ [''id_checksum'', ''id_matches_client'', ''client_id_on_file'', ''spouse_adopted'', ''co_owners''])"
    by (simp only: identity_checks_def Let_def fst_conv snd_conv)
  then show ?thesis using assms by (force intro: image_eqI [of _ _ k])
qed

lemma identity_checks_snd:
  "snd (identity_checks lower a ctx m) = resolve_document_owners lower (party_inputs (ea_parties a)) (identity_context_of ctx m)"
  by (simp add: identity_checks_def Let_def)

lemma identity_checks_keys:
  "map ck_key (fst (identity_checks lower a ctx m)) = (if m then [''subject''] else [])
     @ [''id_checksum'', ''id_matches_client'', ''client_id_on_file'', ''spouse_adopted'', ''co_owners'']"
proof -
  have "map (\<lambda>k. ck_key (case find_check k J of Some c \<Rightarrow> c | None \<Rightarrow> skipped k)) ks = ks" for J ks
    by (rule map_idI) (auto dest: find_check_key split: option.split)
  then show ?thesis
    unfolding identity_checks_def Let_def fst_conv map_map comp_def by blast
qed

lemma identity_checks_subject:
  assumes "\<forall>c \<in> set (fst (identity_checks lower a ctx True)). \<not> fails c"
  shows "iv_matched (snd (identity_checks lower a ctx True)) \<noteq> None"
proof -
  let ?v = "snd (identity_checks lower a ctx True)"
  let ?b = "resolved_owners lower (party_inputs (ea_parties a)) (identity_context_of ctx True) \<noteq> [] \<and> iv_matched ?v \<noteq> None"
  have m: "ic_subject_match (identity_context_of ctx True)" by (simp add: identity_context_of_def)
  obtain rest where r: "iv_checks ?v = [entry ''subject'' ?b] @ rest"
      "\<forall>c \<in> set rest. ck_key c \<in> {''id_matches_client'', ''spouse_adopted'', ''client_id_on_file'', ''co_owners''}"
    using owner_verdict_keys [of lower "party_inputs (ea_parties a)" "identity_context_of ctx True"]
    unfolding identity_checks_snd if_P [OF m] by blast
  have none: "find_check ''subject'' rest = None" by (rule find_check_none) (use r(2) in fastforce)
  have "entry ''subject'' ?b \<in> set (fst (identity_checks lower a ctx True))"
    by (rule identity_checks_reported [where k = "''subject''"])
       (simp_all add: r(1) find_check_append find_check_single none del: append_Cons)
  then have "?b" using assms fails_entry(1) by fastforce
  then show ?thesis by blast
qed

lemma identity_checks_checksum:
  assumes "\<forall>c \<in> set (fst (identity_checks lower a ctx m)). \<not> fails c" and "p \<in> set (owner_inputs a)" and "pi_printed_id p \<noteq> []"
  shows "pi_id_valid p"
proof -
  let ?ids = "filter (\<lambda>p. pi_role p = Owner \<and> pi_printed_id p \<noteq> []) (party_inputs (ea_parties a))"
  have p: "p \<in> set ?ids" using assms(2,3) by (simp add: owner_inputs_def)
  then have ne: "?ids \<noteq> []" by (metis empty_iff empty_set)
  have "entry ''id_checksum'' (list_all pi_id_valid ?ids) \<in> set (fst (identity_checks lower a ctx m))"
    by (rule identity_checks_reported [where k = "''id_checksum''"]) (simp_all add: ne find_check_append find_check_single)
  then have "list_all pi_id_valid ?ids" using assms(1) fails_entry(1) by fastforce
  then show ?thesis using p by (simp add: list_all_iff)
qed

end
