(* ===== verification/Checklist.thy ===== *)
theory Checklist
  imports VerifyChecks
begin

text \<open>
  The checklist of a client (\<open>db/queries/clientDocuments.ts\<close> and its row
  types in \<open>db/types.ts\<close>): one definition per query, on the table as the list of its
  rows, and the state machine those queries add up to. Time stamps are left out; the ids
  \<open>gen_random_uuid()\<close> gives are an argument, one per inserted row.
\<close>

section \<open>Rows\<close>

datatype document_status = Unresolved | NotRequired | Pending | Claimed | Collected | Approved | Stated | Retired

record vehicle_facts =
  vf_manufacturer :: "utext option"
  vf_model :: "utext option"
  vf_production_year :: "rat option"
  vf_license_plate :: "utext option"
  vf_purchase_cost :: "rat option"
  vf_currency :: "utext option"

datatype seller_fact = SellerPrivate | SellerBuilder
datatype matched_holder = HolderClient | HolderSpouse

text \<open>A statement is the id of the inbound message and the verbatim quote.\<close>

datatype resolution_evidence =
    QuoteEvidence id utext
  | FormEvidence utext utext
  | FormEmptyEvidence utext
  | FileEvidence id utext "utext option"
  | ApprovedFileEvidence id id seller_fact
  | SelfEvidentEvidence id utext "utext list" matched_holder "utext option"
  | ChatEvidence id utext rat utext
  | ChatVehicleEvidence "(id \<times> utext) list" vehicle_facts

text \<open>The stored verdict; its reasons stand for the keys of the failed checks.\<close>

record verification_record =
  vr_passed :: bool
  vr_attempts :: nat
  vr_file_id :: id
  vr_reasons :: "string list"
  vr_stalled :: bool
  vr_extracted :: "extracted_answer option"

record client_document =
  cd_id :: id
  cd_client :: id
  cd_name :: utext
  cd_description :: "utext option"
  cd_status :: document_status
  cd_type_key :: "string option"
  cd_paper_key :: "string option"
  cd_verification :: "verification_record option"
  cd_evidence :: "resolution_evidence option"

type_synonym docs = "client_document list"

record document_instance =
  di_name :: utext
  di_description :: "utext option"
  di_already_provided :: bool
  di_paper_key :: "string option"

section \<open>Reading\<close>

definition is_row :: "id \<Rightarrow> id \<Rightarrow> client_document \<Rightarrow> bool" where
  "is_row i client r = (cd_id r = i \<and> cd_client r = client)"

definition document_for_client :: "id \<Rightarrow> id \<Rightarrow> docs \<Rightarrow> client_document option" where
  "document_for_client i client t = List.find (is_row i client) t"

definition documents_of_client :: "id \<Rightarrow> docs \<Rightarrow> docs" where
  "documents_of_client client t = filter (\<lambda>r. cd_client r = client) t"

section \<open>The queries\<close>

text \<open>
  \<open>UPDATE \<dots> WHERE id = $1 AND client_id = $2 AND status IN (\<dots>) RETURNING *\<close>: the
  new table and the updated row. \<open>id\<close> is the primary key.
\<close>

definition move_row ::
  "id \<Rightarrow> id \<Rightarrow> document_status set \<Rightarrow> (client_document \<Rightarrow> client_document) \<Rightarrow> docs \<Rightarrow> docs \<times> client_document option"
where
  "move_row i client from f t =
     (let p = (\<lambda>r. is_row i client r \<and> cd_status r \<in> from) in (update_where p f t, map_option f (List.find p t)))"

definition insert_document ::
  "id \<Rightarrow> id \<Rightarrow> utext \<Rightarrow> utext option \<Rightarrow> string option \<Rightarrow> string option \<Rightarrow> document_status option \<Rightarrow> docs \<Rightarrow> docs"
where
  "insert_document new_id client name description type_key paper_key status t =
     t @ [\<lparr>cd_id = new_id, cd_client = client, cd_name = name, cd_description = description,
           cd_status = (case status of None \<Rightarrow> Pending | Some s \<Rightarrow> s), cd_type_key = type_key, cd_paper_key = paper_key,
           cd_verification = None, cd_evidence = None\<rparr>]"

record document_patch =
  pt_name :: "utext option"
  pt_description :: "utext option option"
  pt_status :: "document_status option"
  pt_clear_evidence :: bool

definition apply_patch :: "document_patch \<Rightarrow> client_document \<Rightarrow> client_document" where
  "apply_patch p r = r\<lparr>cd_name := (case pt_name p of None \<Rightarrow> cd_name r | Some n \<Rightarrow> n),
     cd_description := (case pt_description p of None \<Rightarrow> cd_description r | Some d \<Rightarrow> d),
     cd_status := (case pt_status p of None \<Rightarrow> cd_status r | Some s \<Rightarrow> s),
     cd_evidence := (if pt_clear_evidence p then None else cd_evidence r)\<rparr>"

definition update_document :: "id \<Rightarrow> id \<Rightarrow> document_patch \<Rightarrow> docs \<Rightarrow> docs \<times> client_document option" where
  "update_document i client p t =
     (update_where (is_row i client) (apply_patch p) t, map_option (apply_patch p) (document_for_client i client t))"

definition remove_document :: "id \<Rightarrow> id \<Rightarrow> docs \<Rightarrow> docs \<times> bool" where
  "remove_document i client t = (filter (\<lambda>r. \<not> is_row i client r) t, list_ex (is_row i client) t)"

definition mark_collected :: "id \<Rightarrow> id list \<Rightarrow> docs \<Rightarrow> docs" where
  "mark_collected client ids t = update_where
     (\<lambda>r. cd_client r = client \<and> cd_id r \<in> set ids \<and> cd_status r \<in> {Pending, Claimed}) (\<lambda>r. r\<lparr>cd_status := Collected\<rparr>) t"

definition mark_claimed :: "id \<Rightarrow> id list \<Rightarrow> docs \<Rightarrow> docs" where
  "mark_claimed client ids t = update_where
     (\<lambda>r. cd_client r = client \<and> cd_id r \<in> set ids \<and> cd_status r = Pending) (\<lambda>r. r\<lparr>cd_status := Claimed\<rparr>) t"

definition resolve_not_required :: "id \<Rightarrow> id \<Rightarrow> resolution_evidence \<Rightarrow> docs \<Rightarrow> docs \<times> client_document option" where
  "resolve_not_required i client evidence =
     move_row i client {Unresolved} (\<lambda>r. r\<lparr>cd_status := NotRequired, cd_evidence := Some evidence\<rparr>)"

definition birth_status :: "document_instance \<Rightarrow> document_status" where
  "birth_status inst = (if di_already_provided inst then Claimed else Pending)"

definition instance_row_of ::
  "id \<Rightarrow> id \<Rightarrow> string option \<Rightarrow> resolution_evidence option \<Rightarrow> document_instance \<Rightarrow> client_document"
where
  "instance_row_of new_id client type_key evidence inst =
     \<lparr>cd_id = new_id, cd_client = client, cd_name = di_name inst, cd_description = di_description inst,
      cd_status = birth_status inst, cd_type_key = type_key, cd_paper_key = di_paper_key inst,
      cd_verification = None, cd_evidence = evidence\<rparr>"

text \<open>The exception of an empty list is \<open>Inl\<close>; the transaction that finds no row leaves the table as it was.\<close>

datatype checklist_error = NoInstances

definition resolve_required ::
  "(nat \<Rightarrow> id) \<Rightarrow> id \<Rightarrow> id \<Rightarrow> document_instance list \<Rightarrow> resolution_evidence option \<Rightarrow> docs
   \<Rightarrow> (checklist_error, docs \<times> docs option) result"
where
  "resolve_required uuid i client instances evidence t =
     (case instances of [] \<Rightarrow> Inl NoInstances
      | first # rest \<Rightarrow>
          (case move_row i client {Unresolved, NotRequired}
             (\<lambda>r. r\<lparr>cd_status := birth_status first, cd_name := di_name first, cd_description := di_description first,
                    cd_evidence := evidence, cd_paper_key := di_paper_key first\<rparr>) t of
             (t', None) \<Rightarrow> Inr (t, None)
           | (t', Some head) \<Rightarrow>
               (let extra = map (\<lambda>(n, inst). instance_row_of (uuid n) client (cd_type_key head) evidence inst) (enumerate 0 rest)
                in Inr (t' @ extra, Some (head # extra)))))"

definition add_instances ::
  "(nat \<Rightarrow> id) \<Rightarrow> id \<Rightarrow> id \<Rightarrow> document_instance list \<Rightarrow> resolution_evidence option \<Rightarrow> docs
   \<Rightarrow> (checklist_error, docs \<times> docs option) result"
where
  "add_instances uuid anchor client instances evidence t =
     (if instances = [] then Inl NoInstances
      else (case List.find (\<lambda>r. is_row anchor client r \<and> cd_type_key r \<noteq> None \<and> cd_status r \<noteq> Unresolved) t of
          None \<Rightarrow> Inr (t, None)
        | Some a \<Rightarrow> (let rows = map (\<lambda>(n, inst). instance_row_of (uuid n) client (cd_type_key a) evidence inst) (enumerate 0 instances)
            in Inr (t @ rows, Some rows))))"

record company_split_item =
  cs_document :: id
  cs_new_name :: utext
  cs_siblings :: "(utext \<times> resolution_evidence) list"

definition LIVE_FOR_SPLIT :: "document_status set" where
  "LIVE_FOR_SPLIT = {Pending, Claimed, Collected}"

definition split_one :: "(nat \<Rightarrow> id) \<Rightarrow> id \<Rightarrow> company_split_item \<Rightarrow> docs \<Rightarrow> docs \<times> docs option" where
  "split_one uuid client item t =
     (case move_row (cs_document item) client LIVE_FOR_SPLIT (\<lambda>r. r\<lparr>cd_name := cs_new_name item\<rparr>) t of
        (t', None) \<Rightarrow> (t', None)
      | (t', Some head) \<Rightarrow>
          (let rows = map (\<lambda>(n, name, evidence). \<lparr>cd_id = uuid n, cd_client = client, cd_name = name,
                 cd_description = cd_description head, cd_status = Pending, cd_type_key = cd_type_key head,
                 cd_paper_key = cd_paper_key head, cd_verification = None, cd_evidence = Some evidence\<rparr>)
               (enumerate 0 (cs_siblings item))
           in (t' @ rows, Some rows)))"

text \<open>The rows created per item and the items skipped, in plan order; \<open>uuid k\<close> supplies the ids of item \<open>k\<close>.\<close>

fun split_by_company ::
  "(nat \<Rightarrow> nat \<Rightarrow> id) \<Rightarrow> id \<Rightarrow> company_split_item list \<Rightarrow> docs \<Rightarrow> docs \<times> docs list \<times> id list"
where
  "split_by_company uuid client [] t = (t, [], [])"
| "split_by_company uuid client (item # items) t =
     (let (t', made) = split_one (uuid (length items)) client item t;
          (t'', created, skips) = split_by_company uuid client items t'
      in (case made of None \<Rightarrow> (t'', [] # created, cs_document item # skips)
          | Some rows \<Rightarrow> (t'', rows # created, skips)))"

definition retire :: "id \<Rightarrow> id \<Rightarrow> resolution_evidence \<Rightarrow> docs \<Rightarrow> docs \<times> client_document option" where
  "retire i client evidence = move_row i client {Pending, Claimed, Collected, Approved}
     (\<lambda>r. r\<lparr>cd_status := Retired, cd_evidence := Some evidence\<rparr>)"

definition mark_stated :: "id \<Rightarrow> id \<Rightarrow> resolution_evidence \<Rightarrow> docs \<Rightarrow> docs \<times> client_document option" where
  "mark_stated i client evidence = move_row i client {Pending}
     (\<lambda>r. r\<lparr>cd_status := Stated, cd_evidence := Some evidence\<rparr>)"

definition mark_stated_vehicle :: "id \<Rightarrow> id \<Rightarrow> resolution_evidence \<Rightarrow> docs \<Rightarrow> docs \<times> client_document option" where
  "mark_stated_vehicle i client evidence = move_row i client {Pending, Stated}
     (\<lambda>r. r\<lparr>cd_status := Stated, cd_evidence := Some evidence\<rparr>)"

definition set_verification :: "id \<Rightarrow> id \<Rightarrow> verification_record \<Rightarrow> docs \<Rightarrow> docs \<times> client_document option" where
  "set_verification i client v = move_row i client UNIV (\<lambda>r. r\<lparr>cd_verification := Some v\<rparr>)"

definition mark_approved :: "id \<Rightarrow> id \<Rightarrow> verification_record \<Rightarrow> docs \<Rightarrow> docs \<times> client_document option" where
  "mark_approved i client v = move_row i client {Collected} (\<lambda>r. r\<lparr>cd_status := Approved, cd_verification := Some v\<rparr>)"

definition revert_to_pending :: "id \<Rightarrow> id \<Rightarrow> verification_record \<Rightarrow> docs \<Rightarrow> docs \<times> client_document option" where
  "revert_to_pending i client v = move_row i client {Collected} (\<lambda>r. r\<lparr>cd_status := Pending, cd_verification := Some v\<rparr>)"

text \<open>\<open>allDocumentsSettled\<close> of \<open>plan.ts\<close>.\<close>

definition all_documents_settled :: "docs \<Rightarrow> bool" where
  "all_documents_settled ds = (ds \<noteq> [] \<and> list_all (\<lambda>d. cd_status d \<in> {Approved, Stated, NotRequired, Retired}) ds)"

section \<open>The state machine of a row\<close>

text \<open>Every write the agent, the client's statements and the verification make; the accountant's own patches and deletions are not among them.\<close>

datatype checklist_op =
    OpCollect id "id list"
  | OpClaim id "id list"
  | OpNotRequired id id resolution_evidence
  | OpRequired "nat \<Rightarrow> id" id id "document_instance list" "resolution_evidence option"
  | OpAdd "nat \<Rightarrow> id" id id "document_instance list" "resolution_evidence option"
  | OpSplit "nat \<Rightarrow> nat \<Rightarrow> id" id "company_split_item list"
  | OpRetire id id resolution_evidence
  | OpStated id id resolution_evidence
  | OpStatedVehicle id id resolution_evidence
  | OpSetVerification id id verification_record
  | OpApprove id id verification_record
  | OpRevert id id verification_record

definition table_after :: "docs \<Rightarrow> (checklist_error, docs \<times> docs option) result \<Rightarrow> docs" where
  "table_after t r = (case r of Inl _ \<Rightarrow> t | Inr p \<Rightarrow> fst p)"

fun apply_op :: "checklist_op \<Rightarrow> docs \<Rightarrow> docs" where
  "apply_op (OpCollect c ids) t = mark_collected c ids t"
| "apply_op (OpClaim c ids) t = mark_claimed c ids t"
| "apply_op (OpNotRequired i c e) t = fst (resolve_not_required i c e t)"
| "apply_op (OpRequired u i c xs e) t = table_after t (resolve_required u i c xs e t)"
| "apply_op (OpAdd u i c xs e) t = table_after t (add_instances u i c xs e t)"
| "apply_op (OpSplit u c items) t = fst (split_by_company u c items t)"
| "apply_op (OpRetire i c e) t = fst (retire i c e t)"
| "apply_op (OpStated i c e) t = fst (mark_stated i c e t)"
| "apply_op (OpStatedVehicle i c e) t = fst (mark_stated_vehicle i c e t)"
| "apply_op (OpSetVerification i c v) t = fst (set_verification i c v t)"
| "apply_op (OpApprove i c v) t = fst (mark_approved i c v t)"
| "apply_op (OpRevert i c v) t = fst (revert_to_pending i c v t)"

definition checklist_run :: "checklist_op list \<Rightarrow> docs \<Rightarrow> docs" where
  "checklist_run ops t = fold apply_op ops t"

fun may_become :: "document_status \<Rightarrow> document_status set" where
  "may_become Unresolved = {NotRequired, Pending, Claimed}"
| "may_become NotRequired = {Pending, Claimed}"
| "may_become Pending = {Claimed, Collected, Stated, Retired}"
| "may_become Claimed = {Collected, Retired}"
| "may_become Collected = {Approved, Pending, Retired}"
| "may_become Approved = {Retired}"
| "may_become Stated = {}"
| "may_become Retired = {}"

definition same_row :: "client_document \<Rightarrow> client_document \<Rightarrow> bool" where
  "same_row r r' = (cd_id r' = cd_id r \<and> cd_client r' = cd_client r \<and> cd_type_key r' = cd_type_key r)"

definition row_step :: "client_document \<Rightarrow> client_document \<Rightarrow> bool" where
  "row_step r r' = (same_row r r' \<and> (cd_status r' = cd_status r \<or> cd_status r' \<in> may_become (cd_status r)))"

text \<open>A step that is not the verification's own leaves the stored verdict alone.\<close>

definition plain_step :: "client_document \<Rightarrow> client_document \<Rightarrow> bool" where
  "plain_step r r' = (row_step r r' \<and> cd_verification r' = cd_verification r)"

definition renamed :: "client_document \<Rightarrow> client_document \<Rightarrow> bool" where
  "renamed r r' = (same_row r r' \<and> cd_status r' = cd_status r \<and> cd_verification r' = cd_verification r)"

definition newborn :: "client_document \<Rightarrow> bool" where
  "newborn r = (cd_status r \<in> {Pending, Claimed} \<and> cd_verification r = None)"

fun verification_op :: "checklist_op \<Rightarrow> bool" where
  "verification_op (OpSetVerification _ _ _) = True"
| "verification_op (OpApprove _ _ _) = True"
| "verification_op (OpRevert _ _ _) = True"
| "verification_op _ = False"

lemma fst_move_row: "fst (move_row i c from f t) = update_where (\<lambda>r. is_row i c r \<and> cd_status r \<in> from) f t"
  by (simp add: move_row_def Let_def)

lemma all2_update_where:
  "(\<And>r. r \<in> set t \<Longrightarrow> p r \<Longrightarrow> R r (f r)) \<Longrightarrow> (\<And>r. r \<in> set t \<Longrightarrow> R r r) \<Longrightarrow> list_all2 R t (update_where p f t)"
  by (induction t) auto

lemma plain_step_refl [simp]: "plain_step r r"
  by (simp add: plain_step_def row_step_def same_row_def)

lemma birth_status_cases: "birth_status inst \<in> {Pending, Claimed}"
  by (simp add: birth_status_def)

lemma newborn_instance: "newborn (instance_row_of i c k e inst)"
  by (simp add: newborn_def instance_row_of_def birth_status_def)

lemma split_one_rows:
  "\<exists>t1 extra. fst (split_one u c item t) = t1 @ extra \<and> list_all2 renamed t t1 \<and> (\<forall>r \<in> set extra. newborn r)"
proof -
  let ?t1 = "fst (move_row (cs_document item) c LIVE_FOR_SPLIT (\<lambda>r. r\<lparr>cd_name := cs_new_name item\<rparr>) t)"
  have "list_all2 renamed t ?t1"
    unfolding fst_move_row by (rule all2_update_where) (simp_all add: renamed_def same_row_def)
  moreover have "\<exists>extra. fst (split_one u c item t) = ?t1 @ extra \<and> (\<forall>r \<in> set extra. newborn r)"
    by (auto simp: split_one_def newborn_def Let_def split: prod.split option.split)
  ultimately show ?thesis by blast
qed

lemma renamed_trans: "renamed a b \<Longrightarrow> renamed b c \<Longrightarrow> renamed a c"
  by (simp add: renamed_def same_row_def)

lemma split_rows:
  "\<exists>t1 extra. fst (split_by_company u c items t) = t1 @ extra \<and> list_all2 renamed t t1 \<and> (\<forall>r \<in> set extra. newborn r)"
proof (induction items arbitrary: t)
  case Nil
  have "list_all2 renamed t t" by (rule list_all2_refl) (simp add: renamed_def same_row_def)
  then show ?case by (intro exI [of _ t] exI [of _ "[]"]) simp
next
  case (Cons item items)
  let ?t = "fst (split_one (u (length items)) c item t)"
  obtain t1 e1 where 1: "?t = t1 @ e1" "list_all2 renamed t t1" "\<forall>r \<in> set e1. newborn r"
    using split_one_rows by blast
  obtain t2 e2 where 2: "fst (split_by_company u c items ?t) = t2 @ e2" "list_all2 renamed ?t t2" "\<forall>r \<in> set e2. newborn r"
    using Cons.IH by blast
  obtain a b where ab: "t2 = a @ b" "list_all2 renamed t1 a" "list_all2 renamed e1 b"
    using 2(2) unfolding 1(1) by (auto simp: list_all2_append1)
  have "list_all2 renamed t a" by (rule list_all2_trans [OF renamed_trans 1(2) ab(2)])
  moreover have "\<forall>r \<in> set b. newborn r"
  proof
    fix r assume "r \<in> set b"
    then obtain n where n: "n < length b" "r = b ! n" by (auto simp: in_set_conv_nth)
    then have "renamed (e1 ! n) r" and "e1 ! n \<in> set e1"
      using list_all2_lengthD [OF ab(3)] list_all2_nthD2 [OF ab(3), of n] by simp_all
    then show "newborn r" using 1(3) by (auto simp: newborn_def renamed_def)
  qed
  moreover have "fst (split_by_company u c (item # items) t) = fst (split_by_company u c items ?t)"
    by (simp add: Let_def split: prod.split option.split)
  ultimately show ?case using 2 ab(1) by (intro exI [of _ a] exI [of _ "b @ e2"]) auto
qed

lemma required_rows:
  "\<exists>t1 extra. table_after t (resolve_required u i c xs e t) = t1 @ extra \<and> list_all2 plain_step t t1 \<and> (\<forall>r \<in> set extra. newborn r)"
proof (cases xs)
  case Nil
  have "list_all2 plain_step t t" by (rule list_all2_refl) simp
  then show ?thesis using Nil by (intro exI [of _ t] exI [of _ "[]"]) (simp add: resolve_required_def table_after_def)
next
  case (Cons x rest)
  let ?m = "move_row i c {Unresolved, NotRequired} (\<lambda>r. r\<lparr>cd_status := birth_status x, cd_name := di_name x,
      cd_description := di_description x, cd_evidence := e, cd_paper_key := di_paper_key x\<rparr>) t"
  have s: "list_all2 plain_step t (fst ?m)"
    unfolding fst_move_row
    by (rule all2_update_where) (use birth_status_cases [of x] in \<open>auto simp: plain_step_def row_step_def same_row_def\<close>)
  have refl: "list_all2 plain_step t t" by (rule list_all2_refl) simp
  show ?thesis
  proof (cases "snd ?m")
    case None
    then have "table_after t (resolve_required u i c xs e t) = t"
      using Cons by (auto simp: resolve_required_def table_after_def split: prod.split)
    then show ?thesis using refl by (intro exI [of _ t] exI [of _ "[]"]) simp
  next
    case (Some h)
    let ?extra = "map (\<lambda>(n, inst). instance_row_of (u n) c (cd_type_key h) e inst) (enumerate 0 rest)"
    have "table_after t (resolve_required u i c xs e t) = fst ?m @ ?extra"
      using Cons Some by (auto simp: resolve_required_def table_after_def Let_def split: prod.split)
    moreover have "\<forall>r \<in> set ?extra. newborn r" by (auto simp: newborn_instance)
    ultimately show ?thesis using s by blast
  qed
qed

lemma added_rows:
  "\<exists>extra. table_after t (add_instances u i c xs e t) = t @ extra \<and> (\<forall>r \<in> set extra. newborn r)"
  by (auto simp: add_instances_def table_after_def newborn_instance Let_def split: option.split)

lemma updated_rows:
  "(\<And>r. p r \<Longrightarrow> R r (f r)) \<Longrightarrow> (\<And>r. R r r) \<Longrightarrow>
   \<exists>t1 extra. update_where p f t = t1 @ extra \<and> list_all2 R t t1 \<and> (\<forall>r \<in> set extra. newborn r)"
  by (intro exI [of _ "update_where p f t"] exI [of _ "[]"]) (simp add: all2_update_where)

lemmas move_defs = mark_collected_def mark_claimed_def resolve_not_required_def retire_def
  mark_stated_def mark_stated_vehicle_def set_verification_def mark_approved_def revert_to_pending_def fst_move_row

text \<open>One operation: the rows already there stay, each keeping its identity and moving along the machine; new rows are pending or claimed.\<close>

lemma plain_op_rows:
  "\<not> verification_op op \<Longrightarrow>
   \<exists>t1 extra. apply_op op t = t1 @ extra \<and> list_all2 plain_step t t1 \<and> (\<forall>r \<in> set extra. newborn r)"
proof (cases op)
  case (OpRequired u i c xs e)
  then show ?thesis using required_rows by simp
next
  case (OpAdd u i c xs e)
  have "list_all2 plain_step t t" by (rule list_all2_refl) simp
  then show ?thesis using OpAdd added_rows [of t u i c xs e] by auto
next
  case (OpSplit u c items)
  obtain t1 extra where s: "fst (split_by_company u c items t) = t1 @ extra"
      "list_all2 renamed t t1" "\<forall>r \<in> set extra. newborn r"
    using split_rows by blast
  have "list_all2 plain_step t t1" using s(2) by (rule list_all2_mono) (simp add: plain_step_def row_step_def renamed_def)
  then show ?thesis using s OpSplit by (intro exI [of _ t1] exI [of _ extra]) simp
qed (simp_all only: apply_op.simps move_defs verification_op.simps not_True_eq_False,
     (rule updated_rows, (auto simp: plain_step_def row_step_def same_row_def)[], simp)+)

lemma apply_op_rows:
  "\<exists>t1 extra. apply_op op t = t1 @ extra \<and> list_all2 row_step t t1 \<and> (\<forall>r \<in> set extra. newborn r)"
proof (cases "verification_op op")
  case False
  then show ?thesis using plain_op_rows [of op t] list_all2_mono [of plain_step t _ row_step]
    unfolding plain_step_def by blast
next
  case True
  then show ?thesis
    by (cases op; simp only: apply_op.simps move_defs verification_op.simps)
       (rule updated_rows, (auto simp: row_step_def same_row_def)[], simp add: row_step_def same_row_def)+
qed

section \<open>Properties\<close>

lemma all2_step_closed:
  "list_all2 row_step t t1 \<Longrightarrow> \<forall>s \<in> S. may_become s \<subseteq> S \<Longrightarrow> n < length t \<Longrightarrow> cd_status (t ! n) \<in> S \<Longrightarrow> cd_status (t1 ! n) \<in> S"
  by (drule (1) list_all2_nthD) (auto simp: row_step_def)

lemma run_row:
  assumes "n < length t" and "\<forall>s \<in> S. may_become s \<subseteq> S"
  shows "n < length (checklist_run ops t) \<and> same_row (t ! n) (checklist_run ops t ! n)
     \<and> (cd_status (t ! n) \<in> S \<longrightarrow> cd_status (checklist_run ops t ! n) \<in> S)"
  using assms(1)
proof (induction ops arbitrary: t)
  case Nil
  then show ?case by (simp add: checklist_run_def same_row_def)
next
  case (Cons op ops)
  obtain t1 extra where a: "apply_op op t = t1 @ extra" "list_all2 row_step t t1" using apply_op_rows by blast
  have l: "length t1 = length t" using a(2) by (simp add: list_all2_lengthD)
  then have n: "apply_op op t ! n = t1 ! n" "n < length (apply_op op t)" using Cons.prems a(1) by (simp_all add: nth_append)
  have st: "same_row (t ! n) (t1 ! n)" using list_all2_nthD [OF a(2) Cons.prems] by (simp add: row_step_def)
  have run: "checklist_run (op # ops) t = checklist_run ops (apply_op op t)" by (simp add: checklist_run_def)
  show ?case
    using Cons.IH [OF n(2)] st all2_step_closed [OF a(2) assms(2) Cons.prems]
    unfolding run n(1) by (auto simp: same_row_def)
qed

text \<open>C9: No operation of the agent or of the verification ever deletes a checklist row or changes its client or type; a stated or retired row never changes status again, an approved one can only be retired, a row that was resolved never becomes unresolved, and a row that became a concrete requirement never becomes not-required.\<close>

theorem checklist_rows_final:
  assumes "n < length t"
  shows "let r = t ! n; r' = checklist_run ops t ! n in
     n < length (checklist_run ops t) \<and> cd_id r' = cd_id r \<and> cd_client r' = cd_client r \<and> cd_type_key r' = cd_type_key r
     \<and> (cd_status r \<in> {Stated, Retired} \<longrightarrow> cd_status r' = cd_status r)
     \<and> (cd_status r = Approved \<longrightarrow> cd_status r' \<in> {Approved, Retired})
     \<and> (cd_status r \<noteq> Unresolved \<longrightarrow> cd_status r' \<noteq> Unresolved)
     \<and> (cd_status r \<notin> {Unresolved, NotRequired} \<longrightarrow> cd_status r' \<notin> {Unresolved, NotRequired})"
proof -
  note run = run_row [OF assms]
  have nu: "Unresolved \<notin> may_become s" for s by (cases s) simp_all
  have nn: "s \<noteq> Unresolved \<Longrightarrow> NotRequired \<notin> may_become s" for s by (cases s) simp_all
  have c: "\<forall>s \<in> - {Unresolved}. may_become s \<subseteq> - {Unresolved}"
    "\<forall>s \<in> - {Unresolved, NotRequired}. may_become s \<subseteq> - {Unresolved, NotRequired}"
    using nu nn by auto
  show ?thesis
    using run [of "{Stated}" ops] run [of "{Retired}" ops] run [of "{Approved, Retired}" ops] run [OF c(1), of ops] run [OF c(2), of ops]
    by (auto simp: Let_def same_row_def)
qed

definition sample_row :: "id \<Rightarrow> document_status \<Rightarrow> client_document" where
  "sample_row i s = \<lparr>cd_id = i, cd_client = ''c'', cd_name = [1488], cd_description = None, cd_status = s,
     cd_type_key = Some ''vehicle'', cd_paper_key = None, cd_verification = None, cd_evidence = None\<rparr>"

lemma checklist_rows_final_witness:
  "cd_status (checklist_run [OpRetire ''a'' ''c'' (QuoteEvidence ''m'' [1488])] [sample_row ''a'' Stated] ! 0) = Stated"
  using checklist_rows_final [of 0 "[sample_row ''a'' Stated]" "[OpRetire ''a'' ''c'' (QuoteEvidence ''m'' [1488])]"]
  by (simp add: sample_row_def Let_def)

lemma required_nth:
  assumes "n < length t"
  shows "cd_status (table_after t (resolve_required u i c xs e t) ! n) \<in> {cd_status (t ! n), Pending, Claimed}"
  using assms
  by (auto simp: resolve_required_def table_after_def move_row_def update_where_def nth_append birth_status_def Let_def
      split: list.split option.split)



end
