(* ===== verification/Files.thy ===== *)
theory Files
  imports Checklist Institutions
begin

text \<open>
  Received files and what they may prove: the file rows and their queries
  (\<open>db/queries/documentFiles.ts\<close>), the evidence rules of
  \<open>agents/shared/fileEvidence.ts\<close>, the ties between files and checklist rows
  (\<open>fileTies.ts\<close>), self-evident files (\<open>selfEvidentFiles.ts\<close>) and the names built
  from a file (\<open>splitChildNames.ts\<close>). The institutions table and \<open>toLowerCase\<close> are
  arguments.
\<close>

section \<open>File rows\<close>

datatype analysis_status = AnPending | AnDone | AnFailed | AnUnsupported | AnBlocked | AnNotNeeded | AnSplit
datatype confidence = HighConfidence | MediumConfidence | LowConfidence

record holding =
  ho_product :: utext
  ho_holder :: "utext option"
  ho_account :: "utext option"

text \<open>Fields that may be absent on older rows are options; \<open>=== true\<close> flags are booleans.\<close>

record file_analysis =
  fa_matched_document :: "id option"
  fa_legible :: bool
  fa_confidence :: confidence
  fa_injection_suspected :: bool
  fa_document_type :: "string option"
  fa_document_paper :: "string option"
  fa_issuer :: "utext option"
  fa_holdings :: "holding list option"
  fa_holdings_partial :: bool
  fa_employer :: "utext option"

record document_file =
  df_id :: id
  df_client :: id
  df_email :: "id option"
  df_document :: "id option"
  df_provider_id :: string
  df_filename :: utext
  df_label :: "utext option"
  df_content_type :: utext
  df_size :: nat
  df_status :: analysis_status
  df_analysis :: "file_analysis option"
  df_parent :: "id option"
  df_pages :: "(nat \<times> nat) option"
  df_created :: ms

section \<open>Queries\<close>

definition files_of_client :: "id \<Rightarrow> document_file list \<Rightarrow> document_file list" where
  "files_of_client client t = filter (\<lambda>f. df_client f = client) t"

definition file_for_client :: "id \<Rightarrow> id \<Rightarrow> document_file list \<Rightarrow> document_file option" where
  "file_for_client i client t = List.find (\<lambda>f. df_id f = i \<and> df_client f = client) t"

text \<open>\<open>ON CONFLICT (provider_attachment_id) DO NOTHING\<close>; the row carries its fresh id.\<close>

definition insert_file_if_new :: "document_file \<Rightarrow> document_file list \<Rightarrow> document_file list \<times> document_file option" where
  "insert_file_if_new row t =
     (if list_ex (\<lambda>f. df_provider_id f = df_provider_id row) t then (t, None)
      else (let r = row\<lparr>df_document := None, df_analysis := None\<rparr> in (t @ [r], Some r)))"

definition count_recent_pending :: "ms \<Rightarrow> id \<Rightarrow> int \<Rightarrow> document_file list \<Rightarrow> nat" where
  "count_recent_pending now client since_seconds t =
     length (filter (\<lambda>f. df_client f = client \<and> df_status f = AnPending \<and> df_created f > now - since_seconds * 1000) t)"

definition set_split :: "id \<Rightarrow> document_file list \<Rightarrow> document_file list" where
  "set_split i = update_where (\<lambda>f. df_id f = i) (\<lambda>f. f\<lparr>df_status := AnSplit, df_analysis := None\<rparr>)"

definition set_analysis :: "id \<Rightarrow> analysis_status \<Rightarrow> file_analysis option \<Rightarrow> document_file list \<Rightarrow> document_file list" where
  "set_analysis i s a = update_where (\<lambda>f. df_id f = i) (\<lambda>f. f\<lparr>df_status := s, df_analysis := a\<rparr>)"

definition set_blocked :: "id \<Rightarrow> document_file list \<Rightarrow> document_file list" where
  "set_blocked i = update_where (\<lambda>f. df_id f = i) (\<lambda>f. f\<lparr>df_status := AnBlocked, df_analysis := None\<rparr>)"

definition set_label :: "id \<Rightarrow> utext option \<Rightarrow> document_file list \<Rightarrow> document_file list" where
  "set_label i l = update_where (\<lambda>f. df_id f = i) (\<lambda>f. f\<lparr>df_label := l\<rparr>)"

definition link_to_document :: "id \<Rightarrow> id \<Rightarrow> id \<Rightarrow> document_file list \<Rightarrow> document_file list" where
  "link_to_document i client doc = update_where (\<lambda>f. df_id f = i \<and> df_client f = client) (\<lambda>f. f\<lparr>df_document := Some doc\<rparr>)"

section \<open>What the model can read\<close>

text \<open>\<open>contentType.toLowerCase().split(';')[0].trim()\<close>.\<close>

definition mime_of :: "(utext \<Rightarrow> utext) \<Rightarrow> utext \<Rightarrow> utext" where
  "mime_of lower content_type = js_trim (hd (split_on 59 (lower content_type)))"

definition is_spreadsheet_type :: "(utext \<Rightarrow> utext) \<Rightarrow> utext \<Rightarrow> bool" where
  "is_spreadsheet_type lower content_type = (mime_of lower content_type \<in>
     {jstr ''application/vnd.openxmlformats-officedocument.spreadsheetml.sheet'', jstr ''text/csv''})"

definition ANALYZABLE_TYPES :: "utext set" where
  "ANALYZABLE_TYPES = jstr ` {''application/pdf'', ''image/jpeg'', ''image/png'', ''image/webp'', ''image/heic'', ''image/heif''}"

definition MAX_ANALYZABLE_BYTES :: nat where "MAX_ANALYZABLE_BYTES = 14 * 1024 * 1024"
definition MAX_SPREADSHEET_BYTES :: nat where "MAX_SPREADSHEET_BYTES = 5 * 1024 * 1024"

definition is_analyzable :: "(utext \<Rightarrow> utext) \<Rightarrow> utext \<Rightarrow> nat \<Rightarrow> bool" where
  "is_analyzable lower content_type sz =
     (let mime = mime_of lower content_type in
      if is_spreadsheet_type lower mime then sz \<le> MAX_SPREADSHEET_BYTES
      else mime \<in> ANALYZABLE_TYPES \<and> sz \<le> MAX_ANALYZABLE_BYTES)"

section \<open>Evidence\<close>

definition is_quarantined :: "document_file \<Rightarrow> bool" where
  "is_quarantined f = (if df_status f = AnBlocked then True
     else if df_status f \<noteq> AnDone then False
     else (case df_analysis f of None \<Rightarrow> False | Some a \<Rightarrow> fa_injection_suspected a \<or> \<not> fa_legible a))"

definition is_split_parent :: "document_file \<Rightarrow> bool" where
  "is_split_parent f = (df_status f = AnSplit)"

definition is_verified_legible :: "document_file \<Rightarrow> bool" where
  "is_verified_legible f = (df_status f = AnDone \<and> df_analysis f \<noteq> None \<and> \<not> is_quarantined f)"

definition file_matches_document :: "document_file \<Rightarrow> id \<Rightarrow> bool" where
  "file_matches_document f doc = (df_status f = AnDone \<and> df_analysis f \<noteq> None \<and> \<not> is_quarantined f
     \<and> fa_matched_document (the (df_analysis f)) = Some doc \<and> (df_document f = None \<or> df_document f = Some doc))"

text \<open>A pair of the planner's answer, and whether the client's words back it.\<close>

record file_pair =
  fp_file :: id
  fp_document :: id
  fp_evidence :: "(id \<times> utext) option"

type_synonym file_map = "id \<Rightarrow> document_file option"

definition file_by_id :: "document_file list \<Rightarrow> file_map" where
  "file_by_id fs = map_of (rev (map (\<lambda>f. (df_id f, f)) fs))"

definition applicable_file_pairs :: "file_pair list \<Rightarrow> file_map \<Rightarrow> id set \<Rightarrow> file_pair list" where
  "applicable_file_pairs pairs files doc_ids = filter (\<lambda>m. case files (fp_file m) of None \<Rightarrow> False
     | Some f \<Rightarrow> fp_document m \<in> doc_ids \<and> \<not> is_split_parent f) pairs"

section \<open>Ties\<close>

datatype tie_refusal = CompaniesDiffer | CompanyUnidentifiedNoQuote | UnknownFile | SplitParent | NotVerifiedLegible
  | AlreadyAttached | TypeDiffers | PaperDiffers | FileAlreadyTaken | RowNotPending

definition paper_refusal :: "document_file \<Rightarrow> client_document \<Rightarrow> tie_refusal option" where
  "paper_refusal f doc = (if \<not> truthy (cd_paper_key doc) then None
     else if Option.bind (df_analysis f) fa_document_paper = cd_paper_key doc then None else Some PaperDiffers)"

definition company_refusal :: "institution list \<Rightarrow> document_file \<Rightarrow> client_document \<Rightarrow> bool \<Rightarrow> tie_refusal option" where
  "company_refusal tab f doc has_evidence =
     (if \<not> is_institution_bound (cd_type_key doc) then None
      else (let cmp = compare_companies (Option.bind (df_analysis f) fa_issuer) (cd_name doc) tab in
        if (case cmp of ItemUnidentified _ \<Rightarrow> True | _ \<Rightarrow> False) \<and> Option.bind (df_analysis f) fa_document_type \<noteq> cd_type_key doc then Some TypeDiffers
        else if tie_allowed_by_company cmp has_evidence then None
        else (case cmp of DifferentCompanies _ _ \<Rightarrow> Some CompaniesDiffer | _ \<Rightarrow> Some CompanyUnidentifiedNoQuote)))"

definition doc_by_id :: "docs \<Rightarrow> id \<Rightarrow> client_document option" where
  "doc_by_id ds = map_of (rev (map (\<lambda>d. (cd_id d, d)) ds))"

definition pair_refusal :: "institution list \<Rightarrow> file_map \<Rightarrow> docs \<Rightarrow> file_pair \<Rightarrow> tie_refusal option" where
  "pair_refusal tab files ds pair =
     (case (files (fp_file pair), doc_by_id ds (fp_document pair)) of
        (Some f, Some d) \<Rightarrow> (case paper_refusal f d of Some r \<Rightarrow> Some r
           | None \<Rightarrow> company_refusal tab f d (fp_evidence pair \<noteq> None))
      | _ \<Rightarrow> None)"

definition filter_pairs_by_company ::
  "institution list \<Rightarrow> file_pair list \<Rightarrow> file_map \<Rightarrow> docs \<Rightarrow> file_pair list \<times> (id \<times> id \<times> tie_refusal) list"
where
  "filter_pairs_by_company tab pairs files ds =
     (filter (\<lambda>p. pair_refusal tab files ds p = None) pairs,
      List.map_filter (\<lambda>p. map_option (\<lambda>r. (fp_file p, fp_document p, r)) (pair_refusal tab files ds p)) pairs)"

text \<open>Why one named file is refused for a row created in this cycle; \<open>None\<close> attaches it.\<close>

definition new_row_refusal ::
  "institution list \<Rightarrow> file_map \<Rightarrow> id list \<Rightarrow> client_document \<Rightarrow> id \<Rightarrow> tie_refusal option"
where
  "new_row_refusal tab files taken row fid =
     (case files fid of None \<Rightarrow> Some UnknownFile
      | Some f \<Rightarrow>
          if cd_status row \<noteq> Pending then Some RowNotPending
          else if is_split_parent f then Some SplitParent
          else if \<not> is_verified_legible f then Some NotVerifiedLegible
          else if df_document f \<noteq> None then Some AlreadyAttached
          else if cd_type_key row = None \<or> Option.bind (df_analysis f) fa_document_type \<noteq> cd_type_key row then Some TypeDiffers
          else if paper_refusal f row \<noteq> None then Some PaperDiffers
          else if fid \<in> set taken then Some FileAlreadyTaken
          else company_refusal tab f row True)"

text \<open>The files named for one row, up to the first that is attached.\<close>

fun try_files ::
  "institution list \<Rightarrow> file_map \<Rightarrow> id list \<Rightarrow> client_document \<Rightarrow> id list \<Rightarrow> id option \<times> (id \<times> id \<times> tie_refusal) list"
where
  "try_files tab files taken row [] = (None, [])"
| "try_files tab files taken row (fid # fids) =
     (case new_row_refusal tab files taken row fid of
        None \<Rightarrow> (Some fid, [])
      | Some r \<Rightarrow> (let (a, rs) = try_files tab files taken row fids in (a, (fid, cd_id row, r) # rs)))"

fun assign_from ::
  "institution list \<Rightarrow> file_map \<Rightarrow> id list \<Rightarrow> (client_document \<times> id list) list
   \<Rightarrow> (id \<times> id) list \<times> (id \<times> id \<times> tie_refusal) list"
where
  "assign_from tab files taken [] = ([], [])"
| "assign_from tab files taken ((row, fids) # rows) =
     (let (a, rs) = try_files tab files taken row fids;
          (pairs, refused) = assign_from tab files (case a of None \<Rightarrow> taken | Some f \<Rightarrow> f # taken) rows
      in ((case a of None \<Rightarrow> pairs | Some f \<Rightarrow> (f, cd_id row) # pairs), rs @ refused))"

definition assign_files_to_new_rows ::
  "institution list \<Rightarrow> (client_document \<times> id list) list \<Rightarrow> file_map \<Rightarrow> (id \<times> id) list \<times> (id \<times> id \<times> tie_refusal) list"
where
  "assign_files_to_new_rows tab created files = assign_from tab files [] created"

section \<open>Names\<close>

definition MAX_CHILD_DISPLAY_NAME :: nat where "MAX_CHILD_DISPLAY_NAME = 150"
definition MAX_EMPLOYER :: nat where "MAX_EMPLOYER = 60"

text \<open>\<open>' \<emdash> '\<close> with an em dash.\<close>

definition NAME_SEPARATOR :: utext where "NAME_SEPARATOR = [32, 8212, 32]"

definition unprintable :: "nat \<Rightarrow> bool" where
  "unprintable c = (c \<le> 31 \<or> c = 127 \<or> (8203 \<le> c \<and> c \<le> 8207) \<or> (8234 \<le> c \<and> c \<le> 8238) \<or> (8294 \<le> c \<and> c \<le> 8297) \<or> c = 65279)"

text \<open>\<open>text.replace(/\s+/g, ' ')\<close>.\<close>

fun collapse_ws :: "bool \<Rightarrow> utext \<Rightarrow> utext" where
  "collapse_ws in_ws [] = []"
| "collapse_ws in_ws (c # cs) = (if js_space c then (if in_ws then collapse_ws True cs else 32 # collapse_ws True cs)
     else c # collapse_ws False cs)"

definition clean_name :: "utext \<Rightarrow> utext" where
  "clean_name t = js_trim (collapse_ws False (map (\<lambda>c. if unprintable c then 32 else c) t))"

definition or_empty :: "utext option \<Rightarrow> utext" where
  "or_empty t = (case t of None \<Rightarrow> [] | Some s \<Rightarrow> s)"

definition trim_end :: "utext \<Rightarrow> utext" where
  "trim_end t = rev (dropWhile js_space (rev t))"

definition child_display_name :: "utext option \<Rightarrow> utext option" where
  "child_display_name document_name =
     (let name = clean_name (or_empty document_name) in
      if name = [] then None
      else Some (if MAX_CHILD_DISPLAY_NAME < length name then trim_end (take (MAX_CHILD_DISPLAY_NAME - 1) name) @ [8230] else name))"

definition company_suffixed_name :: "institution list \<Rightarrow> utext \<Rightarrow> utext option \<Rightarrow> string option \<Rightarrow> utext" where
  "company_suffixed_name tab item issuer type_key =
     (if \<not> is_institution_bound type_key then item
      else if identify_institution (Some item) tab \<noteq> None then item
      else (case identify_institution issuer tab of None \<Rightarrow> item
          | Some k \<Rightarrow> item @ NAME_SEPARATOR @ institution_label_he k tab))"

definition latin_or_hebrew :: "nat \<Rightarrow> bool" where
  "latin_or_hebrew c = ((1488 \<le> c \<and> c \<le> 1514) \<or> (97 \<le> c \<and> c \<le> 122) \<or> (65 \<le> c \<and> c \<le> 90))"

definition clean_employer :: "utext option \<Rightarrow> utext option" where
  "clean_employer t =
     (let cleaned = clean_name (map (\<lambda>c. if c = 8212 then 45 else c) (or_empty t)) in
      if cleaned = [] \<or> MAX_EMPLOYER < length cleaned then None
      else if \<not> list_ex latin_or_hebrew cleaned then None
      else Some cleaned)"

definition employer_key :: "(utext \<Rightarrow> utext) \<Rightarrow> utext \<Rightarrow> utext" where
  "employer_key lower e = js_trim (collapse_ws False (lower e))"

definition name_contains_employer :: "(utext \<Rightarrow> utext) \<Rightarrow> utext \<Rightarrow> utext \<Rightarrow> bool" where
  "name_contains_employer lower name e = js_includes (employer_key lower name) (employer_key lower e)"

definition employer_suffixed_name :: "(utext \<Rightarrow> utext) \<Rightarrow> utext \<Rightarrow> utext option \<Rightarrow> string option \<Rightarrow> utext" where
  "employer_suffixed_name lower name employer type_key =
     (if \<not> is_employer_bound type_key then name
      else (case clean_employer employer of None \<Rightarrow> name
          | Some e \<Rightarrow> if name_contains_employer lower name e then name else name @ NAME_SEPARATOR @ e))"

record child_label_input =
  cl_matched_name :: "utext option"
  cl_matched_type :: "string option"
  cl_type :: "string option"
  cl_paper :: "string option"
  cl_issuer :: "utext option"
  cl_employer :: "utext option"
  cl_quarantined :: bool

definition child_label :: "(utext \<Rightarrow> utext) \<Rightarrow> institution list \<Rightarrow> child_label_input \<Rightarrow> utext option" where
  "child_label lower tab input =
     (if cl_quarantined input then None
      else (let matched = clean_name (or_empty (cl_matched_name input)) in
        if matched \<noteq> [] then
          child_display_name (Some (employer_suffixed_name lower
            (company_suffixed_name tab matched (cl_issuer input) (cl_matched_type input)) (cl_employer input) (cl_matched_type input)))
        else (case (if truthy (cl_type input) then get_catalog_type (the (cl_type input)) else None) of
            None \<Rightarrow> None
          | Some t \<Rightarrow>
              (let paper = (if paper_belongs_to_type (cl_paper input) (Some (ct_key t)) then get_catalog_paper (cl_paper input) else None);
                   short = (case paper of Some p \<Rightarrow> pa_short p | None \<Rightarrow> ct_short t);
                   with_company = (case identify_institution (cl_issuer input) tab of None \<Rightarrow> short
                      | Some k \<Rightarrow> short @ NAME_SEPARATOR @ institution_label_he k tab)
               in child_display_name (Some (employer_suffixed_name lower with_company (cl_employer input) (Some (ct_key t))))))))"

section \<open>Self-evident files\<close>

record self_evident =
  se_type_key :: string
  se_institution :: string
  se_issuer :: utext
  se_holders :: "utext list"
  se_matched :: matched_holder
  se_employer :: "utext option"

definition MIN_SHARED_NAME_TOKENS :: nat where "MIN_SHARED_NAME_TOKENS = 2"

text \<open>Whom one printed holder is: nobody, or the closer of the client and the spouse (the client on a tie).\<close>

definition holder_person ::
  "(utext \<Rightarrow> utext) \<Rightarrow> utext \<Rightarrow> utext option \<Rightarrow> utext \<Rightarrow> matched_holder option"
where
  "holder_person lower client spouse name =
     (let with_client = shared_name_tokens lower name client;
          with_spouse = (case spouse of None \<Rightarrow> 0 | Some s \<Rightarrow> shared_name_tokens lower name s)
      in if name = [] \<or> (with_client < MIN_SHARED_NAME_TOKENS \<and> with_spouse < MIN_SHARED_NAME_TOKENS) then None
         else Some (if with_client < with_spouse then HolderSpouse else HolderClient))"

fun match_holders ::
  "(utext \<Rightarrow> utext) \<Rightarrow> utext \<Rightarrow> utext option \<Rightarrow> holding list \<Rightarrow> (utext \<times> matched_holder) list option"
where
  "match_holders lower client spouse [] = Some []"
| "match_holders lower client spouse (h # hs) =
     (let name = js_trim (or_empty (ho_holder h)) in
      case holder_person lower client spouse name of None \<Rightarrow> None
      | Some w \<Rightarrow> map_option (\<lambda>ms. (name, w) # ms) (match_holders lower client spouse hs))"

definition self_evident_file_of ::
  "(utext \<Rightarrow> utext) \<Rightarrow> institution list \<Rightarrow> utext \<Rightarrow> spouse_on_file \<Rightarrow> document_file \<Rightarrow> self_evident option"
where
  "self_evident_file_of lower tab client spouse f =
     (case df_analysis f of None \<Rightarrow> None
      | Some a \<Rightarrow>
          if \<not> is_verified_legible f \<or> is_split_parent f then None
          else if df_document f \<noteq> None \<or> fa_matched_document a \<noteq> None then None
          else if fa_confidence a \<noteq> HighConfidence then None
          else if \<not> is_institution_bound (fa_document_type a) then None
          else (case (fa_document_type a, identify_institution (fa_issuer a) tab) of
              (Some t, Some k) \<Rightarrow>
                (let hs = (case fa_holdings a of None \<Rightarrow> [] | Some hs \<Rightarrow> hs) in
                 if hs = [] \<or> fa_holdings_partial a then None
                 else (case match_holders lower client (sp_name spouse) hs of None \<Rightarrow> None
                     | Some ms \<Rightarrow> Some \<lparr>se_type_key = t, se_institution = k, se_issuer = or_empty (fa_issuer a),
                         se_holders = map fst ms, se_matched = (if HolderClient \<in> snd ` set ms then HolderClient else HolderSpouse),
                         se_employer = (if is_employer_bound (Some t) then clean_employer (fa_employer a) else None)\<rparr>))
            | _ \<Rightarrow> None))"

definition self_evident_files_of ::
  "(utext \<Rightarrow> utext) \<Rightarrow> institution list \<Rightarrow> utext \<Rightarrow> spouse_on_file \<Rightarrow> document_file list \<Rightarrow> (id \<times> self_evident) list"
where
  "self_evident_files_of lower tab client spouse fs =
     List.map_filter (\<lambda>f. map_option (\<lambda>p. (df_id f, p)) (self_evident_file_of lower tab client spouse f)) fs"

definition self_evident_evidence_of :: "id \<Rightarrow> self_evident \<Rightarrow> resolution_evidence" where
  "self_evident_evidence_of fid p = SelfEvidentEvidence fid (se_issuer p) (se_holders p) (se_matched p)
     (case se_employer p of None \<Rightarrow> None | Some e \<Rightarrow> if e = [] then None else Some e)"

definition self_evident_item_name :: "(utext \<Rightarrow> utext) \<Rightarrow> institution list \<Rightarrow> utext \<Rightarrow> self_evident \<Rightarrow> utext" where
  "self_evident_item_name lower tab name p =
     employer_suffixed_name lower (company_suffixed_name tab name (Some (se_issuer p)) (Some (se_type_key p)))
       (se_employer p) (Some (se_type_key p))"

section \<open>Properties\<close>

lemma try_files_attached:
  "try_files tab files taken row fids = (Some f, rs) \<Longrightarrow> f \<in> set fids \<and> new_row_refusal tab files taken row f = None"
  by (induction fids arbitrary: rs) (auto simp: Let_def split: option.splits prod.splits)

lemma new_row_taken: "new_row_refusal tab files taken row f = None \<Longrightarrow> f \<notin> set taken"
  by (auto simp: new_row_refusal_def split: option.splits if_splits)

lemma new_row_refusal_weaken:
  "new_row_refusal tab files taken row f = None \<Longrightarrow> new_row_refusal tab files [] row f = None"
  by (auto simp: new_row_refusal_def split: option.splits if_splits)

lemma assign_from_sound:
  "set (map fst (fst (assign_from tab files taken created))) \<inter> set taken = {}
   \<and> distinct (map fst (fst (assign_from tab files taken created)))
   \<and> (\<forall>f d. (f, d) \<in> set (fst (assign_from tab files taken created)) \<longrightarrow>
        (\<exists>row fids. (row, fids) \<in> set created \<and> cd_id row = d \<and> f \<in> set fids \<and> new_row_refusal tab files [] row f = None))"
proof (induction created arbitrary: taken)
  case (Cons x created)
  obtain row fids where x: "x = (row, fids)" by (cases x)
  obtain a rs where t: "try_files tab files taken row fids = (a, rs)" by (cases "try_files tab files taken row fids")
  show ?case
  proof (cases a)
    case None
    then have e: "fst (assign_from tab files taken (x # created)) = fst (assign_from tab files taken created)"
      using t by (simp add: x split: prod.split)
    show ?thesis unfolding e using Cons.IH [of taken] by (metis list.set_intros(2))
  next
    case (Some f)
    have f: "f \<in> set fids" "new_row_refusal tab files taken row f = None" using try_files_attached t Some by blast+
    note f' = new_row_taken [OF f(2)] new_row_refusal_weaken [OF f(2)]
    have e: "fst (assign_from tab files taken (x # created)) = (f, cd_id row) # fst (assign_from tab files (f # taken) created)"
      using t Some by (simp add: x split: prod.split)
    have all: "\<exists>row fids. (row, fids) \<in> set (x # created) \<and> cd_id row = d \<and> g \<in> set fids \<and> new_row_refusal tab files [] row g = None"
      if "(g, d) \<in> set ((f, cd_id row) # fst (assign_from tab files (f # taken) created))" for g d
      using that Cons.IH [of "f # taken"] f(1) f'(2) x by (metis list.set_intros(1,2) prod.inject set_ConsD)
    show ?thesis unfolding e using Cons.IH [of "f # taken"] f'(1) all by auto
  qed
qed simp

text \<open>C15: A file named for rows created in the cycle is attached only when it is a known, readable, not suspicious file, attached to nothing, whose analysed type and paper are the row's and whose company does not contradict it, and the row is pending; every file goes to at most one row and only to a row it was named for.\<close>

theorem new_row_ties_sound:
  assumes "assign_files_to_new_rows tab created files = (pairs, refused)"
  shows "distinct (map fst pairs)
   \<and> (\<forall>fid did. (fid, did) \<in> set pairs \<longrightarrow> (\<exists>row fids f. (row, fids) \<in> set created \<and> cd_id row = did \<and> fid \<in> set fids \<and> files fid = Some f
        \<and> cd_status row = Pending \<and> is_verified_legible f \<and> df_document f = None
        \<and> cd_type_key row \<noteq> None \<and> fa_document_type (the (df_analysis f)) = cd_type_key row
        \<and> paper_refusal f row = None \<and> company_refusal tab f row True = None))"
proof -
  have "\<exists>f. files fid = Some f \<and> cd_status row = Pending \<and> is_verified_legible f \<and> df_document f = None
        \<and> cd_type_key row \<noteq> None \<and> fa_document_type (the (df_analysis f)) = cd_type_key row
        \<and> paper_refusal f row = None \<and> company_refusal tab f row True = None"
    if "new_row_refusal tab files [] row fid = None" for row fid
    using that by (auto simp: new_row_refusal_def is_verified_legible_def split: option.splits if_splits)
  then show ?thesis
    using assign_from_sound [of tab files "[]" created] assms
    unfolding assign_files_to_new_rows_def by (metis fst_conv)
qed

definition sample_file :: document_file where
  "sample_file = \<lparr>df_id = ''f'', df_client = ''c'', df_email = None, df_document = None, df_provider_id = ''p'', df_filename = [1488],
     df_label = None, df_content_type = jstr ''application/pdf'', df_size = 1000, df_status = AnDone,
     df_analysis = Some \<lparr>fa_matched_document = None, fa_legible = True, fa_confidence = HighConfidence, fa_injection_suspected = False,
       fa_document_type = Some ''vehicle'', fa_document_paper = None, fa_issuer = None, fa_holdings = None, fa_holdings_partial = False,
       fa_employer = None\<rparr>,
     df_parent = None, df_pages = None, df_created = 0\<rparr>"

lemma vehicle_not_bound: "\<not> is_institution_bound (Some ''vehicle'')"
  by (simp add: is_institution_bound_def truthy_def get_catalog_type_def CAPITAL_DOCUMENT_CATALOG_def)

lemma new_row_ties_sound_witness:
  "\<exists>f. file_by_id [sample_file] ''f'' = Some f \<and> is_verified_legible f \<and> df_document f = None"
proof -
  have "assign_files_to_new_rows [] [(sample_row ''a'' Pending, [''f''])] (file_by_id [sample_file]) = ([(''f'', ''a'')], [])"
    by (simp add: assign_files_to_new_rows_def new_row_refusal_def file_by_id_def sample_file_def sample_row_def is_split_parent_def
        is_verified_legible_def is_quarantined_def paper_refusal_def truthy_def company_refusal_def vehicle_not_bound Let_def)
  from new_row_ties_sound [OF this] show ?thesis by auto
qed

lemma match_holders_all:
  "match_holders lower client spouse hs = Some ms \<Longrightarrow>
     list_all2 (\<lambda>h (n, w). n = js_trim (or_empty (ho_holder h)) \<and> holder_person lower client spouse n = Some w) hs ms"
  by (induction hs arbitrary: ms) (auto simp: Let_def split: option.splits)

lemma holder_person_Some:
  "holder_person lower client spouse n = Some w \<Longrightarrow> n \<noteq> [] \<and>
     (case w of HolderClient \<Rightarrow> 2 \<le> shared_name_tokens lower n client
      | HolderSpouse \<Rightarrow> \<exists>s. spouse = Some s \<and> 2 \<le> shared_name_tokens lower n s)"
  by (auto simp: holder_person_def MIN_SHARED_NAME_TOKENS_def Let_def split: if_splits option.splits)

text \<open>A file proves its own item only when it is a readable, not suspicious file attached to nothing and matched to nothing, of a type bound to an institution, issued by exactly one known company, and every account it lists has a printed holder who shares at least two name words with the client or with the spouse on file; it counts as the spouse's only when no holder is the client.\<close>

theorem self_evident_file_sound:
  assumes "self_evident_file_of lower tab client spouse f = Some p"
  shows "\<exists>a hs. df_analysis f = Some a \<and> is_verified_legible f \<and> df_document f = None \<and> fa_matched_document a = None
     \<and> fa_document_type a = Some (se_type_key p) \<and> is_institution_bound (Some (se_type_key p))
     \<and> identify_institution (fa_issuer a) tab = Some (se_institution p)
     \<and> fa_holdings a = Some hs \<and> hs \<noteq> [] \<and> length (se_holders p) = length hs
     \<and> (\<forall>n \<in> set (se_holders p). n \<noteq> [] \<and>
          (2 \<le> shared_name_tokens lower n client \<or> (\<exists>s. sp_name spouse = Some s \<and> 2 \<le> shared_name_tokens lower n s)))
     \<and> (se_matched p = HolderSpouse \<longrightarrow> (\<forall>n \<in> set (se_holders p). holder_person lower client (sp_name spouse) n = Some HolderSpouse))"
proof -
  obtain a t k hs ms where a: "df_analysis f = Some a" "is_verified_legible f" "df_document f = None" "fa_matched_document a = None"
      "fa_document_type a = Some t" "is_institution_bound (Some t)" "identify_institution (fa_issuer a) tab = Some k"
      "fa_holdings a = Some hs" "hs \<noteq> []" and ms: "match_holders lower client (sp_name spouse) hs = Some ms"
      and p: "p = \<lparr>se_type_key = t, se_institution = k, se_issuer = or_empty (fa_issuer a),
                         se_holders = map fst ms, se_matched = (if HolderClient \<in> snd ` set ms then HolderClient else HolderSpouse),
                         se_employer = (if is_employer_bound (Some t) then clean_employer (fa_employer a) else None)\<rparr>"
    using assms by (auto simp: self_evident_file_of_def Let_def split: option.splits if_splits)
  note all = match_holders_all [OF ms]
  have each: "holder_person lower client (sp_name spouse) n = Some w" if mem: "(n, w) \<in> set ms" for n w
  proof -
    obtain i where "i < length ms" "ms ! i = (n, w)" using mem unfolding in_set_conv_nth by blast
    then show ?thesis using list_all2_nthD2 [OF all, of i] by auto
  qed
  have names: "n \<noteq> [] \<and> (2 \<le> shared_name_tokens lower n client \<or> (\<exists>s. sp_name spouse = Some s \<and> 2 \<le> shared_name_tokens lower n s))"
    if "(n, w) \<in> set ms" for n w
    using holder_person_Some [OF each [OF that]] by (cases w) auto
  have sp: "w = HolderSpouse" if mem: "(n, w) \<in> set ms" and no: "HolderClient \<notin> snd ` set ms" for n w
  proof (cases w)
    case HolderClient
    then have "HolderClient \<in> snd ` set ms" using imageI [OF mem, of snd] by simp
    then show ?thesis using no by blast
  qed
  have spouse: "holder_person lower client (sp_name spouse) n = Some HolderSpouse"
    if none: "HolderClient \<notin> snd ` set ms" and mem: "n \<in> set (map fst ms)" for n
  proof -
    obtain w where w: "(n, w) \<in> set ms" using mem by auto
    show ?thesis using each [OF w] sp [OF w none] by simp
  qed
  have named: "n \<noteq> [] \<and> (2 \<le> shared_name_tokens lower n client \<or> (\<exists>s. sp_name spouse = Some s \<and> 2 \<le> shared_name_tokens lower n s))"
    if mem: "n \<in> set (map fst ms)" for n
  proof -
    obtain w where w: "(n, w) \<in> set ms" using mem by auto
    show ?thesis by (rule names [OF w])
  qed
  have matched: "HolderClient \<notin> snd ` set ms" if "se_matched p = HolderSpouse"
    using that by (simp add: p split: if_splits)
  have holders: "se_holders p = map fst ms" and keys: "se_type_key p = t" "se_institution p = k" by (simp_all add: p)
  have n: "\<forall>n \<in> set (se_holders p). n \<noteq> [] \<and>
      (2 \<le> shared_name_tokens lower n client \<or> (\<exists>s. sp_name spouse = Some s \<and> 2 \<le> shared_name_tokens lower n s))"
    unfolding holders using named by (rule ballI)
  have m: "se_matched p = HolderSpouse \<longrightarrow> (\<forall>n \<in> set (se_holders p). holder_person lower client (sp_name spouse) n = Some HolderSpouse)"
    unfolding holders using spouse matched by blast
  have l: "length (se_holders p) = length hs" unfolding holders using list_all2_lengthD [OF all] by simp
  show ?thesis
    unfolding keys using a n m l by blast
qed

definition sample_report :: document_file where
  "sample_report = sample_file\<lparr>df_analysis := Some \<lparr>fa_matched_document = None, fa_legible = True, fa_confidence = HighConfidence,
       fa_injection_suspected = False, fa_document_type = Some ''bank_balance'', fa_document_paper = None, fa_issuer = Some (jstr ''AB-c''),
       fa_holdings = Some [\<lparr>ho_product = [], ho_holder = Some [1488, 1489, 32, 1490, 1491], ho_account = None\<rparr>],
       fa_holdings_partial = False, fa_employer = None\<rparr>\<rparr>"

lemma bank_bound: "is_institution_bound (Some ''bank_balance'')"
  by (simp add: is_institution_bound_def truthy_def get_catalog_type_def CAPITAL_DOCUMENT_CATALOG_def)

lemma bank_not_employer_bound: "\<not> is_employer_bound (Some ''bank_balance'')"
  by (simp add: is_employer_bound_def truthy_def get_catalog_type_def CAPITAL_DOCUMENT_CATALOG_def)

lemma two_names: "shared_name_tokens (\<lambda>s. s) [1488, 1489, 32, 1490, 1491] [1490, 1491, 32, 1488, 1489] = 2"
  by (simp add: shared_name_tokens_def name_tokens_def name_punct_def js_space_def)

lemma sample_report_proves:
  "self_evident_file_of (\<lambda>s. s) demo_table [1490, 1491, 32, 1488, 1489] EMPTY_SPOUSE sample_report
   = Some \<lparr>se_type_key = ''bank_balance'', se_institution = ''b'', se_issuer = jstr ''AB-c'', se_holders = [[1488, 1489, 32, 1490, 1491]],
       se_matched = HolderClient, se_employer = None\<rparr>"
proof -
  have "identify_institution (Some [65, 66, 45, 99]) demo_table = Some ''b''"
    using demo_identified by (simp add: jstr_def)
  then show ?thesis
    by (simp add: self_evident_file_of_def sample_report_def sample_file_def is_verified_legible_def is_quarantined_def is_split_parent_def
        bank_bound bank_not_employer_bound or_empty_def holder_person_def two_names MIN_SHARED_NAME_TOKENS_def EMPTY_SPOUSE_def
        js_trim_def js_space_def Let_def)
qed

lemma self_evident_file_sound_witness:
  "\<exists>a. df_analysis sample_report = Some a \<and> is_verified_legible sample_report \<and> identify_institution (fa_issuer a) demo_table = Some ''b''"
  using self_evident_file_sound [OF sample_report_proves] by auto

end
