(* ===== verification/DocumentTypes.thy ===== *)
theory DocumentTypes
  imports VerifyChecks
begin

text \<open>
  The document types of the capital declaration
  (\<open>agents/declarationOfCapital/documentTypes/*.ts\<close>): for each type the fields
  its extraction reads and the ordered list of checks its verification runs, and the
  registry that resolves a checklist row's type key. The prompts and the zod schemas
  are texts for the model and are left out. \<open>lower\<close> is \<open>toLowerCase\<close>.
\<close>

type_synonym verifier = "(utext \<Rightarrow> utext) \<Rightarrow> extracted_answer \<Rightarrow> check_context \<Rightarrow> checks_verdict"

section \<open>The field patterns\<close>

text \<open>\<open>/^\d{7,8}$/\<close>, \<open>/^[A-Z]{3}$/\<close> and \<open>/^(private|builder)$/\<close>.\<close>

definition is_plate_text :: "utext \<Rightarrow> bool" where
  "is_plate_text t = (list_all is_digit t \<and> (length t = 7 \<or> length t = 8))"

definition is_currency_code :: "utext \<Rightarrow> bool" where
  "is_currency_code t = (length t = 3 \<and> list_all (\<lambda>c. 65 \<le> c \<and> c \<le> 90) t)"

definition is_seller_kind :: "utext \<Rightarrow> bool" where
  "is_seller_kind t = (t = jstr ''private'' \<or> t = jstr ''builder'')"

section \<open>The types\<close>

definition bank_balance_fields :: "type_field list" where
  "bank_balance_fields = [
     \<lparr>tf_key = ''account_number'', tf_kind = KText, tf_required = True, tf_pattern = None, tf_min = None\<rparr>,
     \<lparr>tf_key = ''current_account_balance'', tf_kind = KNumber, tf_required = True, tf_pattern = None, tf_min = None\<rparr>,
     \<lparr>tf_key = ''deposits_balance'', tf_kind = KNumber, tf_required = False, tf_pattern = None, tf_min = Some 0\<rparr>]"

definition bank_balance_verify :: verifier where
  "bank_balance_verify lower answer ctx = (let (identity, owners) = identity_checks lower answer ctx True in
     verdict_of ([legible_check answer, expected_type_check answer] @ identity @ [as_of_date_check answer ctx, type_fields_check answer ctx bank_balance_fields []]) owners)"

definition securities_portfolio_fields :: "type_field list" where
  "securities_portfolio_fields = [
     \<lparr>tf_key = ''account_number'', tf_kind = KText, tf_required = True, tf_pattern = None, tf_min = None\<rparr>,
     \<lparr>tf_key = ''portfolio_value'', tf_kind = KNumber, tf_required = True, tf_pattern = None, tf_min = Some 0\<rparr>,
     \<lparr>tf_key = ''base_currency'', tf_kind = KText, tf_required = True, tf_pattern = None, tf_min = None\<rparr>]"

definition securities_portfolio_verify :: verifier where
  "securities_portfolio_verify lower answer ctx = (let (identity, owners) = identity_checks lower answer ctx True in
     verdict_of ([legible_check answer, expected_type_check answer] @ identity @ [as_of_date_check answer ctx, type_fields_check answer ctx securities_portfolio_fields []]) owners)"

definition pension_provident_fields :: "type_field list" where
  "pension_provident_fields = [
     \<lparr>tf_key = ''fund_name'', tf_kind = KText, tf_required = True, tf_pattern = None, tf_min = None\<rparr>,
     \<lparr>tf_key = ''account_number'', tf_kind = KText, tf_required = False, tf_pattern = None, tf_min = None\<rparr>,
     \<lparr>tf_key = ''closing_balance'', tf_kind = KNumber, tf_required = False, tf_pattern = None, tf_min = Some 0\<rparr>,
     \<lparr>tf_key = ''total_deposits'', tf_kind = KNumber, tf_required = False, tf_pattern = None, tf_min = Some 0\<rparr>]"

definition pension_provident_verify :: verifier where
  "pension_provident_verify lower answer ctx = (let (identity, owners) = identity_checks lower answer ctx True in
     verdict_of ([legible_check answer, expected_type_check answer] @ identity @ [as_of_date_check answer ctx, type_fields_check answer ctx pension_provident_fields [''closing_balance'', ''total_deposits'']]) owners)"

definition study_fund_fields :: "type_field list" where
  "study_fund_fields = [
     \<lparr>tf_key = ''fund_name'', tf_kind = KText, tf_required = True, tf_pattern = None, tf_min = None\<rparr>,
     \<lparr>tf_key = ''account_number'', tf_kind = KText, tf_required = False, tf_pattern = None, tf_min = None\<rparr>,
     \<lparr>tf_key = ''closing_balance'', tf_kind = KNumber, tf_required = False, tf_pattern = None, tf_min = Some 0\<rparr>,
     \<lparr>tf_key = ''total_deposits'', tf_kind = KNumber, tf_required = False, tf_pattern = None, tf_min = Some 0\<rparr>]"

definition study_fund_verify :: verifier where
  "study_fund_verify lower answer ctx = (let (identity, owners) = identity_checks lower answer ctx True in
     verdict_of ([legible_check answer, expected_type_check answer] @ identity @ [as_of_date_check answer ctx, type_fields_check answer ctx study_fund_fields [''closing_balance'', ''total_deposits'']]) owners)"

definition life_insurance_savings_fields :: "type_field list" where
  "life_insurance_savings_fields = [
     \<lparr>tf_key = ''fund_name'', tf_kind = KText, tf_required = True, tf_pattern = None, tf_min = None\<rparr>,
     \<lparr>tf_key = ''account_number'', tf_kind = KText, tf_required = False, tf_pattern = None, tf_min = None\<rparr>,
     \<lparr>tf_key = ''closing_balance'', tf_kind = KNumber, tf_required = False, tf_pattern = None, tf_min = Some 0\<rparr>,
     \<lparr>tf_key = ''total_deposits'', tf_kind = KNumber, tf_required = False, tf_pattern = None, tf_min = Some 0\<rparr>]"

definition life_insurance_savings_verify :: verifier where
  "life_insurance_savings_verify lower answer ctx = (let (identity, owners) = identity_checks lower answer ctx True in
     verdict_of ([legible_check answer, expected_type_check answer] @ identity @ [as_of_date_check answer ctx, type_fields_check answer ctx life_insurance_savings_fields [''closing_balance'', ''total_deposits'']]) owners)"

definition real_estate_fields :: "type_field list" where
  "real_estate_fields = [
     \<lparr>tf_key = ''property_address'', tf_kind = KText, tf_required = False, tf_pattern = None, tf_min = None\<rparr>,
     \<lparr>tf_key = ''purchase_price'', tf_kind = KNumber, tf_required = False, tf_pattern = None, tf_min = Some 0\<rparr>,
     \<lparr>tf_key = ''price_currency'', tf_kind = KText, tf_required = False, tf_pattern = Some is_currency_code, tf_min = None\<rparr>,
     \<lparr>tf_key = ''purchase_year'', tf_kind = KYear, tf_required = False, tf_pattern = None, tf_min = None\<rparr>,
     \<lparr>tf_key = ''seller_kind'', tf_kind = KText, tf_required = False, tf_pattern = Some is_seller_kind, tf_min = None\<rparr>]"

definition real_estate_verify :: verifier where
  "real_estate_verify lower answer ctx = (let (identity, owners) = identity_checks lower answer ctx True in
     verdict_of ([legible_check answer, expected_type_check answer] @ identity @ [type_fields_check answer ctx real_estate_fields []]) owners)"

definition mortgage_balance_fields :: "type_field list" where
  "mortgage_balance_fields = [
     \<lparr>tf_key = ''loan_number'', tf_kind = KText, tf_required = False, tf_pattern = None, tf_min = None\<rparr>,
     \<lparr>tf_key = ''principal_balance'', tf_kind = KNumber, tf_required = True, tf_pattern = None, tf_min = Some 0\<rparr>]"

definition mortgage_balance_verify :: verifier where
  "mortgage_balance_verify lower answer ctx = (let (identity, owners) = identity_checks lower answer ctx True in
     verdict_of ([legible_check answer, expected_type_check answer] @ identity @ [as_of_date_check answer ctx, type_fields_check answer ctx mortgage_balance_fields []]) owners)"

definition loan_taken_fields :: "type_field list" where
  "loan_taken_fields = [
     \<lparr>tf_key = ''lender_name'', tf_kind = KText, tf_required = False, tf_pattern = None, tf_min = None\<rparr>,
     \<lparr>tf_key = ''outstanding_balance'', tf_kind = KNumber, tf_required = True, tf_pattern = None, tf_min = Some 0\<rparr>]"

definition loan_taken_verify :: verifier where
  "loan_taken_verify lower answer ctx = (let (identity, owners) = identity_checks lower answer ctx True in
     verdict_of ([legible_check answer, expected_type_check answer] @ identity @ [as_of_date_check answer ctx, type_fields_check answer ctx loan_taken_fields []]) owners)"

definition loan_given_fields :: "type_field list" where
  "loan_given_fields = [
     \<lparr>tf_key = ''borrower_name'', tf_kind = KText, tf_required = False, tf_pattern = None, tf_min = None\<rparr>,
     \<lparr>tf_key = ''debt_balance'', tf_kind = KNumber, tf_required = True, tf_pattern = None, tf_min = Some 0\<rparr>]"

definition loan_given_verify :: verifier where
  "loan_given_verify lower answer ctx = (let (identity, owners) = identity_checks lower answer ctx True in
     verdict_of ([legible_check answer, expected_type_check answer] @ identity @ [type_fields_check answer ctx loan_given_fields []]) owners)"

definition vehicle_fields :: "type_field list" where
  "vehicle_fields = [
     \<lparr>tf_key = ''license_plate'', tf_kind = KText, tf_required = False, tf_pattern = Some is_plate_text, tf_min = None\<rparr>,
     \<lparr>tf_key = ''manufacturer'', tf_kind = KText, tf_required = False, tf_pattern = None, tf_min = None\<rparr>,
     \<lparr>tf_key = ''model'', tf_kind = KText, tf_required = False, tf_pattern = None, tf_min = None\<rparr>,
     \<lparr>tf_key = ''production_year'', tf_kind = KYear, tf_required = False, tf_pattern = None, tf_min = None\<rparr>,
     \<lparr>tf_key = ''purchase_cost'', tf_kind = KNumber, tf_required = False, tf_pattern = None, tf_min = Some 0\<rparr>]"

definition vehicle_verify :: verifier where
  "vehicle_verify lower answer ctx = (let (identity, owners) = identity_checks lower answer ctx True in
     verdict_of ([legible_check answer, expected_type_check answer] @ identity @ [type_fields_check answer ctx vehicle_fields [''license_plate'', ''purchase_cost'']]) owners)"

definition contents_insurance_fields :: "type_field list" where
  "contents_insurance_fields = [
     \<lparr>tf_key = ''policy_number'', tf_kind = KText, tf_required = False, tf_pattern = None, tf_min = None\<rparr>,
     \<lparr>tf_key = ''contents_sum'', tf_kind = KNumber, tf_required = True, tf_pattern = None, tf_min = Some 1\<rparr>,
     \<lparr>tf_key = ''period_from'', tf_kind = KDate, tf_required = True, tf_pattern = None, tf_min = None\<rparr>,
     \<lparr>tf_key = ''period_to'', tf_kind = KDate, tf_required = True, tf_pattern = None, tf_min = None\<rparr>]"

definition contents_insurance_verify :: verifier where
  "contents_insurance_verify lower answer ctx = (let (identity, owners) = identity_checks lower answer ctx True in
     verdict_of ([legible_check answer, expected_type_check answer] @ identity @ [type_fields_check answer ctx contents_insurance_fields [], period_covers_valuation_date_check answer ctx contents_insurance_fields ''period_from'' ''period_to'']) owners)"

definition business_ownership_verify :: verifier where
  "business_ownership_verify lower answer ctx = (let (identity, owners) = identity_checks lower answer ctx True in
     verdict_of ([legible_check answer, expected_type_check answer] @ identity) owners)"

definition crypto_fields :: "type_field list" where
  "crypto_fields = [
     \<lparr>tf_key = ''market_value'', tf_kind = KNumber, tf_required = True, tf_pattern = None, tf_min = Some 0\<rparr>,
     \<lparr>tf_key = ''value_currency'', tf_kind = KText, tf_required = True, tf_pattern = Some is_currency_code, tf_min = None\<rparr>]"

definition crypto_verify :: verifier where
  "crypto_verify lower answer ctx = (let (identity, owners) = identity_checks lower answer ctx False in
     verdict_of ([legible_check answer, expected_type_check answer] @ identity @ [as_of_date_check answer ctx, type_fields_check answer ctx crypto_fields []]) owners)"

definition private_investment_verify :: verifier where
  "private_investment_verify lower answer ctx = (let (identity, owners) = identity_checks lower answer ctx True in
     verdict_of ([legible_check answer, expected_type_check answer] @ identity) owners)"

definition poa_account_verify :: verifier where
  "poa_account_verify lower answer ctx = (let (identity, owners) = identity_checks lower answer ctx False in
     verdict_of ([legible_check answer, expected_type_check answer] @ identity) owners)"

definition prior_declaration_verify :: verifier where
  "prior_declaration_verify lower answer ctx = (let (identity, owners) = identity_checks lower answer ctx True in
     verdict_of ([legible_check answer, expected_type_check answer] @ identity) owners)"

definition other_assets_verify :: verifier where
  "other_assets_verify lower answer ctx = (let (identity, owners) = identity_checks lower answer ctx False in
     verdict_of ([legible_check answer, expected_type_check answer] @ identity) owners)"

definition generic_verify :: verifier where
  "generic_verify lower answer ctx = (let (identity, owners) = identity_checks lower answer ctx False in
     verdict_of ([legible_check answer, expected_type_check answer] @ identity) owners)"

section \<open>The registry\<close>

record document_type_spec =
  ds_key :: string
  ds_fields :: "type_field list"
  ds_any_of :: "string list"
  ds_verify :: verifier

definition DOCUMENT_TYPES :: "document_type_spec list" where
  "DOCUMENT_TYPES = [
     \<lparr>ds_key = ''bank_balance'', ds_fields = bank_balance_fields, ds_any_of = [], ds_verify = bank_balance_verify\<rparr>,
     \<lparr>ds_key = ''securities_portfolio'', ds_fields = securities_portfolio_fields, ds_any_of = [], ds_verify = securities_portfolio_verify\<rparr>,
     \<lparr>ds_key = ''pension_provident'', ds_fields = pension_provident_fields, ds_any_of = [''closing_balance'', ''total_deposits''], ds_verify = pension_provident_verify\<rparr>,
     \<lparr>ds_key = ''study_fund'', ds_fields = study_fund_fields, ds_any_of = [''closing_balance'', ''total_deposits''], ds_verify = study_fund_verify\<rparr>,
     \<lparr>ds_key = ''life_insurance_savings'', ds_fields = life_insurance_savings_fields, ds_any_of = [''closing_balance'', ''total_deposits''], ds_verify = life_insurance_savings_verify\<rparr>,
     \<lparr>ds_key = ''real_estate'', ds_fields = real_estate_fields, ds_any_of = [], ds_verify = real_estate_verify\<rparr>,
     \<lparr>ds_key = ''mortgage_balance'', ds_fields = mortgage_balance_fields, ds_any_of = [], ds_verify = mortgage_balance_verify\<rparr>,
     \<lparr>ds_key = ''loan_taken'', ds_fields = loan_taken_fields, ds_any_of = [], ds_verify = loan_taken_verify\<rparr>,
     \<lparr>ds_key = ''loan_given'', ds_fields = loan_given_fields, ds_any_of = [], ds_verify = loan_given_verify\<rparr>,
     \<lparr>ds_key = ''vehicle'', ds_fields = vehicle_fields, ds_any_of = [''license_plate'', ''purchase_cost''], ds_verify = vehicle_verify\<rparr>,
     \<lparr>ds_key = ''contents_insurance'', ds_fields = contents_insurance_fields, ds_any_of = [], ds_verify = contents_insurance_verify\<rparr>,
     \<lparr>ds_key = ''business_ownership'', ds_fields = [], ds_any_of = [], ds_verify = business_ownership_verify\<rparr>,
     \<lparr>ds_key = ''crypto'', ds_fields = crypto_fields, ds_any_of = [], ds_verify = crypto_verify\<rparr>,
     \<lparr>ds_key = ''private_investment'', ds_fields = [], ds_any_of = [], ds_verify = private_investment_verify\<rparr>,
     \<lparr>ds_key = ''poa_account'', ds_fields = [], ds_any_of = [], ds_verify = poa_account_verify\<rparr>,
     \<lparr>ds_key = ''prior_declaration'', ds_fields = [], ds_any_of = [], ds_verify = prior_declaration_verify\<rparr>,
     \<lparr>ds_key = ''other_assets'', ds_fields = [], ds_any_of = [], ds_verify = other_assets_verify\<rparr>]"

definition GENERIC_DOCUMENT_TYPE :: document_type_spec where
  "GENERIC_DOCUMENT_TYPE = \<lparr>ds_key = ''generic'', ds_fields = [], ds_any_of = [], ds_verify = generic_verify\<rparr>"

definition resolve_document_type :: "string option \<Rightarrow> document_type_spec" where
  "resolve_document_type k = (if truthy k
     then (case map_of (rev (map (\<lambda>t. (ds_key t, t)) DOCUMENT_TYPES)) (the k) of None \<Rightarrow> GENERIC_DOCUMENT_TYPE | Some t \<Rightarrow> t)
     else GENERIC_DOCUMENT_TYPE)"

section \<open>What the types run\<close>

definition needs_subject :: "string \<Rightarrow> bool" where
  "needs_subject k = (k \<notin> {''crypto'', ''poa_account'', ''other_assets'', ''generic''})"

definition checks_date :: "string \<Rightarrow> bool" where
  "checks_date k = (k \<in> {''bank_balance'', ''securities_portfolio'', ''pension_provident'', ''study_fund'',
     ''life_insurance_savings'', ''mortgage_balance'', ''loan_taken'', ''crypto''})"

lemmas verify_defs = bank_balance_verify_def securities_portfolio_verify_def pension_provident_verify_def
  study_fund_verify_def life_insurance_savings_verify_def real_estate_verify_def mortgage_balance_verify_def
  loan_taken_verify_def loan_given_verify_def vehicle_verify_def contents_insurance_verify_def
  business_ownership_verify_def crypto_verify_def private_investment_verify_def poa_account_verify_def
  prior_declaration_verify_def other_assets_verify_def

lemmas fields_defs = bank_balance_fields_def securities_portfolio_fields_def pension_provident_fields_def
  study_fund_fields_def life_insurance_savings_fields_def real_estate_fields_def mortgage_balance_fields_def
  loan_taken_fields_def loan_given_fields_def vehicle_fields_def contents_insurance_fields_def crypto_fields_def

lemma verify_shape:
  assumes "t \<in> set DOCUMENT_TYPES"
  shows "ds_verify t lower a ctx = verdict_of
     ([legible_check a, expected_type_check a] @ fst (identity_checks lower a ctx (needs_subject (ds_key t)))
      @ (if checks_date (ds_key t) then [as_of_date_check a ctx] else [])
      @ (if ds_fields t \<noteq> [] then [type_fields_check a ctx (ds_fields t) (ds_any_of t)] else [])
      @ (if ds_key t = ''contents_insurance''
         then [period_covers_valuation_date_check a ctx (ds_fields t) ''period_from'' ''period_to''] else []))
     (snd (identity_checks lower a ctx (needs_subject (ds_key t))))"
  using assms unfolding DOCUMENT_TYPES_def list.set insert_iff empty_iff simp_thms
  by (elim disjE) (simp_all add: verify_defs fields_defs needs_subject_def checks_date_def split_def Let_def)

lemma passed_shape:
  assumes "t \<in> set DOCUMENT_TYPES" and "cv_passed (ds_verify t lower a ctx)"
  shows "ea_legible a" and "ea_is_expected_type a"
    and "\<forall>c \<in> set (fst (identity_checks lower a ctx (needs_subject (ds_key t)))). \<not> fails c"
    and "checks_date (ds_key t) \<Longrightarrow> ea_as_of_date a = Some (valuation_date (cc_tax_year ctx))"
    and "ds_fields t \<noteq> [] \<Longrightarrow> \<not> fails (type_fields_check a ctx (ds_fields t) (ds_any_of t))"
    and "ds_key t = ''contents_insurance'' \<Longrightarrow>
      \<not> fails (period_covers_valuation_date_check a ctx (ds_fields t) ''period_from'' ''period_to'')"
  using assms(2) unfolding verify_shape [OF assms(1)] verdict_simps set_append ball_Un
  by (simp_all add: legible_check_def expected_type_check_def as_of_date_check_def)

lemma type_fields_passed:
  assumes "\<not> fails (type_fields_check a ctx fs any_of)"
  shows "\<forall>f \<in> set fs. \<not> field_problem (cc_tax_year ctx) f (type_field_value a (tf_key f) (tf_kind f))"
    and "any_of \<noteq> [] \<Longrightarrow> \<exists>f \<in> set fs. tf_key f \<in> set any_of \<and> type_field_value a (tf_key f) (tf_kind f) \<noteq> FvNull"
  using assms by (auto simp: type_fields_check_def Let_def list_ex_iff list_all_iff)

lemma other_check_keys [simp]: "ck_key (legible_check a) = ''legible''" "ck_key (expected_type_check a) = ''expected_type''"
  "ck_key (as_of_date_check a ctx) = ''as_of_date''" "ck_key (type_fields_check a ctx fs ks) = ''type_fields''"
  "ck_key (period_covers_valuation_date_check a ctx fs fk tk) = ''period_covers_valuation_date''"
  by (simp_all add: legible_check_def expected_type_check_def as_of_date_check_def type_fields_check_def
      period_covers_valuation_date_check_def Let_def split: option.split)

lemma date_check_listed:
  assumes "t \<in> set DOCUMENT_TYPES"
  shows "''as_of_date'' \<in> ck_key ` set (cv_checks (ds_verify t lower a ctx)) \<longleftrightarrow> checks_date (ds_key t)"
proof -
  have "''as_of_date'' \<notin> set (map ck_key (fst (identity_checks lower a ctx m)))" for m
    unfolding identity_checks_keys by simp
  then have "''as_of_date'' \<notin> ck_key ` set (fst (identity_checks lower a ctx m))" for m by simp
  then show ?thesis
    unfolding verify_shape [OF assms] verdict_simps set_append image_Un Un_iff by auto
qed

text \<open>C39: The registry holds one verifier per catalog type, in the catalog's order, and the as-of-date check is in a type's list exactly when the catalog marks the type date dependent, with one exception: a loan given is date dependent in the catalog and its verifier runs no date check.\<close>

theorem as_of_date_types:
  "list_all2 (\<lambda>t c. ds_key t = ct_key c
       \<and> (\<forall>lower a ctx. ''as_of_date'' \<in> ck_key ` set (cv_checks (ds_verify t lower a ctx))
            \<longleftrightarrow> ct_date_dependent c \<and> ct_key c \<noteq> ''loan_given''))
     DOCUMENT_TYPES CAPITAL_DOCUMENT_CATALOG"
proof -
  have "list_all2 (\<lambda>t c. ds_key t = ct_key c \<and> checks_date (ds_key t) = (ct_date_dependent c \<and> ct_key c \<noteq> ''loan_given''))
      DOCUMENT_TYPES CAPITAL_DOCUMENT_CATALOG"
    by (simp add: DOCUMENT_TYPES_def CAPITAL_DOCUMENT_CATALOG_def checks_date_def)
  then show ?thesis
    by (rule list.rel_mono_strong) (metis date_check_listed)
qed

lemma matched_by_someone:
  assumes "iv_matched (resolve_document_owners lower ps ctx) \<noteq> None"
  shows "\<exists>p \<in> set ps. pi_role p = Owner \<and>
     (rp_kind (resolve_party lower p ctx) \<in> {PClient, PSpouse}
      \<or> rp_kind (resolve_party lower p ctx) = PAdoptable \<and> iv_adopt (resolve_document_owners lower ps ctx) \<noteq> None)"
proof -
  let ?o = "resolved_owners lower ps ctx"
  let ?a = "choose_spouse_to_adopt lower ?o ctx"
  have "matched_owners ?o ?a \<noteq> None" and a: "iv_adopt (resolve_document_owners lower ps ctx) = ?a"
    using assms by (simp_all add: resolve_document_owners_def Let_def)
  then consider "\<exists>r \<in> set ?o. rp_kind r \<in> {PClient, PSpouse}" | "?a \<noteq> None"
    by (auto simp: matched_owners_def list_ex_iff Let_def split: if_splits)
  then show ?thesis
  proof cases
    case 1
    then show ?thesis by (auto simp: resolved_owners_def)
  next
    case 2
    then obtain i n where "?a = Some (i, n)" by auto
    from chosen_spouse [OF this] show ?thesis using 2 a by auto
  qed
qed

text \<open>A document that passes its type's verification is legible, of the expected kind, and every id printed beside one of its owners has a valid check digit; when the type requires the client as its subject, one of its owners is the client or the spouse on file, or is adopted as the spouse.\<close>

theorem passing_document_has_subject:
  assumes "t \<in> set DOCUMENT_TYPES" and "cv_passed (ds_verify t lower a ctx)"
  shows "ea_legible a \<and> ea_is_expected_type a
   \<and> (\<forall>p \<in> set (owner_inputs a). pi_printed_id p \<noteq> [] \<longrightarrow> is_valid_israeli_id (Some (pi_printed_id p)))
   \<and> (ds_key t \<notin> {''crypto'', ''poa_account'', ''other_assets''} \<longrightarrow>
       (\<exists>p \<in> set (owner_inputs a). rp_kind (resolve_party lower p (identity_context_of ctx True)) \<in> {PClient, PSpouse}
          \<or> rp_kind (resolve_party lower p (identity_context_of ctx True)) = PAdoptable \<and> cv_adopt (ds_verify t lower a ctx) \<noteq> None))"
proof -
  note ps = passed_shape [OF assms]
  have valid: "is_valid_israeli_id (Some (pi_printed_id p))" if "p \<in> set (owner_inputs a)" "pi_printed_id p \<noteq> []" for p
    using identity_checks_checksum [OF ps(3) that] that by (auto simp: owner_inputs_def party_inputs_def Let_def)
  have subject: "\<exists>p \<in> set (owner_inputs a). rp_kind (resolve_party lower p (identity_context_of ctx True)) \<in> {PClient, PSpouse}
      \<or> rp_kind (resolve_party lower p (identity_context_of ctx True)) = PAdoptable \<and> cv_adopt (ds_verify t lower a ctx) \<noteq> None"
    if k: "ds_key t \<notin> {''crypto'', ''poa_account'', ''other_assets''}"
  proof -
    have "ds_key t \<noteq> ''generic''" using assms(1) by (auto simp: DOCUMENT_TYPES_def)
    with k have n: "needs_subject (ds_key t)" by (simp add: needs_subject_def)
    have m: "iv_matched (snd (identity_checks lower a ctx True)) \<noteq> None"
      using identity_checks_subject ps(3) n by simp
    have c: "cv_adopt (ds_verify t lower a ctx) = iv_adopt (snd (identity_checks lower a ctx True))"
      unfolding verify_shape [OF assms(1)] verdict_simps using n by simp
    show ?thesis using matched_by_someone [OF m [unfolded identity_checks_snd]]
      unfolding c unfolding identity_checks_snd owner_inputs_def set_filter by blast
  qed
  show ?thesis using ps(1,2) valid subject by blast
qed

definition sample_answer :: extracted_answer where
  "sample_answer = \<lparr>ea_is_expected_type = True,
     ea_parties = Some [Some \<lparr>dp_name = Some [1499, 1492, 1503], dp_id = None, dp_role = Some Owner\<rparr>],
     ea_as_of_date = None, ea_legible = True, ea_injection_suspected = False,
     ea_field = (\<lambda>k. if k = ''license_plate'' then RawText (jstr ''1234567'') else RawNull)\<rparr>"

definition sample_context :: check_context where
  "sample_context = \<lparr>cc_client_name = [1499, 1492, 1503], cc_client_id = None, cc_spouse = Some EMPTY_SPOUSE, cc_marital = None, cc_tax_year = 2024\<rparr>"

definition vehicle_type :: document_type_spec where
  "vehicle_type = \<lparr>ds_key = ''vehicle'', ds_fields = vehicle_fields, ds_any_of = [''license_plate'', ''purchase_cost''], ds_verify = vehicle_verify\<rparr>"

lemma vehicle_registered: "vehicle_type \<in> set DOCUMENT_TYPES"
  by (simp add: vehicle_type_def DOCUMENT_TYPES_def)

lemma sample_parties: "party_inputs (ea_parties sample_answer)
    = [\<lparr>pi_name = Some [1499, 1492, 1503], pi_printed_id = [], pi_id_valid = False, pi_role = Owner\<rparr>]"
  by (simp add: sample_answer_def party_inputs_def MAX_PARTIES_def List.map_filter_def normalize_id_def non_empty_def js_trim_def js_space_def)

lemma sample_name: "names_loosely_match (\<lambda>s. s) [1499, 1492, 1503] [1499, 1492, 1503]"
  by (simp add: names_loosely_match_def shared_name_tokens_def name_tokens_def name_punct_def js_space_def)

lemma sample_resolved: "resolve_document_owners (\<lambda>s. s) (party_inputs (ea_parties sample_answer)) (identity_context_of sample_context True)
   = \<lparr>iv_matched = Some MatchedClient, iv_adopt = None, iv_checks = [entry ''subject'' True], iv_parties = [TClient]\<rparr>"
  by (simp add: sample_parties identity_context_of_def sample_context_def normalize_id_def EMPTY_SPOUSE_def
      resolve_document_owners_def resolved_owners_def resolve_party_def kind_by_name_def truthy_name_def sample_name
      choose_spouse_to_adopt_def matched_owners_def is_co_owner_def Let_def)

lemma sample_checks: "\<forall>c \<in> set (fst (identity_checks (\<lambda>s. s) sample_answer sample_context True)). \<not> fails c"
  by (simp add: identity_checks_def sample_resolved [unfolded sample_parties] sample_parties find_check_single Let_def)

lemma sample_passes: "cv_passed (ds_verify vehicle_type (\<lambda>s. s) sample_answer sample_context)"
proof -
  have "\<not> fails (type_fields_check sample_answer sample_context vehicle_fields [''license_plate'', ''purchase_cost''])"
    by (simp add: type_fields_check_def vehicle_fields_def field_problem_def type_field_value_def sample_answer_def
        js_trim_def js_space_def is_plate_text_def is_digit_def Let_def)
  moreover have "ea_legible sample_answer \<and> ea_is_expected_type sample_answer" by (simp add: sample_answer_def)
  ultimately show ?thesis
    unfolding verify_shape [OF vehicle_registered] verdict_simps set_append ball_Un
    using sample_checks
    by (simp add: vehicle_type_def needs_subject_def checks_date_def legible_check_def expected_type_check_def)
qed

lemma passing_document_has_subject_witness:
  "\<exists>p \<in> set (owner_inputs sample_answer). rp_kind (resolve_party (\<lambda>s. s) p (identity_context_of sample_context True)) \<in> {PClient, PSpouse}
     \<or> rp_kind (resolve_party (\<lambda>s. s) p (identity_context_of sample_context True)) = PAdoptable"
  using passing_document_has_subject [OF vehicle_registered sample_passes] by (auto simp: vehicle_type_def)

lemma is_integer_iff: "is_integer q \<Longrightarrow> \<exists>y. q = of_int y"
proof -
  assume i: "is_integer q"
  obtain n d where q: "quotient_of q = (n, d)" by (cases "quotient_of q")
  then have "d = 1" using i by (simp add: is_integer_def)
  then show ?thesis using quotient_of_div [OF q] by auto
qed

lemma field_ok:
  assumes "\<not> field_problem y f v"
  shows "(tf_required f \<longrightarrow> v \<noteq> FvNull)
      \<and> (v \<noteq> FvNull \<longrightarrow> (case tf_kind f of
           KNumber \<Rightarrow> \<exists>q. v = FvNumber q \<and> (\<forall>m. tf_min f = Some m \<longrightarrow> m \<le> q)
         | KYear \<Rightarrow> \<exists>z. v = FvNumber (of_int z) \<and> 1950 \<le> z \<and> z \<le> y + 1
         | KDate \<Rightarrow> \<exists>d. v = FvText d \<and> is_date_text d
         | KText \<Rightarrow> \<forall>p. tf_pattern f = Some p \<longrightarrow> (\<exists>x. v = FvText x \<and> p x)))"
proof (cases "tf_kind f = KYear \<and> v \<noteq> FvNull")
  case True
  then obtain q where v: "v = FvNumber q" and i: "is_integer q" and b: "1950 \<le> q" "q \<le> of_int (y + 1)"
    using assms by (auto simp: field_problem_def MIN_PLAUSIBLE_YEAR_def split: field_value.splits)
  obtain z where z: "q = of_int z" using is_integer_iff [OF i] by blast
  then have "1950 \<le> z" "z \<le> y + 1" using b of_int_le_iff [of 1950 z, where ?'a = rat] by (simp_all only: of_int_le_iff of_int_numeral)
  then show ?thesis using True v z by auto
next
  case False
  then show ?thesis using assms
    by (cases "tf_kind f"; cases v) (auto simp: field_problem_def split: option.splits if_splits)
qed

text \<open>A document that passes is complete for its type: every required field was read; every amount read is a finite number that is not below the field's bound; every year read is a whole number from 1950 to the year after the tax year; every date read is well formed; every text with a pattern matches it; when the type asks for one of several fields, one of them was read; and a type with the date check refers to 31.12 of the tax year.\<close>

theorem passing_document_complete:
  assumes "t \<in> set DOCUMENT_TYPES" and "cv_passed (ds_verify t lower a ctx)"
  shows "(\<forall>f \<in> set (ds_fields t). let v = type_field_value a (tf_key f) (tf_kind f) in
      (tf_required f \<longrightarrow> v \<noteq> FvNull)
      \<and> (v \<noteq> FvNull \<longrightarrow> (case tf_kind f of
           KNumber \<Rightarrow> \<exists>q. v = FvNumber q \<and> (\<forall>m. tf_min f = Some m \<longrightarrow> m \<le> q)
         | KYear \<Rightarrow> \<exists>y. v = FvNumber (of_int y) \<and> 1950 \<le> y \<and> y \<le> cc_tax_year ctx + 1
         | KDate \<Rightarrow> \<exists>d. v = FvText d \<and> is_date_text d
         | KText \<Rightarrow> \<forall>p. tf_pattern f = Some p \<longrightarrow> (\<exists>x. v = FvText x \<and> p x))))
   \<and> (ds_any_of t \<noteq> [] \<longrightarrow> (\<exists>f \<in> set (ds_fields t). tf_key f \<in> set (ds_any_of t) \<and> type_field_value a (tf_key f) (tf_kind f) \<noteq> FvNull))
   \<and> (checks_date (ds_key t) \<longrightarrow> ea_as_of_date a = Some (valuation_date (cc_tax_year ctx)))"
proof (intro conjI impI ballI)
  note ps = passed_shape [OF assms]
  fix f assume f: "f \<in> set (ds_fields t)"
  then have "ds_fields t \<noteq> []" by auto
  then have "\<not> fails (type_fields_check a ctx (ds_fields t) (ds_any_of t))" by (rule ps(5))
  then have np: "\<not> field_problem (cc_tax_year ctx) f (type_field_value a (tf_key f) (tf_kind f))"
    using type_fields_passed(1) f by blast
  show "let v = type_field_value a (tf_key f) (tf_kind f) in
      (tf_required f \<longrightarrow> v \<noteq> FvNull)
      \<and> (v \<noteq> FvNull \<longrightarrow> (case tf_kind f of
           KNumber \<Rightarrow> \<exists>q. v = FvNumber q \<and> (\<forall>m. tf_min f = Some m \<longrightarrow> m \<le> q)
         | KYear \<Rightarrow> \<exists>y. v = FvNumber (of_int y) \<and> 1950 \<le> y \<and> y \<le> cc_tax_year ctx + 1
         | KDate \<Rightarrow> \<exists>d. v = FvText d \<and> is_date_text d
         | KText \<Rightarrow> \<forall>p. tf_pattern f = Some p \<longrightarrow> (\<exists>x. v = FvText x \<and> p x)))"
    unfolding Let_def by (rule field_ok [OF np])
next
  assume "ds_any_of t \<noteq> []"
  moreover from this have "ds_fields t \<noteq> []" using assms(1) by (auto simp: DOCUMENT_TYPES_def fields_defs)
  ultimately show "\<exists>f \<in> set (ds_fields t). tf_key f \<in> set (ds_any_of t) \<and> type_field_value a (tf_key f) (tf_kind f) \<noteq> FvNull"
    using type_fields_passed(2) passed_shape(5) [OF assms] by blast
next
  assume "checks_date (ds_key t)"
  then show "ea_as_of_date a = Some (valuation_date (cc_tax_year ctx))" by (rule passed_shape(4) [OF assms])
qed

lemma passing_document_complete_witness:
  "\<exists>f \<in> set vehicle_fields. tf_key f \<in> {''license_plate'', ''purchase_cost''} \<and> type_field_value sample_answer (tf_key f) (tf_kind f) \<noteq> FvNull"
  using passing_document_complete [OF vehicle_registered sample_passes] by (simp add: vehicle_type_def)

end
