(* ===== verification/Verification.thy ===== *)
theory Verification
  imports Files DocumentTypes
begin

text \<open>
  The verification pipeline (\<open>verifyDocument.ts\<close>, \<open>verifyBatchRules.ts\<close>): a
  collected row and its file go through the guards, the extraction, the attack-text
  check, the type's checks and the verdict. The model's extraction of a file and the
  client's id on file are arguments; the state is the checklist and the spouse on file.
  The texts of the fixed reasons are tags. Audit rows, events and logs are left out; the
  e-mail to the accountant is the \<open>notified\<close> flag.
\<close>

section \<open>State and environment\<close>

datatype verification_outcome = VApproved | VReopened | VStalled | VSkipped

text \<open>What reading the file gives: nothing (download, model or schema failure), a file code cannot render, or the answer.\<close>

datatype extraction = NoRead | NotRenderable | Answer extracted_answer

record verify_env =
  ve_lower :: "utext \<Rightarrow> utext"
  ve_kill :: bool
  ve_client :: id
  ve_name :: utext
  ve_id_on_file :: "utext option"
  ve_marital :: "marital_status option"
  ve_tax_year :: int
  ve_files :: "document_file list"
  ve_read :: "client_document \<Rightarrow> document_file \<Rightarrow> extraction"

record verify_state =
  vs_docs :: docs
  vs_spouse :: stored_spouse

definition MAX_FAILED_ATTEMPTS :: nat where "MAX_FAILED_ATTEMPTS = 3"

definition previous_attempts :: "client_document \<Rightarrow> nat" where
  "previous_attempts doc = (case cd_verification doc of None \<Rightarrow> 0 | Some v \<Rightarrow> vr_attempts v)"

definition is_stalled :: "client_document \<Rightarrow> bool" where
  "is_stalled doc = (case cd_verification doc of None \<Rightarrow> False | Some v \<Rightarrow> vr_stalled v)"

section \<open>The steps\<close>

text \<open>The row keeps its status; the accountant is told once per dead end.\<close>

definition stall :: "verify_env \<Rightarrow> client_document \<Rightarrow> verification_record \<Rightarrow> verify_state \<Rightarrow> verify_state \<times> bool" where
  "stall E doc rec s =
     (s\<lparr>vs_docs := fst (set_verification (cd_id doc) (ve_client E) (rec\<lparr>vr_stalled := True\<rparr>) (vs_docs s))\<rparr>, \<not> is_stalled doc)"

definition load_collected_document :: "verify_env \<Rightarrow> id \<Rightarrow> verify_state \<Rightarrow> client_document option" where
  "load_collected_document E doc_id s =
     (if ve_kill E then None
      else (case document_for_client doc_id (ve_client E) (vs_docs s) of None \<Rightarrow> None
          | Some doc \<Rightarrow> if cd_status doc \<noteq> Collected then None else if is_stalled doc then None else Some doc))"

definition base_record :: "client_document \<Rightarrow> id \<Rightarrow> string list \<Rightarrow> verification_record" where
  "base_record doc fid reasons = \<lparr>vr_passed = False, vr_attempts = previous_attempts doc, vr_file_id = fid, vr_reasons = reasons,
     vr_stalled = False, vr_extracted = None\<rparr>"

text \<open>Why the file cannot be checked, or the file.\<close>

definition load_checkable_file :: "verify_env \<Rightarrow> id \<Rightarrow> (string, document_file) result" where
  "load_checkable_file E fid =
     (case file_for_client fid (ve_client E) (ve_files E) of
        None \<Rightarrow> Inl ''file_missing''
      | Some f \<Rightarrow> if is_quarantined f then Inl ''file_quarantined''
          else if \<not> is_analyzable (ve_lower E) (df_content_type f) (df_size f) then Inl ''file_unsupported''
          else Inr f)"

definition verify_context :: "verify_env \<Rightarrow> verify_state \<Rightarrow> check_context" where
  "verify_context E s = \<lparr>cc_client_name = ve_name E, cc_client_id = ve_id_on_file E, cc_spouse = Some (read_spouse (Some (vs_spouse s))),
     cc_marital = ve_marital E, cc_tax_year = ve_tax_year E\<rparr>"

definition check_extracted_data ::
  "verify_env \<Rightarrow> client_document \<Rightarrow> extracted_answer \<Rightarrow> verify_state \<Rightarrow> verify_state \<times> checks_verdict"
where
  "check_extracted_data E doc a s =
     (let spouse = read_spouse (Some (vs_spouse s));
          verdict = ds_verify (resolve_document_type (cd_type_key doc)) (ve_lower E) a (verify_context E s)
      in (case cv_adopt verdict of None \<Rightarrow> s
          | Some (i, n) \<Rightarrow> s\<lparr>vs_spouse := spouse_to_stored (merge_spouse spouse n (Some i) FromDocument)\<rparr>, verdict))"

definition approve_document ::
  "verify_env \<Rightarrow> client_document \<Rightarrow> id \<Rightarrow> extracted_answer \<Rightarrow> verify_state \<Rightarrow> verify_state \<times> verification_outcome"
where
  "approve_document E doc fid a s =
     (case mark_approved (cd_id doc) (ve_client E) ((base_record doc fid [])\<lparr>vr_passed := True, vr_extracted := Some a\<rparr>) (vs_docs s) of
        (t, None) \<Rightarrow> (s, VSkipped) | (t, Some _) \<Rightarrow> (s\<lparr>vs_docs := t\<rparr>, VApproved))"

definition reopen_document ::
  "verify_env \<Rightarrow> client_document \<Rightarrow> verification_record \<Rightarrow> verify_state \<Rightarrow> verify_state \<times> verification_outcome"
where
  "reopen_document E doc rec s =
     (case revert_to_pending (cd_id doc) (ve_client E) rec (vs_docs s) of
        (t, None) \<Rightarrow> (s, VSkipped) | (t, Some _) \<Rightarrow> (s\<lparr>vs_docs := t\<rparr>, VReopened))"

definition apply_verdict ::
  "verify_env \<Rightarrow> client_document \<Rightarrow> id \<Rightarrow> extracted_answer \<Rightarrow> checks_verdict \<Rightarrow> verify_state \<Rightarrow> verify_state \<times> verification_outcome \<times> bool"
where
  "apply_verdict E doc fid a verdict s =
     (if cv_passed verdict then (let (s', out) = approve_document E doc fid a s in (s', out, False))
      else (let failed_attempts = previous_attempts doc + 1;
                rec = (base_record doc fid (cv_failed verdict))\<lparr>vr_attempts := failed_attempts, vr_extracted := Some a\<rparr>
        in if MAX_FAILED_ATTEMPTS \<le> failed_attempts then (let (s', told) = stall E doc rec s in (s', VStalled, told))
           else (let (s', out) = reopen_document E doc rec s in (s', out, False))))"

definition verify_collected_document ::
  "verify_env \<Rightarrow> id \<Rightarrow> id \<Rightarrow> verify_state \<Rightarrow> verify_state \<times> verification_outcome \<times> bool"
where
  "verify_collected_document E doc_id fid s =
     (case load_collected_document E doc_id s of
        None \<Rightarrow> (s, VSkipped, False)
      | Some doc \<Rightarrow>
          (case load_checkable_file E fid of
             Inl why \<Rightarrow> (let (s', told) = stall E doc (base_record doc fid [why]) s in (s', VStalled, told))
           | Inr f \<Rightarrow>
               (case ve_read E doc f of
                  NoRead \<Rightarrow> (s, VSkipped, False)
                | NotRenderable \<Rightarrow> (let (s', told) = stall E doc (base_record doc fid [''file_unreadable'']) s in (s', VSkipped, told))
                | Answer a \<Rightarrow>
                    if ea_injection_suspected a
                    then (let (s', told) = stall E doc (base_record doc fid [''injection_text'']) s in (s', VStalled, told))
                    else (let (s', verdict) = check_extracted_data E doc a s in apply_verdict E doc fid a verdict s'))))"

section \<open>A batch\<close>

text \<open>\<open>verify_one\<close> answers \<open>None\<close> when it throws; the state it left stays.\<close>

datatype batch_outcome = BatchOutcome verification_outcome | BatchError

fun run_verification_batch ::
  "(id \<times> id \<Rightarrow> 's \<Rightarrow> 's \<times> verification_outcome option) \<Rightarrow> (id \<times> id) list \<Rightarrow> 's \<Rightarrow> 's \<times> ((id \<times> id) \<times> batch_outcome) list"
where
  "run_verification_batch verify_one [] s = (s, [])"
| "run_verification_batch verify_one (t # ts) s =
     (let (s', out) = verify_one t s; (s'', results) = run_verification_batch verify_one ts s'
      in (s'', (t, case out of None \<Rightarrow> BatchError | Some v \<Rightarrow> BatchOutcome v) # results))"

definition verify_batch :: "verify_env \<Rightarrow> (id \<times> id) list \<Rightarrow> verify_state \<Rightarrow> verify_state \<times> ((id \<times> id) \<times> batch_outcome) list" where
  "verify_batch E = run_verification_batch (\<lambda>(d, f) s. (let (s', out, _) = verify_collected_document E d f s in (s', Some out)))"

section \<open>Lemmas\<close>

definition row_key :: "client_document \<Rightarrow> id \<times> id" where
  "row_key r = (cd_id r, cd_client r)"

lemma document_for_client_key: "document_for_client i c t = List.find (\<lambda>r. row_key r = (i, c)) t"
proof -
  have "is_row i c = (\<lambda>r. row_key r = (i, c))" by (auto simp: is_row_def row_key_def fun_eq_iff)
  then show ?thesis by (simp add: document_for_client_def)
qed

lemma document_for_client_update:
  assumes "\<And>r. p r \<Longrightarrow> row_key (f r) = row_key r"
  shows "document_for_client i c (update_where p f t) = map_option (\<lambda>r. if p r then f r else r) (document_for_client i c t)"
  unfolding document_for_client_key using assms by (rule find_update_where)

lemma document_for_client_SomeD: "document_for_client i c t = Some r \<Longrightarrow> r \<in> set t \<and> is_row i c r"
  unfolding document_for_client_def by (rule find_Some_mem)

lemma move_row_found:
  assumes "document_for_client i c t = Some doc" and "cd_status doc \<in> from"
  shows "snd (move_row i c from f t) \<noteq> None"
  using document_for_client_SomeD [OF assms(1)] assms(2) by (auto simp: move_row_def find_None_all Let_def)

lemma move_row_pair: "move_row i c from f t = (fst (move_row i c from f t), snd (move_row i c from f t))"
  by simp

lemma load_collected_Some:
  "load_collected_document E d s = Some doc \<longleftrightarrow>
     \<not> ve_kill E \<and> document_for_client d (ve_client E) (vs_docs s) = Some doc \<and> cd_status doc = Collected \<and> \<not> is_stalled doc"
  by (auto simp: load_collected_document_def split: option.split)

lemma check_extracted_docs [simp]: "vs_docs (fst (check_extracted_data E doc a s)) = vs_docs s"
  by (simp add: check_extracted_data_def Let_def split: option.split prod.split)

lemma check_extracted_verdict: "snd (check_extracted_data E doc a s) =
   ds_verify (resolve_document_type (cd_type_key doc)) (ve_lower E) a (verify_context E s)"
  by (simp add: check_extracted_data_def Let_def)

lemma approve_succeeds:
  assumes "document_for_client (cd_id doc) (ve_client E) (vs_docs s) = Some doc" and "cd_status doc = Collected"
  shows "approve_document E doc fid a s = (s\<lparr>vs_docs := fst (mark_approved (cd_id doc) (ve_client E)
      ((base_record doc fid [])\<lparr>vr_passed := True, vr_extracted := Some a\<rparr>) (vs_docs s))\<rparr>, VApproved)"
proof -
  have "snd (mark_approved (cd_id doc) (ve_client E) ((base_record doc fid [])\<lparr>vr_passed := True, vr_extracted := Some a\<rparr>) (vs_docs s)) \<noteq> None"
    unfolding mark_approved_def by (rule move_row_found [OF assms(1)]) (simp add: assms(2))
  then show ?thesis by (auto simp: approve_document_def split: prod.split option.split)
qed

lemma reopen_succeeds:
  assumes "document_for_client (cd_id doc) (ve_client E) (vs_docs s) = Some doc" and "cd_status doc = Collected"
  shows "reopen_document E doc rec s = (s\<lparr>vs_docs := fst (revert_to_pending (cd_id doc) (ve_client E) rec (vs_docs s))\<rparr>, VReopened)"
proof -
  have "snd (revert_to_pending (cd_id doc) (ve_client E) rec (vs_docs s)) \<noteq> None"
    unfolding revert_to_pending_def by (rule move_row_found [OF assms(1)]) (simp add: assms(2))
  then show ?thesis by (auto simp: reopen_document_def split: prod.split option.split)
qed

text \<open>The cases of one check, with the table it leaves.\<close>

lemma verify_cases:
  obtains
    (unchanged) "vs_docs (fst (verify_collected_document E d fid s)) = vs_docs s" "fst (snd (verify_collected_document E d fid s)) = VSkipped"
  | (stalled) doc rec where "load_collected_document E d s = Some doc"
      "vs_docs (fst (verify_collected_document E d fid s)) = fst (set_verification d (ve_client E) (rec\<lparr>vr_stalled := True\<rparr>) (vs_docs s))"
      "fst (snd (verify_collected_document E d fid s)) \<in> {VStalled, VSkipped}"
  | (approved) doc f a where "load_collected_document E d s = Some doc" "load_checkable_file E fid = Inr f" "ve_read E doc f = Answer a"
      "\<not> ea_injection_suspected a" "cv_passed (ds_verify (resolve_document_type (cd_type_key doc)) (ve_lower E) a (verify_context E s))"
      "vs_docs (fst (verify_collected_document E d fid s)) = fst (mark_approved d (ve_client E)
         ((base_record doc fid [])\<lparr>vr_passed := True, vr_extracted := Some a\<rparr>) (vs_docs s))"
      "fst (snd (verify_collected_document E d fid s)) = VApproved"
  | (reopened) doc f a rec where "load_collected_document E d s = Some doc" "load_checkable_file E fid = Inr f" "ve_read E doc f = Answer a"
      "\<not> ea_injection_suspected a" "\<not> cv_passed (ds_verify (resolve_document_type (cd_type_key doc)) (ve_lower E) a (verify_context E s))"
      "vs_docs (fst (verify_collected_document E d fid s)) = fst (revert_to_pending d (ve_client E) rec (vs_docs s))"
      "vr_attempts rec = previous_attempts doc + 1" "previous_attempts doc + 1 < MAX_FAILED_ATTEMPTS" "\<not> vr_stalled rec"
      "fst (snd (verify_collected_document E d fid s)) = VReopened"
proof (cases "load_collected_document E d s")
  case None
  then show ?thesis by (intro unchanged) (simp_all add: verify_collected_document_def)
next
  case (Some doc)
  then have doc: "document_for_client d (ve_client E) (vs_docs s) = Some doc" "cd_status doc = Collected"
    by (simp_all add: load_collected_Some)
  then have i: "cd_id doc = d" using document_for_client_SomeD [OF doc(1)] by (simp add: is_row_def)
  show ?thesis
  proof (cases "load_checkable_file E fid")
    case (Inl why)
    then show ?thesis using Some i by (intro stalled [OF Some]) (simp_all add: verify_collected_document_def stall_def Let_def)
  next
    case (Inr f)
    show ?thesis
    proof (cases "ve_read E doc f")
      case NoRead
      then show ?thesis using Some Inr by (intro unchanged) (simp_all add: verify_collected_document_def)
    next
      case NotRenderable
      then show ?thesis using Some Inr i by (intro stalled [OF Some]) (simp_all add: verify_collected_document_def stall_def Let_def)
    next
      case (Answer a)
      show ?thesis
      proof (cases "ea_injection_suspected a")
        case True
        then show ?thesis using Some Inr Answer i by (intro stalled [OF Some]) (simp_all add: verify_collected_document_def stall_def Let_def)
      next
        case clean: False
        let ?s = "fst (check_extracted_data E doc a s)"
        have doc': "document_for_client (cd_id doc) (ve_client E) (vs_docs ?s) = Some doc" using doc i by simp
        note v = check_extracted_verdict [of E doc a s]
        have step: "verify_collected_document E d fid s = apply_verdict E doc fid a (snd (check_extracted_data E doc a s)) ?s"
          using Some Inr Answer clean by (simp add: verify_collected_document_def split: prod.split)
        show ?thesis
        proof (cases "cv_passed (snd (check_extracted_data E doc a s))")
          case True
          then show ?thesis using approve_succeeds [OF doc' doc(2)] i v
            by (intro approved [OF Some Inr Answer clean]) (simp_all add: step apply_verdict_def Let_def)
        next
          case False
          show ?thesis
          proof (cases "MAX_FAILED_ATTEMPTS \<le> previous_attempts doc + 1")
            case True
            then show ?thesis using False i
              by (intro stalled [OF Some]) (simp_all add: step apply_verdict_def stall_def Let_def)
          next
            case few: False
            let ?rec = "(base_record doc fid (cv_failed (snd (check_extracted_data E doc a s))))\<lparr>vr_attempts := previous_attempts doc + 1, vr_extracted := Some a\<rparr>"
            show ?thesis using few False reopen_succeeds [OF doc' doc(2)] i v
              by (intro reopened [OF Some Inr Answer clean, where rec = ?rec]) (simp_all add: step apply_verdict_def base_record_def Let_def)
          qed
        qed
      qed
    qed
  qed
qed

section \<open>Properties\<close>

lemma update_status_nth:
  "n < length t \<Longrightarrow> cd_status (fst (move_row i c from f t) ! n)
     = (if is_row i c (t ! n) \<and> cd_status (t ! n) \<in> from then cd_status (f (t ! n)) else cd_status (t ! n))"
  by (simp add: fst_move_row update_where_def)


definition readable_env :: verify_env where
  "readable_env = \<lparr>ve_lower = (\<lambda>x. x), ve_kill = False, ve_client = ''c'', ve_name = [1499, 1492, 1503], ve_id_on_file = None,
     ve_marital = None, ve_tax_year = 2024, ve_files = [sample_file], ve_read = (\<lambda>_ _. Answer sample_answer)\<rparr>"

definition sample_state :: verify_state where
  "sample_state = \<lparr>vs_docs = [sample_row ''a'' Collected], vs_spouse = spouse_to_stored EMPTY_SPOUSE\<rparr>"

lemma sample_file_readable:
  "file_for_client ''f'' ''c'' [sample_file] = Some sample_file" "\<not> is_quarantined sample_file"
  "is_analyzable (\<lambda>x. x) (df_content_type sample_file) (df_size sample_file)"
  by (simp_all add: file_for_client_def sample_file_def is_quarantined_def is_analyzable_def mime_of_def is_spreadsheet_type_def
      ANALYZABLE_TYPES_def MAX_ANALYZABLE_BYTES_def js_trim_def js_space_def Let_def)

lemma sample_state_reads:
  "document_for_client ''a'' ''c'' (vs_docs sample_state) = Some (sample_row ''a'' Collected)"
  "\<not> is_stalled (sample_row ''a'' Collected)" "cd_status (sample_row ''a'' Collected) = Collected"
  "vs_docs sample_state = [sample_row ''a'' Collected]"
  by (simp_all add: document_for_client_def sample_state_def sample_row_def is_row_def is_stalled_def)

lemma sample_verify_context: "verify_context readable_env sample_state = sample_context"
  by (simp add: verify_context_def readable_env_def sample_state_def sample_context_def read_spouse_def spouse_to_stored_def
      EMPTY_SPOUSE_def non_empty_def source_of_text_def)

lemma sample_row_type: "resolve_document_type (cd_type_key (sample_row ''a'' Collected)) = vehicle_type"
  by (simp add: sample_row_def resolve_document_type_def DOCUMENT_TYPES_def vehicle_type_def truthy_def)


text \<open>Everything that can happen to a checklist: a check, a write of the planner, a patch of the accountant.\<close>

datatype check_event = Check verify_env id id | Write checklist_op | Patch id id document_patch

fun event_step :: "check_event \<Rightarrow> verify_state \<Rightarrow> verify_state" where
  "event_step (Check E d fid) s = fst (verify_collected_document E d fid s)"
| "event_step (Write op) s = s\<lparr>vs_docs := apply_op op (vs_docs s)\<rparr>"
| "event_step (Patch d c p) s = s\<lparr>vs_docs := fst (update_document d c p (vs_docs s))\<rparr>"

fun reopens :: "id \<Rightarrow> id \<Rightarrow> check_event \<Rightarrow> verify_state \<Rightarrow> bool" where
  "reopens d c (Check E d' fid) s = (d' = d \<and> ve_client E = c \<and> fst (snd (verify_collected_document E d' fid s)) = VReopened)"
| "reopens d c _ s = False"

fun reopen_count :: "id \<Rightarrow> id \<Rightarrow> check_event list \<Rightarrow> verify_state \<Rightarrow> nat" where
  "reopen_count d c [] s = 0"
| "reopen_count d c (ev # evs) s = (if reopens d c ev s then 1 else 0) + reopen_count d c evs (event_step ev s)"

text \<open>The reopenings a row has left.\<close>

definition left_for :: "client_document option \<Rightarrow> nat" where
  "left_for r = (case r of None \<Rightarrow> MAX_FAILED_ATTEMPTS - 1
     | Some r \<Rightarrow> if is_stalled r then 0 else MAX_FAILED_ATTEMPTS - 1 - previous_attempts r)"

lemma left_for_verification: "cd_verification r' = cd_verification r \<Longrightarrow> left_for (Some r') = left_for (Some r)"
  by (simp add: left_for_def is_stalled_def previous_attempts_def)

lemma find_all2:
  assumes "list_all2 plain_step t t1"
  shows "rel_option plain_step (document_for_client d c t) (document_for_client d c t1)"
  using assms unfolding document_for_client_key
  by (induction t t1 rule: list_all2_induct) (auto simp: plain_step_def row_step_def same_row_def row_key_def)

lemma left_for_plain_op:
  assumes "\<not> verification_op op"
  shows "left_for (document_for_client d c (apply_op op t)) = left_for (document_for_client d c t)"
proof -
  obtain t1 extra where a: "apply_op op t = t1 @ extra" "list_all2 plain_step t t1" "\<forall>r \<in> set extra. newborn r"
    using plain_op_rows [OF assms] by blast
  have ap: "document_for_client d c (t1 @ extra) = (case document_for_client d c t1 of Some r \<Rightarrow> Some r | None \<Rightarrow> document_for_client d c extra)"
    unfolding document_for_client_key by (induction t1) auto
  show ?thesis
  proof (cases "document_for_client d c t")
    case None
    then have n1: "document_for_client d c t1 = None" using find_all2 [OF a(2), of d c] by (simp add: option.rel_sel)
    show ?thesis
    proof (cases "document_for_client d c extra")
      case (Some r)
      then have "newborn r" using a(3) document_for_client_SomeD by blast
      then show ?thesis using None n1 ap Some by (simp add: a(1) left_for_def newborn_def is_stalled_def previous_attempts_def)
    qed (use None n1 ap a(1) in simp)
  next
    case (Some r)
    then obtain r1 where r1: "document_for_client d c t1 = Some r1" "plain_step r r1"
      using find_all2 [OF a(2), of d c] by (auto simp: option_rel_Some1)
    then have "left_for (Some r1) = left_for (Some r)" by (intro left_for_verification) (simp add: plain_step_def)
    then show ?thesis using Some r1 ap a(1) by simp
  qed
qed

lemma document_after_move:
  assumes "\<And>r. row_key (f r) = row_key r"
  shows "document_for_client d c (fst (move_row d' c' from f t))
     = map_option (\<lambda>r. if (d', c') = (d, c) \<and> cd_status r \<in> from then f r else r) (document_for_client d c t)"
proof (cases "document_for_client d c t")
  case None
  then show ?thesis unfolding fst_move_row by (simp add: document_for_client_update assms)
next
  case (Some r)
  then have "is_row d' c' r \<longleftrightarrow> (d', c') = (d, c)" using document_for_client_SomeD [OF Some] by (auto simp: is_row_def)
  then show ?thesis unfolding fst_move_row using Some by (auto simp: document_for_client_update assms)
qed

lemma left_for_check:
  "left_for (document_for_client d c (vs_docs (event_step (Check E d' fid) s))) + (if reopens d c (Check E d' fid) s then 1 else 0)
    \<le> left_for (document_for_client d c (vs_docs s))"
proof -
  have keyV: "row_key (r\<lparr>cd_verification := v\<rparr>) = row_key r" "row_key (r\<lparr>cd_status := x, cd_verification := v\<rparr>) = row_key r" for r v x
    by (simp_all add: row_key_def)
  show ?thesis
  proof (cases rule: verify_cases [of E d' fid s])
    case unchanged
    then show ?thesis by simp
  next
    case (stalled doc rec)
    then show ?thesis
      by (cases "document_for_client d c (vs_docs s)")
         (auto simp: set_verification_def document_after_move keyV left_for_def is_stalled_def)
  next
    case (approved doc f a)
    have here: "document_for_client d' (ve_client E) (vs_docs s) = Some doc" "\<not> is_stalled doc" using approved(1) by (simp_all add: load_collected_Some)
    have t: "vs_docs (event_step (Check E d' fid) s) = fst (mark_approved d' (ve_client E)
        ((base_record doc fid [])\<lparr>vr_passed := True, vr_extracted := Some a\<rparr>) (vs_docs s))"
      and no: "\<not> reopens d c (Check E d' fid) s" using approved(6,7) by simp_all
    have same: "left_for (Some (doc\<lparr>cd_status := Approved, cd_verification := Some ((base_record doc fid [])\<lparr>vr_passed := True, vr_extracted := Some a\<rparr>)\<rparr>))
        \<le> left_for (Some doc)"
      using here(2) by (simp add: left_for_def is_stalled_def previous_attempts_def base_record_def)
    show ?thesis
      using here(1) no same unfolding t mark_approved_def document_after_move [OF keyV(2)]
      by (cases "(d', ve_client E) = (d, c)"; cases "document_for_client d c (vs_docs s)") auto
  next
    case (reopened doc f a rec)
    have here: "document_for_client d' (ve_client E) (vs_docs s) = Some doc" "cd_status doc = Collected" "\<not> is_stalled doc"
      using reopened(1) by (simp_all add: load_collected_Some)
    have t: "vs_docs (event_step (Check E d' fid) s) = fst (revert_to_pending d' (ve_client E) rec (vs_docs s))"
      and yes: "reopens d c (Check E d' fid) s = ((d', ve_client E) = (d, c))" using reopened(6,10) by auto
    have rec: "vr_attempts rec = previous_attempts doc + 1" "previous_attempts doc < 2" "\<not> vr_stalled rec"
      using reopened(7-9) by (simp_all add: MAX_FAILED_ATTEMPTS_def)
    show ?thesis
      unfolding t yes revert_to_pending_def document_after_move [OF keyV(2)]
    proof (cases "(d', ve_client E) = (d, c)")
      case True
      then have dc: "document_for_client d c (vs_docs s) = Some doc" using here(1) by simp
      have "left_for (Some doc) = 2 - previous_attempts doc" using here(3) by (simp add: left_for_def MAX_FAILED_ATTEMPTS_def)
      moreover have "left_for (Some (doc\<lparr>cd_status := Pending, cd_verification := Some rec\<rparr>)) = 2 - (previous_attempts doc + 1)"
        using rec by (simp add: left_for_def is_stalled_def previous_attempts_def MAX_FAILED_ATTEMPTS_def)
      ultimately show "left_for (map_option (\<lambda>r. if (d', ve_client E) = (d, c) \<and> cd_status r \<in> {Collected}
            then r\<lparr>cd_status := Pending, cd_verification := Some rec\<rparr> else r) (document_for_client d c (vs_docs s)))
          + (if (d', ve_client E) = (d, c) then 1 else 0) \<le> left_for (document_for_client d c (vs_docs s))"
        using True dc here(2) rec(2) by simp
    next
      case False
      then show "left_for (map_option (\<lambda>r. if (d', ve_client E) = (d, c) \<and> cd_status r \<in> {Collected}
            then r\<lparr>cd_status := Pending, cd_verification := Some rec\<rparr> else r) (document_for_client d c (vs_docs s)))
          + (if (d', ve_client E) = (d, c) then 1 else 0) \<le> left_for (document_for_client d c (vs_docs s))"
        by (cases "document_for_client d c (vs_docs s)") auto
    qed
  qed
qed

lemma reopen_bound:
  "(\<forall>op. Write op \<in> set evs \<longrightarrow> \<not> verification_op op)
   \<Longrightarrow> reopen_count d c evs s \<le> left_for (document_for_client d c (vs_docs s))"
proof (induction evs arbitrary: s)
  case (Cons ev evs)
  have ih: "reopen_count d c evs (event_step ev s) \<le> left_for (document_for_client d c (vs_docs (event_step ev s)))"
    using Cons by simp
  show ?case
  proof (cases ev)
    case (Check E d' fid)
    then show ?thesis using ih left_for_check [of d c E d' fid s] by simp
  next
    case (Write op)
    then have "\<not> verification_op op" using Cons.prems by simp
    then show ?thesis using ih left_for_plain_op [of op d c "vs_docs s"] Write by simp
  next
    case (Patch d' c' p)
    have "document_for_client d c (update_where (is_row d' c') (apply_patch p) (vs_docs s))
       = map_option (\<lambda>r. if is_row d' c' r then apply_patch p r else r) (document_for_client d c (vs_docs s))"
      by (rule document_for_client_update) (simp add: row_key_def apply_patch_def)
    then have "left_for (document_for_client d c (vs_docs (event_step ev s))) = left_for (document_for_client d c (vs_docs s))"
      using Patch by (cases "document_for_client d c (vs_docs s)")
        (auto simp: update_document_def apply_patch_def left_for_def is_stalled_def previous_attempts_def)
    then show ?thesis using ih Patch by simp
  qed
qed simp


definition sample_env :: verify_env where
  "sample_env = \<lparr>ve_lower = (\<lambda>x. x), ve_kill = False, ve_client = ''c'', ve_name = [1499, 1492, 1503], ve_id_on_file = None,
     ve_marital = None, ve_tax_year = 2024, ve_files = [sample_file], ve_read = (\<lambda>_ _. Answer (sample_answer\<lparr>ea_legible := False\<rparr>))\<rparr>"


text \<open>A spreadsheet that code cannot open is handed to the accountant like any unreadable file, but the outcome the batch reports for it is the one of a check that never ran.\<close>

theorem unreadable_file_reported_as_skipped:
  assumes "load_collected_document E d s = Some doc" and "load_checkable_file E fid = Inr f" and "ve_read E doc f = NotRenderable"
  shows "fst (snd (verify_collected_document E d fid s)) = VSkipped
     \<and> snd (snd (verify_collected_document E d fid s))
     \<and> (\<exists>r. document_for_client d (ve_client E) (vs_docs (fst (verify_collected_document E d fid s))) = Some r
            \<and> cd_status r = Collected \<and> is_stalled r)
     \<and> fst (snd (verify_collected_document E d fid' (fst (verify_collected_document E d fid s)))) = VSkipped"
proof -
  have doc: "document_for_client d (ve_client E) (vs_docs s) = Some doc" "cd_status doc = Collected" "\<not> is_stalled doc"
    using assms(1) by (simp_all add: load_collected_Some)
  have i: "cd_id doc = d" using document_for_client_SomeD [OF doc(1)] by (simp add: is_row_def)
  let ?rec = "(base_record doc fid [''file_unreadable''])\<lparr>vr_stalled := True\<rparr>"
  let ?s = "s\<lparr>vs_docs := fst (set_verification d (ve_client E) ?rec (vs_docs s))\<rparr>"
  have step: "verify_collected_document E d fid s = (?s, VSkipped, True)"
    using assms i doc(3) by (simp add: verify_collected_document_def stall_def)
  have key: "row_key (r\<lparr>cd_verification := v\<rparr>) = row_key r" for r v by (simp add: row_key_def)
  have row: "document_for_client d (ve_client E) (vs_docs ?s) = Some (doc\<lparr>cd_verification := Some ?rec\<rparr>)"
    using doc(1) by (simp add: set_verification_def document_after_move key)
  moreover have "is_stalled (doc\<lparr>cd_verification := Some ?rec\<rparr>)" by (simp add: is_stalled_def)
  moreover from this have "load_collected_document E d ?s = None" using row by (simp add: load_collected_document_def)
  ultimately show ?thesis using doc(2) unfolding step by (simp add: verify_collected_document_def)
qed

lemma unreadable_file_reported_as_skipped_witness:
  "fst (snd (verify_collected_document (sample_env\<lparr>ve_read := (\<lambda>_ _. NotRenderable)\<rparr>) ''a'' ''f'' sample_state)) = VSkipped"
proof -
  let ?E = "sample_env\<lparr>ve_read := (\<lambda>_ _. NotRenderable)\<rparr>"
  have l: "load_collected_document ?E ''a'' sample_state = Some (sample_row ''a'' Collected)"
    by (simp add: load_collected_document_def sample_env_def sample_state_def document_for_client_def is_row_def sample_row_def is_stalled_def)
  have "is_analyzable (\<lambda>x. x) (df_content_type sample_file) (df_size sample_file)"
    by (simp add: is_analyzable_def is_spreadsheet_type_def mime_of_def sample_file_def ANALYZABLE_TYPES_def MAX_ANALYZABLE_BYTES_def
        js_trim_def js_space_def)
  then have f: "load_checkable_file ?E ''f'' = Inr sample_file"
    by (simp add: load_checkable_file_def sample_env_def file_for_client_def is_quarantined_def) (simp add: sample_file_def)
  show ?thesis using unreadable_file_reported_as_skipped [OF l f] by (simp add: sample_env_def)
qed

end
