(* ===== verification/FileIntake.thy ===== *)
theory FileIntake
  imports Files
begin

text \<open>
  What happens to a received file before the planner sees it: the gate on the page ranges of
  a multi-document PDF (\<open>splitFileRules.ts\<close>), the gate on the classification of one file
  (\<open>analyzeFileRules.ts\<close>), and the pipeline around them (\<open>analyzeInboundFile.ts\<close>): unsupported
  types, the injection screen, cutting into children, classifying each. The model's answers,
  the screen's verdict, the PDF library and the storage are arguments. Failures of the
  database itself, audit rows and token counts are left out.
\<close>

section \<open>Cutting a file: the gate on page ranges\<close>

record page_range =
  pg_from :: int
  pg_to :: int

definition MAX_SPLIT_DOCUMENTS :: nat where "MAX_SPLIT_DOCUMENTS = 20"

datatype split_fault = NoDocuments | TooManyDocuments nat | FirstAfterLast page_range | OutsideFile page_range
  | NotAscending page_range page_range | SharedPage page_range page_range | PagesMissing "int list"

text \<open>The checks are the keys with their verdicts, in the order they ran.\<close>

record split_gate =
  sg_result :: bool
  sg_reason :: "split_fault option"
  sg_ranges :: "page_range list"
  sg_proposed :: "page_range list"
  sg_checks :: "(string \<times> bool) list"

fun order_fault :: "page_range list \<Rightarrow> split_fault option" where
  "order_fault (p # c # rs) =
     (if pg_from c \<le> pg_to p then Some (if pg_to c < pg_from p then NotAscending p c else SharedPage p c)
      else order_fault (c # rs))"
| "order_fault _ = None"

definition range_fault :: "int \<Rightarrow> page_range list \<Rightarrow> split_fault option" where
  "range_fault pages rs = map_option (\<lambda>r. if pg_to r < pg_from r then FirstAfterLast r else OutsideFile r)
     (List.find (\<lambda>r. pg_from r < 1 \<or> pages < pg_to r \<or> pg_to r < pg_from r) rs)"

definition missing_pages :: "int \<Rightarrow> page_range list \<Rightarrow> int list" where
  "missing_pages pages rs = filter (\<lambda>p. \<not> list_ex (\<lambda>r. pg_from r \<le> p \<and> p \<le> pg_to r) rs) [1..pages]"

text \<open>The stages of the gate after the count, each a key and the fault it finds.\<close>

definition split_stages :: "int \<Rightarrow> page_range list \<Rightarrow> (string \<times> split_fault option) list" where
  "split_stages pages rs =
     [(''ranges_inside_file'', range_fault pages rs), (''ranges_ordered_no_overlap'', order_fault rs),
      (''all_pages_covered'', if missing_pages pages rs = [] then None else Some (PagesMissing (missing_pages pages rs)))]"

fun first_failed :: "(string \<times> split_fault option) list \<Rightarrow> (string \<times> bool) list \<times> split_fault option" where
  "first_failed [] = ([], None)"
| "first_failed ((k, None) # ss) = (let (cs, f) = first_failed ss in ((k, True) # cs, f))"
| "first_failed ((k, Some f) # ss) = ([(k, False)], Some f)"

definition validate_file_split :: "(page_range \<times> utext) list \<Rightarrow> int \<Rightarrow> split_gate" where
  "validate_file_split raw pages =
     (let proposed = map fst raw; count = length proposed;
          count_fault = (if count = 0 then Some NoDocuments else if MAX_SPLIT_DOCUMENTS < count then Some (TooManyDocuments count) else None);
          (checks, fault) = first_failed ((''document_count_within_cap'', count_fault) # split_stages pages proposed)
      in \<lparr>sg_result = (fault = None), sg_reason = fault, sg_ranges = (if fault = None then proposed else []),
          sg_proposed = proposed, sg_checks = checks\<rparr>)"

section \<open>Classifying a file: the gate on the answer\<close>

definition MAX_HOLDINGS :: nat where "MAX_HOLDINGS = 20"

definition classifier_candidates :: "docs \<Rightarrow> docs" where
  "classifier_candidates rows = filter (\<lambda>r. cd_status r \<notin> {Unresolved, NotRequired, Retired}) rows"

datatype match_fault = IdNotOffered id | OtherType string string | NoFilePaper | OtherPaper string string
  | OtherCompany string string | NoFileCompany

record classification_gate =
  cg_analysis :: file_analysis
  cg_result :: bool
  cg_reason :: "match_fault option"
  cg_rejected :: "id option"
  cg_match_dropped :: "match_fault option"
  cg_quarantined :: bool
  cg_checks :: "(string \<times> bool) list"

definition classification_quarantined :: "file_analysis \<Rightarrow> bool" where
  "classification_quarantined a = (fa_injection_suspected a \<or> \<not> fa_legible a)"

text \<open>The descriptive fields: holdings, employer and paper are kept only where they belong.\<close>

definition trim_analysis :: "file_analysis \<Rightarrow> file_analysis" where
  "trim_analysis a =
     (let t = fa_document_type a;
          a1 = (case fa_holdings a of None \<Rightarrow> a
            | Some hs \<Rightarrow> (let kept = (if is_institution_bound t then hs else []) in
                a\<lparr>fa_holdings := Some (take MAX_HOLDINGS kept),
                  fa_holdings_partial := (MAX_HOLDINGS < length kept \<or> (kept \<noteq> [] \<and> fa_holdings_partial a))\<rparr>));
          a2 = (if is_employer_bound t then a1 else a1\<lparr>fa_employer := None\<rparr>)
      in if fa_document_paper a2 \<noteq> None \<and> \<not> paper_belongs_to_type (fa_document_paper a2) t then a2\<lparr>fa_document_paper := None\<rparr> else a2)"

text \<open>The three rules on an offered row; each is its key and the fault it finds.\<close>

definition type_rule :: "file_analysis \<Rightarrow> client_document \<Rightarrow> (string \<times> match_fault option) list" where
  "type_rule a row = (case (fa_document_type a, cd_type_key row) of
       (Some t, Some k) \<Rightarrow> [(''matched_type_agrees'', if k = t then None else Some (OtherType k t))]
     | _ \<Rightarrow> [])"

definition paper_rule :: "file_analysis \<Rightarrow> client_document \<Rightarrow> (string \<times> match_fault option) list" where
  "paper_rule a row = (if \<not> truthy (cd_paper_key row) then []
     else [(''matched_paper_agrees'',
        if fa_document_paper a = cd_paper_key row then None
        else Some (case fa_document_paper a of None \<Rightarrow> NoFilePaper | Some p \<Rightarrow> OtherPaper p (the (cd_paper_key row))))])"

definition company_rule :: "institution list \<Rightarrow> file_analysis \<Rightarrow> client_document \<Rightarrow> (string \<times> match_fault option) list" where
  "company_rule tab a row = (if \<not> is_institution_bound (cd_type_key row) then []
     else (let comparison = compare_companies (fa_issuer a) (cd_name row) tab in
       [(''issuer_matches_item'',
         if tie_allowed_by_company comparison False then None
         else Some (case comparison of DifferentCompanies f i \<Rightarrow> OtherCompany f i | _ \<Rightarrow> NoFileCompany))]))"

fun first_fault :: "(string \<times> match_fault option) list \<Rightarrow> (string \<times> bool) list \<times> match_fault option" where
  "first_fault [] = ([], None)"
| "first_fault ((k, None) # ss) = (let (cs, f) = first_fault ss in ((k, True) # cs, f))"
| "first_fault ((k, Some f) # ss) = ([(k, False)], Some f)"

definition match_rules :: "institution list \<Rightarrow> file_analysis \<Rightarrow> docs \<Rightarrow> (string \<times> match_fault option) list" where
  "match_rules tab a rows = (case fa_matched_document a of None \<Rightarrow> []
     | Some i \<Rightarrow> (case List.find (\<lambda>r. cd_id r = i) rows of
         None \<Rightarrow> [(''matched_id_known'', Some (IdNotOffered i))]
       | Some row \<Rightarrow> (''matched_id_known'', None) # type_rule a row @ paper_rule a row @ company_rule tab a row))"

text \<open>The first failed rule drops the match; a paper or company fault is told to the planner.\<close>

fun told_fault :: "match_fault \<Rightarrow> bool" where
  "told_fault (IdNotOffered _) = False"
| "told_fault (OtherType _ _) = False"
| "told_fault _ = True"

definition validate_classification :: "institution list \<Rightarrow> file_analysis \<Rightarrow> docs \<Rightarrow> classification_gate" where
  "validate_classification tab raw rows =
     (let a = trim_analysis raw; (checks, fault) = first_fault (match_rules tab a rows);
          final_analysis = (if fault = None then a else a\<lparr>fa_matched_document := None\<rparr>)
      in \<lparr>cg_analysis = final_analysis, cg_result = (fault = None), cg_reason = fault,
          cg_rejected = (if fault = None then None else fa_matched_document a),
          cg_match_dropped = (case fault of None \<Rightarrow> None | Some f \<Rightarrow> if told_fault f then Some f else None),
          cg_quarantined = classification_quarantined final_analysis,
          cg_checks = checks @ [(''not_injection_suspected'', \<not> fa_injection_suspected a), (''legible'', fa_legible a)]\<rparr>)"

section \<open>The pipeline\<close>

definition list_children :: "id \<Rightarrow> document_file list \<Rightarrow> document_file list" where
  "list_children parent t = sort_key (\<lambda>f. case df_pages f of None \<Rightarrow> 0 | Some (a, _) \<Rightarrow> a) (filter (\<lambda>f. df_parent f = Some parent) t)"

definition delete_children :: "id \<Rightarrow> document_file list \<Rightarrow> document_file list" where
  "delete_children parent t = filter (\<lambda>f. df_parent f \<noteq> Some parent) t"

record intake_world =
  iw_files :: "document_file list"
  iw_drafting :: "ms option"

text \<open>
  What comes from outside: whether the file can be rendered for the model, the screen's
  verdict (a failed screen is a block), the page count and the split answer (\<open>None\<close> is a
  thrown error), the storing of the parts, whether the parent can be marked, the classifier.
\<close>

record analysis_env =
  an_lower :: "utext \<Rightarrow> utext"
  an_institutions :: "institution list"
  an_rows :: docs
  an_drafts :: bool
  an_now :: ms
  an_renders :: "document_file \<Rightarrow> bool"
  an_blocked :: bool
  an_page_count :: "int option"
  an_split :: "(page_range \<times> utext) list option"
  an_cut :: bool
  an_stored :: "nat \<Rightarrow> bool"
  an_marks :: bool
  an_child_id :: "nat \<Rightarrow> id"
  an_part_size :: "nat \<Rightarrow> nat"
  an_blob :: "document_file \<Rightarrow> bool"
  an_classify :: "document_file \<Rightarrow> docs \<Rightarrow> file_analysis option"

definition on_files :: "(document_file list \<Rightarrow> document_file list) \<Rightarrow> intake_world \<Rightarrow> intake_world" where
  "on_files f w = w\<lparr>iw_files := f (iw_files w)\<rparr>"

text \<open>\<open>an_drafts\<close>: the client is neither paused nor done.\<close>

definition keep_drafting :: "analysis_env \<Rightarrow> intake_world \<Rightarrow> intake_world" where
  "keep_drafting A w = (if an_drafts A then w\<lparr>iw_drafting := Some (an_now A)\<rparr> else w)"

definition is_pdf :: "(utext \<Rightarrow> utext) \<Rightarrow> utext \<Rightarrow> bool" where
  "is_pdf lower content_type = (mime_of lower content_type = jstr ''application/pdf'')"

definition page_name :: "page_range \<Rightarrow> string" where
  "page_name r = ''p'' @ show_int (pg_from r) @ ''-'' @ show_int (pg_to r)"

text \<open>\<open>filename.replace(/\.pdf$/i, '')\<close>.\<close>

definition drop_pdf_suffix :: "utext \<Rightarrow> utext" where
  "drop_pdf_suffix t =
     (let n = length t - 4; tl4 = drop n t in
      if 4 \<le> length t \<and> map (\<lambda>c. if 65 \<le> c \<and> c \<le> 90 then c + 32 else c) tl4 = jstr ''.pdf'' then take n t else t)"

definition child_row :: "analysis_env \<Rightarrow> document_file \<Rightarrow> nat \<Rightarrow> page_range \<Rightarrow> document_file" where
  "child_row A parent k r = \<lparr>df_id = an_child_id A k, df_client = df_client parent, df_email = df_email parent, df_document = None,
     df_provider_id = df_provider_id parent @ ''#'' @ page_name r,
     df_filename = drop_pdf_suffix (df_filename parent) @ jstr (''-'' @ page_name r @ ''.pdf''), df_label = None,
     df_content_type = jstr ''application/pdf'', df_size = an_part_size A k, df_status = AnPending, df_analysis = None,
     df_parent = Some (df_id parent), df_pages = Some (nat (pg_from r), nat (pg_to r)), df_created = an_now A\<rparr>"

text \<open>Storing the children one by one; \<open>False\<close> when a part could not be stored.\<close>

fun store_children :: "analysis_env \<Rightarrow> document_file \<Rightarrow> (nat \<times> page_range) list \<Rightarrow> document_file list \<Rightarrow> document_file list \<times> bool" where
  "store_children A parent [] t = (t, True)"
| "store_children A parent ((k, r) # rs) t =
     (if \<not> an_stored A k then (t, False)
      else store_children A parent rs (fst (insert_file_if_new (child_row A parent k r) t)))"

definition cut_into_children :: "analysis_env \<Rightarrow> document_file \<Rightarrow> page_range list \<Rightarrow> intake_world \<Rightarrow> document_file list option \<times> intake_world" where
  "cut_into_children A f ranges w =
     (if \<not> an_cut A then (None, w)
      else (let (t, ok) = store_children A f (enumerate 0 ranges) (iw_files w) in
        if \<not> ok then (None, w\<lparr>iw_files := delete_children (df_id f) t\<rparr>)
        else if \<not> an_marks A then (None, w\<lparr>iw_files := t\<rparr>)
        else (let t' = set_split (df_id f) t in (Some (list_children (df_id f) t'), w\<lparr>iw_files := t'\<rparr>))))"

text \<open>\<open>splitIntoChildren\<close> inside \<open>splitOrKeepWhole\<close>: \<open>None\<close> means the whole file is classified, after an error too.\<close>

definition split_or_keep_whole :: "analysis_env \<Rightarrow> document_file \<Rightarrow> intake_world \<Rightarrow> document_file list option \<times> intake_world" where
  "split_or_keep_whole A f w0 =
     (let w = keep_drafting A w0 in
      if \<not> is_pdf (an_lower A) (df_content_type f) then (None, w)
      else if df_parent f \<noteq> None then (None, w)
      else if df_status f = AnSplit then (Some (list_children (df_id f) (iw_files w)), w)
      else (case an_page_count A of None \<Rightarrow> (None, w)
        | Some pages \<Rightarrow> if pages < 2 then (None, w)
            else (case an_split A of None \<Rightarrow> (None, w)
              | Some raw \<Rightarrow> (let gate = validate_file_split raw pages in
                  if \<not> sg_result gate \<or> length (sg_ranges gate) < 2 then (None, w)
                  else cut_into_children A f (sg_ranges gate) w))))"

definition label_child :: "analysis_env \<Rightarrow> document_file \<Rightarrow> classification_gate \<Rightarrow> docs \<Rightarrow> document_file list \<Rightarrow> document_file list" where
  "label_child A f gate rows =
     (let a = cg_analysis gate; matched = (case fa_matched_document a of None \<Rightarrow> None | Some i \<Rightarrow> List.find (\<lambda>r. cd_id r = i) rows)
      in set_label (df_id f) (child_label (an_lower A) (an_institutions A)
           \<lparr>cl_matched_name = map_option cd_name matched, cl_matched_type = Option.bind matched cd_type_key, cl_type = fa_document_type a,
            cl_paper = fa_document_paper a, cl_issuer = fa_issuer a, cl_employer = fa_employer a, cl_quarantined = cg_quarantined gate\<rparr>))"

definition classify_and_store :: "analysis_env \<Rightarrow> document_file \<Rightarrow> intake_world \<Rightarrow> intake_world" where
  "classify_and_store A f =
     on_files (\<lambda>t. let rows = classifier_candidates (an_rows A) in
       case an_classify A f rows of
         None \<Rightarrow> (if df_parent f = None then (\<lambda>t. t) else set_label (df_id f) None) (set_analysis (df_id f) AnFailed None t)
       | Some raw \<Rightarrow> (let gate = validate_classification (an_institutions A) raw rows in
           (if df_parent f = None then (\<lambda>t. t) else label_child A f gate rows) (set_analysis (df_id f) AnDone (Some (cg_analysis gate)) t)))"

definition classify_child :: "analysis_env \<Rightarrow> document_file \<Rightarrow> intake_world \<Rightarrow> intake_world" where
  "classify_child A c w =
     (if df_status c \<noteq> AnPending then w
      else (let w1 = keep_drafting A w in
        if an_blob A c \<and> an_renders A c then classify_and_store A c w1 else on_files (set_analysis (df_id c) AnFailed None) w1))"

definition analyze_inbound_file :: "analysis_env \<Rightarrow> document_file \<Rightarrow> nat \<Rightarrow> intake_world \<Rightarrow> intake_world" where
  "analyze_inbound_file A f sz w =
     (if \<not> is_analyzable (an_lower A) (df_content_type f) sz then on_files (set_analysis (df_id f) AnUnsupported None) w
      else if \<not> an_renders A f then on_files (set_analysis (df_id f) AnFailed None) w
      else (let w1 = keep_drafting A w in
        if an_blocked A then on_files (set_blocked (df_id f)) w1
        else (case split_or_keep_whole A f w1 of
            (None, w2) \<Rightarrow> classify_and_store A f (keep_drafting A w2)
          | (Some children, w2) \<Rightarrow> fold (classify_child A) children w2)))"

section \<open>The ranges cover the file\<close>

lemma first_failed_None: "snd (first_failed ss) = None \<longleftrightarrow> (\<forall>s \<in> set ss. snd s = None)"
  by (induction ss rule: first_failed.induct) (auto simp: split_def)

lemma range_fault_None: "range_fault n rs = None \<longleftrightarrow> (\<forall>r \<in> set rs. 1 \<le> pg_from r \<and> pg_to r \<le> n \<and> pg_from r \<le> pg_to r)"
  by (auto simp: range_fault_def find_None_all)

lemma ranges_ascend:
  "\<lbrakk>order_fault rs = None; \<forall>r \<in> set rs. pg_from r \<le> pg_to r\<rbrakk> \<Longrightarrow> sorted_wrt (\<lambda>p c. pg_to p < pg_from c) rs"
proof (induction rs rule: order_fault.induct)
  case (1 p c rs)
  have gap: "pg_to p < pg_from c" "order_fault (c # rs) = None" using 1(2) by (auto split: if_splits)
  have sorted: "sorted_wrt (\<lambda>p c. pg_to p < pg_from c) (c # rs)" by (rule 1(1)) (use gap 1(3) in simp_all)
  have "pg_from c \<le> pg_to c" using 1(3) by simp
  then show ?case using sorted gap(1) by fastforce
qed simp_all

lemma ascending_pages: "sorted_wrt (\<lambda>p c. pg_to p < pg_from c) rs \<Longrightarrow> sorted_wrt (<) (concat (map (\<lambda>r. [pg_from r..pg_to r]) rs))"
  by (induction rs) (fastforce simp: sorted_wrt_append strict_sorted_iff)+

lemma accepted_ranges:
  assumes "sg_result (validate_file_split raw pages)"
  defines "rs \<equiv> sg_ranges (validate_file_split raw pages)"
  shows "sorted_wrt (\<lambda>p c. pg_to p < pg_from c) rs" "\<forall>r \<in> set rs. 1 \<le> pg_from r \<and> pg_to r \<le> pages \<and> pg_from r \<le> pg_to r"
    "concat (map (\<lambda>r. [pg_from r..pg_to r]) rs) = [1..pages]" "length rs \<in> {1..20}"
proof -
  let ?rs = "map fst raw"
  have faults: "length ?rs \<noteq> 0" "\<not> MAX_SPLIT_DOCUMENTS < length ?rs" "range_fault pages ?rs = None" "order_fault ?rs = None"
    "missing_pages pages ?rs = []" and rs: "sg_ranges (validate_file_split raw pages) = ?rs"
    using assms first_failed_None [of "(''document_count_within_cap'', if ?rs = [] then Some NoDocuments
        else if MAX_SPLIT_DOCUMENTS < length ?rs then Some (TooManyDocuments (length ?rs)) else None) # split_stages pages ?rs"]
    by (auto simp: validate_file_split_def split_stages_def split_def Let_def split: if_splits)
  have inside: "\<forall>r \<in> set ?rs. 1 \<le> pg_from r \<and> pg_to r \<le> pages \<and> pg_from r \<le> pg_to r"
    using faults(3) by (simp only: range_fault_None)
  have ascend: "sorted_wrt (\<lambda>p c. pg_to p < pg_from c) ?rs" by (intro ranges_ascend) (use faults(4) inside in blast)+
  then have "sorted_wrt (<) (concat (map (\<lambda>r. [pg_from r..pg_to r]) ?rs))" by (rule ascending_pages)
  moreover have "set (concat (map (\<lambda>r. [pg_from r..pg_to r]) ?rs)) = {1..pages}"
    using faults(5) inside by (fastforce simp: missing_pages_def filter_empty_conv list_ex_iff)
  moreover have "sorted_wrt (<) [1..pages]" by (simp add: strict_sorted_iff)
  ultimately have pages: "concat (map (\<lambda>r. [pg_from r..pg_to r]) ?rs) = [1..pages]"
    by (intro sorted_distinct_set_unique) (auto simp: strict_sorted_iff)
  show "sorted_wrt (\<lambda>p c. pg_to p < pg_from c) rs" "\<forall>r \<in> set rs. 1 \<le> pg_from r \<and> pg_to r \<le> pages \<and> pg_from r \<le> pg_to r"
    "concat (map (\<lambda>r. [pg_from r..pg_to r]) rs) = [1..pages]"
    using ascend inside pages by (simp_all only: rs_def rs)
  show "length rs \<in> {1..20}" unfolding rs_def rs using faults(1,2) by (auto simp: MAX_SPLIT_DOCUMENTS_def Suc_le_eq)
qed

text \<open>When the gate accepts the page ranges of a file, the pages of the ranges, one range after the other, are exactly the pages of the file in order: the cut loses no page, repeats none and keeps their order; there are between one and twenty ranges and none is empty.\<close>

theorem accepted_ranges_partition_file:
  assumes "sg_result (validate_file_split raw pages)"
  shows "concat (map (\<lambda>r. [pg_from r..pg_to r]) (sg_ranges (validate_file_split raw pages))) = [1..pages]
     \<and> length (sg_ranges (validate_file_split raw pages)) \<in> {1..20}
     \<and> list_all (\<lambda>r. pg_from r \<le> pg_to r) (sg_ranges (validate_file_split raw pages))"
  using accepted_ranges [OF assms] by (simp add: list_all_iff)

lemma accepted_ranges_partition_file_witness:
  "concat (map (\<lambda>r. [pg_from r..pg_to r]) (sg_ranges (validate_file_split [(\<lparr>pg_from = 1, pg_to = 2\<rparr>, []), (\<lparr>pg_from = 3, pg_to = 3\<rparr>, [])] 3))) = [1..3]"
proof -
  have "sg_result (validate_file_split [(\<lparr>pg_from = 1, pg_to = 2\<rparr>, []), (\<lparr>pg_from = 3, pg_to = 3\<rparr>, [])] 3)"
    by (simp add: validate_file_split_def split_stages_def range_fault_def missing_pages_def MAX_SPLIT_DOCUMENTS_def upto.simps Let_def)
  then show ?thesis using accepted_ranges_partition_file by blast
qed

end
