(* ===== verification/IntakeProps.thy ===== *)
theory IntakeProps
  imports FileIntake
begin

text \<open>
  What the analysis of a received file leaves behind: a settled file, either whole or cut
  into children that cover its pages, with every other row of the table untouched; and what
  a match that survived the classification gate rests on.
\<close>

section \<open>Names of the parts\<close>

lemma show_int_no_dash: "1 \<le> i \<Longrightarrow> CHR ''-'' \<notin> set (show_int i)"
proof
  assume "1 \<le> i" "CHR ''-'' \<in> set (show_int i)"
  then obtain d where "d < 10" "digit d = CHR ''-''" using show_nat_digits by (fastforce simp: show_int_def)
  then have "(of_char (digit d) :: nat) = of_char (CHR ''-'')" by simp
  then show False using \<open>d < 10\<close> by (simp add: digit_def)
qed

lemma page_name_inj:
  assumes "page_name r = page_name s" "1 \<le> pg_from r" "1 \<le> pg_to r"
  shows "r = s"
proof -
  have eq: "show_int (pg_from r) @ CHR ''-'' # show_int (pg_to r) = show_int (pg_from s) @ CHR ''-'' # show_int (pg_to s)"
    using assms(1) by (simp add: page_name_def)
  have "show_int (pg_from r) = show_int (pg_from s) \<and> show_int (pg_to r) = show_int (pg_to s)"
    using iffD1 [OF append_Cons_eq_iff eq] show_int_no_dash [OF assms(2)] show_int_no_dash [OF assms(3)] by blast
  then show ?thesis by (intro page_range.equality) simp_all
qed

section \<open>Storing the parts\<close>

lemma store_children_appends:
  "\<exists>cs. fst (store_children A f ks t) = t @ cs \<and> (\<forall>c \<in> set cs. df_parent c = Some (df_id f))"
proof (induction A f ks t rule: store_children.induct)
  case (2 A parent k r rs t)
  show ?case
  proof (cases "an_stored A k")
    case True
    obtain cs where cs: "fst (store_children A parent rs (fst (insert_file_if_new (child_row A parent k r) t))) = fst (insert_file_if_new (child_row A parent k r) t) @ cs"
        "\<forall>c \<in> set cs. df_parent c = Some (df_id parent)" using 2[OF _] True by auto
    have "fst (insert_file_if_new (child_row A parent k r) t) = t \<or> fst (insert_file_if_new (child_row A parent k r) t) = t @ [child_row A parent k r]"
      by (simp add: insert_file_if_new_def child_row_def Let_def)
    then show ?thesis
    proof
      assume "fst (insert_file_if_new (child_row A parent k r) t) = t" then show ?thesis using cs True by auto
    next
      assume new: "fst (insert_file_if_new (child_row A parent k r) t) = t @ [child_row A parent k r]"
      show ?thesis using cs True
        by (intro exI [of _ "child_row A parent k r # cs"]) (auto simp: new, simp add: child_row_def)
    qed
  qed simp
qed simp

lemma store_children_all:
  "\<lbrakk>store_children A f ks t = (t', True); distinct (map (page_name \<circ> snd) ks);
    \<forall>g \<in> set t. \<forall>r \<in> snd ` set ks. df_provider_id g \<noteq> df_provider_id f @ ''#'' @ page_name r\<rbrakk>
   \<Longrightarrow> t' = t @ map (\<lambda>(k, r). child_row A f k r) ks"
proof (induction ks arbitrary: t)
  case (Cons kr ks)
  obtain k r where kr: "kr = (k, r)" by fastforce
  have new: "fst (insert_file_if_new (child_row A f k r) t) = t @ [child_row A f k r]"
    using Cons.prems(3) by (auto simp: insert_file_if_new_def child_row_def kr list_ex_iff Let_def)
  have rest: "store_children A f ks (t @ [child_row A f k r]) = (t', True)"
    using Cons.prems(1) by (simp add: kr new split: if_splits)
  have "t' = (t @ [child_row A f k r]) @ map (\<lambda>(k, r). child_row A f k r) ks"
    by (rule Cons.IH [OF rest]) (use Cons.prems(2,3) in \<open>auto simp: kr child_row_def\<close>)
  then show ?case by (simp add: kr)
qed simp

section \<open>The classification writes one row\<close>

definition settles :: "analysis_status set \<Rightarrow> id set \<Rightarrow> (document_file \<Rightarrow> document_file) \<Rightarrow> bool" where
  "settles S I h = (\<forall>r. df_id (h r) = df_id r \<and> df_parent (h r) = df_parent r \<and> df_pages (h r) = df_pages r
     \<and> (if df_id r \<in> I then df_status (h r) \<in> S else h r = r))"

lemma settlesD:
  assumes "settles S I h"
  shows "df_id (h r) = df_id r" "df_parent (h r) = df_parent r" "df_pages (h r) = df_pages r"
    "df_id r \<in> I \<Longrightarrow> df_status (h r) \<in> S" "df_id r \<notin> I \<Longrightarrow> h r = r"
  using assms unfolding settles_def by (metis (lifting))+

lemma settlesI:
  assumes "\<And>r. df_id (h r) = df_id r" "\<And>r. df_parent (h r) = df_parent r" "\<And>r. df_pages (h r) = df_pages r"
    "\<And>r. df_id r \<in> I \<Longrightarrow> df_status (h r) \<in> S" "\<And>r. df_id r \<notin> I \<Longrightarrow> h r = r"
  shows "settles S I h"
  using assms unfolding settles_def by presburger

lemma settles_keys: "settles S I h \<Longrightarrow> map (df_id \<circ> h) t = map df_id t" "settles S I h \<Longrightarrow> map (df_pages \<circ> h) t = map df_pages t"
  by (simp_all only: comp_def settlesD)

lemma settles_id: "settles S {} (\<lambda>r. r)"
  by (rule settlesI) simp_all

lemma settles_comp:
  assumes g: "settles S I g" and h: "settles S J h"
  shows "settles S (I \<union> J) (\<lambda>r. h (g r))"
proof (rule settlesI)
  fix r show "df_status (h (g r)) \<in> S" if "df_id r \<in> I \<union> J"
    using that settlesD(1,4) [OF g, of r] settlesD(4,5) [OF h, of "g r"] by (cases "df_id r \<in> J") auto
  show "h (g r) = r" if "df_id r \<notin> I \<union> J"
    using that settlesD(5) [OF g, of r] settlesD(5) [OF h, of r] by simp
qed (simp_all only: settlesD [OF g] settlesD [OF h])

lemma settles_mono: "\<lbrakk>settles S I h; S \<subseteq> T\<rbrakk> \<Longrightarrow> settles T I h"
  unfolding settles_def by (meson subsetD)

lemma iw_files_on_files [simp]: "iw_files (on_files f w) = f (iw_files w)"
  by (simp add: on_files_def)

lemma iw_files_keep_drafting [simp]: "iw_files (keep_drafting A w) = iw_files w"
  by (simp add: keep_drafting_def)

lemma set_analysis_settles: "s \<in> S \<Longrightarrow> \<exists>h. settles S {i} h \<and> set_analysis i s a = map h"
  by (rule exI [of _ "\<lambda>r. if df_id r = i then r\<lparr>df_status := s, df_analysis := a\<rparr> else r"])
    (simp add: set_analysis_def update_where_def [abs_def] settles_def)

lemma set_label_settled:
  assumes g: "settles S {i} g"
  shows "\<exists>h. settles S {i} h \<and> set_label i l (map g t) = map h t"
proof (intro exI conjI)
  let ?h = "\<lambda>r. if df_id r = i then (g r)\<lparr>df_label := l\<rparr> else r"
  show "settles S {i} ?h" by (rule settlesI) (use settlesD [OF g] in simp_all)
  show "set_label i l (map g t) = map ?h t"
    by (simp add: set_label_def update_where_def settlesD(1) [OF g]) (use settlesD(5) [OF g] in auto)
qed

lemma classified:
  assumes "{AnDone, AnFailed} \<subseteq> S"
  shows "\<exists>h. settles S {df_id f} h \<and> iw_files (classify_and_store A f w) = map h (iw_files w)"
proof -
  have verdict: "\<exists>h. settles S {df_id f} h \<and> (if df_parent f = None then (\<lambda>t. t) else set_label (df_id f) l) (set_analysis (df_id f) s a t) = map h t"
    if s: "s \<in> {AnDone, AnFailed}" for s a l t
  proof -
    obtain h where h: "settles S {df_id f} h" "set_analysis (df_id f) s a = map h"
      using set_analysis_settles [of s S] s assms by blast
    then show ?thesis using set_label_settled [OF h(1)] by auto
  qed
  then show ?thesis
    by (auto simp: classify_and_store_def label_child_def Let_def split: option.splits)
qed

lemma child_classified:
  assumes "df_status c = AnPending"
  shows "\<exists>h. settles {AnDone, AnFailed} {df_id c} h \<and> iw_files (classify_child A c w) = map h (iw_files w)"
  using assms classified [of "{AnDone, AnFailed}" c A "keep_drafting A w"] set_analysis_settles [of AnFailed "{AnDone, AnFailed}" "df_id c" None]
  by (auto simp: classify_child_def Let_def)

lemma children_classified:
  "\<forall>c \<in> set cs. df_status c = AnPending
   \<Longrightarrow> \<exists>h. settles {AnDone, AnFailed} (df_id ` set cs) h \<and> iw_files (fold (classify_child A) cs w) = map h (iw_files w)"
proof (induction cs arbitrary: w)
  case Nil
  show ?case using settles_id by (intro exI [of _ "\<lambda>r. r"]) simp
next
  case (Cons c cs)
  obtain g where g: "settles {AnDone, AnFailed} {df_id c} g" "iw_files (classify_child A c w) = map g (iw_files w)"
    using child_classified Cons.prems by fastforce
  obtain h where h: "settles {AnDone, AnFailed} (df_id ` set cs) h"
      "iw_files (fold (classify_child A) cs (classify_child A c w)) = map h (iw_files (classify_child A c w))"
    using Cons.IH Cons.prems by fastforce
  have "settles {AnDone, AnFailed} (df_id ` set (c # cs)) (\<lambda>r. h (g r))" using settles_comp [OF g(1) h(1)] by simp
  moreover have "iw_files (fold (classify_child A) (c # cs) w) = map (\<lambda>r. h (g r)) (iw_files w)" by (simp add: g(2) h(2))
  ultimately show ?case by blast
qed

section \<open>Cutting leaves the parent and its parts, or nothing\<close>

text \<open>
  A file about to be analysed for the first time: its id is its own, nothing was cut out of it
  yet, no row carries an attachment id derived from its own, and new rows get new ids.
\<close>

definition first_analysis :: "analysis_env \<Rightarrow> document_file \<Rightarrow> document_file list \<Rightarrow> bool" where
  "first_analysis A f t = (f \<in> set t \<and> distinct (map df_id t) \<and> df_status f = AnPending
     \<and> (\<forall>g \<in> set t. df_parent g \<noteq> Some (df_id f) \<and> (\<forall>r. df_provider_id g \<noteq> df_provider_id f @ ''#'' @ page_name r) \<and> (\<forall>k. an_child_id A k \<noteq> df_id g)))"

definition parts :: "analysis_env \<Rightarrow> document_file \<Rightarrow> page_range list \<Rightarrow> document_file list" where
  "parts A f rs = map (\<lambda>(k, r). child_row A f k r) (enumerate 0 rs)"

lemma part_fields:
  assumes "c \<in> set (parts A f rs)"
  shows "df_parent c = Some (df_id f)" "df_status c = AnPending" "df_id c \<in> range (an_child_id A)"
  using assms by (auto simp: parts_def child_row_def)

lemma parts_pages: "map df_pages (parts A f rs) = map (\<lambda>r. Some (nat (pg_from r), nat (pg_to r))) rs"
proof -
  have "map df_pages (parts A f rs) = map ((\<lambda>r. Some (nat (pg_from r), nat (pg_to r))) \<circ> snd) (enumerate 0 rs)"
    by (simp add: parts_def child_row_def split_def comp_def)
  then show ?thesis by (simp only: map_map [symmetric] map_snd_enumerate)
qed

lemma distinct_page_names:
  assumes "sorted_wrt (\<lambda>p c. pg_to p < pg_from c) rs" "\<forall>r \<in> set rs. 1 \<le> pg_from r \<and> pg_to r \<le> n \<and> pg_from r \<le> pg_to r"
  shows "distinct (map page_name rs)"
proof -
  have "inj_on page_name (set rs)" using assms(2) by (intro inj_onI page_name_inj) force+
  moreover have "distinct rs" using assms by (induction rs) fastforce+
  ultimately show ?thesis by (simp add: distinct_map)
qed

lemma no_children_kept: "\<forall>g \<in> set t. df_parent g \<noteq> Some i \<Longrightarrow> delete_children i t = t"
  by (simp add: delete_children_def filter_id_conv)

lemma stored_parts:
  assumes "store_children A f (enumerate 0 rs) t = (t', True)" "first_analysis A f t"
    "sorted_wrt (\<lambda>p c. pg_to p < pg_from c) rs" "\<forall>r \<in> set rs. 1 \<le> pg_from r \<and> pg_to r \<le> n \<and> pg_from r \<le> pg_to r"
  shows "t' = t @ parts A f rs"
  unfolding parts_def
proof (rule store_children_all [OF assms(1)])
  have "map (page_name \<circ> snd) (enumerate 0 rs) = map page_name (map snd (enumerate 0 rs))" by (simp only: map_map)
  then show "distinct (map (page_name \<circ> snd) (enumerate 0 rs))"
    using distinct_page_names [OF assms(3,4)] by (simp only: map_snd_enumerate)
  show "\<forall>g \<in> set t. \<forall>r \<in> snd ` set (enumerate 0 rs). df_provider_id g \<noteq> df_provider_id f @ ''#'' @ page_name r"
    using assms(2) by (simp add: first_analysis_def)
qed

lemma unstored_parts:
  assumes "first_analysis A f t"
  shows "delete_children (df_id f) (fst (store_children A f ks t)) = t"
proof -
  obtain cs where cs: "fst (store_children A f ks t) = t @ cs" "\<forall>c \<in> set cs. df_parent c = Some (df_id f)"
    using store_children_appends by blast
  have "delete_children (df_id f) (t @ cs) = delete_children (df_id f) t" using cs(2) by (simp add: delete_children_def)
  then show ?thesis using no_children_kept assms by (simp add: cs(1) first_analysis_def)
qed

lemma cut_or_not:
  assumes "first_analysis A f (iw_files w)" "an_marks A" "split_or_keep_whole A f w = (r, w')"
  shows "(r = None \<and> iw_files w' = iw_files w)
    \<or> (\<exists>raw pages rs. an_page_count A = Some pages \<and> sg_result (validate_file_split raw pages) \<and> rs = sg_ranges (validate_file_split raw pages)
        \<and> 2 \<le> length rs \<and> iw_files w' = set_split (df_id f) (iw_files w @ parts A f rs) \<and> r = Some (list_children (df_id f) (iw_files w')))"
proof (cases "r = None")
  case True
  then show ?thesis using assms unstored_parts [of A f "iw_files w"]
    by (auto simp: split_or_keep_whole_def cut_into_children_def Let_def split_def split: if_splits option.splits)
next
  case False
  obtain pages raw where p: "an_page_count A = Some pages" "an_split A = Some raw" "sg_result (validate_file_split raw pages)"
      and many: "2 \<le> length (sg_ranges (validate_file_split raw pages))" and cut: "cut_into_children A f (sg_ranges (validate_file_split raw pages)) (keep_drafting A w) = (r, w')"
    using assms(1,3) False
    by (auto simp: split_or_keep_whole_def first_analysis_def Let_def split: if_splits option.splits)
  let ?rs = "sg_ranges (validate_file_split raw pages)"
  obtain t ok where stored: "store_children A f (enumerate 0 ?rs) (iw_files w) = (t, ok)" by fastforce
  have t: "store_children A f (enumerate 0 ?rs) (iw_files w) = (t, True)"
      and w': "iw_files w' = set_split (df_id f) t" "r = Some (list_children (df_id f) (iw_files w'))"
    using cut False stored assms(2) by (auto simp: cut_into_children_def Let_def split: if_splits)
  have "t = iw_files w @ parts A f ?rs" by (rule stored_parts [OF t assms(1) accepted_ranges(1,2) [OF p(3)]])
  then show ?thesis using p many w' by blast
qed

section \<open>What an analysis leaves behind\<close>

definition child_pages :: "document_file \<Rightarrow> int list" where
  "child_pages c = (case df_pages c of None \<Rightarrow> [] | Some (a, b) \<Rightarrow> [int a..int b])"

definition settled_whole :: "analysis_status set" where
  "settled_whole = {AnDone, AnFailed, AnUnsupported, AnBlocked}"

definition ends_clean :: "int option \<Rightarrow> document_file \<Rightarrow> document_file list \<Rightarrow> document_file list \<Rightarrow> bool" where
  "ends_clean pages f t t' =
     ((case List.find (\<lambda>g. df_id g = df_id f) t' of None \<Rightarrow> False
       | Some r \<Rightarrow> (let children = list_children (df_id f) t' in
           if df_status r = AnSplit
           then 2 \<le> length children \<and> concat (map child_pages children) = [1..the pages] \<and> list_all (\<lambda>c. df_status c \<in> {AnDone, AnFailed}) children
           else df_status r \<in> settled_whole \<and> children = []))
      \<and> filter (\<lambda>g. df_id g \<noteq> df_id f \<and> df_parent g \<noteq> Some (df_id f)) t' = filter (\<lambda>g. df_id g \<noteq> df_id f) t)"

lemma filter_settled:
  assumes "settles S I h"
  shows "filter (\<lambda>g. df_parent g = p) (map h t) = map h (filter (\<lambda>g. df_parent g = p) t)"
    "filter (\<lambda>g. df_id g \<noteq> i \<and> df_parent g \<noteq> p) (map h t) = map h (filter (\<lambda>g. df_id g \<noteq> i \<and> df_parent g \<noteq> p) t)"
  by (simp_all add: filter_map comp_def settlesD(1,2) [OF assms])

lemma find_settled:
  assumes "settles S I h"
  shows "List.find (\<lambda>g. df_id g = i) (map h t) = map_option h (List.find (\<lambda>g. df_id g = i) t)"
  by (induction t) (simp_all add: settlesD(1) [OF assms])

lemma no_children: "first_analysis A f t \<Longrightarrow> filter (\<lambda>g. df_parent g = Some (df_id f)) t = []"
  by (simp add: first_analysis_def filter_empty_conv)

lemma found_first: "first_analysis A f t \<Longrightarrow> List.find (\<lambda>g. df_id g = df_id f) t = Some f"
  unfolding first_analysis_def by (blast intro: find_key_unique)

lemma map_settled_others:
  assumes "settles S I h" "\<forall>g \<in> set t. df_id g \<notin> I"
  shows "map h t = t"
  using assms(2) settlesD(5) [OF assms(1)] by (simp add: map_idI)

lemma whole_ends_clean:
  assumes "first_analysis A f t" "settles settled_whole {df_id f} h"
  shows "ends_clean pages f t (map h t)"
proof -
  have others: "filter (\<lambda>g. df_id g \<noteq> df_id f \<and> df_parent g \<noteq> Some (df_id f)) t = filter (\<lambda>g. df_id g \<noteq> df_id f) t"
    using assms(1) by (intro filter_cong) (auto simp: first_analysis_def)
  have "map h (filter (\<lambda>g. df_id g \<noteq> df_id f) t) = filter (\<lambda>g. df_id g \<noteq> df_id f) t"
    by (rule map_settled_others [OF assms(2)]) auto
  moreover have "df_status (h f) \<in> settled_whole" using settlesD(4) [OF assms(2)] by simp
  then have "df_status (h f) \<noteq> AnSplit" "df_status (h f) \<in> settled_whole" by (auto simp: settled_whole_def)
  ultimately show ?thesis
    by (simp add: ends_clean_def list_children_def filter_settled [OF assms(2)] find_settled [OF assms(2)] found_first [OF assms(1)]
        no_children [OF assms(1)] others)
qed

lemma parts_not_in_table:
  assumes "first_analysis A f t" "c \<in> set (parts A f rs)" "g \<in> set t"
  shows "df_id c \<noteq> df_id g"
proof -
  obtain k where "df_id c = an_child_id A k" using part_fields(3) [OF assms(2)] by blast
  then show ?thesis using assms(1,3) by (simp add: first_analysis_def)
qed

lemma set_split_parts:
  assumes "first_analysis A f t"
  shows "set_split (df_id f) (t @ parts A f rs) = set_split (df_id f) t @ parts A f rs"
proof -
  have "f \<in> set t" using assms by (simp add: first_analysis_def)
  then have "\<forall>c \<in> set (parts A f rs). df_id c \<noteq> df_id f" using parts_not_in_table [OF assms] by blast
  then show ?thesis by (simp add: set_split_def update_where_def map_idI)
qed

lemma split_table:
  assumes "first_analysis A f t"
  shows "filter (\<lambda>g. df_parent g = Some (df_id f)) (set_split (df_id f) (t @ parts A f rs)) = parts A f rs"
    "List.find (\<lambda>g. df_id g = df_id f) (set_split (df_id f) (t @ parts A f rs)) = Some (f\<lparr>df_status := AnSplit, df_analysis := None\<rparr>)"
    "filter (\<lambda>g. df_id g \<noteq> df_id f \<and> df_parent g \<noteq> Some (df_id f)) (set_split (df_id f) (t @ parts A f rs)) = filter (\<lambda>g. df_id g \<noteq> df_id f) t"
proof -
  have parts: "\<forall>c \<in> set (parts A f rs). df_parent c = Some (df_id f)" using part_fields(1) by blast
  have kept: "\<forall>g \<in> set t. df_parent g \<noteq> Some (df_id f)" using assms by (simp add: first_analysis_def)
  have "filter (\<lambda>g. df_parent g = Some (df_id f)) (set_split (df_id f) t) = []"
    using kept by (auto simp: filter_empty_conv set_split_def set_update_where)
  then show "filter (\<lambda>g. df_parent g = Some (df_id f)) (set_split (df_id f) (t @ parts A f rs)) = parts A f rs"
    using parts by (simp add: set_split_parts [OF assms] filter_id_conv)
  have "List.find (\<lambda>g. df_id g = df_id f) (set_split (df_id f) t) = Some (f\<lparr>df_status := AnSplit, df_analysis := None\<rparr>)"
    unfolding set_split_def by (subst find_update_where) (simp_all add: found_first [OF assms])
  then show "List.find (\<lambda>g. df_id g = df_id f) (set_split (df_id f) (t @ parts A f rs)) = Some (f\<lparr>df_status := AnSplit, df_analysis := None\<rparr>)"
    by (simp add: set_split_parts [OF assms] find_append)
  have "filter (\<lambda>g. df_id g \<noteq> df_id f \<and> df_parent g \<noteq> Some (df_id f)) (set_split (df_id f) t) = filter (\<lambda>g. df_id g \<noteq> df_id f) t"
    using kept by (induction t) (auto simp: set_split_def)
  moreover have "filter (\<lambda>g. df_id g \<noteq> df_id f \<and> df_parent g \<noteq> Some (df_id f)) (parts A f rs) = []"
    using parts by (simp add: filter_empty_conv)
  ultimately show "filter (\<lambda>g. df_id g \<noteq> df_id f \<and> df_parent g \<noteq> Some (df_id f)) (set_split (df_id f) (t @ parts A f rs)) = filter (\<lambda>g. df_id g \<noteq> df_id f) t"
    by (simp add: set_split_parts [OF assms])
qed

lemma children_in_order:
  assumes "map df_pages cs = map (\<lambda>r. Some (nat (pg_from r), nat (pg_to r))) rs"
    "sorted_wrt (\<lambda>p c. pg_to p < pg_from c) rs" "\<forall>r \<in> set rs. 1 \<le> pg_from r \<and> pg_to r \<le> n \<and> pg_from r \<le> pg_to r"
  shows "sort_key (\<lambda>f. case df_pages f of None \<Rightarrow> 0 | Some (a, _) \<Rightarrow> a) cs = cs"
    "concat (map child_pages cs) = concat (map (\<lambda>r. [pg_from r..pg_to r]) rs)"
proof -
  let ?from = "\<lambda>f. case df_pages f of None \<Rightarrow> 0 | Some (a, _) \<Rightarrow> a"
  have "map ?from cs = map (\<lambda>p. case p of None \<Rightarrow> 0 | Some (a, _) \<Rightarrow> a) (map df_pages cs)" by (simp add: comp_def)
  also have "\<dots> = map (\<lambda>r. nat (pg_from r)) rs" by (simp add: assms(1))
  finally have "map ?from cs = map (\<lambda>r. nat (pg_from r)) rs" .
  moreover have "sorted (map (\<lambda>r. nat (pg_from r)) rs)" using assms(2,3) by (induction rs) force+
  ultimately show "sort_key ?from cs = cs" by (simp add: sort_key_id_if_sorted)
  have "map child_pages cs = map (\<lambda>p. case p of None \<Rightarrow> [] | Some (a, b) \<Rightarrow> [int a..int b]) (map df_pages cs)" by (simp add: child_pages_def comp_def)
  also have "\<dots> = map (\<lambda>r. [pg_from r..pg_to r]) rs" using assms(3) by (simp add: assms(1)) force
  finally show "concat (map child_pages cs) = concat (map (\<lambda>r. [pg_from r..pg_to r]) rs)" by simp
qed

lemma split_ends_clean:
  assumes "first_analysis A f t" "sg_result (validate_file_split raw n)" "rs = sg_ranges (validate_file_split raw n)" "2 \<le> length rs"
    "settles {AnDone, AnFailed} (df_id ` set (parts A f rs)) h"
  shows "ends_clean (Some n) f t (map h (set_split (df_id f) (t @ parts A f rs)))"
proof -
  note rs = accepted_ranges [OF assms(2), folded assms(3)]
  have fresh: "\<forall>g \<in> set t. df_id g \<notin> df_id ` set (parts A f rs)" using parts_not_in_table [OF assms(1)] by fastforce
  have pages: "map df_pages (map h (parts A f rs)) = map (\<lambda>r. Some (nat (pg_from r), nat (pg_to r))) rs"
    by (simp only: map_map settles_keys(2) [OF assms(5)] parts_pages)
  have "f \<in> set t" using assms(1) by (simp add: first_analysis_def)
  then have "h (f\<lparr>df_status := AnSplit, df_analysis := None\<rparr>) = f\<lparr>df_status := AnSplit, df_analysis := None\<rparr>"
    using fresh by (intro settlesD(5) [OF assms(5)]) auto
  moreover have "map h (filter (\<lambda>g. df_id g \<noteq> df_id f) t) = filter (\<lambda>g. df_id g \<noteq> df_id f) t"
    using fresh by (intro map_settled_others [OF assms(5)]) auto
  moreover have "list_all (\<lambda>c. df_status c \<in> {AnDone, AnFailed}) (map h (parts A f rs))"
    using settlesD(4) [OF assms(5)] by (simp add: list_all_iff)
  moreover have "length (parts A f rs) = length rs" by (simp add: parts_def)
  ultimately show ?thesis
    using children_in_order [OF pages rs(1,2)] rs(3) assms(4)
    by (simp add: ends_clean_def list_children_def filter_settled [OF assms(5)] find_settled [OF assms(5)] split_table [OF assms(1)])
qed


text \<open>A received PDF of three pages, a form of two pages and one more; the classifier always fails.\<close>

definition sample_pdf :: document_file where
  "sample_pdf = \<lparr>df_id = ''f'', df_client = ''c'', df_email = Some ''m'', df_document = None, df_provider_id = ''a'',
     df_filename = jstr ''scan.pdf'', df_label = None, df_content_type = jstr ''application/pdf'', df_size = 1000, df_status = AnPending,
     df_analysis = None, df_parent = None, df_pages = None, df_created = 0\<rparr>"

definition sample_env :: "bool \<Rightarrow> analysis_env" where
  "sample_env marks = \<lparr>an_lower = (\<lambda>t. t), an_institutions = [], an_rows = [], an_drafts = True, an_now = 5, an_renders = (\<lambda>_. True),
     an_blocked = False, an_page_count = Some 3, an_split = Some [(\<lparr>pg_from = 1, pg_to = 2\<rparr>, []), (\<lparr>pg_from = 3, pg_to = 3\<rparr>, [])],
     an_cut = True, an_stored = (\<lambda>_. True), an_marks = marks, an_child_id = (\<lambda>k. replicate (Suc k) CHR ''p''), an_part_size = (\<lambda>_. 400),
     an_blob = (\<lambda>_. True), an_classify = (\<lambda>_ _. None)\<rparr>"

definition sample_intake :: intake_world where
  "sample_intake = \<lparr>iw_files = [sample_pdf], iw_drafting = None\<rparr>"

lemma sample_first: "first_analysis (sample_env b) sample_pdf (iw_files sample_intake)"
  by (simp add: first_analysis_def sample_env_def sample_pdf_def sample_intake_def)


lemma pdf_mime: "mime_of (\<lambda>t. t) (jstr ''application/pdf'') = jstr ''application/pdf''"
  by (simp add: mime_of_def js_trim_def js_space_def)

lemma sample_readable: "is_analyzable (\<lambda>t. t) (df_content_type sample_pdf) 1000" "is_pdf (\<lambda>t. t) (df_content_type sample_pdf)"
  by (simp_all add: sample_pdf_def is_pdf_def is_analyzable_def is_spreadsheet_type_def pdf_mime [simplified] ANALYZABLE_TYPES_def
      MAX_ANALYZABLE_BYTES_def Let_def)

lemma sample_gate:
  "sg_result (validate_file_split [(\<lparr>pg_from = 1, pg_to = 2\<rparr>, []), (\<lparr>pg_from = 3, pg_to = 3\<rparr>, [])] 3)"
  "sg_ranges (validate_file_split [(\<lparr>pg_from = 1, pg_to = 2\<rparr>, []), (\<lparr>pg_from = 3, pg_to = 3\<rparr>, [])] 3) = [\<lparr>pg_from = 1, pg_to = 2\<rparr>, \<lparr>pg_from = 3, pg_to = 3\<rparr>]"
  by (simp_all add: validate_file_split_def split_stages_def range_fault_def missing_pages_def MAX_SPLIT_DOCUMENTS_def upto.simps Let_def)

lemma sample_cut:
  "map (\<lambda>g. (df_id g, df_status g, df_pages g)) (iw_files (analyze_inbound_file (sample_env True) sample_pdf 1000 sample_intake))
   = [(''f'', AnSplit, None), (''p'', AnFailed, Some (1, 2)), (''pp'', AnFailed, Some (3, 3))]"
  using sample_readable
  by (simp add: analyze_inbound_file_def split_or_keep_whole_def cut_into_children_def sample_gate sample_env_def sample_intake_def sample_pdf_def Let_def
      insert_file_if_new_def child_row_def page_name_def show_int_def show_nat.simps digit_def set_split_def list_children_def
      keep_drafting_def classify_child_def classify_and_store_def on_files_def set_analysis_def set_label_def)

text \<open>The parent's row is marked outside the guarded part: when that write fails the children stay beside a file classified whole.\<close>

lemma failed_mark_leaves_children:
  "map (\<lambda>g. (df_id g, df_status g, df_parent g)) (iw_files (analyze_inbound_file (sample_env False) sample_pdf 1000 sample_intake))
   = [(''f'', AnFailed, None), (''p'', AnPending, Some ''f''), (''pp'', AnPending, Some ''f'')]"
  using sample_readable
  by (simp add: analyze_inbound_file_def split_or_keep_whole_def cut_into_children_def sample_gate sample_env_def sample_intake_def sample_pdf_def Let_def
      insert_file_if_new_def child_row_def page_name_def show_int_def show_nat.simps digit_def
      keep_drafting_def classify_and_store_def on_files_def set_analysis_def)

section \<open>What a surviving match rests on\<close>

lemma first_fault_None: "snd (first_fault ss) = None \<longleftrightarrow> (\<forall>s \<in> set ss. snd s = None)"
  by (induction ss rule: first_fault.induct) (auto simp: split_def)

lemma trim_analysis_same [simp]:
  "fa_matched_document (trim_analysis a) = fa_matched_document a" "fa_document_type (trim_analysis a) = fa_document_type a"
  "fa_issuer (trim_analysis a) = fa_issuer a" "fa_legible (trim_analysis a) = fa_legible a"
  "fa_injection_suspected (trim_analysis a) = fa_injection_suspected a"
  by (simp_all add: trim_analysis_def Let_def split: option.splits)

lemma trim_analysis_paper: "fa_document_paper (trim_analysis a) = Some p \<Longrightarrow> fa_document_paper a = Some p \<and> paper_belongs_to_type (Some p) (fa_document_type a)"
  by (auto simp: trim_analysis_def Let_def split: option.splits if_splits)

lemma surviving_match:
  assumes "fa_matched_document (cg_analysis (validate_classification tab raw rows)) = Some i"
  shows "fa_matched_document raw = Some i" "\<forall>s \<in> set (match_rules tab (trim_analysis raw) rows). snd s = None"
proof -
  have fault: "snd (first_fault (match_rules tab (trim_analysis raw) rows)) = None"
    using assms by (auto simp: validate_classification_def Let_def split_def split: if_splits)
  then show "\<forall>s \<in> set (match_rules tab (trim_analysis raw) rows). snd s = None" by (simp add: first_fault_None)
  show "fa_matched_document raw = Some i" using assms fault by (simp add: validate_classification_def Let_def split_def)
qed

text \<open>A match to a list item that survives the classification gate is the match the answer named, to an item that was offered, so one agreed with the client as needed; the item is of the type the file was classified as (where both are recorded), an item that stands for one paper matches only a file of that paper, which belongs to the file's type, and for a type bound to an institution the company on the file is the one the item names. Whatever it drops, the gate keeps the document type and both quarantine flags as answered.\<close>

theorem surviving_match_agrees:
  assumes "fa_matched_document (cg_analysis (validate_classification tab raw (classifier_candidates all_rows))) = Some i"
  shows "fa_matched_document raw = Some i
    \<and> (\<exists>row \<in> set all_rows. cd_id row = i \<and> cd_status row \<notin> {Unresolved, NotRequired, Retired}
        \<and> (cd_type_key row = None \<or> fa_document_type raw = None \<or> cd_type_key row = fa_document_type raw)
        \<and> (truthy (cd_paper_key row) \<longrightarrow> fa_document_paper raw = cd_paper_key row \<and> paper_belongs_to_type (cd_paper_key row) (fa_document_type raw))
        \<and> (is_institution_bound (cd_type_key row) \<longrightarrow> tie_allowed_by_company (compare_companies (fa_issuer raw) (cd_name row) tab) False))
    \<and> (let g = validate_classification tab raw (classifier_candidates all_rows) in
        cg_quarantined g = classification_quarantined raw \<and> fa_document_type (cg_analysis g) = fa_document_type raw
        \<and> fa_legible (cg_analysis g) = fa_legible raw \<and> fa_injection_suspected (cg_analysis g) = fa_injection_suspected raw)"
proof -
  let ?a = "trim_analysis raw"
  note raw = surviving_match(1) [OF assms] and passed = surviving_match(2) [OF assms]
  obtain row where row: "List.find (\<lambda>r. cd_id r = i) (classifier_candidates all_rows) = Some row"
    using passed raw by (auto simp: match_rules_def split: option.splits)
  then have offered: "row \<in> set all_rows" "cd_id row = i" "cd_status row \<notin> {Unresolved, NotRequired, Retired}"
    using find_Some_mem by (fastforce simp: classifier_candidates_def)+
  have rules: "\<forall>s \<in> set (type_rule ?a row @ paper_rule ?a row @ company_rule tab ?a row). snd s = None"
    using passed by (simp add: match_rules_def raw row)
  have "cd_type_key row = None \<or> fa_document_type raw = None \<or> cd_type_key row = fa_document_type raw"
    using rules by (cases "fa_document_type raw"; cases "cd_type_key row") (simp_all add: type_rule_def split: if_splits)
  moreover have "fa_document_paper raw = cd_paper_key row \<and> paper_belongs_to_type (cd_paper_key row) (fa_document_type raw)"
    if paper: "truthy (cd_paper_key row)"
  proof -
    have "fa_document_paper ?a = cd_paper_key row" using rules paper by (auto simp: paper_rule_def split: if_splits)
    moreover obtain p where "cd_paper_key row = Some p" using paper by (cases "cd_paper_key row") (simp_all add: truthy_def)
    ultimately show ?thesis using trim_analysis_paper by metis
  qed
  moreover have "tie_allowed_by_company (compare_companies (fa_issuer raw) (cd_name row) tab) False" if "is_institution_bound (cd_type_key row)"
    using rules that by (auto simp: company_rule_def Let_def split: if_splits)
  ultimately show ?thesis using raw offered
    by (auto simp: validate_classification_def classification_quarantined_def Let_def split_def)
qed

lemma surviving_match_agrees_witness:
  "\<exists>row \<in> set [sample_row ''b'' Retired, sample_row ''a'' Pending]. cd_id row = ''a'' \<and> cd_type_key row = Some ''vehicle''"
proof -
  let ?raw = "\<lparr>fa_matched_document = Some ''a'', fa_legible = True, fa_confidence = HighConfidence, fa_injection_suspected = False,
       fa_document_type = Some ''vehicle'', fa_document_paper = None, fa_issuer = None, fa_holdings = None, fa_holdings_partial = False,
       fa_employer = None\<rparr>"
  have "fa_matched_document (cg_analysis (validate_classification [] ?raw (classifier_candidates [sample_row ''b'' Retired, sample_row ''a'' Pending]))) = Some ''a''"
    by (simp add: validate_classification_def match_rules_def classifier_candidates_def sample_row_def trim_analysis_def type_rule_def paper_rule_def
        company_rule_def vehicle_not_bound truthy_def Let_def)
  from surviving_match_agrees [OF this] show ?thesis by (auto simp: sample_row_def)
qed

end
