(* ===== verification/Statements.thy ===== *)
theory Statements
  imports Files
begin

text \<open>
  The client's own words: when a quote is in a message, when an amount is written in
  a quote (\<open>decisionSchema.ts\<close>), and the facts of a vehicle declaration
  (\<open>vehicleDeclaration.ts\<close>). Amounts are exact rationals. What depends on the
  Unicode tables of the language (letter case, letter and number classes) is the
  record \<open>js_env\<close>.
\<close>

record js_env =
  je_lower :: "utext \<Rightarrow> utext"
  je_upper :: "utext \<Rightarrow> utext"
  je_words :: "utext \<Rightarrow> utext"

text \<open>\<open>[...new Set(xs)]\<close>: the first of equal elements stays.\<close>

definition uniq :: "'a list \<Rightarrow> 'a list" where
  "uniq xs = rev (remdups (rev xs))"

lemma uniq_facts [simp]: "set (uniq xs) = set xs" "distinct (uniq xs)"
  by (simp_all add: uniq_def)

section \<open>Quotes\<close>

definition norm_quote :: "utext \<Rightarrow> utext" where
  "norm_quote s = js_trim (collapse_ws False s)"

definition quote_appears_in :: "utext \<Rightarrow> utext \<Rightarrow> bool" where
  "quote_appears_in quoted text = (norm_quote quoted \<noteq> [] \<and> js_includes (norm_quote text) (norm_quote quoted))"

section \<open>Amounts\<close>

definition direction_mark :: "nat \<Rightarrow> bool" where
  "direction_mark c = (c = 8206 \<or> c = 8207 \<or> (8234 \<le> c \<and> c \<le> 8238))"

text \<open>\<open>\d+(?:[.,]\d+)*\<close> from a digit on, and the rest.\<close>

fun span_amount :: "utext \<Rightarrow> utext \<times> utext" where
  "span_amount [] = ([], [])"
| "span_amount [c] = (if is_digit c then ([c], []) else ([], [c]))"
| "span_amount (c # d # s) =
     (if is_digit c \<or> (c = 46 \<or> c = 44) \<and> is_digit d
      then (case span_amount (d # s) of (a, r) \<Rightarrow> (c # a, r)) else ([], c # d # s))"

definition MILLION_WORD :: utext where "MILLION_WORD = [1502, 1497, 1500, 1497, 1493, 1503]"
definition THOUSAND_WORD :: utext where "THOUSAND_WORD = [1488, 1500, 1507]"

text \<open>\<open>(?:\s*(million|thousand))?\<close>: the factor and the rest.\<close>

definition take_multiplier :: "utext \<Rightarrow> rat \<times> utext" where
  "take_multiplier s = (let r = dropWhile js_space s in
     if is_prefix MILLION_WORD r then (1000000, drop (length MILLION_WORD) r)
     else if is_prefix THOUSAND_WORD r then (1000, drop (length THOUSAND_WORD) r)
     else (1, s))"

lemma span_amount_length: "length (snd (span_amount s)) \<le> length s"
  by (induction s rule: span_amount.induct) (auto split: prod.split)

lemma span_amount_shorter: "is_digit c \<Longrightarrow> length (snd (span_amount (c # s))) < length (c # s)"
  using span_amount_length by (cases s) (auto split: prod.split simp: less_Suc_eq_le, metis length_Cons snd_conv)

lemma take_multiplier_length: "length (snd (take_multiplier s)) \<le> length s"
  using length_dropWhile_le [of js_space s] by (auto simp: take_multiplier_def Let_def)

function amount_tokens :: "utext \<Rightarrow> (utext \<times> rat) list" where
  "amount_tokens [] = []"
| "amount_tokens (c # s) =
     (if \<not> is_digit c then amount_tokens s
      else (let span = span_amount (c # s); m = take_multiplier (snd span)
        in (fst span, fst m) # amount_tokens (snd m)))"
  by pat_completeness auto

termination
proof (relation "measure length")
  fix c :: nat and s span m
  assume c: "\<not> \<not> is_digit c" and "span = span_amount (c # s)" and "m = take_multiplier (snd span)"
  then have "length (snd m) \<le> length (snd span)" and "length (snd span) < length (c # s)"
    using take_multiplier_length span_amount_shorter by auto
  then show "(snd m, c # s) \<in> measure length" by simp
qed auto

declare amount_tokens.simps [simp del]

text \<open>The number a token spells: thousand groups, a decimal comma, or what \<open>Number\<close> reads.\<close>

definition token_value :: "utext \<Rightarrow> rat option" where
  "token_value a =
     (let groups = split_on 46 (map (\<lambda>c. if c = 44 then 46 else c) a);
          seps = filter (\<lambda>c. c = 44 \<or> c = 46) a
      in if tl groups \<noteq> [] \<and> length (hd groups) \<in> {1, 2, 3} \<and> list_all (\<lambda>g. length g = 3) (tl groups)
           \<and> list_all (list_all is_digit) groups
         then number_of_text (filter (\<lambda>c. c \<noteq> 44 \<and> c \<noteq> 46) a)
         else if seps = [44] then number_of_text (map (\<lambda>c. if c = 44 then 46 else c) a)
         else number_of_text a)"

definition amount_appears_in :: "rat \<Rightarrow> utext \<Rightarrow> bool" where
  "amount_appears_in amount quoted =
     (0 < amount \<and> list_ex (\<lambda>(a, factor). case token_value a of None \<Rightarrow> False
        | Some v \<Rightarrow> \<bar>v * factor - amount\<bar> < 5 / 1000) (amount_tokens (filter (\<lambda>c. \<not> direction_mark c) quoted)))"

section \<open>Vehicle facts\<close>

datatype vehicle_fact_key = FactManufacturer | FactModel | FactProductionYear | FactLicensePlate | FactPurchaseCost

definition VEHICLE_FACT_KEYS :: "vehicle_fact_key list" where
  "VEHICLE_FACT_KEYS = [FactManufacturer, FactModel, FactProductionYear, FactLicensePlate, FactPurchaseCost]"

definition NO_FACTS :: vehicle_facts where
  "NO_FACTS = \<lparr>vf_manufacturer = None, vf_model = None, vf_production_year = None, vf_license_plate = None,
     vf_purchase_cost = None, vf_currency = None\<rparr>"

fun fact_stated :: "vehicle_facts \<Rightarrow> vehicle_fact_key \<Rightarrow> bool" where
  "fact_stated f FactManufacturer = (vf_manufacturer f \<noteq> None)"
| "fact_stated f FactModel = (vf_model f \<noteq> None)"
| "fact_stated f FactProductionYear = (vf_production_year f \<noteq> None)"
| "fact_stated f FactLicensePlate = (vf_license_plate f \<noteq> None)"
| "fact_stated f FactPurchaseCost = (vf_purchase_cost f \<noteq> None)"

definition has_any_vehicle_fact :: "vehicle_facts \<Rightarrow> bool" where
  "has_any_vehicle_fact f = list_ex (fact_stated f) VEHICLE_FACT_KEYS"

definition ILS :: utext where "ILS = jstr ''ILS''"

type_synonym vehicle_evidence = "(id \<times> utext) list \<times> vehicle_facts"

definition vehicle_evidence_of :: "resolution_evidence option \<Rightarrow> string option \<Rightarrow> vehicle_evidence option" where
  "vehicle_evidence_of evidence paper =
     (case evidence of
        Some (ChatVehicleEvidence statements facts) \<Rightarrow> Some (statements, facts)
      | Some (ChatEvidence m q amount currency) \<Rightarrow>
          if paper = Some ''vehicle_declaration''
          then Some ([(m, q)], NO_FACTS\<lparr>vf_purchase_cost := Some amount, vf_currency := Some currency\<rparr>) else None
      | _ \<Rightarrow> None)"

definition newer :: "'a option \<Rightarrow> 'a option \<Rightarrow> 'a option" where
  "newer old new = (case new of None \<Rightarrow> old | Some v \<Rightarrow> Some v)"

definition merge_vehicle_evidence ::
  "vehicle_evidence option \<Rightarrow> id \<times> utext \<Rightarrow> vehicle_facts \<Rightarrow> vehicle_evidence"
where
  "merge_vehicle_evidence previous statement f =
     (let old = (case previous of None \<Rightarrow> ([], NO_FACTS) | Some p \<Rightarrow> p); g = snd old
      in (fst old @ [statement],
          \<lparr>vf_manufacturer = newer (vf_manufacturer g) (vf_manufacturer f), vf_model = newer (vf_model g) (vf_model f),
           vf_production_year = newer (vf_production_year g) (vf_production_year f),
           vf_license_plate = newer (vf_license_plate g) (vf_license_plate f),
           vf_purchase_cost = newer (vf_purchase_cost g) (vf_purchase_cost f),
           vf_currency = (if vf_purchase_cost f = None then vf_currency g
             else Some (case vf_currency f of None \<Rightarrow> ILS | Some c \<Rightarrow> c))\<rparr>))"

definition quote_mark :: "nat \<Rightarrow> bool" where
  "quote_mark c = (c \<in> {1523, 1524, 39, 34, 96, 180, 8216, 8217, 8220, 8221})"

definition normalize_fact_text :: "js_env \<Rightarrow> utext \<Rightarrow> utext" where
  "normalize_fact_text J t = je_lower J (js_trim (je_words J (filter (\<lambda>c. \<not> direction_mark c \<and> \<not> quote_mark c) t)))"

definition drop_spaces :: "utext \<Rightarrow> utext" where
  "drop_spaces t = filter (\<lambda>c. \<not> js_space c) t"

text \<open>\<open>(^|\D)digits(\D|$)\<close> somewhere in the text; the flag is that the position may start the number.\<close>

fun digits_alone_in :: "bool \<Rightarrow> utext \<Rightarrow> utext \<Rightarrow> bool" where
  "digits_alone_in free ds [] = (free \<and> ds = [])"
| "digits_alone_in free ds (c # t) =
     ((free \<and> is_prefix ds (c # t) \<and> (case drop (length ds) (c # t) of [] \<Rightarrow> True | x # _ \<Rightarrow> \<not> is_digit x))
      \<or> digits_alone_in (\<not> is_digit c) ds t)"

definition text_fact_in_quote :: "js_env \<Rightarrow> utext \<Rightarrow> utext \<Rightarrow> bool" where
  "text_fact_in_quote J quoted v =
     (let plain = normalize_fact_text J quoted; wanted = normalize_fact_text J v
      in wanted \<noteq> [] \<and> (js_includes plain wanted \<or> js_includes (drop_spaces plain) (drop_spaces wanted)))"

text \<open>A year is whole when this is asked, so \<open>String(year)\<close> is its decimal text.\<close>

fun fact_in_quote :: "js_env \<Rightarrow> vehicle_facts \<Rightarrow> utext \<Rightarrow> vehicle_fact_key \<Rightarrow> bool" where
  "fact_in_quote J f q FactManufacturer = (case vf_manufacturer f of None \<Rightarrow> True | Some v \<Rightarrow> text_fact_in_quote J q v)"
| "fact_in_quote J f q FactModel = (case vf_model f of None \<Rightarrow> True | Some v \<Rightarrow> text_fact_in_quote J q v)"
| "fact_in_quote J f q FactProductionYear = (case vf_production_year f of None \<Rightarrow> True
     | Some y \<Rightarrow> digits_alone_in True (jstr (show_int \<lfloor>y\<rfloor>)) q)"
| "fact_in_quote J f q FactLicensePlate = (case vf_license_plate f of None \<Rightarrow> True
     | Some p \<Rightarrow> js_includes (filter is_digit q) p)"
| "fact_in_quote J f q FactPurchaseCost = (case vf_purchase_cost f of None \<Rightarrow> True | Some c \<Rightarrow> amount_appears_in c q)"

definition vehicle_fact_missing_from_quote :: "js_env \<Rightarrow> vehicle_facts \<Rightarrow> utext \<Rightarrow> vehicle_fact_key option" where
  "vehicle_fact_missing_from_quote J f q = List.find (\<lambda>k. \<not> fact_in_quote J f q k) VEHICLE_FACT_KEYS"

lemma no_fact_missing:
  "vehicle_fact_missing_from_quote J f q = None \<longleftrightarrow> (\<forall>k. fact_in_quote J f q k)"
proof -
  have "k \<in> set VEHICLE_FACT_KEYS" for k by (cases k) (simp_all add: VEHICLE_FACT_KEYS_def)
  then show ?thesis by (auto simp: vehicle_fact_missing_from_quote_def find_None_all)
qed

section \<open>Properties\<close>

lemma radix_digits: "parse_digits acc s = Some n \<Longrightarrow> radix_value 10 acc (jstr s) = Some n"
proof (induction acc s rule: parse_digits.induct)
  case (2 acc c cs)
  then show ?case by (auto simp: digit_val_def radix_digit_def Let_def split: if_splits option.splits)
qed simp

lemma decimal_units: "c \<in> set (jstr (show_nat n)) \<Longrightarrow> is_digit c"
proof -
  assume "c \<in> set (jstr (show_nat n))"
  then obtain x where "x \<in> set (show_nat n)" and c: "c = of_char x" by (auto simp: jstr_def)
  then obtain d where "d < 10" "x = digit d" using show_nat_digits by blast
  then show "is_digit c" using c by (simp add: of_char_digit is_digit_def)
qed

lemma number_of_decimal: "number_of_text (jstr (show_nat n)) = Some (of_nat n)"
proof -
  let ?s = "jstr (show_nat n)"
  have digits: "\<forall>c \<in> set ?s. is_digit c" using decimal_units by blast
  obtain c cs where s: "?s = c # cs" by (cases ?s) (auto simp: jstr_def)
  have space: "\<not> js_space x" if "is_digit x" for x using that by (auto simp: js_space_def is_digit_def)
  have keep: "dropWhile js_space xs = xs" if "\<forall>c \<in> set xs. is_digit c" for xs
    using that space by (cases xs) auto
  have "dropWhile js_space ?s = ?s" and "dropWhile js_space (rev ?s) = rev ?s"
    using digits by (simp_all add: keep)
  then have trim: "js_trim ?s = ?s" by (simp add: js_trim_def)
  have whole: "takeWhile is_digit ?s = ?s" "dropWhile is_digit ?s = []" using digits by auto
  have units: "decimal_of ?s = Some (of_nat n)"
    using whole radix_digits [OF parse_show_nat [of n]] s by (simp add: decimal_of_def exponent_of_def)
  have c: "is_digit c" and cs: "cs \<noteq> [] \<Longrightarrow> is_digit (hd cs)" using digits s by auto
  then have "cs \<noteq> [] \<Longrightarrow> hd cs \<notin> {120, 88} \<and> hd cs \<notin> {111, 79} \<and> hd cs \<notin> {98, 66}" by (auto simp: is_digit_def)
  moreover have "c \<noteq> 45" "c \<noteq> 43" using c by (auto simp: is_digit_def)
  ultimately show ?thesis using units trim unfolding number_of_text_def s by auto
qed

lemma span_digits:
  assumes "\<forall>c \<in> set ds. is_digit c" and "case post of [] \<Rightarrow> True | c # _ \<Rightarrow> \<not> is_digit c \<and> c \<noteq> 46 \<and> c \<noteq> 44"
  shows "span_amount (ds @ post) = (ds, post)"
  using assms(1)
proof (induction ds)
  case Nil
  then show ?case using assms(2) by (cases post rule: span_amount.cases) auto
next
  case (Cons d ds)
  show ?case
  proof (cases "ds @ post")
    case (Cons x xs)
    have "is_digit d" using Cons.prems by simp
    moreover have "span_amount (x # xs) = (ds, post)" using Cons Cons.IH Cons.prems by simp
    ultimately show ?thesis unfolding append_Cons Cons by simp
  qed (use Cons.prems in simp)
qed

lemma tokens_skip: "\<forall>c \<in> set pre. \<not> is_digit c \<Longrightarrow> amount_tokens (pre @ s) = amount_tokens s"
  by (induction pre) (simp_all add: amount_tokens.simps)

text \<open>An amount the client writes in plain digits, alone or followed by the Hebrew word for thousand or million, is found in the message whatever surrounds it.\<close>

theorem written_amount_found:
  assumes "0 < n" and "\<forall>c \<in> set pre. \<not> is_digit c" and "\<forall>c \<in> set (pre @ post). \<not> direction_mark c"
    and "case post of [] \<Rightarrow> True | c # _ \<Rightarrow> \<not> is_digit c \<and> c \<noteq> 46 \<and> c \<noteq> 44"
  shows "amount_appears_in (of_nat n * fst (take_multiplier post)) (pre @ jstr (show_nat n) @ post)"
proof -
  let ?ds = "jstr (show_nat n)"
  have digits: "\<forall>c \<in> set ?ds. is_digit c" using decimal_units by blast
  then have "\<forall>c \<in> set (pre @ ?ds @ post). \<not> direction_mark c"
    using assms(3) by (auto simp: direction_mark_def is_digit_def)
  then have clean: "filter (\<lambda>c. \<not> direction_mark c) (pre @ ?ds @ post) = pre @ ?ds @ post" by (simp only: filter_id_conv)
  obtain c cs where s: "?ds = c # cs" by (cases ?ds) (auto simp: jstr_def)
  have "amount_tokens (?ds @ post) = (?ds, fst (take_multiplier post)) # amount_tokens (snd (take_multiplier post))"
    using span_digits [OF digits assms(4)] digits unfolding s by (simp add: amount_tokens.simps Let_def)
  then have tokens: "(?ds, fst (take_multiplier post)) \<in> set (amount_tokens (pre @ ?ds @ post))"
    by (simp add: tokens_skip [OF assms(2)])
  have "map (\<lambda>c. if c = 44 then 46 else c) ?ds = ?ds" using digits by (intro map_idI) (auto simp: is_digit_def)
  moreover have "split_on 46 ?ds = [?ds]" by (rule split_on_no_sep) (use digits in \<open>auto simp: is_digit_def\<close>)
  moreover have "filter (\<lambda>c. c = 44 \<or> c = 46) ?ds = []" using digits by (intro filter_False) (auto simp: is_digit_def)
  ultimately have v: "token_value ?ds = Some (of_nat n)" by (simp add: token_value_def number_of_decimal)
  have "0 < fst (take_multiplier post)" by (auto simp: take_multiplier_def Let_def)
  then have "0 < of_nat n * fst (take_multiplier post)" using assms(1) by simp
  then show ?thesis unfolding amount_appears_in_def clean list_ex_iff using tokens v by (intro conjI bexI [OF _ tokens]) simp_all

qed

text \<open>``85 thousand''.\<close>

lemma written_amount_found_witness: "amount_appears_in 85000 ([1495, 32] @ [56, 53] @ [32] @ THOUSAND_WORD)"
proof -
  have n: "jstr (show_nat 85) = [56, 53]" by (simp add: show_nat.simps digit_def)
  have m: "fst (take_multiplier ([32] @ THOUSAND_WORD)) = 1000"
    by (simp add: take_multiplier_def THOUSAND_WORD_def MILLION_WORD_def js_space_def)
  have "amount_appears_in (of_nat 85 * fst (take_multiplier ([32] @ THOUSAND_WORD))) ([1495, 32] @ jstr (show_nat 85) @ [32] @ THOUSAND_WORD)"
    by (rule written_amount_found) (simp_all add: is_digit_def direction_mark_def THOUSAND_WORD_def)
  then show ?thesis unfolding n m by simp
qed

end
