(* ===== verification/Timing.thy ===== *)
theory Timing
  imports VerifyChecks
begin

text \<open>
  When a message leaves: wall-clock texts and zones (\<open>util/time.ts\<close>), the calendar
  rule that keeps proactive messages off blocked days (\<open>agents/shared/sendAtGuard.ts\<close>,
  \<open>agents/shared/jewishHolidays.ts\<close>) and the collection window
  (\<open>collectionWindow.ts\<close>). The wall clock of the accountant's zone and the Hebrew
  calendar are arguments; calendar arithmetic is ECMAScript's.
\<close>

section \<open>Days of the calendar\<close>

definition DAY_MS :: ms where "DAY_MS = 86400000"

definition hours_to_ms :: "int \<Rightarrow> ms" where "hours_to_ms h = h * 60 * 60 * 1000"

definition day_from_year :: "int \<Rightarrow> int" where
  "day_from_year y = 365 * (y - 1970) + (y - 1969) div 4 - (y - 1901) div 100 + (y - 1601) div 400"

definition leap_year :: "int \<Rightarrow> bool" where
  "leap_year y = (y mod 4 = 0 \<and> (y mod 100 \<noteq> 0 \<or> y mod 400 = 0))"

definition month_start :: "int \<Rightarrow> nat \<Rightarrow> int" where
  "month_start y m = [0, 31, 59, 90, 120, 151, 181, 212, 243, 273, 304, 334] ! m + (if leap_year y \<and> 2 \<le> m then 1 else 0)"

text \<open>The day of a year, a zero-based month and a day, each free to overflow; \<open>Date.UTC\<close> reads years 0 to 99 as 1900 to 1999.\<close>

definition make_day :: "int \<Rightarrow> int \<Rightarrow> int \<Rightarrow> int" where
  "make_day y m d = (let y' = y + m div 12 in day_from_year y' + month_start y' (nat (m mod 12)) + d - 1)"

definition date_utc :: "int \<Rightarrow> int \<Rightarrow> int \<Rightarrow> int \<Rightarrow> int \<Rightarrow> int \<Rightarrow> ms" where
  "date_utc y m d h mi s =
     make_day (if 0 \<le> y \<and> y \<le> 99 then 1900 + y else y) m d * DAY_MS + h * 3600000 + mi * 60000 + s * 1000"

definition year_of_day :: "int \<Rightarrow> int" where
  "year_of_day day = (let y = 1970 + 400 * day div 146097 in
     if day < day_from_year y then y - 1 else if day_from_year (y + 1) \<le> day then y + 1 else y)"

definition month_of_day :: "int \<Rightarrow> nat" where
  "month_of_day day = (let y = year_of_day day; k = day - day_from_year y in
     length (takeWhile (\<lambda>m. month_start y m \<le> k) [0..<12]) - 1)"

definition date_of_day :: "int \<Rightarrow> int \<times> int \<times> int" where
  "date_of_day day = (let y = year_of_day day; m = month_of_day day in
     (y, int m + 1, day - day_from_year y - month_start y m + 1))"

definition pad2 :: "int \<Rightarrow> utext" where
  "pad2 n = (let s = jstr (show_int n) in if length s < 2 then 48 # s else s)"

definition iso_of_day :: "int \<Rightarrow> utext" where
  "iso_of_day day = (case date_of_day day of (y, m, d) \<Rightarrow> jstr (show_int y) @ [45] @ pad2 m @ [45] @ pad2 d)"

text \<open>\<open>getUTCDay\<close>: Sunday is 0; the epoch was a Thursday.\<close>

definition weekday :: "int \<Rightarrow> int" where
  "weekday day = (day + 4) mod 7"

section \<open>Wall-clock texts\<close>

datatype form_item = Digit | OneOf "nat list"

fun fits :: "form_item list \<Rightarrow> utext \<Rightarrow> bool" where
  "fits [] [] = True"
| "fits (Digit # ps) (c # cs) = (is_digit c \<and> fits ps cs)"
| "fits (OneOf xs # ps) (c # cs) = (c \<in> set xs \<and> fits ps cs)"
| "fits _ _ = False"

definition DATE_FORM :: "form_item list" where
  "DATE_FORM = [Digit, Digit, Digit, Digit, OneOf [45], Digit, Digit, OneOf [45], Digit, Digit]"

definition MINUTES_FORM :: "form_item list" where
  "MINUTES_FORM = DATE_FORM @ [OneOf [32, 84], Digit, Digit, OneOf [58], Digit, Digit]"

definition WALL_CLOCK_RE :: "utext \<Rightarrow> bool" where
  "WALL_CLOCK_RE s = (fits MINUTES_FORM s \<or> fits (MINUTES_FORM @ [OneOf [58], Digit, Digit]) s)"

definition is_wall_clock_date_time :: "utext \<Rightarrow> bool" where
  "is_wall_clock_date_time v = WALL_CLOCK_RE (js_trim v)"

text \<open>The number written in digits from position \<open>i\<close>, \<open>n\<close> long.\<close>

definition number_at :: "nat \<Rightarrow> nat \<Rightarrow> utext \<Rightarrow> int" where
  "number_at i n s = foldl (\<lambda>a c. 10 * a + (int c - 48)) 0 (take n (drop i s))"

definition wall_clock_utc :: "utext \<Rightarrow> ms" where
  "wall_clock_utc s = date_utc (number_at 0 4 s) (number_at 5 2 s - 1) (number_at 8 2 s)
     (number_at 11 2 s) (number_at 14 2 s) (if length s = 19 then number_at 17 2 s else 0)"

text \<open>
  The instant of a wall-clock text. \<open>wall\<close> is the zone: the wall-clock reading of an
  instant, re-encoded as a UTC time (\<open>wallClockAsUtcMs\<close>). Two passes over the offset.
\<close>

datatype timing_error = InvalidWallClock

definition offset_at :: "(ms \<Rightarrow> ms) \<Rightarrow> ms \<Rightarrow> ms" where
  "offset_at wall t = wall t - t div 1000 * 1000"

definition zoned_time_to_utc :: "(ms \<Rightarrow> ms) \<Rightarrow> utext \<Rightarrow> (timing_error, ms) result" where
  "zoned_time_to_utc wall text =
     (let s = js_trim text in
      if \<not> WALL_CLOCK_RE s then Inl InvalidWallClock
      else (let a = wall_clock_utc s; step = (\<lambda>u. a - offset_at wall u) in Inr ((step ^^ 2) a)))"

definition humanize_duration :: "ms \<Rightarrow> int \<times> string" where
  "humanize_duration t =
     (let minutes = t div 60000; hours = minutes div 60; days = hours div 24;
          plural = (\<lambda>n unit. (n, if n = 1 then unit else unit @ ''s''))
      in if t < 0 then (0, ''minutes'')
         else if minutes < 60 then plural minutes ''minute''
         else if hours < 24 then plural hours ''hour'' else plural days ''day'')"

section \<open>Blocked days\<close>

text \<open>
  The calendar library's events of a year: whether the event is a chag, its day and
  its name. A label is a chag's or the eve's; an eve never overwrites a chag.
\<close>

datatype day_label = Chag utext | Erev utext

type_synonym hebrew_calendar = "int \<Rightarrow> (bool \<times> int \<times> utext) list"

fun add_event :: "bool \<times> int \<times> utext \<Rightarrow> (utext \<Rightarrow> day_label option) \<Rightarrow> utext \<Rightarrow> day_label option" where
  "add_event (chag, day, name) labels =
     (if \<not> chag then labels
      else (let l = labels(iso_of_day day \<mapsto> Chag name); eve = iso_of_day (day - 1)
        in if l eve = None then l(eve \<mapsto> Erev name) else l))"

definition labels_for_year :: "hebrew_calendar \<Rightarrow> int \<Rightarrow> utext \<Rightarrow> day_label option" where
  "labels_for_year cal y = fold add_event (cal y) (\<lambda>_. None)"

definition chag_label :: "hebrew_calendar \<Rightarrow> utext \<Rightarrow> day_label option" where
  "chag_label cal date = (case number_of_text (take 4 date) of None \<Rightarrow> None
     | Some y \<Rightarrow> if is_integer y then labels_for_year cal \<lfloor>y\<rfloor> date else None)"

definition is_blocked_day :: "hebrew_calendar \<Rightarrow> int \<Rightarrow> bool" where
  "is_blocked_day cal day = (weekday day = 5 \<or> weekday day = 6 \<or> chag_label cal (iso_of_day day) \<noteq> None)"

definition MAX_ROLL_STEPS :: nat where "MAX_ROLL_STEPS = 14"

function roll_from :: "(int \<Rightarrow> bool) \<Rightarrow> int \<Rightarrow> nat \<Rightarrow> int \<times> nat" where
  "roll_from blocked day steps =
     (if steps < MAX_ROLL_STEPS \<and> blocked day then roll_from blocked (day + 1) (steps + 1) else (day, steps))"
  by pat_completeness auto

termination by (relation "measure (\<lambda>(_, _, steps). MAX_ROLL_STEPS - steps)") auto

declare roll_from.simps [simp del]

definition ACTIVE_CONVERSATION_MS :: ms where "ACTIVE_CONVERSATION_MS = hours_to_ms 24"

definition LOCAL_SEND_AT_RE :: "utext \<Rightarrow> bool" where
  "LOCAL_SEND_AT_RE s = WALL_CLOCK_RE s"

definition send_day :: "utext \<Rightarrow> int" where
  "send_day s = date_utc (number_at 0 4 s) (number_at 5 2 s - 1) (number_at 8 2 s) 0 0 0 div DAY_MS"

definition roll_blocked_send_at :: "hebrew_calendar \<Rightarrow> utext \<Rightarrow> ms option \<Rightarrow> ms \<Rightarrow> utext \<times> bool" where
  "roll_blocked_send_at cal send_at last_inbound now =
     (if (case last_inbound of None \<Rightarrow> False | Some t \<Rightarrow> now - t \<le> ACTIVE_CONVERSATION_MS) then (send_at, False)
      else (let s = js_trim send_at in
        if \<not> LOCAL_SEND_AT_RE s then (send_at, False)
        else (case roll_from (is_blocked_day cal) (send_day s) 0 of
            (day, steps) \<Rightarrow> if steps = 0 then (send_at, False) else (iso_of_day day @ drop 10 s, True))))"

text \<open>The last inbound message of a thread: inbound, sent, created.\<close>

definition last_inbound_message_at :: "(bool \<times> ms option \<times> ms) list \<Rightarrow> ms option" where
  "last_inbound_message_at history = map_option (\<lambda>(_, sent, created). case sent of None \<Rightarrow> created | Some t \<Rightarrow> t)
     (List.find fst (rev history))"

section \<open>The instant of a send\<close>

definition ASAP_SEND_AT :: utext where "ASAP_SEND_AT = jstr ''asap''"
definition ASAP_LEAD_MS :: ms where "ASAP_LEAD_MS = 1000"

datatype send_requested = RequestedAsap | RequestedTime

record resolved_send_at =
  ra_utc :: ms
  ra_local :: utext
  ra_requested :: send_requested

definition resolve_send_at ::
  "(utext \<Rightarrow> utext) \<Rightarrow> (ms \<Rightarrow> ms) \<Rightarrow> (ms \<Rightarrow> utext) \<Rightarrow> utext \<Rightarrow> ms \<Rightarrow> (timing_error, resolved_send_at) result"
where
  "resolve_send_at lower wall label send_at now =
     (if lower (js_trim send_at) = ASAP_SEND_AT
      then Inr \<lparr>ra_utc = now + ASAP_LEAD_MS, ra_local = label (now + ASAP_LEAD_MS), ra_requested = RequestedAsap\<rparr>
      else rbind (zoned_time_to_utc wall send_at)
        (\<lambda>t. Inr \<lparr>ra_utc = t, ra_local = send_at, ra_requested = RequestedTime\<rparr>))"

text \<open>The collection window: the local date of the delivery plus the days. \<open>local_date\<close> is the zone's date text.\<close>

definition due_date_from_window :: "(ms \<Rightarrow> utext) \<Rightarrow> ms \<Rightarrow> int \<Rightarrow> utext" where
  "due_date_from_window local_date sent_at days =
     (let s = local_date sent_at in
      iso_of_day (date_utc (number_at 0 4 s) (number_at 5 2 s - 1) (number_at 8 2 s + days) 0 0 0 div DAY_MS))"

text \<open>First contact stamps the due date on a client that carries none; \<open>written\<close> is the conditional update's answer.\<close>

definition start_collection_window ::
  "(ms \<Rightarrow> utext) \<Rightarrow> utext option \<Rightarrow> int option \<Rightarrow> ms \<Rightarrow> (utext \<Rightarrow> bool) \<Rightarrow> utext option"
where
  "start_collection_window local_date due window_days sent_at written =
     (case window_days of None \<Rightarrow> None
      | Some days \<Rightarrow> if due \<noteq> None then None
          else (let d = due_date_from_window local_date sent_at days in if written d then Some d else None))"

section \<open>Properties\<close>

lemma floor_second:
  fixes t T :: int
  assumes "1000 dvd T"
  shows "t < T \<longleftrightarrow> t div 1000 * 1000 < T"
proof -
  obtain k where k: "T = 1000 * k" using assms by (elim dvdE)
  have "t = t div 1000 * 1000 + t mod 1000" and "0 \<le> t mod 1000" and "t mod 1000 < 1000" by simp_all
  moreover have "t div 1000 * 1000 < 1000 * k \<longleftrightarrow> t div 1000 \<le> k - 1" by linarith
  ultimately show ?thesis unfolding k by (intro iffI) linarith+
qed

text \<open>In a zone with at most one clock change near the instant, a wall-clock text is turned into an instant that the zone reads as exactly that wall clock, whenever there is one: on the day of the change too, and before and after it.\<close>

theorem zoned_time_reads_back:
  assumes "WALL_CLOCK_RE (js_trim txt)" and "a = wall_clock_utc (js_trim txt)" and "1000 dvd T" and "1000 dvd a" and "1000 dvd D"
    and "\<forall>t. \<bar>t - a\<bar> \<le> D \<longrightarrow> wall t = t div 1000 * 1000 + (if t < T then o1 else o2)"
    and "\<bar>o1\<bar> \<le> D" and "\<bar>o2\<bar> \<le> D" and "1000 dvd o1" and "1000 dvd o2"
    and "\<exists>u. \<bar>u - a\<bar> \<le> D \<and> wall u = a"
  shows "\<exists>u. zoned_time_to_utc wall txt = Inr u \<and> wall u = a"
proof -
  have off: "offset_at wall t = (if t < T then o1 else o2)" if "\<bar>t - a\<bar> \<le> D" for t
    using assms(6) that by (simp add: offset_at_def)
  obtain u where u: "\<bar>u - a\<bar> \<le> D" "u div 1000 * 1000 + (if u < T then o1 else o2) = a"
    using assms(6,11) by metis
  let ?v = "u div 1000 * 1000"
  have v: "?v < T \<longleftrightarrow> u < T" using floor_second [OF assms(3)] by blast
  then have hit: "?v = a - (if ?v < T then o1 else o2)" using u(2) by auto
  let ?u1 = "a - offset_at wall a" and ?D = "\<lambda>x. \<bar>x - a\<bar> \<le> D"
  have D: "0 \<le> D" using assms(7) by linarith
  have u1: "?u1 = a - (if a < T then o1 else o2)" using off [of a] D by simp
  then have near: "?D ?u1" using assms(7,8) by auto
  have off1: "offset_at wall ?u1 = (if ?u1 < T then o1 else o2)" by (rule off [OF near])
  let ?u2 = "a - offset_at wall ?u1"
  have same: "?u2 = a - (if ?u2 < T then o1 else o2)" using u1 off1 hit by (auto split: if_splits)
  have "?D ?u2" using off1 assms(7,8) by auto
  moreover have "1000 dvd ?u2" using off1 assms(4,9,10) by auto
  ultimately have "wall ?u2 = a" using assms(6) same by auto
  moreover have "zoned_time_to_utc wall txt = Inr ?u2"
    using assms(1,2) by (simp add: zoned_time_to_utc_def Let_def numeral_2_eq_2)
  ultimately show ?thesis by blast
qed

text \<open>Nine o'clock on a summer morning in Israel, whose clock moved forward on 27 March.\<close>

definition israel_2026 :: "ms \<Rightarrow> ms" where
  "israel_2026 t = t div 1000 * 1000 + (if t < 1774569600000 then 7200000 else 10800000)"

definition summer_text :: utext where
  "summer_text = jstr ''2026-07-06 09:00''"

lemma summer_morning: "wall_clock_utc (js_trim summer_text) = 1783328400000" "WALL_CLOCK_RE (js_trim summer_text)"
proof -
  have t: "js_trim summer_text = [50, 48, 50, 54, 45, 48, 55, 45, 48, 54, 32, 48, 57, 58, 48, 48]"
    by (simp add: summer_text_def js_trim_def js_space_def)
  show "wall_clock_utc (js_trim summer_text) = 1783328400000"
    by (simp add: t wall_clock_utc_def number_at_def date_utc_def make_day_def day_from_year_def month_start_def leap_year_def DAY_MS_def)
  show "WALL_CLOCK_RE (js_trim summer_text)"
    by (simp add: t WALL_CLOCK_RE_def MINUTES_FORM_def DATE_FORM_def is_digit_def)
qed

lemma zoned_time_reads_back_witness:
  "\<exists>u. zoned_time_to_utc israel_2026 summer_text = Inr u \<and> israel_2026 u = 1783328400000"
proof (rule zoned_time_reads_back [where T = 1774569600000 and D = 86400000 and ?o1.0 = 7200000 and ?o2.0 = 10800000])
  show "\<exists>u. \<bar>u - 1783328400000\<bar> \<le> (86400000 :: int) \<and> israel_2026 u = 1783328400000"
    by (rule exI [of _ 1783317600000]) (simp add: israel_2026_def)
qed (simp_all add: summer_morning israel_2026_def)

lemma roll_from_spec:
  assumes "roll_from blocked day steps = (day', steps')" and "steps \<le> MAX_ROLL_STEPS"
  shows "steps \<le> steps' \<and> steps' \<le> MAX_ROLL_STEPS \<and> day' = day + int (steps' - steps)
    \<and> (\<forall>j < steps' - steps. blocked (day + int j)) \<and> (steps' < MAX_ROLL_STEPS \<longrightarrow> \<not> blocked day')"
  using assms
proof (induction blocked day steps rule: roll_from.induct)
  case (1 blocked day steps)
  show ?case
  proof (cases "steps < MAX_ROLL_STEPS \<and> blocked day")
    case True
    then have step: "roll_from blocked (day + 1) (steps + 1) = (day', steps')"
      using "1.prems"(1) by (simp add: roll_from.simps [of blocked day steps])
    have "steps + 1 \<le> MAX_ROLL_STEPS" using True by simp
    note ih = "1.IH" [OF True step this]
    have "blocked (day + int j)" if "j < steps' - steps" for j
    proof (cases j)
      case (Suc i)
      then have "blocked (day + 1 + int i)" using ih that by simp
      then show ?thesis by (simp add: Suc add.assoc)
    qed (simp add: True)
    moreover have k: "steps' - steps = Suc (steps' - (steps + 1))" and "steps \<le> steps'" using ih by linarith+
    moreover have "day' = day + 1 + int (steps' - (steps + 1))" using ih by blast
    then have "day' = day + int (steps' - steps)" by (simp only: k of_nat_Suc)
    ultimately show ?thesis using ih by blast
  next
    case False
    then show ?thesis using 1 by (auto simp: roll_from.simps [of blocked day steps])
  qed
qed

text \<open>A message to a client silent for more than a day goes out on the first day, from the one the planner chose, that is neither Friday, Saturday, a chag nor the eve of one, at the same time of day; the search ends after at most fourteen days.\<close>

theorem proactive_send_rolls_to_open_day:
  assumes "\<forall>t. last_inbound = Some t \<longrightarrow> ACTIVE_CONVERSATION_MS < now - t" and "LOCAL_SEND_AT_RE (js_trim send_at)"
  shows "\<exists>k \<le> MAX_ROLL_STEPS. (\<forall>j < k. is_blocked_day cal (send_day (js_trim send_at) + int j))
     \<and> (k < MAX_ROLL_STEPS \<longrightarrow> \<not> is_blocked_day cal (send_day (js_trim send_at) + int k))
     \<and> roll_blocked_send_at cal send_at last_inbound now
       = (if k = 0 then (send_at, False) else (iso_of_day (send_day (js_trim send_at) + int k) @ drop 10 (js_trim send_at), True))"
proof -
  obtain day k where r: "roll_from (is_blocked_day cal) (send_day (js_trim send_at)) 0 = (day, k)" by fastforce
  have "\<not> (case last_inbound of None \<Rightarrow> False | Some t \<Rightarrow> now - t \<le> ACTIVE_CONVERSATION_MS)"
    using assms(1) by (auto split: option.split)
  then have "roll_blocked_send_at cal send_at last_inbound now = (if k = 0 then (send_at, False) else (iso_of_day day @ drop 10 (js_trim send_at), True))"
    using assms(2) r by (simp add: roll_blocked_send_at_def Let_def)
  then show ?thesis using roll_from_spec [OF r] by auto
qed

text \<open>A Friday in a quiet calendar rolls to the Sunday.\<close>

lemma friday_form: "LOCAL_SEND_AT_RE (js_trim (jstr ''2026-07-03 09:00''))"
  by (simp add: LOCAL_SEND_AT_RE_def WALL_CLOCK_RE_def MINUTES_FORM_def DATE_FORM_def js_trim_def js_space_def is_digit_def)

lemma proactive_send_rolls_to_open_day_witness:
  "\<exists>k \<le> MAX_ROLL_STEPS. (\<forall>j < k. is_blocked_day (\<lambda>_. []) (send_day (js_trim (jstr ''2026-07-03 09:00'')) + int j))
     \<and> (k < MAX_ROLL_STEPS \<longrightarrow> \<not> is_blocked_day (\<lambda>_. []) (send_day (js_trim (jstr ''2026-07-03 09:00'')) + int k))"
  using proactive_send_rolls_to_open_day [OF _ friday_form, where last_inbound = None and cal = "\<lambda>_. []" and now = 0] by auto

lemma labels_keep_chag:
  "(\<exists>n. labels k = Some (Chag n)) \<or> (True, day, name) \<in> set evs \<and> k = iso_of_day day
   \<Longrightarrow> \<exists>n. fold add_event evs labels k = Some (Chag n)"
proof (induction evs arbitrary: labels)
  case (Cons e evs)
  obtain c d n where e: "e = (c, d, n)" by (cases e)
  show ?case
  proof (cases "(True, day, name) \<in> set evs \<and> k = iso_of_day day")
    case True
    then show ?thesis using Cons.IH [of "add_event e labels"] by auto
  next
    case False
    then have "(\<exists>n. labels k = Some (Chag n)) \<or> e = (True, day, name) \<and> k = iso_of_day day" using Cons.prems by auto
    then have "\<exists>n. add_event e labels k = Some (Chag n)" using e by (auto simp: Let_def)
    then show ?thesis using Cons.IH [of "add_event e labels"] by auto
  qed
qed auto

lemma labels_stay: "labels k \<noteq> None \<Longrightarrow> fold add_event evs labels k \<noteq> None"
proof (induction evs arbitrary: labels)
  case (Cons e evs)
  obtain c d n where e: "e = (c, d, n)" by (cases e)
  have "add_event e labels k \<noteq> None" using Cons.prems e by (auto simp: Let_def)
  then show ?case using Cons.IH by simp
qed simp

lemma labels_eve: "(True, day, name) \<in> set evs \<Longrightarrow> fold add_event evs labels (iso_of_day (day - 1)) \<noteq> None"
proof (induction evs arbitrary: labels)
  case (Cons e evs)
  show ?case
  proof (cases "(True, day, name) \<in> set evs")
    case False
    then have "e = (True, day, name)" using Cons.prems by simp
    then have "add_event e labels (iso_of_day (day - 1)) \<noteq> None" by (simp add: Let_def)
    then show ?thesis using labels_stay by simp
  qed (use Cons.IH in simp)
qed simp

text \<open>Every chag the calendar lists for a year, and the day before it in that year, is a blocked day, labelled a chag on the chag itself even when it is also the eve of another.\<close>

theorem chag_and_eve_blocked:
  assumes "(True, day, name) \<in> set (cal y)"
    and "number_of_text (take 4 (iso_of_day day)) = Some (of_int y)"
    and "number_of_text (take 4 (iso_of_day (day - 1))) = Some (of_int y)"
  shows "(\<exists>n. chag_label cal (iso_of_day day) = Some (Chag n)) \<and> is_blocked_day cal day \<and> is_blocked_day cal (day - 1)"
proof -
  have y: "is_integer (of_int y)" by (simp add: is_integer_def)
  have "\<exists>n. labels_for_year cal y (iso_of_day day) = Some (Chag n)"
    unfolding labels_for_year_def by (rule labels_keep_chag) (use assms(1) in blast)
  moreover have "labels_for_year cal y (iso_of_day (day - 1)) \<noteq> None"
    unfolding labels_for_year_def by (rule labels_eve [OF assms(1)])
  ultimately show ?thesis using assms(2,3) y by (auto simp: is_blocked_day_def chag_label_def)
qed

lemma chag_and_eve_blocked_witness:
  "is_blocked_day (\<lambda>y. if y = 2026 then [(True, 20707, [1488])] else []) 20706"
proof -
  have "iso_of_day 20707 = jstr ''2026-09-11''" and "iso_of_day 20706 = jstr ''2026-09-10''" by code_simp+
  then have "number_of_text (take 4 (iso_of_day 20707)) = Some (of_int 2026)"
    "number_of_text (take 4 (iso_of_day (20707 - 1))) = Some (of_int 2026)"
    by (simp_all add: number_of_text_def decimal_of_def exponent_of_def is_digit_def radix_digit_def js_trim_def js_space_def Let_def)
  from chag_and_eve_blocked [OF _ this, where name = "[1488]" and cal = "\<lambda>y. if y = 2026 then [(True, 20707, [1488])] else []"]
  show ?thesis by simp
qed

text \<open>An answer that asks to be sent at once is sent one second later on every day of the calendar and however long the client has been silent.\<close>

theorem asap_never_rolled:
  assumes "lower ASAP_SEND_AT = ASAP_SEND_AT"
  shows "roll_blocked_send_at cal ASAP_SEND_AT last_inbound now = (ASAP_SEND_AT, False)
     \<and> resolve_send_at lower wall label (fst (roll_blocked_send_at cal ASAP_SEND_AT last_inbound now)) now'
       = Inr \<lparr>ra_utc = now' + 1000, ra_local = label (now' + 1000), ra_requested = RequestedAsap\<rparr>"
proof -
  have "js_trim ASAP_SEND_AT = ASAP_SEND_AT" by (simp add: ASAP_SEND_AT_def js_trim_def js_space_def)
  moreover have "\<not> LOCAL_SEND_AT_RE ASAP_SEND_AT"
    by (simp add: LOCAL_SEND_AT_RE_def WALL_CLOCK_RE_def MINUTES_FORM_def DATE_FORM_def ASAP_SEND_AT_def is_digit_def)
  ultimately show ?thesis using assms by (simp add: roll_blocked_send_at_def resolve_send_at_def ASAP_LEAD_MS_def Let_def)
qed

lemma asap_never_rolled_witness:
  "fst (roll_blocked_send_at (\<lambda>_. []) ASAP_SEND_AT None 0) = ASAP_SEND_AT"
  using asap_never_rolled [where lower = "\<lambda>s. s" and cal = "\<lambda>_. []" and last_inbound = None and now = 0] by simp

end
