(* ===== verification/DecisionGate.thy ===== *)
theory DecisionGate
  imports Statements Timing
begin

text \<open>
  The gate every answer of the planner passes (\<open>decisionSchema.ts\<close>): the raw answer,
  the validators in the order they run, and the decision the plan then acts on.
  A rejection is a value of \<open>gate_error\<close>, one constructor per kind of fault;
  the audit list of checks is not kept. Template slots are filled as
  \<open>twilio/renderTemplate.ts\<close> does.
\<close>

section \<open>The answer\<close>

datatype decision_kind = GoalComplete | FollowUp | Collect | ClientDeclined
datatype tax_fetch_action = ClientAgreed | StartLogin | CancelFetch
datatype attestation_step = AttestRequest | AttestConfirmed

record raw_stated_vehicle =
  rv_manufacturer :: utext
  rv_model :: utext
  rv_year :: rat
  rv_plate :: utext
  rv_cost :: rat
  rv_currency :: utext
  rv_message :: id
  rv_quote :: utext

record raw_stated_cost =
  rc_amount :: rat
  rc_currency :: utext
  rc_message :: id
  rc_quote :: utext

record raw_instance =
  ri_name :: utext
  ri_description :: "utext option"
  ri_already_provided :: bool
  ri_file_ids :: "id list"
  ri_paper_key :: string
  ri_cost :: raw_stated_cost
  ri_vehicle :: raw_stated_vehicle

type_synonym raw_evidence = "(id \<times> utext) option"

record raw_resolution =
  rr_document :: id
  rr_required :: bool
  rr_instances :: "raw_instance list option"
  rr_evidence :: raw_evidence
  rr_proven_by :: id

record raw_addition =
  ra_anchor :: id
  ra_instances :: "raw_instance list"
  ra_evidence :: raw_evidence
  ra_proven_by :: id

record raw_retirement =
  rt_document :: id
  rt_evidence :: raw_evidence
  rt_proven_by :: id

text \<open>A stated vehicle on an existing item carries its evidence in the same record.\<close>

record raw_decision =
  rd_decision :: decision_kind
  rd_reasoning :: utext
  rd_collected :: "id list"
  rd_matched :: "file_pair list"
  rd_text :: "utext option"
  rd_template :: "(id \<times> utext list) option"
  rd_send_at :: "utext option"
  rd_fetch_action :: "tax_fetch_action option"
  rd_fetch_provider :: "string option"
  rd_fetch_keys :: "string list option"
  rd_resolved :: "raw_resolution list option"
  rd_added :: "raw_addition list option"
  rd_retired :: "raw_retirement list option"
  rd_costs :: "(id \<times> raw_stated_cost) list"
  rd_vehicles :: "(id \<times> raw_stated_vehicle) list"
  rd_attestation :: "attestation_step option"
  rd_attestation_evidence :: raw_evidence

definition or_nil :: "'a list option \<Rightarrow> 'a list" where
  "or_nil xs = (case xs of None \<Rightarrow> [] | Some ys \<Rightarrow> ys)"

section \<open>What the code knows\<close>

record wa_template =
  wt_sid :: id
  wt_body :: utext
  wt_variable_count :: nat

record tax_fetch_state =
  fs_provider :: string
  fs_state :: string
  fs_available :: bool
  fs_on_whatsapp :: bool
  fs_keys :: "string list"

record resolvable_row =
  rw_id :: id
  rw_status :: document_status
  rw_type :: "string option"
  rw_multi :: bool

record typed_row =
  tr_id :: id
  tr_status :: document_status
  tr_type :: "string option"
  tr_multi :: bool
  tr_paper :: "string option"

record approved_property_file =
  ap_document :: id
  ap_seller :: "seller_fact option"

record intake_state =
  in_resolvable :: "resolvable_row list"
  in_typed :: "typed_row list"
  in_texts :: "id \<Rightarrow> utext option"
  in_approved :: "id \<Rightarrow> approved_property_file option"
  in_self_evident :: "id \<Rightarrow> self_evident option"
  in_all_settled :: bool
  in_attestation_requested :: bool
  in_confirmable :: "id list"
  in_attestation_confirmed :: bool

record decision_context =
  dc_window_open :: bool
  dc_templates :: "wa_template list"
  dc_hidden :: "wa_template list"
  dc_fetch :: "tax_fetch_state list"
  dc_intake :: "intake_state option"
  dc_after_verification :: bool

section \<open>The decision\<close>

record stated_cost =
  sc_amount :: rat
  sc_currency :: utext
  sc_evidence :: "id \<times> utext"

record stated_vehicle =
  sv_facts :: vehicle_facts
  sv_evidence :: "id \<times> utext"

record resolved_instance =
  rs_name :: utext
  rs_description :: "utext option"
  rs_already_provided :: bool
  rs_files :: "id list"
  rs_paper :: "string option"
  rs_cost :: "stated_cost option"
  rs_vehicle :: "stated_vehicle option"

datatype document_resolution =
    ResolveNotRequired id resolution_evidence
  | ResolveRequired id "resolved_instance list" resolution_evidence

record instance_addition =
  ad_anchor :: id
  ad_instances :: "resolved_instance list"
  ad_evidence :: resolution_evidence

type_synonym document_retirement = "id \<times> resolution_evidence"

datatype attestation_decision = RequestAttestation | ConfirmAttestation "id \<times> utext"
datatype follow_up_message = Freeform utext | Template id "utext list" utext

record tax_fetch_decision =
  td_action :: tax_fetch_action
  td_provider :: string
  td_keys :: "string list"

datatype decision_outcome = Declined | GoalDone | Collecting | Reply follow_up_message utext

record normalized_decision =
  nd_outcome :: decision_outcome
  nd_reasoning :: utext
  nd_collected :: "id list"
  nd_matched :: "file_pair list"
  nd_fetch :: "tax_fetch_decision option"
  nd_resolutions :: "document_resolution list"
  nd_additions :: "instance_addition list"
  nd_retired :: "document_retirement list"
  nd_costs :: "(id \<times> stated_cost) list"
  nd_vehicles :: "(id \<times> stated_vehicle) list"
  nd_attestation :: "attestation_decision option"

datatype shape_fault = DeclineNotAlone | CollectAfterVerification | CollectTiesNothing | CollectCarriesMessage | CollectCarriesFetch | CollectRequestsAttestation | FollowUpTiesFiles | BadSendAt
datatype fetch_fault = FetchNamesNoProvider | FetchProviderNotOffered | FetchActionNotAllowed | FetchKeysNotPending
datatype target_fault = TargetTwice id | TargetUnknown id | AlreadyNotRequired id | AlreadyRetired id | TypeNotMultiInstance id
datatype evidence_fault = NoEvidence | NotAnInboundMessage id | QuoteNotContained id | FileNeverDismisses id
datatype instance_fault = NoInstanceGiven | BadInstanceName | BadPaper paper_fault | SingleInstanceOnly | TooManyInstances
datatype proof_fault = ProofNeverRetires | ProofOfOtherType | ProofOfOneItem | ProofNotSelfEvident | NotAPropertyRow | ProofNotApproved | SellerUnread | RetirementNotCalledFor | AdditionNotCalledFor | ApprovedFileSettlesNothing
datatype statement_fault = NotACostItem | CostItemNotPending | BadCurrency | AmountNotInQuote | AmountNotPositive | NotAVehicleItem | VehicleItemClosed | BadYear | VehicleFactNotInQuote vehicle_fact_key
datatype attestation_fault = AttestationAlreadyConfirmed | AttestationNeedsFollowUp | NotAllSettled | NoAttestationSent | AttestationCitesOldMessage
datatype message_fault = TwoMessages | FreeformOutsideWindow | TemplateNotUsable | UnknownTemplate | WrongVariableCount | NoMessage

datatype gate_error = NotApplicable
  | BadShape shape_fault
  | BadFetch fetch_fault
  | BadTarget target_fault
  | BadEvidence evidence_fault
  | BadInstance instance_fault
  | BadProof proof_fault
  | BadStatement statement_fault
  | BadAttestation attestation_fault
  | BadMessage message_fault

type_synonym 'a gated = "(gate_error, 'a) result"

section \<open>Messages\<close>

definition slot_at :: "utext \<Rightarrow> (utext \<times> utext) option" where
  "slot_at s = (let r = drop 2 s; ds = takeWhile is_digit r; t = dropWhile is_digit r in
     if is_prefix [123, 123] s \<and> ds \<noteq> [] \<and> is_prefix [125, 125] t then Some (ds, drop 2 t) else None)"

lemma slot_at_shorter: "slot_at s = Some (ds, t) \<Longrightarrow> length t < length s"
proof -
  assume "slot_at s = Some (ds, t)"
  then have p: "is_prefix [123, 123] s" and t: "t = drop 2 (dropWhile is_digit (drop 2 s))"
    by (auto simp: slot_at_def Let_def split: if_splits)
  have "2 \<le> length s" using p by (auto simp: is_prefix_iff)
  moreover have "length t \<le> length s - 2" using length_dropWhile_le [of is_digit "drop 2 s"] by (simp add: t)
  ultimately show ?thesis by linarith
qed

function render_template_body :: "utext list \<Rightarrow> utext \<Rightarrow> utext" where
  "render_template_body vars [] = []"
| "render_template_body vars (c # s) =
     (case slot_at (c # s) of
        None \<Rightarrow> c # render_template_body vars s
      | Some (ds, t) \<Rightarrow>
          (let n = nat (number_at 0 (length ds) ds) in
           (if 1 \<le> n \<and> n \<le> length vars then vars ! (n - 1) else [123, 123] @ ds @ [125, 125]) @ render_template_body vars t))"
  by pat_completeness auto

termination
  by (relation "measure (\<lambda>(_, s). length s)") (auto dest: slot_at_shorter)

definition filled_text :: "utext option \<Rightarrow> bool" where
  "filled_text t = (case t of None \<Rightarrow> False | Some s \<Rightarrow> js_trim s \<noteq> [])"

datatype message_kind = FreeformKind | TemplateKind | NoKind

definition proposed_message_kind :: "raw_decision \<Rightarrow> message_kind" where
  "proposed_message_kind r = (if filled_text (rd_text r) then FreeformKind else if rd_template r \<noteq> None then TemplateKind else NoKind)"

definition normalize_follow_up_message :: "raw_decision \<Rightarrow> decision_context \<Rightarrow> follow_up_message gated" where
  "normalize_follow_up_message r ctx =
     (if filled_text (rd_text r) \<and> rd_template r \<noteq> None then Inl (BadMessage TwoMessages)
      else if filled_text (rd_text r)
      then (if \<not> dc_window_open ctx then Inl (BadMessage FreeformOutsideWindow) else Inr (Freeform (the (rd_text r))))
      else (case rd_template r of
          None \<Rightarrow> Inl (BadMessage NoMessage)
        | Some (chosen, variables) \<Rightarrow>
            (case List.find (\<lambda>t. wt_sid t = chosen) (dc_templates ctx) of
               None \<Rightarrow> Inl (if List.find (\<lambda>t. wt_sid t = chosen) (dc_hidden ctx) \<noteq> None then BadMessage TemplateNotUsable else BadMessage UnknownTemplate)
             | Some t \<Rightarrow>
                 if length variables \<noteq> wt_variable_count t then Inl (BadMessage WrongVariableCount)
                 else Inr (Template (wt_sid t) variables (render_template_body variables (wt_body t))))))"

section \<open>The document-fetch step\<close>

definition allowed_tax_fetch_actions :: "string \<Rightarrow> bool \<Rightarrow> bool \<Rightarrow> tax_fetch_action list" where
  "allowed_tax_fetch_actions state available on_whatsapp =
     (let start = (if available \<and> on_whatsapp then [StartLogin] else []) in
      if state = ''delivered'' then []
      else if state \<in> {''awaiting_otp'', ''in_progress''} then [CancelFetch]
      else if state \<in> {''none'', ''failed'', ''failed_no_documents''} then (if available then ClientAgreed # start else [])
      else if state \<in> {''agreed'', ''wa_intro_sent''} then start @ [CancelFetch]
      else [])"

definition validate_tax_fetch :: "raw_decision \<Rightarrow> decision_context \<Rightarrow> tax_fetch_decision option gated" where
  "validate_tax_fetch r ctx =
     (case rd_fetch_action r of
        None \<Rightarrow> Inr None
      | Some action \<Rightarrow>
          if \<not> truthy (rd_fetch_provider r) then Inl (BadFetch FetchNamesNoProvider)
          else (case List.find (\<lambda>t. Some (fs_provider t) = rd_fetch_provider r) (dc_fetch ctx) of
              None \<Rightarrow> Inl (BadFetch FetchProviderNotOffered)
            | Some st \<Rightarrow>
                if action \<notin> set (allowed_tax_fetch_actions (fs_state st) (fs_available st) (fs_on_whatsapp st)) then Inl (BadFetch FetchActionNotAllowed)
                else (let requested = or_nil (rd_fetch_keys r) in
                  if \<not> set requested \<subseteq> set (fs_keys st) then Inl (BadFetch FetchKeysNotPending)
                  else Inr (Some \<lparr>td_action = action, td_provider = fs_provider st,
                         td_keys = (if requested \<noteq> [] then requested else fs_keys st)\<rparr>))))"

section \<open>Evidence\<close>

definition validate_evidence :: "raw_evidence \<Rightarrow> (id \<Rightarrow> utext option) \<Rightarrow> (id \<times> utext) gated" where
  "validate_evidence e texts =
     (case e of None \<Rightarrow> Inl (BadEvidence NoEvidence)
      | Some (m, q) \<Rightarrow>
          (case texts m of None \<Rightarrow> Inl (BadEvidence (NotAnInboundMessage m))
           | Some t \<Rightarrow> if quote_appears_in q t then Inr (m, q) else Inl (BadEvidence (QuoteNotContained m))))"

definition quoted :: "(id \<times> utext) gated \<Rightarrow> resolution_evidence gated" where
  "quoted r = rbind r (\<lambda>(m, q). Inr (QuoteEvidence m q))"

definition PAPERS_RETIRED_BY_PRIVATE_SELLER :: "string set" where
  "PAPERS_RETIRED_BY_PRIVATE_SELLER = {''payments_appendix'', ''builder_payments_report''}"

datatype proven_change =
    Retiring typed_row
  | Adding typed_row "resolved_instance list"
  | Resolving resolvable_row "resolved_instance list"

fun change_type :: "proven_change \<Rightarrow> string option" where
  "change_type (Retiring r) = tr_type r"
| "change_type (Adding r _) = tr_type r"
| "change_type (Resolving r _) = rw_type r"

definition self_evident_proof :: "id \<Rightarrow> self_evident \<Rightarrow> proven_change \<Rightarrow> resolution_evidence gated" where
  "self_evident_proof fid p change =
     (case change of Retiring _ \<Rightarrow> Inl (BadProof ProofNeverRetires)
      | _ \<Rightarrow>
          if change_type change \<noteq> Some (se_type_key p) then Inl (BadProof ProofOfOtherType)
          else if (case change of Adding _ xs \<Rightarrow> length xs | Resolving _ xs \<Rightarrow> length xs | Retiring _ \<Rightarrow> 0) \<noteq> 1 then Inl (BadProof ProofOfOneItem)
          else Inr (self_evident_evidence_of fid p))"

definition validate_proven_by_file :: "id \<Rightarrow> proven_change \<Rightarrow> intake_state \<Rightarrow> resolution_evidence gated" where
  "validate_proven_by_file fid change intake =
     (case in_self_evident intake fid of
        Some p \<Rightarrow> self_evident_proof fid p change
      | None \<Rightarrow>
          if (case change of Resolving _ _ \<Rightarrow> True | _ \<Rightarrow> False) then Inl (BadProof ProofNotSelfEvident)
          else if change_type change \<noteq> Some ''real_estate'' then Inl (BadProof NotAPropertyRow)
          else (case in_approved intake fid of
              None \<Rightarrow> Inl (BadProof ProofNotApproved)
            | Some a \<Rightarrow>
                (case ap_seller a of
                   None \<Rightarrow> Inl (BadProof SellerUnread)
                 | Some seller \<Rightarrow>
                     (case change of
                        Retiring row \<Rightarrow>
                          if seller \<noteq> SellerPrivate \<or> tr_paper row \<notin> Some ` PAPERS_RETIRED_BY_PRIVATE_SELLER then Inl (BadProof RetirementNotCalledFor)
                          else Inr (ApprovedFileEvidence fid (ap_document a) SellerPrivate)
                      | Adding _ xs \<Rightarrow>
                          if seller \<noteq> SellerBuilder \<or> list_ex (\<lambda>i. rs_paper i \<noteq> Some ''payments_appendix'') xs then Inl (BadProof AdditionNotCalledFor)
                          else Inr (ApprovedFileEvidence fid (ap_document a) SellerBuilder)
                      | Resolving _ _ \<Rightarrow> Inl (BadProof ProofNotSelfEvident)))))"

section \<open>Instances\<close>

definition MAX_RESOLUTION_INSTANCES :: nat where "MAX_RESOLUTION_INSTANCES = 10"

definition instances_on_self_evident_file ::
  "js_env \<Rightarrow> institution list \<Rightarrow> resolved_instance list \<Rightarrow> resolution_evidence \<Rightarrow> intake_state \<Rightarrow> resolved_instance list"
where
  "instances_on_self_evident_file J tab xs e intake =
     (case e of
        SelfEvidentEvidence fid _ _ _ _ \<Rightarrow>
          (case in_self_evident intake fid of None \<Rightarrow> xs
           | Some p \<Rightarrow> map (\<lambda>i. i\<lparr>rs_name := self_evident_item_name (je_lower J) tab (rs_name i) p, rs_files := uniq (fid # rs_files i)\<rparr>) xs)
      | _ \<Rightarrow> xs)"

definition non_blank :: "utext \<Rightarrow> utext option" where
  "non_blank t = (if js_trim t = [] then None else Some (js_trim t))"

definition raw_vehicle_facts :: "js_env \<Rightarrow> raw_stated_vehicle \<Rightarrow> vehicle_facts" where
  "raw_vehicle_facts J v =
     \<lparr>vf_manufacturer = non_blank (rv_manufacturer v), vf_model = non_blank (rv_model v),
      vf_production_year = (if rv_year v = 0 then None else Some (rv_year v)),
      vf_license_plate = (if js_trim (rv_plate v) = [] then None else Some (filter is_digit (rv_plate v))),
      vf_purchase_cost = (if rv_cost v = 0 then None else Some (rv_cost v)),
      vf_currency = (if rv_cost v = 0 then None
        else Some (let c = je_upper J (js_trim (rv_currency v)) in if c = [] then ILS else c))\<rparr>"

definition raw_stated :: "js_env \<Rightarrow> raw_stated_vehicle \<Rightarrow> stated_vehicle option" where
  "raw_stated J v = (let f = raw_vehicle_facts J v in
     if \<not> has_any_vehicle_fact f \<and> js_trim (rv_quote v) = [] \<and> js_trim (jstr (rv_message v)) = [] then None
     else Some \<lparr>sv_facts = f, sv_evidence = (rv_message v, rv_quote v)\<rparr>)"

definition raw_instance_of :: "js_env \<Rightarrow> raw_instance \<Rightarrow> resolved_instance" where
  "raw_instance_of J i =
     \<lparr>rs_name = js_trim (ri_name i), rs_description = Option.bind (ri_description i) non_blank,
      rs_already_provided = ri_already_provided i, rs_files = uniq (ri_file_ids i),
      rs_paper = (if ri_paper_key i = [] then None else Some (ri_paper_key i)),
      rs_cost = (if rc_amount (ri_cost i) = 0 then None
        else Some \<lparr>sc_amount = rc_amount (ri_cost i), sc_currency = je_upper J (js_trim (rc_currency (ri_cost i))),
          sc_evidence = (rc_message (ri_cost i), rc_quote (ri_cost i))\<rparr>),
      rs_vehicle = raw_stated J (ri_vehicle i)\<rparr>"

definition first_paper_fault :: "string option \<Rightarrow> resolved_instance list \<Rightarrow> paper_fault option" where
  "first_paper_fault type_key xs = Option.bind (List.find (\<lambda>i. instance_paper_fault (rs_paper i) type_key \<noteq> None) xs)
     (\<lambda>i. instance_paper_fault (rs_paper i) type_key)"

definition normalize_instances ::
  "js_env \<Rightarrow> raw_instance list \<Rightarrow> bool \<Rightarrow> string option \<Rightarrow> resolved_instance list gated"
where
  "normalize_instances J raw multi type_key =
     (let xs = map (raw_instance_of J) raw in
      if xs = [] then Inl (BadInstance NoInstanceGiven)
      else if list_ex (\<lambda>i. rs_name i = [] \<or> 200 < length (rs_name i)) xs then Inl (BadInstance BadInstanceName)
      else (case first_paper_fault type_key xs of
          Some f \<Rightarrow> Inl (BadInstance (BadPaper f))
        | None \<Rightarrow>
            if 1 < length xs \<and> \<not> multi then Inl (BadInstance SingleInstanceOnly)
            else if MAX_RESOLUTION_INSTANCES < length xs then Inl (BadInstance TooManyInstances)
            else Inr xs))"

section \<open>Checklist changes\<close>

text \<open>The row of an id, the last of equal ids as in the code's \<open>Map\<close>.\<close>

definition row_by :: "('r \<Rightarrow> id) \<Rightarrow> 'r list \<Rightarrow> id \<Rightarrow> 'r option" where
  "row_by key rows = map_of (rev (map (\<lambda>r. (key r, r)) rows))"

lemma row_by_Some: "row_by key rows i = Some r \<Longrightarrow> r \<in> set rows \<and> key r = i"
  by (auto simp: row_by_def dest: map_of_SomeD)

definition validate_resolution ::
  "js_env \<Rightarrow> institution list \<Rightarrow> intake_state \<Rightarrow> raw_resolution \<Rightarrow> document_resolution gated"
where
  "validate_resolution J tab intake e =
     (case row_by rw_id (in_resolvable intake) (rr_document e) of
        None \<Rightarrow> Inl (BadTarget (TargetUnknown (rr_document e)))
      | Some row \<Rightarrow>
          if \<not> rr_required e then
            (if rw_status row \<noteq> Unresolved then Inl (BadTarget (AlreadyNotRequired (rr_document e)))
             else if rr_evidence e = None \<and> rr_proven_by e \<noteq> [] then Inl (BadEvidence (FileNeverDismisses (rr_document e)))
             else rbind (quoted (validate_evidence (rr_evidence e) (in_texts intake))) (\<lambda>ev. Inr (ResolveNotRequired (rr_document e) ev)))
          else rbind (normalize_instances J (or_nil (rr_instances e)) (rw_multi row) (rw_type row)) (\<lambda>xs.
            rbind (if rr_evidence e = None \<and> rr_proven_by e \<noteq> []
                   then validate_proven_by_file (rr_proven_by e) (Resolving row xs) intake
                   else quoted (validate_evidence (rr_evidence e) (in_texts intake))) (\<lambda>ev.
              if (case ev of ApprovedFileEvidence _ _ _ \<Rightarrow> True | _ \<Rightarrow> False) then Inl (BadProof ApprovedFileSettlesNothing)
              else Inr (ResolveRequired (rr_document e) (instances_on_self_evident_file J tab xs ev intake) ev))))"

text \<open>An absent or empty list needs no intake.\<close>

definition with_intake :: "'a list \<Rightarrow> decision_context \<Rightarrow> (intake_state \<Rightarrow> 'b list gated) \<Rightarrow> 'b list gated" where
  "with_intake entries ctx f = (if entries = [] then Inr []
     else (case dc_intake ctx of None \<Rightarrow> Inl NotApplicable | Some intake \<Rightarrow> f intake))"

definition twice :: "id \<Rightarrow> gate_error" where "twice i = BadTarget (TargetTwice i)"

definition validate_resolutions ::
  "js_env \<Rightarrow> institution list \<Rightarrow> raw_decision \<Rightarrow> decision_context \<Rightarrow> document_resolution list gated"
where
  "validate_resolutions J tab r ctx = with_intake (or_nil (rd_resolved r)) ctx
     (\<lambda>intake. each_once rr_document twice (validate_resolution J tab intake) [] (or_nil (rd_resolved r)))"

definition validate_addition ::
  "js_env \<Rightarrow> institution list \<Rightarrow> intake_state \<Rightarrow> raw_addition \<Rightarrow> instance_addition gated"
where
  "validate_addition J tab intake e =
     (case row_by tr_id (in_typed intake) (ra_anchor e) of
        None \<Rightarrow> Inl (BadTarget (TargetUnknown (ra_anchor e)))
      | Some anchor \<Rightarrow>
          if \<not> tr_multi anchor then Inl (BadTarget (TypeNotMultiInstance (ra_anchor e)))
          else rbind (normalize_instances J (ra_instances e) True (tr_type anchor)) (\<lambda>xs.
            rbind (if ra_evidence e = None \<and> ra_proven_by e \<noteq> []
                   then validate_proven_by_file (ra_proven_by e) (Adding anchor xs) intake
                   else quoted (validate_evidence (ra_evidence e) (in_texts intake))) (\<lambda>ev.
              Inr \<lparr>ad_anchor = ra_anchor e, ad_instances = instances_on_self_evident_file J tab xs ev intake, ad_evidence = ev\<rparr>)))"

definition validate_added_instances ::
  "js_env \<Rightarrow> institution list \<Rightarrow> raw_decision \<Rightarrow> decision_context \<Rightarrow> instance_addition list gated"
where
  "validate_added_instances J tab r ctx = with_intake (or_nil (rd_added r)) ctx
     (\<lambda>intake. each_once ra_anchor twice (validate_addition J tab intake) [] (or_nil (rd_added r)))"

definition validate_retirement :: "intake_state \<Rightarrow> raw_retirement \<Rightarrow> document_retirement gated" where
  "validate_retirement intake e =
     (case row_by tr_id (in_typed intake) (rt_document e) of
        None \<Rightarrow> Inl (BadTarget (TargetUnknown (rt_document e)))
      | Some row \<Rightarrow>
          if tr_status row = Retired then Inl (BadTarget (AlreadyRetired (rt_document e)))
          else rbind (if rt_evidence e = None \<and> rt_proven_by e \<noteq> []
                      then validate_proven_by_file (rt_proven_by e) (Retiring row) intake
                      else quoted (validate_evidence (rt_evidence e) (in_texts intake))) (\<lambda>ev. Inr (rt_document e, ev)))"

definition validate_retirements :: "raw_decision \<Rightarrow> decision_context \<Rightarrow> document_retirement list gated" where
  "validate_retirements r ctx = with_intake (or_nil (rd_retired r)) ctx
     (\<lambda>intake. each_once rt_document twice (validate_retirement intake) [] (or_nil (rd_retired r)))"

section \<open>Stated costs\<close>

definition normalize_currency :: "js_env \<Rightarrow> utext \<Rightarrow> utext gated" where
  "normalize_currency J currency = (let code = je_upper J (js_trim currency) in
     if length code = 3 \<and> list_all (\<lambda>c. 65 \<le> c \<and> c \<le> 90) code then Inr code else Inl (BadStatement BadCurrency))"

definition stated_cost_target_fault :: "typed_row option \<Rightarrow> id \<Rightarrow> gate_error option" where
  "stated_cost_target_fault row i =
     (case row of None \<Rightarrow> Some (BadTarget (TargetUnknown i))
      | Some r \<Rightarrow> if paper_stated_by (tr_paper r) \<noteq> Some StateCost then Some (BadStatement NotACostItem)
          else if tr_status r \<noteq> Pending then Some (BadStatement CostItemNotPending) else None)"

text \<open>The quote is in a stored message, the currency is a code, the amount is in the quote.\<close>

definition validate_cost :: "js_env \<Rightarrow> intake_state \<Rightarrow> stated_cost \<Rightarrow> stated_cost gated" where
  "validate_cost J intake c =
     rbind (validate_evidence (Some (sc_evidence c)) (in_texts intake)) (\<lambda>ev.
       rbind (normalize_currency J (sc_currency c)) (\<lambda>code.
         if amount_appears_in (sc_amount c) (snd ev) then Inr \<lparr>sc_amount = sc_amount c, sc_currency = code, sc_evidence = ev\<rparr>
         else Inl (BadStatement (if 0 < sc_amount c then AmountNotInQuote else AmountNotPositive))))"

definition validate_cost_entry :: "js_env \<Rightarrow> intake_state \<Rightarrow> id \<times> raw_stated_cost \<Rightarrow> (id \<times> stated_cost) gated" where
  "validate_cost_entry J intake e =
     (case stated_cost_target_fault (row_by tr_id (in_typed intake) (fst e)) (fst e) of
        Some f \<Rightarrow> Inl f
      | None \<Rightarrow> rbind (validate_cost J intake
            \<lparr>sc_amount = rc_amount (snd e), sc_currency = rc_currency (snd e), sc_evidence = (rc_message (snd e), rc_quote (snd e))\<rparr>)
          (\<lambda>c. Inr (fst e, c)))"

definition validate_instance_cost :: "js_env \<Rightarrow> intake_state \<Rightarrow> resolved_instance \<Rightarrow> resolved_instance gated" where
  "validate_instance_cost J intake i =
     (case rs_cost i of None \<Rightarrow> Inr i
      | Some c \<Rightarrow> if paper_stated_by (rs_paper i) \<noteq> Some StateCost then Inl (BadStatement NotACostItem)
          else rbind (validate_cost J intake c) (\<lambda>c'. Inr (i\<lparr>rs_cost := Some c'\<rparr>)))"

text \<open>A validator run over the instances of the resolutions and additions, which it may rewrite in place.\<close>

definition on_resolution ::
  "(resolved_instance \<Rightarrow> resolved_instance gated) \<Rightarrow> document_resolution \<Rightarrow> document_resolution gated"
where
  "on_resolution f r = (case r of ResolveNotRequired i e \<Rightarrow> Inr r
     | ResolveRequired i xs e \<Rightarrow> rbind (rmap f xs) (\<lambda>ys. Inr (ResolveRequired i ys e)))"

definition on_addition ::
  "(resolved_instance \<Rightarrow> resolved_instance gated) \<Rightarrow> instance_addition \<Rightarrow> instance_addition gated"
where
  "on_addition f a = rbind (rmap f (ad_instances a)) (\<lambda>ys. Inr (a\<lparr>ad_instances := ys\<rparr>))"

definition resolution_instances :: "document_resolution \<Rightarrow> resolved_instance list" where
  "resolution_instances r = (case r of ResolveRequired _ xs _ \<Rightarrow> xs | ResolveNotRequired _ _ \<Rightarrow> [])"

definition new_instances :: "document_resolution list \<Rightarrow> instance_addition list \<Rightarrow> resolved_instance list" where
  "new_instances rs as = concat (map resolution_instances rs) @ concat (map ad_instances as)"

type_synonym 'a statements = "'a list \<times> document_resolution list \<times> instance_addition list"

definition validate_statements ::
  "(resolved_instance \<Rightarrow> bool) \<Rightarrow> (intake_state \<Rightarrow> (id \<times> 'r) \<Rightarrow> (id \<times> 's) gated)
   \<Rightarrow> (intake_state \<Rightarrow> resolved_instance \<Rightarrow> resolved_instance gated)
   \<Rightarrow> (id \<times> 'r) list \<Rightarrow> decision_context \<Rightarrow> document_resolution list \<Rightarrow> instance_addition list \<Rightarrow> (id \<times> 's) statements gated"
where
  "validate_statements carries check_entry check_instance entries ctx rs as =
     (if entries = [] \<and> \<not> list_ex carries (new_instances rs as) then Inr ([], rs, as)
      else (case dc_intake ctx of None \<Rightarrow> Inl NotApplicable
          | Some intake \<Rightarrow>
              rbind (each_once fst twice (check_entry intake) [] entries) (\<lambda>ss.
                rbind (rmap (on_resolution (check_instance intake)) rs) (\<lambda>rs'.
                  rbind (rmap (on_addition (check_instance intake)) as) (\<lambda>as'. Inr (ss, rs', as'))))))"

definition validate_stated_costs ::
  "js_env \<Rightarrow> raw_decision \<Rightarrow> decision_context \<Rightarrow> document_resolution list \<Rightarrow> instance_addition list \<Rightarrow> (id \<times> stated_cost) statements gated"
where
  "validate_stated_costs J r = validate_statements (\<lambda>i. rs_cost i \<noteq> None) (validate_cost_entry J) (validate_instance_cost J) (rd_costs r)"

section \<open>Stated vehicles\<close>

definition stated_vehicle_target_fault :: "typed_row option \<Rightarrow> id \<Rightarrow> gate_error option" where
  "stated_vehicle_target_fault row i =
     (case row of None \<Rightarrow> Some (BadTarget (TargetUnknown i))
      | Some r \<Rightarrow> if paper_stated_by (tr_paper r) \<noteq> Some StateVehicle then Some (BadStatement NotAVehicleItem)
          else if tr_status r \<noteq> Pending \<and> tr_status r \<noteq> Stated then Some (BadStatement VehicleItemClosed) else None)"

definition normalize_facts :: "js_env \<Rightarrow> vehicle_facts \<Rightarrow> vehicle_facts gated" where
  "normalize_facts J f =
     (if (case vf_production_year f of None \<Rightarrow> False | Some y \<Rightarrow> \<not> (is_integer y \<and> 1900 \<le> y \<and> y \<le> 2100)) then Inl (BadStatement BadYear)
      else (case vf_purchase_cost f of
          None \<Rightarrow> Inr (f\<lparr>vf_currency := None\<rparr>)
        | Some c \<Rightarrow> if \<not> 0 < c then Inl (BadStatement AmountNotPositive)
            else rbind (normalize_currency J (case vf_currency f of None \<Rightarrow> ILS | Some x \<Rightarrow> x)) (\<lambda>code. Inr (f\<lparr>vf_currency := Some code\<rparr>))))"

text \<open>A statement with no fact closes the declaration: the client knows nothing more.\<close>

definition validate_vehicle :: "js_env \<Rightarrow> intake_state \<Rightarrow> id \<times> utext \<Rightarrow> vehicle_facts \<Rightarrow> stated_vehicle gated" where
  "validate_vehicle J intake evidence f =
     rbind (validate_evidence (Some evidence) (in_texts intake)) (\<lambda>ev.
       rbind (normalize_facts J f) (\<lambda>g.
         (case (if has_any_vehicle_fact g then vehicle_fact_missing_from_quote J g (snd ev) else None) of
            Some k \<Rightarrow> Inl (BadStatement (VehicleFactNotInQuote k))
          | None \<Rightarrow> Inr \<lparr>sv_facts = g, sv_evidence = ev\<rparr>)))"

definition validate_vehicle_entry :: "js_env \<Rightarrow> intake_state \<Rightarrow> id \<times> raw_stated_vehicle \<Rightarrow> (id \<times> stated_vehicle) gated" where
  "validate_vehicle_entry J intake e =
     (case stated_vehicle_target_fault (row_by tr_id (in_typed intake) (fst e)) (fst e) of
        Some f \<Rightarrow> Inl f
      | None \<Rightarrow> rbind (validate_vehicle J intake (rv_message (snd e), rv_quote (snd e))
            (case raw_stated J (snd e) of None \<Rightarrow> NO_FACTS | Some s \<Rightarrow> sv_facts s)) (\<lambda>s. Inr (fst e, s)))"

definition validate_instance_vehicle :: "js_env \<Rightarrow> intake_state \<Rightarrow> resolved_instance \<Rightarrow> resolved_instance gated" where
  "validate_instance_vehicle J intake i =
     (case rs_vehicle i of None \<Rightarrow> Inr i
      | Some v \<Rightarrow> if paper_stated_by (rs_paper i) \<noteq> Some StateVehicle then Inl (BadStatement NotAVehicleItem)
          else rbind (validate_vehicle J intake (sv_evidence v) (sv_facts v)) (\<lambda>v'. Inr (i\<lparr>rs_vehicle := Some v'\<rparr>)))"

definition validate_stated_vehicles ::
  "js_env \<Rightarrow> raw_decision \<Rightarrow> decision_context \<Rightarrow> document_resolution list \<Rightarrow> instance_addition list \<Rightarrow> (id \<times> stated_vehicle) statements gated"
where
  "validate_stated_vehicles J r = validate_statements (\<lambda>i. rs_vehicle i \<noteq> None) (validate_vehicle_entry J) (validate_instance_vehicle J) (rd_vehicles r)"

section \<open>Pairs, attestation, time\<close>

text \<open>A pair keeps its evidence only when it is valid; otherwise it carries none.\<close>

definition validate_matched_files :: "raw_decision \<Rightarrow> decision_context \<Rightarrow> file_pair list" where
  "validate_matched_files r ctx = map (\<lambda>m. m\<lparr>fp_evidence :=
     (case dc_intake ctx of None \<Rightarrow> None
      | Some intake \<Rightarrow> (case fp_evidence m of None \<Rightarrow> None
          | Some e \<Rightarrow> (case validate_evidence (Some e) (in_texts intake) of Inl _ \<Rightarrow> None | Inr ev \<Rightarrow> Some ev)))\<rparr>) (rd_matched r)"

definition changes_this_cycle :: "raw_decision \<Rightarrow> nat" where
  "changes_this_cycle r = length (or_nil (rd_resolved r)) + length (or_nil (rd_added r)) + length (or_nil (rd_retired r))
     + length (rd_costs r) + length (rd_vehicles r)"

definition validate_attestation :: "raw_decision \<Rightarrow> decision_context \<Rightarrow> attestation_decision option gated" where
  "validate_attestation r ctx =
     (case rd_attestation r of
        None \<Rightarrow> Inr None
      | Some step \<Rightarrow>
          (case dc_intake ctx of None \<Rightarrow> Inl NotApplicable
           | Some intake \<Rightarrow>
               if in_attestation_confirmed intake then Inl (BadAttestation AttestationAlreadyConfirmed)
               else (case step of
                   AttestRequest \<Rightarrow>
                     if rd_decision r \<noteq> FollowUp then Inl (BadAttestation AttestationNeedsFollowUp)
                     else if \<not> in_all_settled intake \<or> 0 < changes_this_cycle r then Inl (BadAttestation NotAllSettled)
                     else Inr (Some RequestAttestation)
                 | AttestConfirmed \<Rightarrow>
                     if \<not> in_attestation_requested intake then Inl (BadAttestation NoAttestationSent)
                     else rbind (validate_evidence (rd_attestation_evidence r) (in_texts intake)) (\<lambda>ev.
                       if fst ev \<notin> set (in_confirmable intake) then Inl (BadAttestation AttestationCitesOldMessage)
                       else Inr (Some (ConfirmAttestation ev))))))"

definition normalize_send_at :: "js_env \<Rightarrow> utext option \<Rightarrow> utext option" where
  "normalize_send_at J v = (case v of None \<Rightarrow> None
     | Some t \<Rightarrow> if je_lower J (js_trim t) = ASAP_SEND_AT then Some ASAP_SEND_AT
         else if is_wall_clock_date_time (js_trim t) then Some (js_trim t) else None)"

section \<open>The whole answer\<close>

definition answer_ties_files :: "raw_decision \<Rightarrow> (id \<Rightarrow> self_evident option) \<Rightarrow> bool" where
  "answer_ties_files r self_evident_files =
     (if rd_collected r \<noteq> [] \<or> rd_matched r \<noteq> [] then True
      else if list_ex (\<lambda>i. ri_file_ids i \<noteq> []) (concat (map (or_nil \<circ> rr_instances) (or_nil (rd_resolved r)))
                @ concat (map ra_instances (or_nil (rd_added r)))) then True
      else list_ex (\<lambda>i. i \<noteq> [] \<and> self_evident_files i \<noteq> None)
             (map rr_proven_by (or_nil (rd_resolved r)) @ map ra_proven_by (or_nil (rd_added r))))"

text \<open>Whether some message field is filled.\<close>

definition filled_message_fields :: "raw_decision \<Rightarrow> bool" where
  "filled_message_fields r = (filled_text (rd_text r) \<or> rd_template r \<noteq> None \<or> rd_send_at r \<noteq> None)"

definition decline_extras :: "raw_decision \<Rightarrow> bool \<Rightarrow> bool" where
  "decline_extras r ties = (filled_message_fields r \<or> ties \<or> rd_fetch_action r \<noteq> None \<or> rd_attestation r \<noteq> None
     \<or> or_nil (rd_resolved r) \<noteq> [] \<or> or_nil (rd_added r) \<noteq> [] \<or> or_nil (rd_retired r) \<noteq> [] \<or> rd_costs r \<noteq> [] \<or> rd_vehicles r \<noteq> [])"

text \<open>The guards on the decision value, before any list is read.\<close>

definition shape_guard :: "raw_decision \<Rightarrow> decision_context \<Rightarrow> bool \<Rightarrow> unit gated" where
  "shape_guard r ctx ties =
     (if rd_decision r = Collect then
        (if dc_after_verification ctx then Inl (BadShape CollectAfterVerification)
         else if \<not> ties then Inl (BadShape CollectTiesNothing)
         else if filled_message_fields r then Inl (BadShape CollectCarriesMessage)
         else if rd_fetch_action r \<noteq> None then Inl (BadShape CollectCarriesFetch)
         else if rd_attestation r = Some AttestRequest then Inl (BadShape CollectRequestsAttestation)
         else Inr ())
      else if rd_decision r = FollowUp \<and> ties then Inl (BadShape FollowUpTiesFiles)
      else Inr ())"

definition decided_outcome :: "js_env \<Rightarrow> raw_decision \<Rightarrow> decision_context \<Rightarrow> decision_outcome gated" where
  "decided_outcome J r ctx =
     (if rd_decision r = Collect then Inr Collecting
      else if rd_decision r = GoalComplete then Inr GoalDone
      else (case normalize_send_at J (rd_send_at r) of
          None \<Rightarrow> Inl (BadShape BadSendAt)
        | Some t \<Rightarrow> rbind (normalize_follow_up_message r ctx) (\<lambda>m. Inr (Reply m t))))"

definition intake_self_evident :: "decision_context \<Rightarrow> id \<Rightarrow> self_evident option" where
  "intake_self_evident ctx i = (case dc_intake ctx of None \<Rightarrow> None | Some intake \<Rightarrow> in_self_evident intake i)"

definition normalize_decision :: "js_env \<Rightarrow> institution list \<Rightarrow> raw_decision \<Rightarrow> decision_context \<Rightarrow> normalized_decision gated" where
  "normalize_decision J tab r ctx =
     (let ties = answer_ties_files r (intake_self_evident ctx) in
      if rd_decision r = ClientDeclined then
        (if decline_extras r ties then Inl (BadShape DeclineNotAlone)
         else Inr \<lparr>nd_outcome = Declined, nd_reasoning = rd_reasoning r, nd_collected = [], nd_matched = [], nd_fetch = None,
            nd_resolutions = [], nd_additions = [], nd_retired = [], nd_costs = [], nd_vehicles = [], nd_attestation = None\<rparr>)
      else rbind (shape_guard r ctx ties) (\<lambda>_.
        rbind (validate_tax_fetch r ctx) (\<lambda>fetch.
        rbind (validate_resolutions J tab r ctx) (\<lambda>rs.
        rbind (validate_added_instances J tab r ctx) (\<lambda>as.
        rbind (validate_retirements r ctx) (\<lambda>retired.
        rbind (validate_stated_costs J r ctx rs as) (\<lambda>(costs, rs, as).
        rbind (validate_stated_vehicles J r ctx rs as) (\<lambda>(vehicles, rs, as).
        rbind (validate_attestation r ctx) (\<lambda>attestation.
        rbind (decided_outcome J r ctx) (\<lambda>outcome.
          Inr \<lparr>nd_outcome = outcome, nd_reasoning = rd_reasoning r, nd_collected = rd_collected r,
            nd_matched = validate_matched_files r ctx, nd_fetch = (if outcome = Collecting then None else fetch),
            nd_resolutions = rs, nd_additions = as, nd_retired = retired, nd_costs = costs, nd_vehicles = vehicles,
            nd_attestation = attestation\<rparr>))))))))))"

end
