(* ===== verification/Sanitize.thy ===== *)
theory Sanitize
  imports Prelude
begin

text \<open>
  Cleaning of untrusted text before it enters a prompt (\<open>shared/promptSafety.ts\<close>):
  characters that hide text are dropped, runs that look like a section boundary are
  defanged, long text is cut. The theorem says no cleaned text contains a boundary line,
  whatever the token.
\<close>

definition invisible_char :: "nat \<Rightarrow> bool" where
  "invisible_char c = ((8203 \<le> c \<and> c \<le> 8207) \<or> (8234 \<le> c \<and> c \<le> 8238) \<or> (8294 \<le> c \<and> c \<le> 8297) \<or> c = 65279)"

definition control_char :: "nat \<Rightarrow> bool" where
  "control_char c = (c \<le> 8 \<or> c = 11 \<or> c = 12 \<or> (14 \<le> c \<and> c \<le> 31) \<or> c = 127)"

definition fence_char :: "nat \<Rightarrow> bool" where
  "fence_char c = (c \<in> {45, 61, 126, 96, 95})"

text \<open>Every maximal run of three or more fence characters becomes as many middle dots.\<close>

function defang :: "utext \<Rightarrow> utext" where
  "defang [] = []"
| "defang (c # s) =
     (let run = takeWhile fence_char (c # s); rest = dropWhile fence_char (c # s) in
      if run = [] then c # defang s
      else (if 3 \<le> length run then replicate (length run) 183 else run) @ defang rest)"
  by pat_completeness auto

termination
proof (relation "measure length")
  fix c s and run rest :: utext
  assume a: "run = takeWhile fence_char (c # s)" "rest = dropWhile fence_char (c # s)" "run \<noteq> []"
  then have "length (c # s) = length run + length rest" by (simp add: length_append [symmetric] del: length_append)
  then show "(rest, c # s) \<in> measure length" using a(3) by simp
qed auto

definition strip_hidden :: "utext \<Rightarrow> utext" where
  "strip_hidden s = filter (\<lambda>c. \<not> control_char c) (filter (\<lambda>c. \<not> invisible_char c) s)"

definition truncated :: "nat \<Rightarrow> utext \<Rightarrow> utext \<Rightarrow> utext" where
  "truncated max_len mark s = (if max_len < length s then take max_len s @ mark else s)"

definition TRUNCATED :: utext where "TRUNCATED = jstr ''[...truncated]''"

definition sanitize_untrusted :: "nat \<Rightarrow> utext \<Rightarrow> utext" where
  "sanitize_untrusted max_len s = truncated max_len (10 # TRUNCATED) (defang (strip_hidden s))"

text \<open>\<open>replace(/\s*\n\s*/g, ' ')\<close>: a maximal run of white space with a line feed in it becomes one blank.\<close>

function join_lines :: "utext \<Rightarrow> utext" where
  "join_lines [] = []"
| "join_lines (c # s) =
     (let run = takeWhile js_space (c # s); rest = dropWhile js_space (c # s) in
      if run = [] then c # join_lines s else (if 10 \<in> set run then [32] else run) @ join_lines rest)"
  by pat_completeness auto

termination
proof (relation "measure length")
  fix c s and run rest :: utext
  assume a: "run = takeWhile js_space (c # s)" "rest = dropWhile js_space (c # s)" "run \<noteq> []"
  then have "length (c # s) = length run + length rest" by (simp add: length_append [symmetric] del: length_append)
  then show "(rest, c # s) \<in> measure length" using a(3) by simp
qed auto

definition sanitize_inline :: "nat \<Rightarrow> utext \<Rightarrow> utext" where
  "sanitize_inline max_len s = truncated max_len (32 # TRUNCATED) (js_trim (defang (join_lines (strip_hidden s))))"

definition fence :: "string \<Rightarrow> utext \<Rightarrow> utext" where
  "fence token name = jstr ''--- '' @ name @ jstr '' ['' @ jstr token @ jstr ''] ---''"

definition end_fence :: "string \<Rightarrow> utext \<Rightarrow> utext" where
  "end_fence token name = jstr ''--- END '' @ name @ jstr '' ['' @ jstr token @ jstr ''] ---''"

section \<open>No boundary survives\<close>

fun fence_free :: "utext \<Rightarrow> bool" where
  "fence_free (x # y # z # s) = (\<not> (fence_char x \<and> fence_char y \<and> fence_char z) \<and> fence_free (y # z # s))"
| "fence_free _ = True"

lemma fence_free_plain_Cons: "\<not> fence_char c \<Longrightarrow> fence_free (c # s) = fence_free s"
  by (cases s; cases "tl s") simp_all

lemma fence_free_skip: "\<not> fence_char c \<Longrightarrow> fence_free s \<Longrightarrow> fence_free (x # c # s)"
  by (cases s) (simp_all add: fence_free_plain_Cons)

lemma fence_free_append_plain: "fence_free s \<Longrightarrow> \<forall>c \<in> set t. \<not> fence_char c \<Longrightarrow> fence_free (s @ t)"
proof (induction s rule: fence_free.induct [case_names three none one two])
  case none
  then show ?case by (induction t) (simp_all add: fence_free_plain_Cons)
next
  case (one x)
  have "fence_free t" using one.prems(2) by (induction t) (simp_all add: fence_free_plain_Cons)
  then show ?case using one.prems(2) by (cases t) (auto simp: fence_free_plain_Cons intro: fence_free_skip)
next
  case (two x y)
  have t: "fence_free t" using two.prems(2) by (induction t) (simp_all add: fence_free_plain_Cons)
  show ?case
  proof (cases t)
    case (Cons c u)
    then have "\<not> fence_char c" "fence_free (y # c # u)" using t two.prems(2)
      by (auto simp: fence_free_plain_Cons intro: fence_free_skip)
    then show ?thesis using Cons by simp
  qed simp
qed simp

lemma fence_free_parts: "fence_free (s @ t) \<Longrightarrow> fence_free s \<and> fence_free t"
proof (induction s rule: fence_free.induct [case_names three none one two])
  case (one x)
  then show ?case by (cases t; cases "tl t") simp_all
next
  case (two x y)
  then show ?case by (cases t; cases "tl t") simp_all
qed simp_all

lemma fence_free_take: "fence_free s \<Longrightarrow> fence_free (take n s)"
  using fence_free_parts [of "take n s" "drop n s"] by simp

lemma fence_free_replicate: "fence_free (replicate n 183 @ s) = fence_free s"
  by (induction n) (simp_all add: fence_free_plain_Cons fence_char_def)

lemma defang_fence_free: "fence_free (defang s)"
proof (induction s rule: defang.induct)
  case (2 c s)
  let ?run = "takeWhile fence_char (c # s)" and ?rest = "dropWhile fence_char (c # s)"
  show ?case
  proof (cases "?run = []")
    case True
    then have "\<not> fence_char c" by (auto split: if_splits)
    then show ?thesis using 2(1) [OF refl refl True] by (simp add: fence_free_plain_Cons)
  next
    case False
    note ih = 2(2) [OF refl refl False]
    have step: "defang (c # s) = (if 3 \<le> length ?run then replicate (length ?run) 183 else ?run) @ defang ?rest"
      using False by (simp only: defang.simps Let_def if_False)
    show ?thesis
    proof (cases "3 \<le> length ?run")
      case True
      then show ?thesis using ih unfolding step by (simp only: if_True fence_free_replicate)
    next
      case short: False
      have rest: "?rest = [] \<or> (\<exists>d r. ?rest = d # r \<and> \<not> fence_char d)"
        using hd_dropWhile [of fence_char "c # s"] by (cases ?rest) auto
      have tail: "defang ?rest = [] \<or> (\<exists>d r. defang ?rest = d # r \<and> \<not> fence_char d)"
        using rest
      proof (elim disjE exE conjE)
        fix d r assume r: "?rest = d # r" "\<not> fence_char d"
        then have "defang (d # r) = d # defang r" by simp
        then show ?thesis unfolding r(1) using r(2) by blast
      qed (simp only: defang.simps simp_thms)
      have "fence_free (?run @ defang ?rest)"
      proof (cases "defang ?rest")
        case Nil
        then show ?thesis using short by (cases ?run rule: fence_free.cases) simp_all
      next
        case (Cons d r)
        then have d: "\<not> fence_char d" "fence_free r" using tail ih by (auto simp: fence_free_plain_Cons)
        then show ?thesis using short Cons
          by (cases ?run rule: fence_free.cases) (simp_all add: fence_free_plain_Cons fence_free_skip)
      qed
      then show ?thesis unfolding step using short by simp
    qed
  qed
qed simp

lemma js_trim_infix: "\<exists>a b. s = a @ js_trim s @ b"
proof -
  let ?d = "dropWhile js_space s"
  have d: "s = takeWhile js_space s @ ?d" by simp
  have "rev ?d = takeWhile js_space (rev ?d) @ dropWhile js_space (rev ?d)" by simp
  then have "?d = js_trim s @ rev (takeWhile js_space (rev ?d))" by (metis js_trim_def rev_append rev_rev_ident)
  then show ?thesis using d by metis
qed

lemma TRUNCATED_plain: "c \<in> set TRUNCATED \<Longrightarrow> \<not> fence_char c"
  by (auto simp: TRUNCATED_def fence_char_def)

lemma truncated_fence_free:
  "fence_free s \<Longrightarrow> \<not> fence_char c \<Longrightarrow> fence_free (truncated n (c # TRUNCATED) s)"
  using TRUNCATED_plain fence_free_append_plain [OF fence_free_take, of s "c # TRUNCATED" n] by (simp add: truncated_def)

lemma sanitized_fence_free: "fence_free (sanitize_untrusted n s)" "fence_free (sanitize_inline n s)"
proof -
  show "fence_free (sanitize_untrusted n s)"
    unfolding sanitize_untrusted_def by (rule truncated_fence_free) (simp_all add: defang_fence_free fence_char_def)
  have "fence_free (js_trim u)" if "fence_free u" for u
    using that js_trim_infix [of u] fence_free_parts by metis
  then show "fence_free (sanitize_inline n s)"
    unfolding sanitize_inline_def by (intro truncated_fence_free) (simp_all add: defang_fence_free fence_char_def)
qed

lemma dashes_not_fence_free: "js_includes s (jstr ''---'' @ t) \<Longrightarrow> \<not> fence_free s"
proof
  assume "js_includes s (jstr ''---'' @ t)" and f: "fence_free s"
  then obtain a b where "s = a @ (jstr ''---'' @ t) @ b" unfolding js_includes_iff by blast
  then have "fence_free (jstr ''---'' @ t @ b)" using f fence_free_parts [of a "jstr ''---'' @ t @ b"] by (simp only: append_assoc)
  then show False by (simp add: fence_char_def)
qed

text \<open>C36: No text the sanitizers let into a prompt contains a section boundary, opening or closing, of any token and name, however the client hides it with invisible characters.\<close>

theorem sanitized_text_cannot_fence:
  "\<not> js_includes (sanitize_untrusted n s) (fence token name) \<and> \<not> js_includes (sanitize_untrusted n s) (end_fence token name)
   \<and> \<not> js_includes (sanitize_inline n s) (fence token name) \<and> \<not> js_includes (sanitize_inline n s) (end_fence token name)"
proof -
  have f: "fence token name = jstr ''---'' @ 32 # (name @ jstr '' ['' @ jstr token @ jstr ''] ---'')"
    and e: "end_fence token name = jstr ''---'' @ jstr '' END '' @ name @ jstr '' ['' @ jstr token @ jstr ''] ---''"
    by (simp_all add: fence_def end_fence_def)
  show ?thesis
    unfolding f e using dashes_not_fence_free sanitized_fence_free by blast
qed

end
