(* ===== verification/FormIntake.thy ===== *)
theory FormIntake
  imports DecisionGate Sanitize
begin

text \<open>
  The submitted questionnaire settles rows of a fresh checklist before the first message goes
  out (\<open>formIntake.ts\<close>): the answers are sanitized and screened, a model maps them to one
  verdict per open type, the gate of \<open>formIntakeRules.ts\<close> keeps the verdicts that rest on the
  form, and the kept ones are written. The screen and the mapping are arguments; audit rows
  and usage counters are left out.
\<close>

section \<open>The form and the answer of the model\<close>

record form_answer =
  fq_question :: utext
  fq_answer :: utext

datatype form_verdict = FormRequired | FormNotRequired | FormUnclear

record form_evidence =
  fe_type :: string
  fe_question :: utext
  fe_quote :: utext

record form_instance =
  fi_type :: string
  fi_name :: utext
  fi_description :: utext
  fi_paper :: string

text \<open>The verdicts are the entries of an object, so their keys are distinct.\<close>

record form_response =
  fr_verdicts :: "(string \<times> form_verdict) list"
  fr_evidence :: "form_evidence list"
  fr_instances :: "form_instance list"

record form_row =
  fw_id :: id
  fw_type :: string
  fw_multi :: bool

datatype form_resolution = FormAbsent id string resolution_evidence | FormPresent id string "document_instance list"

datatype form_drop = NotUnresolvedRow | NoEvidenceRow | NoQuestionNamed | QuestionNotEmpty | QuoteNotInForm
  | NoFormInstances | InstanceNameOutOfRange | FormPaperFault paper_fault | ManyOnSingleInstance | TooManyInForm

datatype form_outcome = FormAccepted form_resolution | FormDropped form_drop | FormLeftUnclear

definition MAX_FORM_INSTANCES :: nat where "MAX_FORM_INSTANCES = 10"

section \<open>The gate\<close>

fun join_with :: "'a list \<Rightarrow> 'a list list \<Rightarrow> 'a list" where
  "join_with sep [] = []"
| "join_with sep [x] = x"
| "join_with sep (x # y # ys) = x @ sep @ join_with sep (y # ys)"

definition all_answers_text :: "form_answer list \<Rightarrow> utext" where
  "all_answers_text answers = join_with [10] (map fq_answer (filter (\<lambda>a. fq_answer a \<noteq> []) answers))"

definition empty_questions :: "form_answer list \<Rightarrow> utext set" where
  "empty_questions answers = norm_quote ` fq_question ` set (filter (\<lambda>a. fq_answer a = []) answers)"

definition absent_outcome :: "form_response \<Rightarrow> form_row \<Rightarrow> form_answer list \<Rightarrow> form_outcome" where
  "absent_outcome raw row answers =
     (case List.find (\<lambda>e. fe_type e = fw_type row) (fr_evidence raw) of
        None \<Rightarrow> FormDropped NoEvidenceRow
      | Some proof \<Rightarrow> (let question = js_trim (fe_question proof); quot = js_trim (fe_quote proof) in
          if question = [] then FormDropped NoQuestionNamed
          else if quot = [] then
            (if norm_quote question \<notin> empty_questions answers then FormDropped QuestionNotEmpty
             else FormAccepted (FormAbsent (fw_id row) (fw_type row) (FormEmptyEvidence (take 300 question))))
          else if \<not> quote_appears_in quot (all_answers_text answers) then FormDropped QuoteNotInForm
          else FormAccepted (FormAbsent (fw_id row) (fw_type row) (FormEvidence (take 300 question) (take 500 quot)))))"

definition form_instances :: "form_response \<Rightarrow> string \<Rightarrow> document_instance list" where
  "form_instances raw type_key = map (\<lambda>i. \<lparr>di_name = js_trim (fi_name i),
       di_description = (let d = js_trim (fi_description i) in if d = [] then None else Some d),
       di_already_provided = False, di_paper_key = (if fi_paper i = [] then None else Some (fi_paper i))\<rparr>)
     (filter (\<lambda>i. fi_type i = type_key) (fr_instances raw))"

definition present_outcome :: "form_response \<Rightarrow> form_row \<Rightarrow> form_outcome" where
  "present_outcome raw row =
     (let instances = form_instances raw (fw_type row) in
      if instances = [] then FormDropped NoFormInstances
      else if list_ex (\<lambda>i. length (di_name i) = 0 \<or> 200 < length (di_name i)) instances then FormDropped InstanceNameOutOfRange
      else (case List.find (\<lambda>f. f \<noteq> None) (map (\<lambda>i. instance_paper_fault (di_paper_key i) (Some (fw_type row))) instances) of
          Some (Some f) \<Rightarrow> FormDropped (FormPaperFault f)
        | _ \<Rightarrow>
          if 1 < length instances \<and> \<not> fw_multi row then FormDropped ManyOnSingleInstance
          else if MAX_FORM_INSTANCES < length instances then FormDropped TooManyInForm
          else FormAccepted (FormPresent (fw_id row) (fw_type row) instances)))"

text \<open>\<open>new Map(rows.map(...))\<close>: of two rows of one type the later counts.\<close>

definition form_outcome_of :: "form_response \<Rightarrow> form_row list \<Rightarrow> form_answer list \<Rightarrow> string \<times> form_verdict \<Rightarrow> form_outcome" where
  "form_outcome_of raw rows answers v =
     (case map_of (rev (map (\<lambda>r. (fw_type r, r)) rows)) (fst v) of
        None \<Rightarrow> FormDropped NotUnresolvedRow
      | Some row \<Rightarrow> (case snd v of
            FormUnclear \<Rightarrow> FormLeftUnclear
          | FormNotRequired \<Rightarrow> absent_outcome raw row answers
          | FormRequired \<Rightarrow> present_outcome raw row))"

record form_gate =
  fg_valid :: "form_resolution list"
  fg_dropped :: "(string \<times> form_drop) list"
  fg_unclear :: "string list"
  fg_checks :: "(string \<times> bool) list"

definition validate_form_resolutions :: "form_response \<Rightarrow> form_row list \<Rightarrow> form_answer list \<Rightarrow> form_gate" where
  "validate_form_resolutions raw rows answers =
     (let outcomes = map (\<lambda>e. (fst e, form_outcome_of raw rows answers e)) (fr_verdicts raw) in
      \<lparr>fg_valid = List.map_filter (\<lambda>(k, out). case out of FormAccepted r \<Rightarrow> Some r | _ \<Rightarrow> None) outcomes,
       fg_dropped = List.map_filter (\<lambda>(k, out). case out of FormDropped d \<Rightarrow> Some (k, d) | _ \<Rightarrow> None) outcomes,
       fg_unclear = List.map_filter (\<lambda>(k, out). case out of FormLeftUnclear \<Rightarrow> Some k | _ \<Rightarrow> None) outcomes,
       fg_checks = map (\<lambda>(k, out). (k, case out of FormDropped _ \<Rightarrow> False | _ \<Rightarrow> True)) outcomes\<rparr>)"

section \<open>The intake\<close>

definition sanitize_form_answers :: "form_answer list \<Rightarrow> form_answer list" where
  "sanitize_form_answers form = filter (\<lambda>a. fq_question a \<noteq> [])
     (map (\<lambda>a. \<lparr>fq_question = sanitize_inline 300 (fq_question a), fq_answer = sanitize_untrusted 4000 (fq_answer a)\<rparr>) form)"

definition answered_of :: "form_answer list \<Rightarrow> form_answer list" where
  "answered_of answers = filter (\<lambda>a. fq_answer a \<noteq> []) answers"

definition load_resolvable_rows :: "id \<Rightarrow> docs \<Rightarrow> form_row list" where
  "load_resolvable_rows client t = List.map_filter (\<lambda>d.
       if cd_status d = Unresolved \<and> cd_type_key d \<noteq> None
       then Some \<lparr>fw_id = cd_id d, fw_type = the (cd_type_key d),
              fw_multi = (case get_catalog_type (the (cd_type_key d)) of None \<Rightarrow> False | Some c \<Rightarrow> ct_multi c)\<rparr>
       else None)
     (documents_of_client client t)"

text \<open>\<open>fx_uuid\<close> gives the ids of the rows a resolution of a document creates.\<close>

record form_env =
  fx_client :: id
  fx_screen :: "form_answer list \<Rightarrow> (unit, bool) result"
  fx_map :: "form_answer list \<Rightarrow> form_row list \<Rightarrow> form_response option"
  fx_uuid :: "id \<Rightarrow> nat \<Rightarrow> id"

datatype form_error = FormScreenFailed | FormMappingFailed | FormWriteFailed checklist_error

fun apply_form_resolutions :: "form_env \<Rightarrow> form_resolution list \<Rightarrow> nat \<Rightarrow> docs \<Rightarrow> (form_error, nat) result \<times> docs" where
  "apply_form_resolutions F [] n t = (Inr n, t)"
| "apply_form_resolutions F (FormAbsent i k e # rs) n t =
     (let (t', row) = resolve_not_required i (fx_client F) e t in
      apply_form_resolutions F rs (if row = None then n else n + 1) t')"
| "apply_form_resolutions F (FormPresent i k xs # rs) n t =
     (case resolve_required (fx_uuid F i) i (fx_client F) xs None t of
        Inl err \<Rightarrow> (Inl (FormWriteFailed err), t)
      | Inr (t', created) \<Rightarrow> apply_form_resolutions F rs (if created = None then n else n + 1) t')"

definition apply_form_intake :: "form_env \<Rightarrow> form_answer list \<Rightarrow> docs \<Rightarrow> (form_error, nat) result \<times> docs" where
  "apply_form_intake F form t =
     (let answers = sanitize_form_answers form; rows = load_resolvable_rows (fx_client F) t in
      if answered_of answers = [] then (Inr 0, t)
      else (case fx_screen F (answered_of answers) of
          Inl _ \<Rightarrow> (Inl FormScreenFailed, t)
        | Inr blocked \<Rightarrow>
            if blocked \<or> rows = [] then (Inr 0, t)
            else (case fx_map F answers rows of
                None \<Rightarrow> (Inl FormMappingFailed, t)
              | Some raw \<Rightarrow> apply_form_resolutions F (fg_valid (validate_form_resolutions raw rows answers)) 0 t)))"

section \<open>What a settled row rests on\<close>

definition rests_on_form :: "form_answer list \<Rightarrow> resolution_evidence option \<Rightarrow> bool" where
  "rests_on_form answers e = (case e of
       Some (FormEvidence q x) \<Rightarrow> (\<exists>quot. x = take 500 quot \<and> quote_appears_in quot (all_answers_text answers))
     | Some (FormEmptyEvidence q) \<Rightarrow> (\<exists>question. q = take 300 question \<and> norm_quote question \<in> empty_questions answers)
     | _ \<Rightarrow> False)"

definition pending_item :: "client_document \<Rightarrow> bool" where
  "pending_item r = (cd_status r = Pending \<and> cd_evidence r = None \<and> 1 \<le> length (cd_name r) \<and> length (cd_name r) \<le> 200)"

definition settled_by_form :: "id \<Rightarrow> form_answer list \<Rightarrow> client_document \<Rightarrow> client_document \<Rightarrow> bool" where
  "settled_by_form client answers r r' = (r' = r \<or>
     (cd_client r = client \<and> cd_status r = Unresolved \<and> same_row r r'
      \<and> (cd_status r' = NotRequired \<and> rests_on_form answers (cd_evidence r')
         \<or> pending_item r' \<and> instance_paper_fault (cd_paper_key r') (cd_type_key r) = None)))"

text \<open>The rows as the gate knows them, and what an accepted resolution promises about its row.\<close>

definition touched :: "form_env \<Rightarrow> (id \<times> string) set \<Rightarrow> form_answer list \<Rightarrow> client_document \<Rightarrow> client_document \<Rightarrow> bool" where
  "touched F offered answers r r' = (r' = r \<or>
     (\<exists>k. (cd_id r, k) \<in> offered \<and> cd_client r = fx_client F \<and> cd_status r \<in> {Unresolved, NotRequired} \<and> same_row r r'
      \<and> (cd_status r' = NotRequired \<and> rests_on_form answers (cd_evidence r')
         \<or> pending_item r' \<and> instance_paper_fault (cd_paper_key r') (Some k) = None)))"

fun lawful_form :: "(id \<times> string) set \<Rightarrow> form_answer list \<Rightarrow> form_resolution \<Rightarrow> bool" where
  "lawful_form offered answers (FormAbsent i k e) = ((i, k) \<in> offered \<and> rests_on_form answers (Some e))"
| "lawful_form offered answers (FormPresent i k xs) = ((i, k) \<in> offered \<and> xs \<noteq> []
     \<and> (\<forall>x \<in> set xs. \<not> di_already_provided x \<and> 1 \<le> length (di_name x) \<and> length (di_name x) \<le> 200
          \<and> instance_paper_fault (di_paper_key x) (Some k) = None))"

lemma absent_lawful:
  assumes "absent_outcome raw row answers = FormAccepted r" "(fw_id row, fw_type row) \<in> offered"
  shows "lawful_form offered answers r"
proof -
  obtain proof_row where p: "List.find (\<lambda>e. fe_type e = fw_type row) (fr_evidence raw) = Some proof_row"
    using assms(1) by (auto simp: absent_outcome_def split: option.splits)
  show ?thesis using assms p
    by (auto simp: absent_outcome_def rests_on_form_def Let_def split: if_splits)
qed

lemma paper_faults_none:
  "List.find (\<lambda>f. f \<noteq> None) (map g xs) = None \<longleftrightarrow> (\<forall>x \<in> set xs. g x = None)"
  by (induction xs) auto

lemma present_lawful:
  assumes "present_outcome raw row = FormAccepted r" "(fw_id row, fw_type row) \<in> offered"
  shows "lawful_form offered answers r"
proof -
  let ?xs = "form_instances raw (fw_type row)"
  have xs: "?xs \<noteq> []" "\<not> list_ex (\<lambda>i. length (di_name i) = 0 \<or> 200 < length (di_name i)) ?xs"
    using assms(1) by (auto simp: present_outcome_def Let_def split: if_splits)
  have "List.find (\<lambda>f. f \<noteq> None) (map (\<lambda>i. instance_paper_fault (di_paper_key i) (Some (fw_type row))) ?xs) = None"
    using assms(1) xs find_Some_mem [of "\<lambda>f. f \<noteq> None" "map (\<lambda>i. instance_paper_fault (di_paper_key i) (Some (fw_type row))) ?xs" None]
    by (auto simp: present_outcome_def Let_def split: option.splits)
  then have papers: "\<forall>x \<in> set ?xs. instance_paper_fault (di_paper_key x) (Some (fw_type row)) = None" by (simp only: paper_faults_none)
  have "r = FormPresent (fw_id row) (fw_type row) ?xs"
    using assms(1) xs by (auto simp: present_outcome_def Let_def split: option.splits if_splits)
  moreover have "\<forall>x \<in> set ?xs. \<not> di_already_provided x" by (auto simp: form_instances_def)
  ultimately show ?thesis using xs papers assms(2) by (auto simp: list_ex_iff Suc_le_eq)
qed

lemma valid_lawful:
  assumes "r \<in> set (fg_valid (validate_form_resolutions raw rows answers))"
  shows "lawful_form ((\<lambda>w. (fw_id w, fw_type w)) ` set rows) answers r"
proof -
  obtain e where "form_outcome_of raw rows answers e = FormAccepted r"
    using assms by (auto simp: validate_form_resolutions_def Let_def List.map_filter_def split: form_outcome.splits)
  then obtain row where row: "map_of (rev (map (\<lambda>r. (fw_type r, r)) rows)) (fst e) = Some row"
      and out: "absent_outcome raw row answers = FormAccepted r \<or> present_outcome raw row = FormAccepted r"
    by (auto simp: form_outcome_of_def split: option.splits form_verdict.splits)
  have "row \<in> set rows" using map_of_SomeD [OF row] by auto
  then have offered: "(fw_id row, fw_type row) \<in> (\<lambda>w. (fw_id w, fw_type w)) ` set rows" by blast
  show ?thesis using out absent_lawful [OF _ offered] present_lawful [OF _ offered] by (elim disjE)
qed

lemma touched_refl [simp]: "touched F offered answers r r"
  by (simp add: touched_def)

lemma touched_trans:
  assumes "touched F offered answers r r1" "touched F offered answers r1 r2"
  shows "touched F offered answers r r2"
  using assms by (auto simp: touched_def same_row_def)

lemma absent_rows:
  assumes "lawful_form offered answers (FormAbsent i k e)"
  shows "list_all2 (touched F offered answers) t (fst (resolve_not_required i (fx_client F) e t))"
    "fst (resolve_not_required i (fx_client F) e t) = apply_op (OpNotRequired i (fx_client F) e) t"
proof -
  show "list_all2 (touched F offered answers) t (fst (resolve_not_required i (fx_client F) e t))"
    unfolding resolve_not_required_def fst_move_row
    by (rule all2_update_where) (use assms in \<open>auto simp: touched_def is_row_def same_row_def\<close>)
qed simp

definition born_by_form :: "form_env \<Rightarrow> client_document \<Rightarrow> bool" where
  "born_by_form F r = (cd_client r = fx_client F \<and> pending_item r)"

lemma present_rows:
  assumes "lawful_form offered answers (FormPresent i k xs)"
  shows "\<exists>t1 extra created. resolve_required (fx_uuid F i) i (fx_client F) xs None t = Inr (t1 @ extra, created)
     \<and> list_all2 (touched F offered answers) t t1 \<and> list_all (born_by_form F) extra"
proof -
  obtain x ys where xs: "xs = x # ys" using assms by (cases xs) auto
  let ?f = "\<lambda>r. r\<lparr>cd_status := birth_status x, cd_name := di_name x, cd_description := di_description x, cd_evidence := None, cd_paper_key := di_paper_key x\<rparr>"
  let ?p = "\<lambda>r. is_row i (fx_client F) r \<and> cd_status r \<in> {Unresolved, NotRequired}"
  have rows: "list_all2 (touched F offered answers) t (update_where ?p ?f t)"
    by (rule all2_update_where) (use assms xs in \<open>auto simp: touched_def is_row_def same_row_def pending_item_def birth_status_def\<close>)
  have same: "list_all2 (touched F offered answers) t t" by (rule list_all2_refl) simp
  have extra: "list_all (born_by_form F) (map (\<lambda>(n, inst). instance_row_of (u n) (fx_client F) k' None inst) (enumerate 0 ys))" for u k'
  proof -
    have "\<forall>y \<in> snd ` set (enumerate 0 ys). \<not> di_already_provided y \<and> 1 \<le> length (di_name y) \<and> length (di_name y) \<le> 200"
      using assms xs by (simp add: image_set del: enumerate_simps)
    then show ?thesis
      by (fastforce simp: list_all_iff born_by_form_def instance_row_of_def pending_item_def birth_status_def)
  qed
  show ?thesis
  proof (cases "List.find ?p t")
    case None
    then show ?thesis using same
      by (intro exI [of _ t] exI [of _ "[]"] exI [of _ None]) (simp add: xs resolve_required_def move_row_def Let_def)
  next
    case (Some head)
    let ?extra = "map (\<lambda>(n, inst). instance_row_of (fx_uuid F i n) (fx_client F) (cd_type_key (?f head)) None inst) (enumerate 0 ys)"
    show ?thesis using rows extra Some
      by (intro exI [of _ "update_where ?p ?f t"] exI [of _ ?extra] exI [of _ "Some (?f head # ?extra)"])
        (simp add: xs resolve_required_def move_row_def Let_def)
  qed
qed

lemma born_stays:
  "\<lbrakk>list_all2 (touched F offered answers) ex ex'; list_all (born_by_form F) ex\<rbrakk> \<Longrightarrow> ex' = ex"
proof (induction ex arbitrary: ex')
  case (Cons r ex)
  then show ?case by (auto simp: list_all2_Cons1 touched_def born_by_form_def pending_item_def)
qed simp

lemma touched_tables:
  assumes "list_all2 (touched F offered answers) t u" "list_all2 (touched F offered answers) u v"
  shows "list_all2 (touched F offered answers) t v"
  by (rule list_all2_trans [OF _ assms]) (rule touched_trans)

lemma step_rows:
  assumes "list_all2 (touched F offered answers) (t @ ex) u" "list_all (born_by_form F) ex"
  obtains t1 where "u = t1 @ ex" "list_all2 (touched F offered answers) t t1"
  using assms by (auto simp: list_all2_append1 dest: born_stays)

lemma resolutions_rows:
  "\<lbrakk>list_all (lawful_form offered answers) rs; list_all (born_by_form F) ex\<rbrakk>
   \<Longrightarrow> \<exists>t1 extra m ops. apply_form_resolutions F rs n (t @ ex) = (Inr m, t1 @ extra) \<and> m \<le> n + length rs
      \<and> list_all2 (touched F offered answers) t t1 \<and> list_all (born_by_form F) extra \<and> t1 @ extra = checklist_run ops (t @ ex)"
proof (induction rs arbitrary: n t ex)
  case Nil
  have "list_all2 (touched F offered answers) t t" by (rule list_all2_refl) simp
  then show ?case using Nil by (intro exI [of _ t] exI [of _ ex] exI [of _ n] exI [of _ "[]"]) (simp add: checklist_run_def)
next
  case (Cons r rs)
  have "\<exists>op u ex' k. apply_form_resolutions F (r # rs) n (t @ ex) = apply_form_resolutions F rs k (u @ ex') \<and> k \<le> n + 1
      \<and> list_all2 (touched F offered answers) t u \<and> list_all (born_by_form F) ex' \<and> u @ ex' = apply_op op (t @ ex)"
  proof (cases r)
    case (FormAbsent i k e)
    have lawful: "lawful_form offered answers (FormAbsent i k e)" using Cons.prems(1) FormAbsent by simp
    obtain u where u: "fst (resolve_not_required i (fx_client F) e (t @ ex)) = u @ ex" "list_all2 (touched F offered answers) t u"
      by (rule step_rows [OF absent_rows(1) [OF lawful] Cons.prems(2)])
    then obtain row where row: "resolve_not_required i (fx_client F) e (t @ ex) = (u @ ex, row)" by (metis prod.collapse)
    show ?thesis
      by (rule exI [of _ "OpNotRequired i (fx_client F) e"], rule exI [of _ u], rule exI [of _ ex], rule exI [of _ "if row = None then n else n + 1"])
        (simp add: FormAbsent row u(2) Cons.prems(2))
  next
    case (FormPresent i k xs)
    have lawful: "lawful_form offered answers (FormPresent i k xs)" using Cons.prems(1) FormPresent by simp
    obtain v extra created where v: "resolve_required (fx_uuid F i) i (fx_client F) xs None (t @ ex) = Inr (v @ extra, created)"
        "list_all2 (touched F offered answers) (t @ ex) v" "list_all (born_by_form F) extra"
      using present_rows [OF lawful] by blast
    obtain u where u: "v = u @ ex" "list_all2 (touched F offered answers) t u" by (rule step_rows [OF v(2) Cons.prems(2)])
    show ?thesis using v u Cons.prems(2)
      by (intro exI [of _ "OpRequired (fx_uuid F i) i (fx_client F) xs None"] exI [of _ u] exI [of _ "ex @ extra"]
          exI [of _ "if created = None then n else n + 1"]) (simp add: FormPresent table_after_def)
  qed
  then obtain op u ex' k where step: "apply_form_resolutions F (r # rs) n (t @ ex) = apply_form_resolutions F rs k (u @ ex')" "k \<le> n + 1"
      "list_all2 (touched F offered answers) t u" "list_all (born_by_form F) ex'" "u @ ex' = apply_op op (t @ ex)" by blast
  obtain t1 extra m ops where rest: "apply_form_resolutions F rs k (u @ ex') = (Inr m, t1 @ extra)" "m \<le> k + length rs"
      "list_all2 (touched F offered answers) u t1" "list_all (born_by_form F) extra" "t1 @ extra = checklist_run ops (u @ ex')"
    using Cons.IH [of ex' k u] Cons.prems(1) step(4) by auto
  show ?case using step(1,2) rest(1,2,4,5) touched_tables [OF step(3) rest(3)]
    by (intro exI [of _ t1] exI [of _ extra] exI [of _ m] exI [of _ "op # ops"]) (simp add: checklist_run_def step(5))
qed

lemma offered_rows:
  "(i, k) \<in> (\<lambda>w. (fw_id w, fw_type w)) ` set (load_resolvable_rows client t)
   \<longleftrightarrow> (\<exists>d \<in> set t. cd_client d = client \<and> cd_status d = Unresolved \<and> cd_id d = i \<and> cd_type_key d = Some k)"
  by (force simp: load_resolvable_rows_def List.map_filter_def documents_of_client_def image_iff)

lemma touched_settles:
  assumes "distinct (map cd_id t)" "r \<in> set t"
    "touched F ((\<lambda>w. (fw_id w, fw_type w)) ` set (load_resolvable_rows (fx_client F) t)) answers r r'"
  shows "settled_by_form (fx_client F) answers r r'"
  using assms(3) unfolding touched_def
proof (elim disjE exE conjE)
  fix k assume k: "(cd_id r, k) \<in> (\<lambda>w. (fw_id w, fw_type w)) ` set (load_resolvable_rows (fx_client F) t)"
    and kept: "cd_client r = fx_client F" "same_row r r'"
  obtain d where d: "d \<in> set t" "cd_status d = Unresolved" "cd_id d = cd_id r" "cd_type_key d = Some k" using k unfolding offered_rows by blast
  then have "d = r" using assms(1,2) by (auto simp: distinct_map dest: inj_onD)
  then have row: "cd_status r = Unresolved" "cd_type_key r = Some k" using d by simp_all
  { assume "cd_status r' = NotRequired" "rests_on_form answers (cd_evidence r')"
    then show ?thesis using kept row by (simp add: settled_by_form_def) }
  { assume "pending_item r'" "instance_paper_fault (cd_paper_key r') (Some k) = None"
    then show ?thesis using kept row by (simp add: settled_by_form_def) }
qed (simp add: settled_by_form_def)

lemma unsettled_table: "list_all2 (settled_by_form client answers) t t"
  by (rule list_all2_refl) (simp add: settled_by_form_def)

text \<open>C35: The questionnaire settles only open rows, and only on what the form says: every row of the checklist is either as before or was an unresolved row of this client that became not required, with evidence that is a quote found in the client's filled answers or a question the client left empty, or became a pending item with a usable name and a paper its type accepts; new rows are pending items of this client. The table is one the checklist operations reach. When the screen does not clear the answers nothing changes, and the only errors are a failed screen and a failed mapping, which change nothing either.\<close>

theorem form_intake_grounded:
  assumes "distinct (map cd_id t)"
  shows "(\<exists>t1 extra ops. snd (apply_form_intake F form t) = t1 @ extra \<and> t1 @ extra = checklist_run ops t
        \<and> list_all2 (settled_by_form (fx_client F) (sanitize_form_answers form)) t t1 \<and> list_all (born_by_form F) extra)
    \<and> (fx_screen F (answered_of (sanitize_form_answers form)) = Inr False \<or> snd (apply_form_intake F form t) = t)
    \<and> (case fst (apply_form_intake F form t) of Inl err \<Rightarrow> err \<in> {FormScreenFailed, FormMappingFailed} \<and> snd (apply_form_intake F form t) = t | Inr _ \<Rightarrow> True)"
proof -
  let ?answers = "sanitize_form_answers form" and ?rows = "load_resolvable_rows (fx_client F) t"
  have unchanged: "\<exists>t1 extra ops. t = t1 @ extra \<and> t1 @ extra = checklist_run ops t
      \<and> list_all2 (settled_by_form (fx_client F) ?answers) t t1 \<and> list_all (born_by_form F) extra"
    using unsettled_table by (intro exI [of _ t] exI [of _ "[]"]) (simp add: checklist_run_def)
  show ?thesis
  proof (cases "answered_of ?answers \<noteq> [] \<and> fx_screen F (answered_of ?answers) = Inr False \<and> ?rows \<noteq> [] \<and> fx_map F ?answers ?rows \<noteq> None")
    case False
    then show ?thesis using unchanged
      by (auto simp: apply_form_intake_def Let_def split: sum.splits option.splits)
  next
    case True
    then obtain raw where raw: "fx_map F ?answers ?rows = Some raw" by blast
    let ?valid = "fg_valid (validate_form_resolutions raw ?rows ?answers)"
    let ?offered = "(\<lambda>w. (fw_id w, fw_type w)) ` set ?rows"
    have run: "apply_form_intake F form t = apply_form_resolutions F ?valid 0 (t @ [])"
      using True raw by (simp add: apply_form_intake_def Let_def)
    have "list_all (lawful_form ?offered ?answers) ?valid" using valid_lawful by (simp add: list_all_iff)
    then obtain t1 extra m ops where ran: "apply_form_resolutions F ?valid 0 (t @ []) = (Inr m, t1 @ extra)"
        "list_all2 (touched F ?offered ?answers) t t1" "list_all (born_by_form F) extra" "t1 @ extra = checklist_run ops (t @ [])"
      using resolutions_rows [of ?offered ?answers ?valid F "[]" 0 t] by auto
    have "list_all2 (settled_by_form (fx_client F) ?answers) t t1"
      using ran(2) by (rule list.rel_mono_strong) (blast intro: touched_settles [OF assms])
    moreover have "snd (apply_form_intake F form t) = t1 @ extra" "fst (apply_form_intake F form t) = Inr m" by (simp_all add: run [simplified] ran(1) [simplified])
    moreover have "t1 @ extra = checklist_run ops t" using ran(4) by simp
    ultimately show ?thesis using True ran(3)
      by (intro conjI) (blast, blast, simp)
  qed
qed

text \<open>A form with one filled answer and one question left empty, and a client whose vehicle row is open.\<close>

definition sample_form :: "form_answer list" where
  "sample_form = [\<lparr>fq_question = jstr ''Bank'', fq_answer = jstr ''Leumi''\<rparr>, \<lparr>fq_question = jstr ''Car'', fq_answer = []\<rparr>]"

definition sample_form_env :: form_env where
  "sample_form_env = \<lparr>fx_client = ''c'', fx_screen = (\<lambda>_. Inr False),
     fx_map = (\<lambda>_ _. Some \<lparr>fr_verdicts = [(''vehicle'', FormNotRequired)],
        fr_evidence = [\<lparr>fe_type = ''vehicle'', fe_question = jstr ''Car'', fe_quote = []\<rparr>], fr_instances = []\<rparr>),
     fx_uuid = (\<lambda>i _. i @ ''x'')\<rparr>"

lemma form_intake_grounded_witness:
  "\<exists>t1 extra ops. snd (apply_form_intake sample_form_env sample_form [sample_row ''a'' Unresolved]) = t1 @ extra
     \<and> t1 @ extra = checklist_run ops [sample_row ''a'' Unresolved]
     \<and> list_all2 (settled_by_form ''c'' (sanitize_form_answers sample_form)) [sample_row ''a'' Unresolved] t1"
  using form_intake_grounded [of "[sample_row ''a'' Unresolved]" sample_form_env sample_form]
  by (auto simp: sample_form_env_def)

lemma sample_sanitized: "sanitize_form_answers sample_form = sample_form"
  by (simp add: sanitize_form_answers_def sample_form_def sanitize_inline_def sanitize_untrusted_def truncated_def js_trim_def js_space_def
      strip_hidden_def control_char_def invisible_char_def fence_char_def)

lemma sample_form_settles:
  "map cd_status (snd (apply_form_intake sample_form_env sample_form [sample_row ''a'' Unresolved])) = [NotRequired]"
  by (simp add: apply_form_intake_def sample_sanitized Let_def)
    (simp add: answered_of_def sample_form_def sample_form_env_def load_resolvable_rows_def documents_of_client_def
      sample_row_def validate_form_resolutions_def form_outcome_of_def absent_outcome_def empty_questions_def List.map_filter_def
      resolve_not_required_def move_row_def is_row_def js_trim_def js_space_def norm_quote_def Let_def)

end
