(* ===== verification/GateProps.thy ===== *)
theory GateProps
  imports DecisionGate
begin

text \<open>
  What an accepted answer guarantees. The lemmas follow the validators: what each
  one's success says, and that the later validators keep the instances the earlier
  ones made; the properties combine them over \<open>normalize_decision\<close>.
\<close>

section \<open>Success of the validators\<close>

text \<open>The decision rests on words the client wrote in a stored message.\<close>

definition quoted_words :: "intake_state \<Rightarrow> id \<times> utext \<Rightarrow> bool" where
  "quoted_words intake e = (case in_texts intake (fst e) of None \<Rightarrow> False | Some t \<Rightarrow> quote_appears_in (snd e) t)"

definition rests_on_quote :: "intake_state \<Rightarrow> resolution_evidence \<Rightarrow> bool" where
  "rests_on_quote intake e = (case e of QuoteEvidence m q \<Rightarrow> quoted_words intake (m, q) | _ \<Rightarrow> False)"

text \<open>Or on a file that proves exactly one new item of its own type.\<close>

definition rests_on_self_evident :: "intake_state \<Rightarrow> string option \<Rightarrow> resolved_instance list \<Rightarrow> resolution_evidence \<Rightarrow> bool" where
  "rests_on_self_evident intake type_key xs e =
     (case e of SelfEvidentEvidence fid _ _ _ _ \<Rightarrow>
          (case in_self_evident intake fid of None \<Rightarrow> False
           | Some p \<Rightarrow> type_key = Some (se_type_key p) \<and> length xs = 1 \<and> e = self_evident_evidence_of fid p)
      | _ \<Rightarrow> False)"

text \<open>Or on an approved purchase contract whose seller calls for the change.\<close>

definition rests_on_contract :: "intake_state \<Rightarrow> seller_fact \<Rightarrow> string option \<Rightarrow> resolution_evidence \<Rightarrow> bool" where
  "rests_on_contract intake seller type_key e =
     (case e of ApprovedFileEvidence fid d s \<Rightarrow>
          s = seller \<and> type_key = Some ''real_estate'' \<and> in_approved intake fid = Some \<lparr>ap_document = d, ap_seller = Some seller\<rparr>
      | _ \<Rightarrow> False)"

lemma validate_evidence_Inr [result_iff]:
  "validate_evidence e (in_texts intake) = Inr ev \<longleftrightarrow> e = Some ev \<and> quoted_words intake ev"
  by (cases e) (auto simp: validate_evidence_def quoted_words_def split: option.splits if_splits)

lemma quoted_Inr [result_iff]:
  "quoted r = Inr e \<longleftrightarrow> (\<exists>m q. r = Inr (m, q) \<and> e = QuoteEvidence m q)"
  by (auto simp: quoted_def result_iff)

lemma proof_of_resolution:
  assumes "validate_proven_by_file fid (Resolving row xs) intake = Inr e"
  shows "rests_on_self_evident intake (rw_type row) xs e"
  using assms by (auto simp: validate_proven_by_file_def self_evident_proof_def rests_on_self_evident_def self_evident_evidence_of_def
      result_iff split: option.splits)

lemma proof_of_addition:
  assumes "validate_proven_by_file fid (Adding row xs) intake = Inr e"
  shows "rests_on_self_evident intake (tr_type row) xs e
     \<or> rests_on_contract intake SellerBuilder (tr_type row) e \<and> (\<forall>i \<in> set xs. rs_paper i = Some ''payments_appendix'')"
proof (cases "in_self_evident intake fid")
  case None
  then show ?thesis
    using assms by (auto simp: validate_proven_by_file_def rests_on_contract_def list_ex_iff result_iff split: option.splits)
next
  case (Some p)
  then show ?thesis
    using assms by (auto simp: validate_proven_by_file_def self_evident_proof_def rests_on_self_evident_def self_evident_evidence_of_def result_iff)
qed

lemma proof_of_retirement:
  assumes "validate_proven_by_file fid (Retiring row) intake = Inr e"
  shows "rests_on_contract intake SellerPrivate (tr_type row) e \<and> tr_paper row \<in> Some ` PAPERS_RETIRED_BY_PRIVATE_SELLER"
  using assms by (auto simp: validate_proven_by_file_def self_evident_proof_def rests_on_contract_def result_iff split: option.splits)

lemma normalize_instances_Inr:
  "normalize_instances J raw multi type_key = Inr xs \<longleftrightarrow>
     xs = map (raw_instance_of J) raw \<and> xs \<noteq> [] \<and> (\<forall>i \<in> set xs. rs_name i \<noteq> [] \<and> length (rs_name i) \<le> 200)
     \<and> (\<forall>i \<in> set xs. instance_paper_fault (rs_paper i) type_key = None)
     \<and> (multi \<or> length xs = 1) \<and> length xs \<le> MAX_RESOLUTION_INSTANCES"
proof -
  have "first_paper_fault type_key xs = None \<longleftrightarrow> (\<forall>i \<in> set xs. instance_paper_fault (rs_paper i) type_key = None)" for xs
  proof (cases "List.find (\<lambda>i. instance_paper_fault (rs_paper i) type_key \<noteq> None) xs")
    case None
    then show ?thesis using find_None_all [of "\<lambda>i. instance_paper_fault (rs_paper i) type_key \<noteq> None" xs]
      by (simp add: first_paper_fault_def)
  next
    case (Some i)
    then show ?thesis using find_Some_mem [OF Some] unfolding first_paper_fault_def Some by auto
  qed
  moreover have "raw \<noteq> [] \<Longrightarrow> length raw \<le> Suc 0 \<longleftrightarrow> length raw = Suc 0" by (cases raw) auto
  ultimately show ?thesis by (auto simp: normalize_instances_def Let_def result_iff list_ex_iff not_less)
qed

section \<open>Instances through the later validators\<close>

text \<open>The statements change; what makes the row does not.\<close>

definition same_instance :: "resolved_instance \<Rightarrow> resolved_instance \<Rightarrow> bool" where
  "same_instance i j = (rs_name j = rs_name i \<and> rs_files j = rs_files i \<and> rs_paper j = rs_paper i
     \<and> rs_already_provided j = rs_already_provided i)"

definition same_resolution :: "document_resolution \<Rightarrow> document_resolution \<Rightarrow> bool" where
  "same_resolution r s = (case r of ResolveNotRequired i e \<Rightarrow> s = r
     | ResolveRequired i xs e \<Rightarrow> (\<exists>ys. s = ResolveRequired i ys e \<and> list_all2 same_instance xs ys))"

definition same_addition :: "instance_addition \<Rightarrow> instance_addition \<Rightarrow> bool" where
  "same_addition a b = (ad_anchor b = ad_anchor a \<and> ad_evidence b = ad_evidence a \<and> list_all2 same_instance (ad_instances a) (ad_instances b))"

lemma same_instances_trans:
  "list_all2 same_instance xs ys \<Longrightarrow> list_all2 same_instance ys zs \<Longrightarrow> list_all2 same_instance xs zs"
  by (rule list_all2_trans [of same_instance same_instance]) (auto simp: same_instance_def)

lemma same_resolution_trans: "same_resolution a b \<Longrightarrow> same_resolution b c \<Longrightarrow> same_resolution a c"
  by (cases a) (use same_instances_trans in \<open>auto simp: same_resolution_def\<close>)

lemma same_addition_trans: "same_addition a b \<Longrightarrow> same_addition b c \<Longrightarrow> same_addition a c"
  by (use same_instances_trans in \<open>auto simp: same_addition_def\<close>)

lemma same_refl [simp]: "same_resolution r r" "same_addition a a"
  by (cases r) (auto simp: same_resolution_def same_addition_def same_instance_def list_all2_same)

lemma rmap_same:
  assumes "rmap f xs = Inr ys" and "\<And>i j. f i = Inr j \<Longrightarrow> same_instance i j"
  shows "list_all2 same_instance xs ys"
  using assms(1) assms(2) by (auto simp: rmap_Inr_iff elim: list_all2_mono)

lemma statements_keep:
  assumes "validate_statements carries check_entry check_instance entries ctx rs as = Inr (ss, rs', as')"
    and keep: "\<And>intake i j. check_instance intake i = Inr j \<Longrightarrow> same_instance i j"
  shows "list_all2 same_resolution rs rs' \<and> list_all2 same_addition as as'"
proof -
  have r: "same_resolution r r'" if "on_resolution (check_instance intake) r = Inr r'" for intake r r'
    using that rmap_same [OF _ keep] by (cases r) (auto simp: on_resolution_def same_resolution_def result_iff)
  have a: "same_addition a a'" if "on_addition (check_instance intake) a = Inr a'" for intake a a'
    using that rmap_same [OF _ keep] by (auto simp: on_addition_def same_addition_def result_iff)
  show ?thesis
    using assms(1) r a
    by (auto simp: validate_statements_def rmap_Inr_iff rbind_Inr_iff list_all2_same split: if_splits option.splits elim!: list_all2_mono)
qed

lemma validate_instance_cost_same: "validate_instance_cost J intake i = Inr j \<Longrightarrow> same_instance i j"
  by (auto simp: validate_instance_cost_def same_instance_def rbind_Inr_iff split: option.splits if_splits)

lemma validate_instance_vehicle_same: "validate_instance_vehicle J intake i = Inr j \<Longrightarrow> same_instance i j"
  by (auto simp: validate_instance_vehicle_def same_instance_def rbind_Inr_iff split: option.splits if_splits)

section \<open>The cases of an accepted answer\<close>

lemma accepted_cases:
  assumes "normalize_decision J tab r ctx = Inr d"
  obtains
    (declined) "rd_decision r = ClientDeclined" "\<not> decline_extras r (answer_ties_files r (intake_self_evident ctx))"
      "d = \<lparr>nd_outcome = Declined, nd_reasoning = rd_reasoning r, nd_collected = [], nd_matched = [], nd_fetch = None,
            nd_resolutions = [], nd_additions = [], nd_retired = [], nd_costs = [], nd_vehicles = [], nd_attestation = None\<rparr>"
  | (decided) fetch rs as rs' as' where "rd_decision r \<noteq> ClientDeclined"
      "shape_guard r ctx (answer_ties_files r (intake_self_evident ctx)) = Inr ()"
      "validate_tax_fetch r ctx = Inr fetch" "validate_resolutions J tab r ctx = Inr rs" "validate_added_instances J tab r ctx = Inr as"
      "validate_retirements r ctx = Inr (nd_retired d)"
      "validate_stated_costs J r ctx rs as = Inr (nd_costs d, rs', as')"
      "validate_stated_vehicles J r ctx rs' as' = Inr (nd_vehicles d, nd_resolutions d, nd_additions d)"
      "validate_attestation r ctx = Inr (nd_attestation d)" "decided_outcome J r ctx = Inr (nd_outcome d)"
      "nd_collected d = rd_collected r" "nd_matched d = validate_matched_files r ctx" "nd_reasoning d = rd_reasoning r"
      "nd_fetch d = (if nd_outcome d = Collecting then None else fetch)"
proof (cases "rd_decision r = ClientDeclined")
  case True
  then show ?thesis using assms by (intro declined) (auto simp: normalize_decision_def Let_def result_iff)
next
  case False
  obtain fetch rs as retired costs rs' as' vehicles rs'' as'' att out where p:
    "shape_guard r ctx (answer_ties_files r (intake_self_evident ctx)) = Inr ()"
    "validate_tax_fetch r ctx = Inr fetch" "validate_resolutions J tab r ctx = Inr rs" "validate_added_instances J tab r ctx = Inr as"
    "validate_retirements r ctx = Inr retired" "validate_stated_costs J r ctx rs as = Inr (costs, rs', as')"
    "validate_stated_vehicles J r ctx rs' as' = Inr (vehicles, rs'', as'')"
    "validate_attestation r ctx = Inr att" "decided_outcome J r ctx = Inr out"
    and d: "d = \<lparr>nd_outcome = out, nd_reasoning = rd_reasoning r, nd_collected = rd_collected r,
            nd_matched = validate_matched_files r ctx, nd_fetch = (if out = Collecting then None else fetch),
            nd_resolutions = rs'', nd_additions = as'', nd_retired = retired, nd_costs = costs, nd_vehicles = vehicles,
            nd_attestation = att\<rparr>"
    using assms False by (auto simp: normalize_decision_def Let_def rbind_Inr_iff)
  show ?thesis by (rule decided [OF False]) (use p in \<open>simp_all add: d\<close>)
qed

section \<open>Checklist changes\<close>

definition lawful_instances :: "bool \<Rightarrow> string option \<Rightarrow> resolved_instance list \<Rightarrow> bool" where
  "lawful_instances multi type_key xs = (xs \<noteq> [] \<and> length xs \<le> MAX_RESOLUTION_INSTANCES \<and> (multi \<or> length xs = 1)
     \<and> list_all (\<lambda>i. instance_paper_fault (rs_paper i) type_key = None) xs)"

text \<open>A change whose target, instances and evidence are as the gate wants them.\<close>

definition lawful_resolution :: "intake_state \<Rightarrow> document_resolution \<Rightarrow> bool" where
  "lawful_resolution intake r =
     (case r of
        ResolveNotRequired i e \<Rightarrow> rests_on_quote intake e \<and> list_ex (\<lambda>row. rw_id row = i \<and> rw_status row = Unresolved) (in_resolvable intake)
      | ResolveRequired i xs e \<Rightarrow> list_ex (\<lambda>row. rw_id row = i \<and> lawful_instances (rw_multi row) (rw_type row) xs
            \<and> (rests_on_quote intake e \<or> rests_on_self_evident intake (rw_type row) xs e)) (in_resolvable intake))"

definition lawful_addition :: "intake_state \<Rightarrow> instance_addition \<Rightarrow> bool" where
  "lawful_addition intake a = list_ex (\<lambda>row. tr_id row = ad_anchor a \<and> tr_multi row \<and> lawful_instances True (tr_type row) (ad_instances a)
     \<and> (rests_on_quote intake (ad_evidence a) \<or> rests_on_self_evident intake (tr_type row) (ad_instances a) (ad_evidence a)
        \<or> rests_on_contract intake SellerBuilder (tr_type row) (ad_evidence a)
          \<and> list_all (\<lambda>i. rs_paper i = Some ''payments_appendix'') (ad_instances a))) (in_typed intake)"

definition lawful_retirement :: "intake_state \<Rightarrow> document_retirement \<Rightarrow> bool" where
  "lawful_retirement intake r = list_ex (\<lambda>row. tr_id row = fst r \<and> tr_status row \<noteq> Retired
     \<and> (rests_on_quote intake (snd r)
        \<or> rests_on_contract intake SellerPrivate (tr_type row) (snd r) \<and> tr_paper row \<in> Some ` PAPERS_RETIRED_BY_PRIVATE_SELLER)) (in_typed intake)"

lemma same_instances_props:
  assumes "list_all2 same_instance xs ys"
  shows "length ys = length xs" and "list_all (\<lambda>i. Q (rs_paper i)) ys = list_all (\<lambda>i. Q (rs_paper i)) xs"
    and "lawful_instances multi k ys = lawful_instances multi k xs"
    and "rests_on_self_evident intake k ys e = rests_on_self_evident intake k xs e"
proof -
  show l: "length ys = length xs" using assms by (simp add: list_all2_lengthD)
  have q: "list_all (\<lambda>i. P (rs_paper i)) ys = list_all (\<lambda>i. P (rs_paper i)) xs" for P
    using assms by (induction rule: list_all2_induct) (auto simp: same_instance_def)
  then show "list_all (\<lambda>i. Q (rs_paper i)) ys = list_all (\<lambda>i. Q (rs_paper i)) xs" .
  have "ys = [] \<longleftrightarrow> xs = []" using l by (metis length_0_conv)
  then show "lawful_instances multi k ys = lawful_instances multi k xs"
    unfolding lawful_instances_def q [of "\<lambda>p. instance_paper_fault p k = None"] l by blast
  show "rests_on_self_evident intake k ys e = rests_on_self_evident intake k xs e"
    unfolding rests_on_self_evident_def l by (rule refl)
qed

lemma lawful_resolution_same: "same_resolution r s \<Longrightarrow> lawful_resolution intake s = lawful_resolution intake r"
  by (cases r) (auto simp: same_resolution_def lawful_resolution_def same_instances_props)

lemma lawful_addition_same:
  assumes "same_addition a b"
  shows "lawful_addition intake b = lawful_addition intake a"
proof -
  have all: "list_all2 same_instance (ad_instances a) (ad_instances b)" using assms by (simp add: same_addition_def)
  note same = same_instances_props(3,4) [OF all] same_instances_props(2) [OF all, of "\<lambda>p. p = Some ''payments_appendix''"]
  show ?thesis using assms by (simp add: same_addition_def lawful_addition_def same)
qed

text \<open>Naming an instance after its file keeps what the laws read.\<close>

lemma on_self_evident_file:
  "length (instances_on_self_evident_file J tab xs e intake) = length xs"
  "list_all (\<lambda>i. Q (rs_paper i)) (instances_on_self_evident_file J tab xs e intake) = list_all (\<lambda>i. Q (rs_paper i)) xs"
  by (auto simp: instances_on_self_evident_file_def list.pred_map comp_def split: resolution_evidence.splits option.splits)

lemma on_self_evident_lawful:
  "lawful_instances multi k (instances_on_self_evident_file J tab xs e intake) = lawful_instances multi k xs"
  "rests_on_self_evident intake k (instances_on_self_evident_file J tab xs e intake) e = rests_on_self_evident intake k xs e"
proof -
  have "instances_on_self_evident_file J tab xs e intake = [] \<longleftrightarrow> xs = []" by (metis length_0_conv on_self_evident_file(1))
  then show "lawful_instances multi k (instances_on_self_evident_file J tab xs e intake) = lawful_instances multi k xs"
    unfolding lawful_instances_def on_self_evident_file(1) on_self_evident_file(2) [of "\<lambda>p. instance_paper_fault p k = None"] by blast
  show "rests_on_self_evident intake k (instances_on_self_evident_file J tab xs e intake) e = rests_on_self_evident intake k xs e"
    unfolding rests_on_self_evident_def on_self_evident_file(1) by (rule refl)
qed

lemma normalize_instances_lawful: "normalize_instances J raw multi k = Inr xs \<Longrightarrow> lawful_instances multi k xs"
  by (auto simp: normalize_instances_Inr lawful_instances_def list_all_iff)

lemma rests_on_quoteI: "quoted_words intake (m, q) \<Longrightarrow> rests_on_quote intake (QuoteEvidence m q)"
  by (simp add: rests_on_quote_def)

lemma validate_resolution_lawful:
  assumes "validate_resolution J tab intake e = Inr r"
  shows "lawful_resolution intake r"
proof -
  obtain row where row: "row_by rw_id (in_resolvable intake) (rr_document e) = Some row"
    using assms by (auto simp: validate_resolution_def split: option.splits)
  note at = row_by_Some [OF row]
  show ?thesis
  proof (cases "rr_required e")
    case False
    then show ?thesis using assms row at
      by (auto simp: validate_resolution_def lawful_resolution_def rests_on_quoteI list_ex_iff result_iff)
  next
    case True
    then obtain xs ev where xs: "normalize_instances J (or_nil (rr_instances e)) (rw_multi row) (rw_type row) = Inr xs"
      and ev: "(if rr_evidence e = None \<and> rr_proven_by e \<noteq> [] then validate_proven_by_file (rr_proven_by e) (Resolving row xs) intake
         else quoted (validate_evidence (rr_evidence e) (in_texts intake))) = Inr ev"
      and r: "r = ResolveRequired (rr_document e) (instances_on_self_evident_file J tab xs ev intake) ev"
      using assms row by (auto simp: validate_resolution_def rbind_Inr_iff guard_Inr_iff)
    have "rests_on_quote intake ev \<or> rests_on_self_evident intake (rw_type row) xs ev"
      using ev proof_of_resolution [of "rr_proven_by e" row xs intake ev]
      by (auto simp: rests_on_quoteI result_iff split: if_splits)
    then have "rw_id row = rr_document e \<and> lawful_instances (rw_multi row) (rw_type row) (instances_on_self_evident_file J tab xs ev intake)
        \<and> (rests_on_quote intake ev \<or> rests_on_self_evident intake (rw_type row) (instances_on_self_evident_file J tab xs ev intake) ev)"
      using at normalize_instances_lawful [OF xs] by (simp add: on_self_evident_lawful)
    then show ?thesis using at unfolding r lawful_resolution_def list_ex_iff document_resolution.case by blast
  qed
qed

lemma validate_addition_lawful:
  assumes "validate_addition J tab intake e = Inr a"
  shows "lawful_addition intake a"
proof -
  obtain row where row: "row_by tr_id (in_typed intake) (ra_anchor e) = Some row" and m: "tr_multi row"
    using assms by (auto simp: validate_addition_def split: option.splits if_splits)
  note at = row_by_Some [OF row]
  obtain xs ev where xs: "normalize_instances J (ra_instances e) True (tr_type row) = Inr xs"
    and ev: "(if ra_evidence e = None \<and> ra_proven_by e \<noteq> [] then validate_proven_by_file (ra_proven_by e) (Adding row xs) intake
       else quoted (validate_evidence (ra_evidence e) (in_texts intake))) = Inr ev"
    and a: "a = \<lparr>ad_anchor = ra_anchor e, ad_instances = instances_on_self_evident_file J tab xs ev intake, ad_evidence = ev\<rparr>"
    using assms row m by (auto simp: validate_addition_def rbind_Inr_iff)
  have "rests_on_quote intake ev \<or> rests_on_self_evident intake (tr_type row) xs ev
     \<or> rests_on_contract intake SellerBuilder (tr_type row) ev \<and> list_all (\<lambda>i. rs_paper i = Some ''payments_appendix'') xs"
    using ev proof_of_addition [of "ra_proven_by e" row xs intake ev]
    by (auto simp: rests_on_quoteI result_iff list_all_iff split: if_splits)
  then have "tr_id row = ad_anchor a \<and> tr_multi row \<and> lawful_instances True (tr_type row) (ad_instances a)
     \<and> (rests_on_quote intake (ad_evidence a) \<or> rests_on_self_evident intake (tr_type row) (ad_instances a) (ad_evidence a)
        \<or> rests_on_contract intake SellerBuilder (tr_type row) (ad_evidence a)
          \<and> list_all (\<lambda>i. rs_paper i = Some ''payments_appendix'') (ad_instances a))"
    using at m normalize_instances_lawful [OF xs]
    by (simp add: a on_self_evident_lawful on_self_evident_file(2) [of "\<lambda>p. p = Some ''payments_appendix''"])
  then show ?thesis using at unfolding lawful_addition_def list_ex_iff by blast
qed

lemma validate_retirement_lawful:
  assumes "validate_retirement intake e = Inr x"
  shows "lawful_retirement intake x"
proof -
  obtain row where row: "row_by tr_id (in_typed intake) (rt_document e) = Some row" and m: "tr_status row \<noteq> Retired"
    using assms by (auto simp: validate_retirement_def split: option.splits if_splits)
  note at = row_by_Some [OF row]
  obtain ev where ev: "(if rt_evidence e = None \<and> rt_proven_by e \<noteq> [] then validate_proven_by_file (rt_proven_by e) (Retiring row) intake
       else quoted (validate_evidence (rt_evidence e) (in_texts intake))) = Inr ev" and x: "x = (rt_document e, ev)"
    using assms row m by (auto simp: validate_retirement_def rbind_Inr_iff)
  have "rests_on_quote intake ev \<or> rests_on_contract intake SellerPrivate (tr_type row) ev \<and> tr_paper row \<in> Some ` PAPERS_RETIRED_BY_PRIVATE_SELLER"
    using ev proof_of_retirement [of "rt_proven_by e" row intake ev] by (auto simp: rests_on_quoteI result_iff split: if_splits)
  then show ?thesis using at m unfolding lawful_retirement_def list_ex_iff x by auto
qed

lemma each_once_all:
  assumes "each_once key tw f seen xs = Inr ys" and "\<And>x y. f x = Inr y \<Longrightarrow> P y"
  shows "list_all P ys"
proof -
  have "list_all2 (\<lambda>x y. f x = Inr y) xs ys" using assms(1) by (simp add: each_once_Inr_iff)
  then show ?thesis by (induction rule: list_all2_induct) (simp_all add: assms(2))
qed

lemma each_once_keys:
  assumes "each_once key tw f seen xs = Inr ys" and "\<And>x y. f x = Inr y \<Longrightarrow> k y = key x"
  shows "distinct (map k ys)"
proof -
  have all: "list_all2 (\<lambda>x y. f x = Inr y) xs ys" and d: "distinct (map key xs)" using assms(1) by (simp_all add: each_once_Inr_iff)
  from all have "map k ys = map key xs" by (induction rule: list_all2_induct) (simp_all add: assms(2))
  then show ?thesis using d by simp
qed

lemma with_intake_Inr:
  "with_intake entries ctx f = Inr ys \<Longrightarrow> dc_intake ctx = Some intake \<Longrightarrow> ys = [] \<or> f intake = Inr ys"
  by (auto simp: with_intake_def split: if_splits)

definition resolution_target :: "document_resolution \<Rightarrow> id" where
  "resolution_target r = (case r of ResolveNotRequired i _ \<Rightarrow> i | ResolveRequired i _ _ \<Rightarrow> i)"

lemma validate_resolution_target: "validate_resolution J tab intake e = Inr r \<Longrightarrow> resolution_target r = rr_document e"
  by (auto simp: validate_resolution_def resolution_target_def rbind_Inr_iff simp del: not_None_eq split: option.splits if_splits)

lemma validate_addition_target: "validate_addition J tab intake e = Inr a \<Longrightarrow> ad_anchor a = ra_anchor e"
  by (auto simp: validate_addition_def rbind_Inr_iff split: option.splits if_splits)

lemma validate_retirement_target: "validate_retirement intake e = Inr x \<Longrightarrow> fst x = rt_document e"
  by (auto simp: validate_retirement_def rbind_Inr_iff split: option.splits if_splits)

lemma list_all_same:
  "list_all2 R xs ys \<Longrightarrow> (\<And>x y. R x y \<Longrightarrow> P y = P x) \<Longrightarrow> list_all P ys = list_all P xs"
  by (induction rule: list_all2_induct) auto

lemma map_same: "list_all2 R xs ys \<Longrightarrow> (\<And>x y. R x y \<Longrightarrow> k y = k x) \<Longrightarrow> map k ys = map k xs"
  by (induction rule: list_all2_induct) auto

lemma same_resolution_target: "same_resolution r s \<Longrightarrow> resolution_target s = resolution_target r"
  by (cases r) (auto simp: same_resolution_def resolution_target_def)

text \<open>The accepted lists, up to what the later validators keep.\<close>

lemma accepted_lists:
  assumes "normalize_decision J tab r ctx = Inr d" and "dc_intake ctx = Some intake"
  shows "list_all (lawful_resolution intake) (nd_resolutions d) \<and> list_all (lawful_addition intake) (nd_additions d)
    \<and> list_all (lawful_retirement intake) (nd_retired d) \<and> distinct (map resolution_target (nd_resolutions d))
    \<and> distinct (map ad_anchor (nd_additions d)) \<and> distinct (map fst (nd_retired d))"
  using assms(1)
proof (cases rule: accepted_cases)
  case (decided fetch rs as rs' as')
  have keep: "list_all2 same_resolution rs rs' \<and> list_all2 same_addition as as'"
    using decided(7) unfolding validate_stated_costs_def by (rule statements_keep) (rule validate_instance_cost_same)
  have keep': "list_all2 same_resolution rs' (nd_resolutions d) \<and> list_all2 same_addition as' (nd_additions d)"
    using decided(8) unfolding validate_stated_vehicles_def by (rule statements_keep) (rule validate_instance_vehicle_same)
  have kept: "list_all2 same_resolution rs (nd_resolutions d)" "list_all2 same_addition as (nd_additions d)"
    using list_all2_trans [OF _ conjunct1 [OF keep] conjunct1 [OF keep'], of same_resolution] same_resolution_trans
      list_all2_trans [OF _ conjunct2 [OF keep] conjunct2 [OF keep'], of same_addition] same_addition_trans by blast+
  have rs: "rs = [] \<or> each_once rr_document twice (validate_resolution J tab intake) [] (or_nil (rd_resolved r)) = Inr rs"
    using with_intake_Inr [OF _ assms(2)] decided(4) unfolding validate_resolutions_def by blast
  have as: "as = [] \<or> each_once ra_anchor twice (validate_addition J tab intake) [] (or_nil (rd_added r)) = Inr as"
    using with_intake_Inr [OF _ assms(2)] decided(5) unfolding validate_added_instances_def by blast
  have re: "nd_retired d = [] \<or> each_once rt_document twice (validate_retirement intake) [] (or_nil (rd_retired r)) = Inr (nd_retired d)"
    using with_intake_Inr [OF _ assms(2)] decided(6) unfolding validate_retirements_def by blast
  have "list_all (lawful_resolution intake) rs" using rs each_once_all [OF _ validate_resolution_lawful] by auto
  moreover have "list_all (lawful_addition intake) as" using as each_once_all [OF _ validate_addition_lawful] by auto
  moreover have "list_all (lawful_retirement intake) (nd_retired d)" using re each_once_all [OF _ validate_retirement_lawful] by auto
  moreover have "distinct (map resolution_target rs)" using rs each_once_keys [OF _ validate_resolution_target] by auto
  moreover have "distinct (map ad_anchor as)" using as each_once_keys [OF _ validate_addition_target] by auto
  moreover have "distinct (map fst (nd_retired d))" using re each_once_keys [OF _ validate_retirement_target] by auto
  moreover have "list_all (lawful_resolution intake) (nd_resolutions d) = list_all (lawful_resolution intake) rs"
    by (rule list_all_same [OF kept(1) lawful_resolution_same])
  moreover have "list_all (lawful_addition intake) (nd_additions d) = list_all (lawful_addition intake) as"
    by (rule list_all_same [OF kept(2) lawful_addition_same])
  moreover have "map resolution_target (nd_resolutions d) = map resolution_target rs"
    by (rule map_same [OF kept(1) same_resolution_target])
  moreover have "map ad_anchor (nd_additions d) = map ad_anchor as"
    by (rule map_same [OF kept(2)]) (simp add: same_addition_def)
  ultimately show ?thesis by simp
qed simp

section \<open>An accepted answer\<close>

text \<open>One reply that opens an account, retires an appendix on an approved contract, states a cost and confirms the attestation.\<close>

definition sample_J :: js_env where
  "sample_J = \<lparr>je_lower = (\<lambda>s. s), je_upper = (\<lambda>s. s), je_words = (\<lambda>s. s)\<rparr>"

definition no_vehicle :: raw_stated_vehicle where
  "no_vehicle = \<lparr>rv_manufacturer = [], rv_model = [], rv_year = 0, rv_plate = [], rv_cost = 0, rv_currency = [], rv_message = [], rv_quote = []\<rparr>"

definition no_cost :: raw_stated_cost where
  "no_cost = \<lparr>rc_amount = 0, rc_currency = [], rc_message = [], rc_quote = []\<rparr>"

definition bare_answer :: "decision_kind \<Rightarrow> raw_decision" where
  "bare_answer k = \<lparr>rd_decision = k, rd_reasoning = [], rd_collected = [], rd_matched = [], rd_text = None, rd_template = None,
     rd_send_at = None, rd_fetch_action = None, rd_fetch_provider = None, rd_fetch_keys = None, rd_resolved = None, rd_added = None,
     rd_retired = None, rd_costs = [], rd_vehicles = [], rd_attestation = None, rd_attestation_evidence = None\<rparr>"

definition sample_intake :: intake_state where
  "sample_intake = \<lparr>in_resolvable = [\<lparr>rw_id = ''b'', rw_status = Unresolved, rw_type = Some ''bank_balance'', rw_multi = True\<rparr>],
     in_typed = [\<lparr>tr_id = ''r'', tr_status = Approved, tr_type = Some ''real_estate'', tr_multi = True, tr_paper = Some ''payments_appendix''\<rparr>,
        \<lparr>tr_id = ''s'', tr_status = Pending, tr_type = Some ''real_estate'', tr_multi = True, tr_paper = Some ''cost_declaration''\<rparr>],
     in_texts = (\<lambda>m. if m = ''m'' then Some (jstr ''I have one account, paid 85000'') else None),
     in_approved = (\<lambda>f. if f = ''f'' then Some \<lparr>ap_document = ''q'', ap_seller = Some SellerPrivate\<rparr> else None),
     in_self_evident = (\<lambda>_. None), in_all_settled = False, in_attestation_requested = True, in_confirmable = [''m''],
     in_attestation_confirmed = False\<rparr>"

definition sample_ctx :: decision_context where
  "sample_ctx = \<lparr>dc_window_open = True, dc_templates = [], dc_hidden = [], dc_fetch = [], dc_intake = Some sample_intake, dc_after_verification = False\<rparr>"

definition sample_reply :: raw_decision where
  "sample_reply = (bare_answer FollowUp)\<lparr>rd_text := Some [1513], rd_send_at := Some (jstr ''asap''),
     rd_resolved := Some [\<lparr>rr_document = ''b'', rr_required = True,
        rr_instances = Some [\<lparr>ri_name = [1489], ri_description = None, ri_already_provided = False, ri_file_ids = [], ri_paper_key = [],
           ri_cost = no_cost, ri_vehicle = no_vehicle\<rparr>],
        rr_evidence = Some (''m'', jstr ''one account''), rr_proven_by = []\<rparr>],
     rd_retired := Some [\<lparr>rt_document = ''r'', rt_evidence = None, rt_proven_by = ''f''\<rparr>],
     rd_costs := [(''s'', \<lparr>rc_amount = 85000, rc_currency = jstr ''ILS'', rc_message = ''m'', rc_quote = jstr ''paid 85000''\<rparr>)],
     rd_attestation := Some AttestConfirmed, rd_attestation_evidence := Some (''m'', jstr ''one account'')\<rparr>"



lemma sample_quotes:
  "quote_appears_in (jstr ''one account'') (jstr ''I have one account, paid 85000'')"
  "quote_appears_in (jstr ''paid 85000'') (jstr ''I have one account, paid 85000'')"
  by (simp_all add: quote_appears_in_def norm_quote_def js_trim_def js_space_def)

lemma sample_amount: "amount_appears_in 85000 (jstr ''paid 85000'')"
proof -
  have "amount_tokens (jstr ''paid 85000'') = [([56, 53, 48, 48, 48], 1)]"
    by (simp add: amount_tokens.simps is_digit_def take_multiplier_def MILLION_WORD_def THOUSAND_WORD_def Let_def)
  moreover have "filter (\<lambda>c. \<not> direction_mark c) (jstr ''paid 85000'') = jstr ''paid 85000''" by (simp add: direction_mark_def)
  moreover have "token_value [56, 53, 48, 48, 48] = Some 85000"
    by (simp add: token_value_def number_of_text_def decimal_of_def exponent_of_def is_digit_def radix_digit_def js_trim_def js_space_def)
  ultimately show ?thesis by (simp only: amount_appears_in_def) simp
qed

lemma sample_types:
  "instance_paper_fault None (Some ''bank_balance'') = None"
  "paper_stated_by (Some ''cost_declaration'') = Some StateCost"
  by (simp add: instance_paper_fault_def papers_of_def truthy_def get_catalog_type_def CAPITAL_DOCUMENT_CATALOG_def)
    (simp add: paper_stated_by_def paper_may_be_stated_in_chat_def get_catalog_paper_def paper_entry_def papers_by_key_def CAPITAL_DOCUMENT_CATALOG_def truthy_def
   REAL_ESTATE_PAPERS_def VEHICLE_PAPERS_def)

lemma sample_stages:
  "answer_ties_files sample_reply (intake_self_evident sample_ctx) = False"
  "validate_tax_fetch sample_reply sample_ctx = Inr None"
  "validate_added_instances sample_J [] sample_reply sample_ctx = Inr []"
  by (simp_all add: answer_ties_files_def sample_reply_def bare_answer_def or_nil_def intake_self_evident_def sample_ctx_def sample_intake_def
    validate_tax_fetch_def validate_added_instances_def with_intake_def)

lemma sample_retirements:
  "validate_retirements sample_reply sample_ctx = Inr [(''r'', ApprovedFileEvidence ''f'' ''q'' SellerPrivate)]"
  by (simp add: validate_retirements_def with_intake_def sample_reply_def sample_ctx_def sample_intake_def or_nil_def
   validate_retirement_def row_by_def validate_proven_by_file_def PAPERS_RETIRED_BY_PRIVATE_SELLER_def)

definition sample_instance :: resolved_instance where
  "sample_instance = \<lparr>rs_name = [1489], rs_description = None, rs_already_provided = False, rs_files = [], rs_paper = None,
                rs_cost = None, rs_vehicle = None\<rparr>"

lemma sample_resolutions:
  "validate_resolutions sample_J [] sample_reply sample_ctx = Inr [ResolveRequired ''b'' [sample_instance] (QuoteEvidence ''m'' (jstr ''one account''))]"
  using sample_quotes(1) sample_types(1)
  by (simp add: validate_resolutions_def with_intake_def sample_reply_def sample_ctx_def sample_intake_def or_nil_def
   validate_resolution_def row_by_def validate_evidence_def quoted_def normalize_instances_def raw_instance_of_def raw_stated_def raw_vehicle_facts_def
   has_any_vehicle_fact_def VEHICLE_FACT_KEYS_def no_vehicle_def no_cost_def non_blank_def first_paper_fault_def sample_instance_def
   instances_on_self_evident_file_def uniq_def js_trim_def js_space_def MAX_RESOLUTION_INSTANCES_def Let_def)

lemma sample_costs:
  "validate_stated_costs sample_J sample_reply sample_ctx [ResolveRequired ''b'' [sample_instance] e] []
   = Inr ([(''s'', \<lparr>sc_amount = 85000, sc_currency = jstr ''ILS'', sc_evidence = (''m'', jstr ''paid 85000'')\<rparr>)], [ResolveRequired ''b'' [sample_instance] e], [])"
  using sample_quotes(2) sample_types(2) sample_amount
  by (simp add: validate_stated_costs_def validate_statements_def sample_reply_def sample_ctx_def sample_intake_def
   validate_cost_entry_def stated_cost_target_fault_def row_by_def validate_cost_def validate_evidence_def normalize_currency_def
   on_resolution_def validate_instance_cost_def sample_instance_def sample_J_def js_trim_def js_space_def Let_def)

lemma sample_rest:
  "validate_stated_vehicles sample_J sample_reply sample_ctx [ResolveRequired ''b'' [sample_instance] e] [] = Inr ([], [ResolveRequired ''b'' [sample_instance] e], [])"
  "validate_attestation sample_reply sample_ctx = Inr (Some (ConfirmAttestation (''m'', jstr ''one account'')))"
  "decided_outcome sample_J sample_reply sample_ctx = Inr (Reply (Freeform [1513]) ASAP_SEND_AT)"
  using sample_quotes(1)
  by (simp_all add: validate_stated_vehicles_def validate_statements_def sample_reply_def sample_ctx_def sample_intake_def new_instances_def
   resolution_instances_def sample_instance_def bare_answer_def
   validate_attestation_def validate_evidence_def decided_outcome_def normalize_send_at_def sample_J_def js_trim_def js_space_def ASAP_SEND_AT_def
   normalize_follow_up_message_def filled_text_def)

lemma sample_accepted:
  "\<exists>d. normalize_decision sample_J [] sample_reply sample_ctx = Inr d \<and> nd_outcome d = Reply (Freeform [1513]) ASAP_SEND_AT"
proof -
  have "rd_decision sample_reply = FollowUp" by (simp add: sample_reply_def bare_answer_def)
  then show ?thesis
  by (simp add: normalize_decision_def sample_stages shape_guard_def sample_retirements sample_resolutions sample_costs sample_rest)
qed
section \<open>Properties\<close>

text \<open>C7: Every change an accepted answer makes to the checklist is grounded: a row is dismissed only on words found in a stored message of the client, required only on such words or on a self-evident file of its own type that proves its one item, an instance is added only on those or on an approved contract of a builder (payments appendix only), and a row is retired only on such words or on an approved contract of a private seller (payments appendix or builder report only).\<close>

theorem accepted_changes_grounded:
  assumes "normalize_decision J tab r ctx = Inr d" and "dc_intake ctx = Some intake"
  shows "list_all (lawful_resolution intake) (nd_resolutions d) \<and> list_all (lawful_addition intake) (nd_additions d)
    \<and> list_all (lawful_retirement intake) (nd_retired d)"
  using accepted_lists [OF assms] by blast

lemma sample_context: "dc_intake sample_ctx = Some sample_intake"
  by (simp add: sample_ctx_def)

lemma accepted_changes_grounded_witness:
  "\<exists>d. normalize_decision sample_J [] sample_reply sample_ctx = Inr d \<and> list_all (lawful_retirement sample_intake) (nd_retired d)"
  using sample_accepted accepted_changes_grounded [OF _ sample_context] by blast

lemma lawful_resolution_bounds:
  "lawful_resolution intake r \<Longrightarrow> length (resolution_instances r) \<le> MAX_RESOLUTION_INSTANCES"
  by (cases r) (auto simp: lawful_resolution_def lawful_instances_def resolution_instances_def list_ex_iff)

lemma lawful_addition_bounds:
  "lawful_addition intake a \<Longrightarrow> 1 \<le> length (ad_instances a) \<and> length (ad_instances a) \<le> MAX_RESOLUTION_INSTANCES"
  by (auto simp: lawful_addition_def lawful_instances_def list_ex_iff Suc_le_eq)

text \<open>No accepted answer names a row twice, resolves a row into more than ten instances or into none, adds more than ten or none under one row, or gives a row of a single-instance type more than one.\<close>

theorem accepted_instances_bounded:
  assumes "normalize_decision J tab r ctx = Inr d" and "dc_intake ctx = Some intake"
  shows "distinct (map resolution_target (nd_resolutions d)) \<and> distinct (map ad_anchor (nd_additions d)) \<and> distinct (map fst (nd_retired d))
    \<and> (\<forall>a \<in> set (nd_additions d). 1 \<le> length (ad_instances a) \<and> length (ad_instances a) \<le> 10)
    \<and> (\<forall>i xs e. ResolveRequired i xs e \<in> set (nd_resolutions d) \<longrightarrow> 1 \<le> length xs \<and> length xs \<le> 10
        \<and> (\<exists>row \<in> set (in_resolvable intake). rw_id row = i \<and> (rw_multi row \<or> length xs = 1)))"
proof -
  note ok = accepted_lists [OF assms]
  have adds: "\<forall>a \<in> set (nd_additions d). 1 \<le> length (ad_instances a) \<and> length (ad_instances a) \<le> 10"
    using ok lawful_addition_bounds by (auto simp: list_all_iff MAX_RESOLUTION_INSTANCES_def)
  have "1 \<le> length xs \<and> length xs \<le> 10 \<and> (\<exists>row \<in> set (in_resolvable intake). rw_id row = i \<and> (rw_multi row \<or> length xs = 1))"
    if mem: "ResolveRequired i xs e \<in> set (nd_resolutions d)" for i xs e
  proof -
    have "lawful_resolution intake (ResolveRequired i xs e)" using ok mem by (simp add: list_all_iff)
    then show ?thesis by (auto simp: lawful_resolution_def lawful_instances_def list_ex_iff MAX_RESOLUTION_INSTANCES_def Suc_le_eq)
  qed
  then show ?thesis using ok adds by blast
qed

lemma accepted_instances_bounded_witness:
  "\<exists>d. normalize_decision sample_J [] sample_reply sample_ctx = Inr d \<and> distinct (map resolution_target (nd_resolutions d))"
  using sample_accepted accepted_instances_bounded [OF _ sample_context] by blast

section \<open>The shape of an answer\<close>

lemma send_at_form: "normalize_send_at J v = Some t \<Longrightarrow> t = ASAP_SEND_AT \<or> WALL_CLOCK_RE t"
  by (auto simp: normalize_send_at_def is_wall_clock_date_time_def split: option.splits if_splits)

lemma message_form:
  assumes "normalize_follow_up_message r ctx = Inr m"
  shows "case m of Freeform body \<Rightarrow> dc_window_open ctx \<and> js_trim body \<noteq> [] \<and> rd_template r = None
    | Template sid vars body \<Rightarrow> \<not> filled_text (rd_text r) \<and>
        (\<exists>t \<in> set (dc_templates ctx). wt_sid t = sid \<and> length vars = wt_variable_count t \<and> body = render_template_body vars (wt_body t))"
  using assms
  by (auto simp: normalize_follow_up_message_def filled_text_def guard_Inr_iff simp del: not_None_eq split: option.splits if_splits dest!: find_Some_mem)
    blast+

lemma reply_outcome:
  assumes "decided_outcome J r ctx = Inr out" and "rd_decision r = FollowUp"
  obtains m t where "out = Reply m t" "normalize_send_at J (rd_send_at r) = Some t" "normalize_follow_up_message r ctx = Inr m"
proof -
  obtain t where t: "normalize_send_at J (rd_send_at r) = Some t"
    using assms by (auto simp: decided_outcome_def split: option.splits)
  then obtain m where "normalize_follow_up_message r ctx = Inr m" "out = Reply m t"
    using assms by (auto simp: decided_outcome_def rbind_Inr_iff)
  then show ?thesis using t that by blast
qed

lemma untied_lists: "\<not> answer_ties_files r ss \<Longrightarrow> rd_collected r = [] \<and> rd_matched r = []"
  by (auto simp: answer_ties_files_def split: if_splits)

text \<open>C14: An accepted refusal carries nothing else; an accepted collecting answer ties a file, carries no fetch step and no attestation request and is never the answer of the cycle after a verification; an accepted reply ties no file, carries exactly one message, free text only while the window is open and otherwise a registered template with as many variables as it has slots, and a send time that is a wall clock or the immediate marker.\<close>

theorem accepted_answer_shape:
  assumes "normalize_decision J tab r ctx = Inr d"
  shows "case nd_outcome d of
      Declined \<Rightarrow> nd_collected d = [] \<and> nd_matched d = [] \<and> nd_fetch d = None \<and> nd_resolutions d = [] \<and> nd_additions d = []
        \<and> nd_retired d = [] \<and> nd_costs d = [] \<and> nd_vehicles d = [] \<and> nd_attestation d = None \<and> \<not> filled_message_fields r
    | Collecting \<Rightarrow> \<not> dc_after_verification ctx \<and> answer_ties_files r (intake_self_evident ctx) \<and> \<not> filled_message_fields r
        \<and> nd_fetch d = None \<and> nd_attestation d \<noteq> Some RequestAttestation
    | Reply m t \<Rightarrow> nd_collected d = [] \<and> nd_matched d = [] \<and> \<not> answer_ties_files r (intake_self_evident ctx)
        \<and> (t = ASAP_SEND_AT \<or> WALL_CLOCK_RE t)
        \<and> (case m of Freeform body \<Rightarrow> dc_window_open ctx \<and> js_trim body \<noteq> [] \<and> rd_template r = None
           | Template sid vars body \<Rightarrow> \<not> filled_text (rd_text r) \<and> (\<exists>w \<in> set (dc_templates ctx). wt_sid w = sid
               \<and> length vars = wt_variable_count w \<and> body = render_template_body vars (wt_body w)))
    | GoalDone \<Rightarrow> rd_decision r = GoalComplete"
  using assms
proof (cases rule: accepted_cases)
  case declined
  then show ?thesis by (auto simp: decline_extras_def)
next
  case (decided fetch rs as rs' as')
  note shape = decided(2) and out = decided(10)
  show ?thesis
  proof (cases "rd_decision r")
    case Collect
    then have "nd_outcome d = Collecting" using out by (simp add: decided_outcome_def)
    moreover have "nd_attestation d \<noteq> Some RequestAttestation"
      using decided(9) Collect by (auto simp: validate_attestation_def rbind_Inr_iff split: option.splits if_splits attestation_step.splits)
    ultimately show ?thesis using shape Collect decided(14) by (simp add: shape_guard_def guard_Inr_iff)
  next
    case GoalComplete
    then show ?thesis using out by (simp add: decided_outcome_def)
  next
    case FollowUp
    then obtain m t where "nd_outcome d = Reply m t" "normalize_send_at J (rd_send_at r) = Some t" "normalize_follow_up_message r ctx = Inr m"
      using reply_outcome [OF out] by blast
    moreover have "\<not> answer_ties_files r (intake_self_evident ctx)" using shape FollowUp by (simp add: shape_guard_def guard_Inr_iff)
    ultimately show ?thesis
      using message_form [of r ctx m] send_at_form untied_lists [of r "intake_self_evident ctx"] decided(11,12)
      by (simp add: validate_matched_files_def)
  qed (use decided(1) in simp)
qed

lemma accepted_answer_shape_witness: "dc_window_open sample_ctx"
  using sample_accepted accepted_answer_shape [of sample_J "[]" sample_reply sample_ctx] by auto

lemma no_changes_listed:
  assumes "changes_this_cycle r = 0"
  shows "or_nil (rd_resolved r) = []" "or_nil (rd_added r) = []" "or_nil (rd_retired r) = []" "rd_costs r = []" "rd_vehicles r = []"
  using assms by (simp_all add: changes_this_cycle_def)

lemma attestation_step_of:
  assumes "validate_attestation r ctx = Inr att" and "dc_intake ctx = Some intake"
  shows "att = None \<or> att = Some RequestAttestation \<and> rd_decision r = FollowUp \<and> in_all_settled intake \<and> changes_this_cycle r = 0
       \<and> \<not> in_attestation_confirmed intake
     \<or> (\<exists>e. att = Some (ConfirmAttestation e) \<and> in_attestation_requested intake \<and> \<not> in_attestation_confirmed intake
       \<and> fst e \<in> set (in_confirmable intake) \<and> quoted_words intake e)"
  using assms
  by (auto simp: validate_attestation_def rbind_Inr_iff validate_evidence_Inr split: option.splits if_splits attestation_step.splits)

text \<open>C12: The closing summary is requested only by a reply, when every item is settled and the answer changes nothing on the checklist; it counts as confirmed only when a summary was sent, the cited message came after it and the quoted words are in that message.\<close>

theorem attestation_rests_on_reply:
  assumes "normalize_decision J tab r ctx = Inr d" and "dc_intake ctx = Some intake"
  shows "(nd_attestation d = Some RequestAttestation \<longrightarrow> (\<exists>m t. nd_outcome d = Reply m t) \<and> in_all_settled intake
       \<and> nd_resolutions d = [] \<and> nd_additions d = [] \<and> nd_retired d = [] \<and> nd_costs d = [] \<and> nd_vehicles d = [])
     \<and> (\<forall>e. nd_attestation d = Some (ConfirmAttestation e) \<longrightarrow> in_attestation_requested intake \<and> \<not> in_attestation_confirmed intake
       \<and> fst e \<in> set (in_confirmable intake) \<and> quoted_words intake e)"
  using assms(1)
proof (cases rule: accepted_cases)
  case (decided fetch rs as rs' as')
  note att = attestation_step_of [OF decided(9) assms(2)]
  show ?thesis
  proof (cases "nd_attestation d = Some RequestAttestation")
    case True
    then have r: "rd_decision r = FollowUp" "in_all_settled intake" "changes_this_cycle r = 0" using att by auto
    note none = no_changes_listed [OF r(3)]
    have "rs = []" "as = []" "nd_retired d = []"
      using decided(4,5,6) none
      by (simp_all add: validate_resolutions_def validate_added_instances_def validate_retirements_def with_intake_def)
    moreover have "nd_costs d = [] \<and> rs' = [] \<and> as' = []"
      using decided(7) none calculation by (simp add: validate_stated_costs_def validate_statements_def new_instances_def)
    moreover have "nd_vehicles d = [] \<and> nd_resolutions d = [] \<and> nd_additions d = []"
      using decided(8) none calculation by (simp add: validate_stated_vehicles_def validate_statements_def new_instances_def)
    moreover have "\<exists>m t. nd_outcome d = Reply m t"
      using reply_outcome [OF decided(10) r(1)] by blast
    ultimately show ?thesis using r True by simp
  next
    case False
    then show ?thesis using att by auto
  qed
qed simp

lemma sample_confirms:
  "\<exists>d. normalize_decision sample_J [] sample_reply sample_ctx = Inr d \<and> nd_attestation d = Some (ConfirmAttestation (''m'', jstr ''one account''))"
proof -
  have "rd_decision sample_reply = FollowUp" by (simp add: sample_reply_def bare_answer_def)
  then show ?thesis
    by (simp add: normalize_decision_def sample_stages shape_guard_def sample_retirements sample_resolutions sample_costs sample_rest)
qed

lemma attestation_rests_on_reply_witness: "''m'' \<in> set (in_confirmable sample_intake)"
  using sample_confirms attestation_rests_on_reply [of sample_J "[]" sample_reply sample_ctx, OF _ sample_context] by fastforce

section \<open>Statements and fetch steps\<close>

lemma rmap_all2: "rmap f xs = Inr ys \<Longrightarrow> (\<And>x y. f x = Inr y \<Longrightarrow> R x y) \<Longrightarrow> list_all2 R xs ys"
  by (auto simp: rmap_Inr_iff elim: list_all2_mono)

lemma concat_all2: "list_all2 (\<lambda>r s. list_all2 R (f r) (f s)) rs ss \<Longrightarrow> list_all2 R (concat (map f rs)) (concat (map f ss))"
  by (induction rule: list_all2_induct) (auto intro: list_all2_appendI)

text \<open>Every instance of the accepted answer went through the check, unless it carries no such statement.\<close>

lemma statements_instances:
  assumes "validate_statements carries check_entry check_instance entries ctx rs as = Inr (ss, rs', as')" and "dc_intake ctx = Some intake"
  shows "list_all2 (\<lambda>i j. check_instance intake i = Inr j \<or> j = i \<and> \<not> carries i) (new_instances rs as) (new_instances rs' as')"
proof (cases "entries = [] \<and> \<not> list_ex carries (new_instances rs as)")
  case True
  then show ?thesis using assms(1) by (auto simp: validate_statements_def list_ex_iff intro!: list.rel_refl_strong)
next
  case False
  let ?R = "\<lambda>i j. check_instance intake i = Inr j \<or> j = i \<and> \<not> carries i"
  have p: "rmap (on_resolution (check_instance intake)) rs = Inr rs'" "rmap (on_addition (check_instance intake)) as = Inr as'"
    using assms False by (auto simp: validate_statements_def rbind_Inr_iff)
  have "list_all2 (\<lambda>r s. list_all2 ?R (resolution_instances r) (resolution_instances s)) rs rs'"
  proof (rule rmap_all2 [OF p(1)])
    fix r s assume "on_resolution (check_instance intake) r = Inr s"
    then show "list_all2 ?R (resolution_instances r) (resolution_instances s)"
      by (cases r) (auto simp: on_resolution_def resolution_instances_def rbind_Inr_iff rmap_Inr_iff elim: list_all2_mono)
  qed
  moreover have "list_all2 (\<lambda>a b. list_all2 ?R (ad_instances a) (ad_instances b)) as as'"
  proof (rule rmap_all2 [OF p(2)])
    fix a b assume "on_addition (check_instance intake) a = Inr b"
    then show "list_all2 ?R (ad_instances a) (ad_instances b)"
      by (auto simp: on_addition_def rbind_Inr_iff rmap_Inr_iff elim: list_all2_mono)
  qed
  ultimately show ?thesis unfolding new_instances_def by (intro list_all2_appendI concat_all2)
qed

definition grounded_cost :: "intake_state \<Rightarrow> stated_cost \<Rightarrow> bool" where
  "grounded_cost intake c = (amount_appears_in (sc_amount c) (snd (sc_evidence c)) \<and> quoted_words intake (sc_evidence c)
     \<and> length (sc_currency c) = 3)"

definition grounded_vehicle :: "js_env \<Rightarrow> intake_state \<Rightarrow> stated_vehicle \<Rightarrow> bool" where
  "grounded_vehicle J intake v = (quoted_words intake (sv_evidence v) \<and> (\<forall>k. fact_in_quote J (sv_facts v) (snd (sv_evidence v)) k)
     \<and> (case vf_production_year (sv_facts v) of None \<Rightarrow> True | Some y \<Rightarrow> is_integer y \<and> 1900 \<le> y \<and> y \<le> 2100))"

lemma validate_cost_grounded: "validate_cost J intake c = Inr c' \<Longrightarrow> grounded_cost intake c'"
  by (auto simp: validate_cost_def grounded_cost_def normalize_currency_def rbind_Inr_iff validate_evidence_Inr Let_def split: if_splits)

lemma no_facts_in_quote: "\<not> has_any_vehicle_fact f \<Longrightarrow> fact_in_quote J f q k"
  by (cases k) (auto simp: has_any_vehicle_fact_def VEHICLE_FACT_KEYS_def)

lemma normalize_facts_year:
  "normalize_facts J f = Inr g \<Longrightarrow> (case vf_production_year g of None \<Rightarrow> True | Some y \<Rightarrow> is_integer y \<and> 1900 \<le> y \<and> y \<le> 2100)"
  by (auto simp: normalize_facts_def rbind_Inr_iff split: option.splits if_splits)

lemma validate_vehicle_grounded:
  assumes "validate_vehicle J intake e f = Inr v"
  shows "grounded_vehicle J intake v"
proof -
  obtain g where g: "normalize_facts J f = Inr g" "quoted_words intake e" "v = \<lparr>sv_facts = g, sv_evidence = e\<rparr>"
    and none: "(if has_any_vehicle_fact g then vehicle_fact_missing_from_quote J g (snd e) else None) = None"
    using assms by (auto simp only: validate_vehicle_def rbind_Inr_iff validate_evidence_Inr fault_Inr_iff option.inject sum.inject)
  have "fact_in_quote J g (snd e) k" for k
    using none no_fact_missing [of J g "snd e"] no_facts_in_quote [of g J "snd e" k] by (simp split: if_splits)
  then show ?thesis using g normalize_facts_year [OF g(1)] by (simp add: grounded_vehicle_def)
qed

lemma cost_entry_grounded:
  "validate_cost_entry J intake e = Inr x \<Longrightarrow> grounded_cost intake (snd x)
     \<and> (\<exists>row \<in> set (in_typed intake). tr_id row = fst x \<and> tr_status row = Pending \<and> paper_stated_by (tr_paper row) = Some StateCost)"
  by (auto simp: validate_cost_entry_def stated_cost_target_fault_def rbind_Inr_iff validate_cost_grounded
      split: option.splits if_splits dest!: row_by_Some)

lemma vehicle_entry_grounded:
  "validate_vehicle_entry J intake e = Inr x \<Longrightarrow> grounded_vehicle J intake (snd x)
     \<and> (\<exists>row \<in> set (in_typed intake). tr_id row = fst x \<and> tr_status row \<in> {Pending, Stated} \<and> paper_stated_by (tr_paper row) = Some StateVehicle)"
  by (auto simp: validate_vehicle_entry_def stated_vehicle_target_fault_def rbind_Inr_iff validate_vehicle_grounded
      split: option.splits if_splits dest!: row_by_Some)

definition grounded_instance :: "js_env \<Rightarrow> intake_state \<Rightarrow> resolved_instance \<Rightarrow> bool" where
  "grounded_instance J intake i =
     ((case rs_cost i of None \<Rightarrow> True | Some c \<Rightarrow> grounded_cost intake c \<and> paper_stated_by (rs_paper i) = Some StateCost)
      \<and> (case rs_vehicle i of None \<Rightarrow> True | Some v \<Rightarrow> grounded_vehicle J intake v \<and> paper_stated_by (rs_paper i) = Some StateVehicle))"

lemma instance_cost_step:
  "validate_instance_cost J intake i = Inr j \<or> j = i \<and> \<not> rs_cost i \<noteq> None
   \<Longrightarrow> case rs_cost j of None \<Rightarrow> True | Some c \<Rightarrow> grounded_cost intake c \<and> paper_stated_by (rs_paper j) = Some StateCost"
  by (auto simp: validate_instance_cost_def rbind_Inr_iff validate_cost_grounded split: option.splits if_splits)

lemma instance_vehicle_step:
  "validate_instance_vehicle J intake i = Inr j \<or> j = i \<and> \<not> rs_vehicle i \<noteq> None
   \<Longrightarrow> (case rs_vehicle j of None \<Rightarrow> True | Some v \<Rightarrow> grounded_vehicle J intake v \<and> paper_stated_by (rs_paper j) = Some StateVehicle)
     \<and> rs_cost j = rs_cost i \<and> rs_paper j = rs_paper i"
  by (auto simp: validate_instance_vehicle_def rbind_Inr_iff validate_vehicle_grounded split: option.splits if_splits)

lemma all2_right: "list_all2 R xs ys \<Longrightarrow> (\<And>x y. R x y \<Longrightarrow> P y) \<Longrightarrow> list_all P ys"
  by (induction rule: list_all2_induct) auto

lemma all2_transfer: "list_all2 R xs ys \<Longrightarrow> list_all P xs \<Longrightarrow> (\<And>x y. R x y \<Longrightarrow> P x \<Longrightarrow> Q y) \<Longrightarrow> list_all Q ys"
  by (induction rule: list_all2_induct) auto

lemma statements_entries:
  assumes "validate_statements carries check_entry check_instance entries ctx rs as = Inr (ss, rs', as')" and "dc_intake ctx = Some intake"
    and "\<And>e x. check_entry intake e = Inr x \<Longrightarrow> P x"
  shows "list_all P ss"
  using assms(1,2) each_once_all [OF _ assms(3)]
  by (auto simp: validate_statements_def rbind_Inr_iff split: if_splits)

text \<open>C13: Every purchase cost an accepted answer states, on an existing item or on a new one, is written in the quoted words as a positive number, the words are in a stored message of the client, and the item is a pending property cost declaration (a new item is of that paper); every stated vehicle fact is written in its quote in the same way and the item is a pending or stated vehicle declaration.\<close>

theorem statements_are_the_clients_words:
  assumes "normalize_decision J tab r ctx = Inr d" and "dc_intake ctx = Some intake"
  shows "list_all (\<lambda>x. grounded_cost intake (snd x) \<and> (\<exists>row \<in> set (in_typed intake). tr_id row = fst x \<and> tr_status row = Pending
        \<and> paper_stated_by (tr_paper row) = Some StateCost)) (nd_costs d)
    \<and> list_all (\<lambda>x. grounded_vehicle J intake (snd x) \<and> (\<exists>row \<in> set (in_typed intake). tr_id row = fst x \<and> tr_status row \<in> {Pending, Stated}
        \<and> paper_stated_by (tr_paper row) = Some StateVehicle)) (nd_vehicles d)
    \<and> list_all (grounded_instance J intake) (new_instances (nd_resolutions d) (nd_additions d))"
  using assms(1)
proof (cases rule: accepted_cases)
  case (decided fetch rs as rs' as')
  note costs = decided(7) [unfolded validate_stated_costs_def] and vehicles = decided(8) [unfolded validate_stated_vehicles_def]
  have "list_all (\<lambda>j. case rs_cost j of None \<Rightarrow> True | Some c \<Rightarrow> grounded_cost intake c \<and> paper_stated_by (rs_paper j) = Some StateCost) (new_instances rs' as')"
    by (rule all2_right [OF statements_instances [OF costs assms(2)]]) (rule instance_cost_step)
  then have "list_all (grounded_instance J intake) (new_instances (nd_resolutions d) (nd_additions d))"
  proof (rule all2_transfer [OF statements_instances [OF vehicles assms(2)]])
    fix i j
    assume step: "validate_instance_vehicle J intake i = Inr j \<or> j = i \<and> \<not> rs_vehicle i \<noteq> None"
      and cost: "case rs_cost i of None \<Rightarrow> True | Some c \<Rightarrow> grounded_cost intake c \<and> paper_stated_by (rs_paper i) = Some StateCost"
    show "grounded_instance J intake j" using instance_vehicle_step [OF step] cost
      by (auto simp: grounded_instance_def split: option.splits)
  qed
  then show ?thesis
    using statements_entries [OF costs assms(2) cost_entry_grounded] statements_entries [OF vehicles assms(2) vehicle_entry_grounded] by simp
qed (simp add: new_instances_def)

lemma statements_are_the_clients_words_witness:
  "\<exists>d. normalize_decision sample_J [] sample_reply sample_ctx = Inr d \<and> list_all (grounded_instance sample_J sample_intake) (new_instances (nd_resolutions d) (nd_additions d))"
  using sample_accepted statements_are_the_clients_words [OF _ sample_context] by blast

text \<open>A document-fetch step of an accepted answer is one the provider's state allows: nothing after a delivery, only stopping while a browser session is live, a login only when the fetch is available and the client is on WhatsApp now; it covers only documents still pending at that provider.\<close>

theorem fetch_step_allowed:
  assumes "normalize_decision J tab r ctx = Inr d" and "nd_fetch d = Some t"
  shows "\<exists>st \<in> set (dc_fetch ctx). fs_provider st = td_provider t \<and> set (td_keys t) \<subseteq> set (fs_keys st) \<and> fs_state st \<noteq> ''delivered''
     \<and> (fs_state st \<in> {''awaiting_otp'', ''in_progress''} \<longrightarrow> td_action t = CancelFetch)
     \<and> (td_action t = StartLogin \<longrightarrow> fs_available st \<and> fs_on_whatsapp st)
     \<and> (td_action t = ClientAgreed \<longrightarrow> fs_available st)"
  using assms(1)
proof (cases rule: accepted_cases)
  case (decided fetch rs as rs' as')
  then have f: "validate_tax_fetch r ctx = Inr (Some t)" using assms(2) by (simp split: if_splits)
  then obtain st where st: "List.find (\<lambda>t. Some (fs_provider t) = rd_fetch_provider r) (dc_fetch ctx) = Some st"
    and t: "td_action t \<in> set (allowed_tax_fetch_actions (fs_state st) (fs_available st) (fs_on_whatsapp st))"
    "set (td_keys t) \<subseteq> set (fs_keys st)" "td_provider t = fs_provider st"
    by (auto simp: validate_tax_fetch_def Let_def split: option.splits if_splits)
  show ?thesis
    using find_Some_mem [OF st] t
    by (intro bexI [of _ st]) (auto simp: allowed_tax_fetch_actions_def Let_def split: if_splits)
qed (use assms(2) in simp)

definition agreed_state :: tax_fetch_state where
  "agreed_state = \<lparr>fs_provider = ''p'', fs_state = ''agreed'', fs_available = True, fs_on_whatsapp = True, fs_keys = [''k'']\<rparr>"

definition login_answer :: raw_decision where
  "login_answer = (bare_answer FollowUp)\<lparr>rd_text := Some [1513], rd_send_at := Some (jstr ''asap''), rd_fetch_action := Some StartLogin,
     rd_fetch_provider := Some ''p''\<rparr>"

definition login_ctx :: decision_context where
  "login_ctx = sample_ctx\<lparr>dc_fetch := [agreed_state]\<rparr>"

lemma login_stages:
  "rd_decision login_answer = FollowUp"
  "answer_ties_files login_answer (intake_self_evident login_ctx) = False" "validate_resolutions sample_J [] login_answer login_ctx = Inr []"
  "validate_added_instances sample_J [] login_answer login_ctx = Inr []" "validate_retirements login_answer login_ctx = Inr []"
  "validate_stated_costs sample_J login_answer login_ctx [] [] = Inr ([], [], [])"
  "validate_stated_vehicles sample_J login_answer login_ctx [] [] = Inr ([], [], [])"
  "validate_attestation login_answer login_ctx = Inr None"
  "validate_tax_fetch login_answer login_ctx = Inr (Some \<lparr>td_action = StartLogin, td_provider = ''p'', td_keys = [''k'']\<rparr>)"
  "decided_outcome sample_J login_answer login_ctx = Inr (Reply (Freeform [1513]) ASAP_SEND_AT)"
  by (simp_all add: login_answer_def login_ctx_def agreed_state_def answer_ties_files_def bare_answer_def or_nil_def validate_resolutions_def
      validate_added_instances_def validate_retirements_def with_intake_def validate_stated_costs_def validate_stated_vehicles_def
      validate_statements_def new_instances_def validate_attestation_def validate_tax_fetch_def sample_ctx_def truthy_def
      allowed_tax_fetch_actions_def decided_outcome_def normalize_send_at_def sample_J_def js_trim_def js_space_def ASAP_SEND_AT_def
      normalize_follow_up_message_def filled_text_def Let_def)

lemma fetch_step_allowed_witness: "\<exists>st \<in> set [agreed_state]. fs_on_whatsapp st"
proof -
  obtain d where d: "normalize_decision sample_J [] login_answer login_ctx = Inr d"
    "nd_fetch d = Some \<lparr>td_action = StartLogin, td_provider = ''p'', td_keys = [''k'']\<rparr>"
    by (simp add: normalize_decision_def login_stages shape_guard_def)
  have "dc_fetch login_ctx = [agreed_state]" by (simp add: login_ctx_def)
  then show ?thesis using fetch_step_allowed [OF d] by simp
qed

text \<open>The gate does not look at the message fields, the send time, the collected ids or the tied pairs of a goal_complete answer: with any of them filled it is accepted or rejected just as without them, and the ids and pairs reach the plan.\<close>

theorem goal_complete_answer_unchecked:
  assumes "rd_decision r = GoalComplete"
  shows "normalize_decision J tab (r\<lparr>rd_text := a, rd_template := b, rd_send_at := c, rd_collected := ids, rd_matched := ms\<rparr>) ctx
    = rbind (normalize_decision J tab r ctx)
        (\<lambda>d. Inr (d\<lparr>nd_collected := ids, nd_matched := validate_matched_files (r\<lparr>rd_matched := ms\<rparr>) ctx\<rparr>))"
proof -
  let ?r = "r\<lparr>rd_text := a, rd_template := b, rd_send_at := c, rd_collected := ids, rd_matched := ms\<rparr>"
  have same: "validate_tax_fetch ?r ctx = validate_tax_fetch r ctx" "validate_resolutions J tab ?r ctx = validate_resolutions J tab r ctx"
    "validate_added_instances J tab ?r ctx = validate_added_instances J tab r ctx" "validate_retirements ?r ctx = validate_retirements r ctx"
    "validate_stated_costs J ?r = validate_stated_costs J r" "validate_stated_vehicles J ?r = validate_stated_vehicles J r"
    "validate_attestation ?r ctx = validate_attestation r ctx"
    "validate_matched_files ?r ctx = validate_matched_files (r\<lparr>rd_matched := ms\<rparr>) ctx"
    by (simp_all add: validate_tax_fetch_def validate_resolutions_def validate_added_instances_def validate_retirements_def
        validate_stated_costs_def validate_stated_vehicles_def validate_attestation_def validate_matched_files_def changes_this_cycle_def
        cong: option.case_cong attestation_step.case_cong if_cong)
  have bind: "rbind (rbind m f) g = rbind m (\<lambda>x. rbind (f x) g)" for m f g by (cases m) simp_all
  have out: "decided_outcome J ?r ctx = Inr GoalDone" "decided_outcome J r ctx = Inr GoalDone" "shape_guard ?r ctx t = Inr ()" "shape_guard r ctx t = Inr ()" for t
    using assms by (simp_all add: decided_outcome_def shape_guard_def)
  show ?thesis using assms by (simp add: normalize_decision_def same out bind split_def)
qed

lemma goal_complete_answer_unchecked_witness:
  "normalize_decision sample_J [] ((bare_answer GoalComplete)\<lparr>rd_text := Some [1513], rd_template := None, rd_send_at := Some ASAP_SEND_AT,
      rd_collected := [''s''], rd_matched := []\<rparr>) sample_ctx
   = rbind (normalize_decision sample_J [] (bare_answer GoalComplete) sample_ctx) (\<lambda>d. Inr (d\<lparr>nd_collected := [''s''], nd_matched := []\<rparr>))"
  by (subst goal_complete_answer_unchecked) (simp_all add: bare_answer_def validate_matched_files_def)

end
