(* ===== verification/TaxFetch.thy ===== *)
theory TaxFetch
  imports DecisionGate
begin

text \<open>
  The document fetch from a provider's site as the planner sees and steers it
  (\<open>taxFetch/flow.ts\<close>, \<open>db/queries/taxFetchSessions.ts\<close>): the sessions table with its
  unique index, the state of one provider for one client, and the three actions. The
  registry of providers (\<open>providers.ts\<close>), whose entries are an id, the document types
  with the names they recognise and the client's credentials, is an argument. The
  worker that moves the sessions on is in FetchRunner.
\<close>

section \<open>Sessions\<close>

datatype session_status = SAgreed | SIntroSent | SLoggingIn | SAwaitingOtp | SVerifying | SDownloading | SDelivered | SFailed | SExpired | SCancelled

definition ACTIVE_TAX_FETCH_STATUSES :: "session_status set" where
  "ACTIVE_TAX_FETCH_STATUSES = {SAgreed, SIntroSent, SLoggingIn, SAwaitingOtp, SVerifying, SDownloading}"

definition LIVE_BROWSER_STATUSES :: "session_status set" where
  "LIVE_BROWSER_STATUSES = {SLoggingIn, SAwaitingOtp, SVerifying, SDownloading}"

text \<open>The table lists the sessions in the order they were created.\<close>

record fetch_session =
  ts_id :: id
  ts_client :: id
  ts_provider :: string
  ts_document :: "id option"
  ts_status :: session_status
  ts_tax_year :: int
  ts_error :: "string option"
  ts_keys :: "string list option"

datatype fetch_job = JobStartLogin id "id option" | JobCancel id

record fetch_world =
  fw_sessions :: "fetch_session list"
  fw_jobs :: "(fetch_job \<times> int) list"

definition is_active :: "id \<Rightarrow> string \<Rightarrow> fetch_session \<Rightarrow> bool" where
  "is_active c p t = (ts_client t = c \<and> ts_provider t = p \<and> ts_status t \<in> ACTIVE_TAX_FETCH_STATUSES)"

definition active_session :: "id \<Rightarrow> string \<Rightarrow> fetch_session list \<Rightarrow> fetch_session option" where
  "active_session c p t = List.find (is_active c p) (rev t)"

definition latest_session :: "id \<Rightarrow> string \<Rightarrow> fetch_session list \<Rightarrow> fetch_session option" where
  "latest_session c p t = List.find (\<lambda>s. ts_client s = c \<and> ts_provider s = p) (rev t)"

definition set_document_keys :: "id \<Rightarrow> string list \<Rightarrow> fetch_session list \<Rightarrow> fetch_session list" where
  "set_document_keys i ks = update_where (\<lambda>s. ts_id s = i) (\<lambda>s. s\<lparr>ts_keys := Some ks\<rparr>)"

definition update_session_status :: "id \<Rightarrow> session_status \<Rightarrow> fetch_session list \<Rightarrow> fetch_session list" where
  "update_session_status i st = update_where (\<lambda>s. ts_id s = i) (\<lambda>s. s\<lparr>ts_status := st\<rparr>)"

text \<open>The partial unique index of the table: an insert of a second active session of the pair fails.\<close>

datatype fetch_error = ActiveSessionExists

definition insert_session :: "fetch_session \<Rightarrow> fetch_session list \<Rightarrow> (fetch_error, fetch_session list) result" where
  "insert_session s t = (if ts_status s \<in> ACTIVE_TAX_FETCH_STATUSES \<and> active_session (ts_client s) (ts_provider s) t \<noteq> None
     then Inl ActiveSessionExists else Inr (t @ [s]))"

section \<open>One provider's situation\<close>

record fetch_type =
  ty_key :: string
  ty_matches :: "utext \<Rightarrow> bool"

record fetch_provider =
  pv_id :: string
  pv_types :: "fetch_type list"
  pv_has_credentials :: bool

record fetch_type_state =
  tt_key :: string
  tt_pending :: "id option"
  tt_collected :: bool

record fetch_context =
  fc_provider :: string
  fc_available :: bool
  fc_state :: string
  fc_session :: "fetch_session option"
  fc_on_whatsapp :: bool
  fc_types :: "fetch_type_state list"

definition pending_keys :: "fetch_context \<Rightarrow> string list" where
  "pending_keys ctx = map tt_key (filter (\<lambda>t. tt_pending t \<noteq> None) (fc_types ctx))"

definition NO_DOCUMENTS_ERROR_PREFIX :: string where "NO_DOCUMENTS_ERROR_PREFIX = ''no documents found on the site''"

definition prompt_state_for :: "fetch_session \<Rightarrow> string" where
  "prompt_state_for s = (case ts_status s of
       SAgreed \<Rightarrow> ''agreed''
     | SIntroSent \<Rightarrow> ''wa_intro_sent''
     | SAwaitingOtp \<Rightarrow> ''awaiting_otp''
     | SLoggingIn \<Rightarrow> ''in_progress'' | SVerifying \<Rightarrow> ''in_progress'' | SDownloading \<Rightarrow> ''in_progress''
     | SDelivered \<Rightarrow> ''delivered''
     | SFailed \<Rightarrow> (case ts_error s of None \<Rightarrow> ''failed''
          | Some e \<Rightarrow> if is_prefix NO_DOCUMENTS_ERROR_PREFIX e then ''failed_no_documents'' else ''failed'')
     | _ \<Rightarrow> ''none'')"

definition document_type_state :: "fetch_type \<Rightarrow> docs \<Rightarrow> fetch_type_state" where
  "document_type_state ty ds =
     (let matching = filter (\<lambda>d. ty_matches ty (cd_name d)) ds in
      \<lparr>tt_key = ty_key ty, tt_pending = map_option cd_id (List.find (\<lambda>d. cd_status d = Pending) matching),
       tt_collected = list_ex (\<lambda>d. cd_status d = Collected) matching\<rparr>)"

definition load_context_for_provider ::
  "fetch_provider \<Rightarrow> id \<Rightarrow> docs \<Rightarrow> bool \<Rightarrow> bool \<Rightarrow> fetch_session list \<Rightarrow> fetch_context option"
where
  "load_context_for_provider pv c ds wa_allowed on_whatsapp t =
     (let types = map (\<lambda>ty. document_type_state ty ds) (pv_types pv);
          available = (pv_has_credentials pv \<and> list_ex (\<lambda>s. tt_pending s \<noteq> None) types \<and> wa_allowed);
          (session, state) =
            (case active_session c (pv_id pv) t of
               Some s \<Rightarrow> (Some s, prompt_state_for s)
             | None \<Rightarrow> (case latest_session c (pv_id pv) t of
                   Some s \<Rightarrow> if ts_status s \<in> {SDelivered, SFailed} then (Some s, prompt_state_for s) else (None, ''none'')
                 | None \<Rightarrow> (None, ''none'')))
      in if \<not> available \<and> state = ''none'' then None
         else Some \<lparr>fc_provider = pv_id pv, fc_available = available, fc_state = state, fc_session = session,
                fc_on_whatsapp = on_whatsapp, fc_types = types\<rparr>)"

definition load_tax_fetch_contexts ::
  "fetch_provider list \<Rightarrow> id \<Rightarrow> docs \<Rightarrow> bool \<Rightarrow> bool \<Rightarrow> ms option \<Rightarrow> fetch_session list \<Rightarrow> fetch_context list"
where
  "load_tax_fetch_contexts pvs c ds wa_allowed window_open last_inbound t =
     (let on_whatsapp = (wa_allowed \<and> window_open \<and> last_inbound \<noteq> None)
      in List.map_filter (\<lambda>pv. load_context_for_provider pv c ds wa_allowed on_whatsapp t) pvs)"

text \<open>What the gate sees of it (\<open>buildDecisionContext\<close>).\<close>

definition fetch_state_of :: "fetch_context \<Rightarrow> tax_fetch_state" where
  "fetch_state_of ctx = \<lparr>fs_provider = fc_provider ctx, fs_state = fc_state ctx, fs_available = fc_available ctx,
     fs_on_whatsapp = fc_on_whatsapp ctx, fs_keys = pending_keys ctx\<rparr>"

section \<open>The action of an answer\<close>

definition START_LOGIN_SEND_GRACE_MS :: int where "START_LOGIN_SEND_GRACE_MS = 5000"

definition effective_keys :: "string list option \<Rightarrow> fetch_context \<Rightarrow> string list" where
  "effective_keys agreed ctx =
     (let pending = pending_keys ctx;
          chosen = (case agreed of None \<Rightarrow> pending | Some ks \<Rightarrow> if ks = [] then pending else filter (\<lambda>k. k \<in> set pending) ks)
      in if chosen \<noteq> [] then chosen else pending)"

definition type_by_key :: "string \<Rightarrow> fetch_context \<Rightarrow> fetch_type_state option" where
  "type_by_key k ctx = List.find (\<lambda>t. tt_key t = k) (fc_types ctx)"

fun primary_document_id :: "string list \<Rightarrow> fetch_context \<Rightarrow> id option" where
  "primary_document_id [] ctx = None"
| "primary_document_id (k # ks) ctx =
     (case Option.bind (type_by_key k ctx) tt_pending of Some i \<Rightarrow> Some i | None \<Rightarrow> primary_document_id ks ctx)"

definition fresh_session :: "id \<Rightarrow> id \<Rightarrow> string list \<Rightarrow> fetch_context \<Rightarrow> int \<Rightarrow> fetch_session" where
  "fresh_session new_id c keys ctx tax_year =
     \<lparr>ts_id = new_id, ts_client = c, ts_provider = fc_provider ctx, ts_document = primary_document_id keys ctx, ts_status = SIntroSent,
      ts_tax_year = tax_year, ts_error = None, ts_keys = Some keys\<rparr>"

definition in_flight :: "fetch_context \<Rightarrow> fetch_session option" where
  "in_flight ctx = (case fc_session ctx of None \<Rightarrow> None
     | Some s \<Rightarrow> if ts_status s \<in> ACTIVE_TAX_FETCH_STATUSES then Some s else None)"

definition enqueue_tax_fetch :: "fetch_job \<Rightarrow> int \<Rightarrow> fetch_world \<Rightarrow> fetch_world" where
  "enqueue_tax_fetch j delay fw = fw\<lparr>fw_jobs := fw_jobs fw @ [(j, delay)]\<rparr>"

text \<open>The heads-up message of the answer, its id and its send delay; none on a completed goal.\<close>

definition apply_tax_fetch_action ::
  "id \<Rightarrow> id \<Rightarrow> (tax_fetch_action \<times> fetch_context) option \<Rightarrow> string list option \<Rightarrow> int \<Rightarrow> (id \<times> int) option
   \<Rightarrow> fetch_world \<Rightarrow> (fetch_error, fetch_world) result"
where
  "apply_tax_fetch_action new_id c act agreed tax_year message fw =
     (case act of None \<Rightarrow> Inr fw
      | Some (action, ctx) \<Rightarrow>
          (let keys = effective_keys agreed ctx;
               can_start = (fc_available ctx \<and> keys \<noteq> []);
               start = (\<lambda>i. enqueue_tax_fetch (JobStartLogin i (map_option fst message))
                  (case message of None \<Rightarrow> 0 | Some (_, d) \<Rightarrow> d + START_LOGIN_SEND_GRACE_MS))
           in case action of
                ClientAgreed \<Rightarrow>
                  (case in_flight ctx of
                     Some s \<Rightarrow> Inr (fw\<lparr>fw_sessions := (if ts_status s = SAgreed then update_session_status (ts_id s) SIntroSent else (\<lambda>t. t))
                                  (set_document_keys (ts_id s) keys (fw_sessions fw))\<rparr>)
                   | None \<Rightarrow> if \<not> can_start then Inr fw
                       else rbind (insert_session (fresh_session new_id c keys ctx tax_year) (fw_sessions fw))
                              (\<lambda>t. Inr (fw\<lparr>fw_sessions := t\<rparr>)))
              | StartLogin \<Rightarrow>
                  (case in_flight ctx of
                     Some s \<Rightarrow> Inr (start (ts_id s) (fw\<lparr>fw_sessions := set_document_keys (ts_id s) keys (fw_sessions fw)\<rparr>))
                   | None \<Rightarrow> if \<not> can_start then Inr fw
                       else rbind (insert_session (fresh_session new_id c keys ctx tax_year) (fw_sessions fw))
                              (\<lambda>t. Inr (start new_id (fw\<lparr>fw_sessions := t\<rparr>))))
              | CancelFetch \<Rightarrow>
                  (case fc_session ctx of None \<Rightarrow> Inr fw | Some s \<Rightarrow> Inr (enqueue_tax_fetch (JobCancel (ts_id s)) 0 fw))))"

section \<open>Properties\<close>

definition one_active :: "fetch_session list \<Rightarrow> bool" where
  "one_active t = (\<forall>c p. length (filter (is_active c p) t) \<le> 1)"

lemma active_session_None: "active_session c p t = None \<longleftrightarrow> filter (is_active c p) t = []"
  by (auto simp: active_session_def find_None_iff filter_empty_conv)

lemma active_session_Some: "active_session c p t = Some s \<Longrightarrow> s \<in> set t \<and> is_active c p s"
  using find_Some_mem [of "is_active c p" "rev t" s] by (simp add: active_session_def)

lemma insert_session_one_active:
  assumes "insert_session s t = Inr t'" and "one_active t"
  shows "one_active t'"
proof -
  have t': "t' = t @ [s]" and no: "ts_status s \<in> ACTIVE_TAX_FETCH_STATUSES \<Longrightarrow> filter (is_active (ts_client s) (ts_provider s)) t = []"
    using assms(1) by (auto simp: insert_session_def active_session_None split: if_splits)
  have "length (filter (is_active c p) t') \<le> 1" for c p
  proof (cases "is_active c p s")
    case True
    then have "ts_status s \<in> ACTIVE_TAX_FETCH_STATUSES" "c = ts_client s" "p = ts_provider s" by (auto simp: is_active_def)
    then show ?thesis using True no t' by simp
  next
    case False
    then show ?thesis using assms(2) t' by (simp add: one_active_def)
  qed
  then show ?thesis by (simp add: one_active_def)
qed

text \<open>Rewriting the one row of an id by a change that keeps its pair and activity keeps the count.\<close>

lemma rewrite_one_active:
  assumes "one_active t" and "\<And>s c p. s \<in> set t \<Longrightarrow> ts_id s = i \<Longrightarrow> is_active c p (f s) = is_active c p s"
  shows "one_active (update_where (\<lambda>s. ts_id s = i) f t)"
proof -
  have "length (filter (is_active c p) (update_where (\<lambda>s. ts_id s = i) f t)) = length (filter (is_active c p) t)" for c p
    using assms(2) by (induction t) (auto simp: update_where_def)
  then show ?thesis using assms(1) by (simp add: one_active_def)
qed

lemma set_keys_one_active: "one_active t \<Longrightarrow> one_active (set_document_keys i ks t)"
  unfolding set_document_keys_def by (rule rewrite_one_active) (simp_all add: is_active_def)

lemma set_keys_row: "s' \<in> set (set_document_keys i ks t) \<Longrightarrow> \<exists>s \<in> set t. ts_id s' = ts_id s \<and> ts_status s' = ts_status s"
  by (auto simp: set_document_keys_def update_where_def)

lemma load_context_session:
  assumes "load_context_for_provider pv c ds wa on t = Some ctx"
  shows "fc_provider ctx = pv_id pv" and "in_flight ctx = active_session c (pv_id pv) t"
    and "fc_available ctx \<Longrightarrow> pending_keys ctx \<noteq> []"
    and "\<And>s. in_flight ctx = Some s \<Longrightarrow> fc_session ctx = Some s \<and> fc_state ctx = prompt_state_for s"
proof -
  have a: "ts_status s \<in> ACTIVE_TAX_FETCH_STATUSES" if "active_session c (pv_id pv) t = Some s" for s
    using active_session_Some [OF that] by (simp add: is_active_def)
  have na: "SDelivered \<notin> ACTIVE_TAX_FETCH_STATUSES" "SFailed \<notin> ACTIVE_TAX_FETCH_STATUSES" by (simp_all add: ACTIVE_TAX_FETCH_STATUSES_def)
  note def = assms [unfolded load_context_for_provider_def Let_def]
  show "fc_provider ctx = pv_id pv" using def by (auto split: option.splits if_splits)
  show "in_flight ctx = active_session c (pv_id pv) t"
    using def a na by (cases "active_session c (pv_id pv) t") (auto simp: in_flight_def split: option.splits if_splits)
  show "fc_session ctx = Some s \<and> fc_state ctx = prompt_state_for s" if "in_flight ctx = Some s" for s
    using def a na that by (cases "active_session c (pv_id pv) t") (auto simp: in_flight_def split: option.splits if_splits)
  show "pending_keys ctx \<noteq> []" if "fc_available ctx"
    using def that by (cases "active_session c (pv_id pv) t")
      (auto simp: pending_keys_def list_ex_iff filter_empty_conv split: option.splits if_splits)
qed

text \<open>While no fetch of a provider moves between loading and acting, the planner's fetch step never hits the table's unique index and leaves at most one session in flight for every client and provider.\<close>

theorem one_fetch_in_flight:
  assumes "one_active (fw_sessions fw)" and "distinct (map ts_id (fw_sessions fw))"
    and "load_context_for_provider pv c ds wa on (fw_sessions fw) = Some ctx"
  shows "\<exists>fw'. apply_tax_fetch_action new_id c (Some (action, ctx)) agreed year message fw = Inr fw' \<and> one_active (fw_sessions fw')"
proof -
  let ?keys = "effective_keys agreed ctx" and ?t = "fw_sessions fw"
  have inserted: "\<exists>t. insert_session (fresh_session new_id c ?keys ctx year) ?t = Inr t \<and> one_active t" if "in_flight ctx = None"
  proof -
    have "active_session c (fc_provider ctx) ?t = None" using that load_context_session(1,2) [OF assms(3)] by simp
    then have "insert_session (fresh_session new_id c ?keys ctx year) ?t = Inr (?t @ [fresh_session new_id c ?keys ctx year])"
      by (simp add: insert_session_def fresh_session_def)
    then show ?thesis using insert_session_one_active assms(1) by blast
  qed
  have agreed: "one_active (update_session_status (ts_id s) SIntroSent (set_document_keys (ts_id s) ?keys ?t))"
    if s: "in_flight ctx = Some s" "ts_status s = SAgreed" for s
    unfolding update_session_status_def
  proof (rule rewrite_one_active [OF set_keys_one_active [OF assms(1)]])
    fix s' c' p assume s': "s' \<in> set (set_document_keys (ts_id s) ?keys ?t)" "ts_id s' = ts_id s"
    obtain s0 where s0: "s0 \<in> set ?t" "ts_id s0 = ts_id s" "ts_status s' = ts_status s0"
      using set_keys_row [OF s'(1)] s'(2) by auto
    have "s \<in> set ?t" using s(1) load_context_session(2) [OF assms(3)] active_session_Some by metis
    then have "s0 = s" using s0 assms(2) by (meson distinct_map inj_on_eq_iff)
    then show "is_active c' p (s'\<lparr>ts_status := SIntroSent\<rparr>) = is_active c' p s'"
      using s(2) s0(3) by (simp add: is_active_def ACTIVE_TAX_FETCH_STATUSES_def)
  qed
  show ?thesis
  proof (cases "in_flight ctx")
    case None
    then show ?thesis
      using inserted [OF None] assms(1)
      by (cases action) (auto simp: apply_tax_fetch_action_def enqueue_tax_fetch_def Let_def split: option.split)
  next
    case (Some s)
    then show ?thesis
      using agreed [OF Some] set_keys_one_active [OF assms(1)] assms(1)
      by (cases action) (auto simp: apply_tax_fetch_action_def enqueue_tax_fetch_def Let_def split: option.split)
  qed
qed

definition sample_provider :: fetch_provider where
  "sample_provider = \<lparr>pv_id = ''tax'', pv_types = [\<lparr>ty_key = ''form106'', ty_matches = (\<lambda>_. True)\<rparr>], pv_has_credentials = True\<rparr>"

definition sample_fetch :: fetch_world where
  "sample_fetch = \<lparr>fw_sessions = [\<lparr>ts_id = ''s'', ts_client = ''c'', ts_provider = ''tax'', ts_document = None, ts_status = SIntroSent,
     ts_tax_year = 2024, ts_error = None, ts_keys = None\<rparr>], fw_jobs = []\<rparr>"

definition sample_fetch_context :: fetch_context where
  "sample_fetch_context = \<lparr>fc_provider = ''tax'', fc_available = True, fc_state = ''wa_intro_sent'',
     fc_session = Some (hd (fw_sessions sample_fetch)), fc_on_whatsapp = True,
     fc_types = [\<lparr>tt_key = ''form106'', tt_pending = Some ''a'', tt_collected = False\<rparr>]\<rparr>"

lemma sample_fetch_loaded:
  "load_context_for_provider sample_provider ''c'' [sample_row ''a'' Pending] True True (fw_sessions sample_fetch) = Some sample_fetch_context"
  by (simp add: load_context_for_provider_def sample_provider_def sample_fetch_def sample_fetch_context_def document_type_state_def
      sample_row_def active_session_def is_active_def ACTIVE_TAX_FETCH_STATUSES_def prompt_state_for_def)

lemma one_fetch_in_flight_witness:
  "\<exists>fw'. apply_tax_fetch_action ''n'' ''c'' (Some (StartLogin, sample_fetch_context)) None 2024 (Some (''m'', 60000)) sample_fetch = Inr fw'
     \<and> one_active (fw_sessions fw')"
  by (rule one_fetch_in_flight [OF _ _ sample_fetch_loaded]) (simp_all add: one_active_def sample_fetch_def)

lemma effective_keys_pending: "set (effective_keys agreed ctx) \<subseteq> set (pending_keys ctx)"
  by (auto simp: effective_keys_def Let_def split: option.splits)

lemma effective_keys_agreed:
  "ks \<noteq> [] \<Longrightarrow> set ks \<subseteq> set (pending_keys ctx) \<Longrightarrow> effective_keys (Some ks) ctx = ks"
  by (auto simp: effective_keys_def Let_def subset_iff intro: filter_True)

lemma rewritten_rows:
  "t \<in> set (update_where p f ts) \<Longrightarrow> t \<notin> set ts \<Longrightarrow> \<exists>s \<in> set ts. p s \<and> t = f s"
  by (auto simp: update_where_def split: if_splits)

text \<open>What a step that went through did.\<close>

lemma fetch_step_cases:
  assumes "apply_tax_fetch_action new_id c (Some (action, ctx)) agreed year message fw = Inr fw'"
  obtains
    (unmoved) "fw' = fw"
  | (agreed) s where "action = ClientAgreed" "in_flight ctx = Some s" "fw_jobs fw' = fw_jobs fw"
      "fw_sessions fw' = set_document_keys (ts_id s) (effective_keys agreed ctx) (fw_sessions fw)
       \<or> fw_sessions fw' = update_session_status (ts_id s) SIntroSent (set_document_keys (ts_id s) (effective_keys agreed ctx) (fw_sessions fw))"
  | (agreed_new) "in_flight ctx = None" "fw_jobs fw' = fw_jobs fw"
      "fw_sessions fw' = fw_sessions fw @ [fresh_session new_id c (effective_keys agreed ctx) ctx year]"
  | (login) s where "action = StartLogin" "in_flight ctx = Some s"
      "fw_sessions fw' = set_document_keys (ts_id s) (effective_keys agreed ctx) (fw_sessions fw)"
      "fw_jobs fw' = fw_jobs fw @ [(JobStartLogin (ts_id s) (map_option fst message), case message of None \<Rightarrow> 0 | Some (_, d) \<Rightarrow> d + 5000)]"
  | (login_new) "action = StartLogin" "in_flight ctx = None"
      "fw_sessions fw' = fw_sessions fw @ [fresh_session new_id c (effective_keys agreed ctx) ctx year]"
      "fw_jobs fw' = fw_jobs fw @ [(JobStartLogin new_id (map_option fst message), case message of None \<Rightarrow> 0 | Some (_, d) \<Rightarrow> d + 5000)]"
  | (cancel) s where "action = CancelFetch" "fc_session ctx = Some s" "fw_sessions fw' = fw_sessions fw"
      "fw_jobs fw' = fw_jobs fw @ [(JobCancel (ts_id s), 0)]"
proof -
  note def = assms [unfolded apply_tax_fetch_action_def Let_def]
  show ?thesis
  proof (cases action)
    case ClientAgreed
    show ?thesis
    proof (cases "in_flight ctx")
      case None
      have "fw' = fw \<or> (fw_jobs fw' = fw_jobs fw
          \<and> fw_sessions fw' = fw_sessions fw @ [fresh_session new_id c (effective_keys agreed ctx) ctx year])"
        using def ClientAgreed None by (auto simp: rbind_Inr_iff insert_session_def split: if_splits)
      then consider "fw' = fw" | "fw_jobs fw' = fw_jobs fw"
          "fw_sessions fw' = fw_sessions fw @ [fresh_session new_id c (effective_keys agreed ctx) ctx year]" by blast
      then show ?thesis by cases (fact unmoved, rule agreed_new [OF None])
    next
      case (Some s)
      then show ?thesis using agreed [OF ClientAgreed Some] def ClientAgreed by (auto split: if_splits)
    qed
  next
    case StartLogin
    show ?thesis
    proof (cases "in_flight ctx")
      case None
      have "fw' = fw \<or> (fw_sessions fw' = fw_sessions fw @ [fresh_session new_id c (effective_keys agreed ctx) ctx year]
          \<and> fw_jobs fw' = fw_jobs fw @ [(JobStartLogin new_id (map_option fst message), case message of None \<Rightarrow> 0 | Some (_, d) \<Rightarrow> d + 5000)])"
        using def StartLogin None
        by (auto simp: rbind_Inr_iff insert_session_def enqueue_tax_fetch_def START_LOGIN_SEND_GRACE_MS_def split: if_splits option.splits)
      then show ?thesis using unmoved login_new [OF StartLogin None] by blast
    next
      case (Some s)
      then show ?thesis using login [OF StartLogin Some] def StartLogin
        by (auto simp: enqueue_tax_fetch_def START_LOGIN_SEND_GRACE_MS_def split: option.splits)
    qed
  next
    case CancelFetch
    then show ?thesis using unmoved cancel [OF CancelFetch] def
      by (cases "fc_session ctx") (auto simp: enqueue_tax_fetch_def)
  qed
qed

lemma set_keys_written: "r \<in> set (set_document_keys i ks rs) \<Longrightarrow> r \<notin> set rs \<Longrightarrow> ts_keys r = Some ks"
  unfolding set_document_keys_def by (drule (1) rewritten_rows) auto

lemma set_keys_of:
  assumes "s \<in> set (set_document_keys i ks rs)" and "ts_id s = i"
  shows "ts_keys s = Some ks"
proof -
  obtain r where r: "s = (if ts_id r = i then r\<lparr>ts_keys := Some ks\<rparr> else r)"
    using assms(1) unfolding set_document_keys_def set_update_where by blast
  show ?thesis using assms(2) by (cases "ts_id r = i") (simp_all add: r)
qed

lemma moved_keys_written:
  assumes "r \<in> set (update_session_status i st (set_document_keys i ks rs))" and "r \<notin> set rs"
  shows "ts_keys r = Some ks"
proof (cases "r \<in> set (set_document_keys i ks rs)")
  case False
  obtain s0 where "s0 \<in> set (set_document_keys i ks rs)" "ts_id s0 = i" "r = s0\<lparr>ts_status := st\<rparr>"
    using rewritten_rows [OF assms(1) [unfolded update_session_status_def] False] by blast
  then show ?thesis using set_keys_of [of s0 i ks rs] by simp
qed (use set_keys_written assms(2) in blast)

lemma step_keys:
  assumes "apply_tax_fetch_action new_id c (Some (action, ctx)) agreed year message fw = Inr fw'"
    and t: "t \<in> set (fw_sessions fw')" "t \<notin> set (fw_sessions fw)"
  shows "ts_keys t = Some (effective_keys agreed ctx)"
  using assms(1)
proof (cases rule: fetch_step_cases)
  case (agreed s)
  then show ?thesis using t set_keys_written moved_keys_written by metis
next
  case (login s)
  then show ?thesis using t set_keys_written by metis
qed (use t in \<open>auto simp: fresh_session_def\<close>)

lemma live_states:
  "ts_status s \<in> LIVE_BROWSER_STATUSES \<Longrightarrow> allowed_tax_fetch_actions (prompt_state_for s) av on = [CancelFetch]"
  by (auto simp: LIVE_BROWSER_STATUSES_def prompt_state_for_def allowed_tax_fetch_actions_def)

lemma start_needs_whatsapp: "StartLogin \<in> set (allowed_tax_fetch_actions st av on) \<Longrightarrow> on"
  by (auto simp: allowed_tax_fetch_actions_def Let_def split: if_splits)

text \<open>C26: A fetch step the gate allows leaves a live browser session alone except to stop it; it queues a login only while the conversation is live on WhatsApp and, when a heads-up message goes with it, at least five seconds after that message and tied to it; and every session it opens or changes covers only documents still pending, exactly the ones the client agreed to when they named any.\<close>

theorem fetch_step_respects_client:
  assumes "load_context_for_provider pv c ds wa on (fw_sessions fw) = Some ctx"
    and "action \<in> set (allowed_tax_fetch_actions (fc_state ctx) (fc_available ctx) (fc_on_whatsapp ctx))"
    and "apply_tax_fetch_action new_id c (Some (action, ctx)) agreed year message fw = Inr fw'"
  shows "(\<forall>s. in_flight ctx = Some s \<and> ts_status s \<in> LIVE_BROWSER_STATUSES
            \<longrightarrow> fw_sessions fw' = fw_sessions fw \<and> fw_jobs fw' = fw_jobs fw @ [(JobCancel (ts_id s), 0)])
     \<and> (\<exists>js. fw_jobs fw' = fw_jobs fw @ js
            \<and> (\<forall>i e delay. (JobStartLogin i e, delay) \<in> set js
                  \<longrightarrow> fc_on_whatsapp ctx \<and> (e, delay) = (case message of None \<Rightarrow> (None, 0) | Some (m, d) \<Rightarrow> (Some m, d + 5000))))
     \<and> (\<forall>t \<in> set (fw_sessions fw'). t \<notin> set (fw_sessions fw)
            \<longrightarrow> (\<exists>ks. ts_keys t = Some ks \<and> set ks \<subseteq> set (pending_keys ctx)
                  \<and> (\<forall>named. agreed = Some named \<and> named \<noteq> [] \<and> set named \<subseteq> set (pending_keys ctx) \<longrightarrow> ks = named)))"
proof (intro conjI allI ballI impI)
  fix s assume s: "in_flight ctx = Some s \<and> ts_status s \<in> LIVE_BROWSER_STATUSES"
  then have a: "action = CancelFetch" and f: "fc_session ctx = Some s"
    using assms(2) live_states [of s] load_context_session(4) [OF assms(1)] by auto
  have "fw_sessions fw' = fw_sessions fw \<and> fw_jobs fw' = fw_jobs fw @ [(JobCancel (ts_id s), 0)]"
    using assms(3) f unfolding a by (auto simp: apply_tax_fetch_action_def enqueue_tax_fetch_def Let_def)
  then show "fw_sessions fw' = fw_sessions fw" and "fw_jobs fw' = fw_jobs fw @ [(JobCancel (ts_id s), 0)]" by blast+
next
  have wa: "fc_on_whatsapp ctx" if "action = StartLogin" using assms(2) that start_needs_whatsapp by blast
  show "\<exists>js. fw_jobs fw' = fw_jobs fw @ js \<and> (\<forall>i e delay. (JobStartLogin i e, delay) \<in> set js
      \<longrightarrow> fc_on_whatsapp ctx \<and> (e, delay) = (case message of None \<Rightarrow> (None, 0) | Some (m, d) \<Rightarrow> (Some m, d + 5000)))"
    using assms(3) by (cases rule: fetch_step_cases) (use wa in \<open>auto split: option.splits\<close>)
next
  fix t assume t: "t \<in> set (fw_sessions fw')" "t \<notin> set (fw_sessions fw)"
  show "\<exists>ks. ts_keys t = Some ks \<and> set ks \<subseteq> set (pending_keys ctx)
      \<and> (\<forall>named. agreed = Some named \<and> named \<noteq> [] \<and> set named \<subseteq> set (pending_keys ctx) \<longrightarrow> ks = named)"
    using step_keys [OF assms(3) t] effective_keys_pending effective_keys_agreed by blast
qed

lemma fetch_step_respects_client_witness:
  "\<exists>fw'. apply_tax_fetch_action ''n'' ''c'' (Some (StartLogin, sample_fetch_context)) None 2024 (Some (''m'', 60000)) sample_fetch = Inr fw'
     \<and> (\<exists>js. fw_jobs fw' = js \<and> (\<forall>i e delay. (JobStartLogin i e, delay) \<in> set js \<longrightarrow> (e, delay) = (Some ''m'', 65000)))"
proof -
  have ok: "StartLogin \<in> set (allowed_tax_fetch_actions (fc_state sample_fetch_context) (fc_available sample_fetch_context)
      (fc_on_whatsapp sample_fetch_context))"
    by (simp add: sample_fetch_context_def allowed_tax_fetch_actions_def)
  obtain fw' where f: "apply_tax_fetch_action ''n'' ''c'' (Some (StartLogin, sample_fetch_context)) None 2024 (Some (''m'', 60000)) sample_fetch = Inr fw'"
    using one_fetch_in_flight_witness by blast
  show ?thesis
    using f fetch_step_respects_client [OF sample_fetch_loaded ok f] by (auto simp: sample_fetch_def)
qed

end
