(* ===== verification/PlannerTools.thy ===== *)
theory PlannerTools
  imports DecisionGate "HOL-Library.Multiset"
begin

text \<open>
  The planner's answer as tool calls (\<open>decisionTools.ts\<close>): the tools a context is
  offered, the checks on the calls, and the assembly of the raw answer the gate
  reads. The schema library that checks the arguments of a call is an argument: it
  answers the typed call or nothing.
\<close>

section \<open>Calls\<close>

datatype tool_name = TConclude | TSendText | TSendTemplate | TMarkCollected | TTieFile | TResolve | TAddInstance | TStateCost
  | TStateVehicle | TRetire | TAttestation | TTaxFetch

record add_instance_args =
  ai_anchor :: id
  ai_name :: utext
  ai_description :: utext
  ai_already_provided :: bool
  ai_file_ids :: "id list"
  ai_paper_key :: string
  ai_evidence :: "id \<times> utext"
  ai_proven_by :: id

datatype tool_call =
    Conclude decision_kind utext
  | SendText utext utext
  | SendTemplate id "utext list" utext
  | MarkCollected id
  | TieFile id id "id \<times> utext"
  | ResolveDocument id bool "id \<times> utext" id
  | AddInstance add_instance_args
  | StateCostCall id utext raw_stated_cost
  | StateVehicleCall id utext raw_stated_vehicle
  | RetireDocument id "id \<times> utext" id
  | AttestationCall attestation_step "id \<times> utext"
  | TaxFetchCall tax_fetch_action string "string list"

fun tool_of :: "tool_call \<Rightarrow> tool_name" where
  "tool_of (Conclude _ _) = TConclude"
| "tool_of (SendText _ _) = TSendText"
| "tool_of (SendTemplate _ _ _) = TSendTemplate"
| "tool_of (MarkCollected _) = TMarkCollected"
| "tool_of (TieFile _ _ _) = TTieFile"
| "tool_of (ResolveDocument _ _ _ _) = TResolve"
| "tool_of (AddInstance _) = TAddInstance"
| "tool_of (StateCostCall _ _ _) = TStateCost"
| "tool_of (StateVehicleCall _ _ _) = TStateVehicle"
| "tool_of (RetireDocument _ _ _) = TRetire"
| "tool_of (AttestationCall _ _) = TAttestation"
| "tool_of (TaxFetchCall _ _ _) = TTaxFetch"

section \<open>Offered tools\<close>

definition tools_for_context :: "decision_context \<Rightarrow> tool_name list" where
  "tools_for_context ctx =
     [TConclude, TSendText, TSendTemplate]
     @ (if dc_after_verification ctx then [] else [TMarkCollected, TTieFile])
     @ (if dc_intake ctx = None then [] else [TResolve, TAddInstance, TStateCost, TStateVehicle, TRetire, TAttestation])
     @ (if dc_fetch ctx = [] then [] else [TTaxFetch])"

definition decision_values :: "decision_context \<Rightarrow> decision_kind list" where
  "decision_values ctx = (if dc_after_verification ctx then [GoalComplete, FollowUp, ClientDeclined] else [GoalComplete, FollowUp, Collect, ClientDeclined])"

datatype tool_error = NoCall | NotOffered | BadArguments | ConcludeNotOnce
  | SeveralMessages | NoMessageCall | SeveralAttestations | SeveralFetches | ResolvedTwice id | NotOneTarget | UnknownInstance utext
  | Gate gate_error

text \<open>\<open>parse name args\<close> is the schema check of one call.\<close>

definition parse_call ::
  "(tool_name \<Rightarrow> 'a \<Rightarrow> tool_call option) \<Rightarrow> decision_context \<Rightarrow> tool_name \<times> 'a \<Rightarrow> (tool_error, tool_call) result"
where
  "parse_call parse ctx call =
     (if fst call \<notin> set (tools_for_context ctx) then Inl NotOffered
      else (case parse (fst call) (snd call) of
          None \<Rightarrow> Inl BadArguments
        | Some c \<Rightarrow> if tool_of c \<noteq> fst call \<or> (case c of Conclude k _ \<Rightarrow> k \<notin> set (decision_values ctx) | _ \<Rightarrow> False)
            then Inl BadArguments else Inr c))"

definition parse_tool_calls ::
  "(tool_name \<Rightarrow> 'a \<Rightarrow> tool_call option) \<Rightarrow> decision_context \<Rightarrow> (tool_name \<times> 'a) list \<Rightarrow> (tool_error, tool_call list) result"
where
  "parse_tool_calls parse ctx calls =
     (if calls = [] then Inl NoCall
      else rbind (rmap (parse_call parse ctx) calls) (\<lambda>cs.
        if length (filter (\<lambda>c. tool_of c = TConclude) cs) \<noteq> 1 then Inl ConcludeNotOnce else Inr cs))"

section \<open>Assembly\<close>

definition evidence_of :: "id \<times> utext \<Rightarrow> raw_evidence" where
  "evidence_of e = (if fst e = [] \<and> snd e = [] then None else Some e)"

definition trim_id :: "id \<Rightarrow> id" where
  "trim_id s = rev (dropWhile (\<lambda>c. js_space (of_char c)) (rev (dropWhile (\<lambda>c. js_space (of_char c)) s)))"

record pending_instance =
  pi_anchor :: id
  pi_evidence :: raw_evidence
  pi_proven_by :: id
  pi_instance :: raw_instance

definition NO_COST :: raw_stated_cost where
  "NO_COST = \<lparr>rc_amount = 0, rc_currency = [], rc_message = [], rc_quote = []\<rparr>"

definition NO_VEHICLE :: raw_stated_vehicle where
  "NO_VEHICLE = \<lparr>rv_manufacturer = [], rv_model = [], rv_year = 0, rv_plate = [], rv_cost = 0, rv_currency = [], rv_message = [], rv_quote = []\<rparr>"

definition pending_of :: "add_instance_args \<Rightarrow> pending_instance" where
  "pending_of a = \<lparr>pi_anchor = ai_anchor a, pi_evidence = evidence_of (ai_evidence a), pi_proven_by = ai_proven_by a,
     pi_instance = \<lparr>ri_name = ai_name a, ri_description = (if js_trim (ai_description a) = [] then None else Some (ai_description a)),
       ri_already_provided = ai_already_provided a, ri_file_ids = ai_file_ids a, ri_paper_key = ai_paper_key a,
       ri_cost = NO_COST, ri_vehicle = NO_VEHICLE\<rparr>\<rparr>"

text \<open>Sets a field of the first instance of that name, if there is one.\<close>

fun set_on_named :: "utext \<Rightarrow> (raw_instance \<Rightarrow> raw_instance) \<Rightarrow> pending_instance list \<Rightarrow> pending_instance list option" where
  "set_on_named name f [] = None"
| "set_on_named name f (p # ps) =
     (if js_trim (ri_name (pi_instance p)) = name then Some (p\<lparr>pi_instance := f (pi_instance p)\<rparr> # ps)
      else map_option ((#) p) (set_on_named name f ps))"

text \<open>A statement goes to an existing item by id, or to an instance of this answer by name.\<close>

definition place_statement ::
  "id \<Rightarrow> utext \<Rightarrow> 's \<Rightarrow> (raw_instance \<Rightarrow> raw_instance) \<Rightarrow> (id \<times> 's) list \<times> pending_instance list
   \<Rightarrow> (tool_error, (id \<times> 's) list \<times> pending_instance list) result"
where
  "place_statement document_id instance_name s f acc =
     (let d = trim_id document_id; n = js_trim instance_name in
      if (d = []) = (n = []) then Inl NotOneTarget
      else if d \<noteq> [] then Inr (fst acc @ [(d, s)], snd acc)
      else (case set_on_named n f (snd acc) of None \<Rightarrow> Inl (UnknownInstance n) | Some ps \<Rightarrow> Inr (fst acc, ps)))"

fun place_costs ::
  "tool_call list \<Rightarrow> (id \<times> raw_stated_cost) list \<times> pending_instance list
   \<Rightarrow> (tool_error, (id \<times> raw_stated_cost) list \<times> pending_instance list) result"
where
  "place_costs [] acc = Inr acc"
| "place_costs (StateCostCall d n c # cs) acc =
     rbind (place_statement d n c (\<lambda>i. i\<lparr>ri_cost := c\<rparr>) acc) (\<lambda>acc'. place_costs cs acc')"
| "place_costs (_ # cs) acc = place_costs cs acc"

fun place_vehicles ::
  "tool_call list \<Rightarrow> (id \<times> raw_stated_vehicle) list \<times> pending_instance list
   \<Rightarrow> (tool_error, (id \<times> raw_stated_vehicle) list \<times> pending_instance list) result"
where
  "place_vehicles [] acc = Inr acc"
| "place_vehicles (StateVehicleCall d n v # cs) acc =
     rbind (place_statement d n v (\<lambda>i. i\<lparr>ri_vehicle := v\<rparr>) acc) (\<lambda>acc'. place_vehicles cs acc')"
| "place_vehicles (_ # cs) acc = place_vehicles cs acc"

fun first_proof :: "pending_instance list \<Rightarrow> id" where
  "first_proof [] = []"
| "first_proof (p # ps) = (if pi_proven_by p \<noteq> [] then pi_proven_by p else first_proof ps)"

fun first_evidence :: "pending_instance list \<Rightarrow> raw_evidence" where
  "first_evidence [] = None"
| "first_evidence (p # ps) = (if pi_evidence p \<noteq> None then pi_evidence p else first_evidence ps)"

definition anchored :: "id \<Rightarrow> pending_instance list \<Rightarrow> pending_instance list" where
  "anchored i ps = filter (\<lambda>p. pi_anchor p = i) ps"

definition resolution_of :: "pending_instance list \<Rightarrow> id \<times> bool \<times> (id \<times> utext) \<times> id \<Rightarrow> raw_resolution" where
  "resolution_of ps c = (case c of (i, required, e, proven) \<Rightarrow>
     \<lparr>rr_document = i, rr_required = required, rr_instances = (if required then Some (map pi_instance (anchored i ps)) else None),
      rr_evidence = evidence_of e, rr_proven_by = (if proven \<noteq> [] then proven else first_proof (anchored i ps))\<rparr>)"

definition addition_of :: "pending_instance list \<Rightarrow> id \<Rightarrow> raw_addition" where
  "addition_of ps i = \<lparr>ra_anchor = i, ra_instances = map pi_instance (anchored i ps), ra_evidence = first_evidence (anchored i ps),
     ra_proven_by = first_proof (anchored i ps)\<rparr>"

definition some_list :: "'a list \<Rightarrow> 'a list option" where
  "some_list xs = (if xs = [] then None else Some xs)"

definition conclude_calls :: "tool_call list \<Rightarrow> (decision_kind \<times> utext) list" where
  "conclude_calls cs = List.map_filter (\<lambda>c. case c of Conclude k r \<Rightarrow> Some (k, r) | _ \<Rightarrow> None) cs"

definition text_calls :: "tool_call list \<Rightarrow> (utext \<times> utext) list" where
  "text_calls cs = List.map_filter (\<lambda>c. case c of SendText t s \<Rightarrow> Some (t, s) | _ \<Rightarrow> None) cs"

definition template_calls :: "tool_call list \<Rightarrow> (id \<times> utext list \<times> utext) list" where
  "template_calls cs = List.map_filter (\<lambda>c. case c of SendTemplate t vs s \<Rightarrow> Some (t, vs, s) | _ \<Rightarrow> None) cs"

definition attestation_calls :: "tool_call list \<Rightarrow> (attestation_step \<times> id \<times> utext) list" where
  "attestation_calls cs = List.map_filter (\<lambda>c. case c of AttestationCall a e \<Rightarrow> Some (a, e) | _ \<Rightarrow> None) cs"

definition fetch_calls :: "tool_call list \<Rightarrow> (tax_fetch_action \<times> string \<times> string list) list" where
  "fetch_calls cs = List.map_filter (\<lambda>c. case c of TaxFetchCall a p ks \<Rightarrow> Some (a, p, ks) | _ \<Rightarrow> None) cs"

definition resolve_calls :: "tool_call list \<Rightarrow> (id \<times> bool \<times> (id \<times> utext) \<times> id) list" where
  "resolve_calls cs = List.map_filter (\<lambda>c. case c of ResolveDocument i b e p \<Rightarrow> Some (i, b, e, p) | _ \<Rightarrow> None) cs"

definition instance_calls :: "tool_call list \<Rightarrow> add_instance_args list" where
  "instance_calls cs = List.map_filter (\<lambda>c. case c of AddInstance a \<Rightarrow> Some a | _ \<Rightarrow> None) cs"

fun first_repeat :: "id list \<Rightarrow> id list \<Rightarrow> id option" where
  "first_repeat seen [] = None"
| "first_repeat seen (x # xs) = (if x \<in> set seen then Some x else first_repeat (x # seen) xs)"

definition assembled ::
  "tool_call list \<Rightarrow> decision_kind \<times> utext \<Rightarrow> (id \<times> raw_stated_cost) list \<Rightarrow> (id \<times> raw_stated_vehicle) list \<Rightarrow> pending_instance list \<Rightarrow> raw_decision"
where
  "assembled cs concl costs vehicles ps =
     (let resolved = resolve_calls cs; resolved_ids = map fst resolved;
          additions = uniq (filter (\<lambda>i. i \<notin> set resolved_ids) (map pi_anchor ps));
          send_at = (case text_calls cs of (_, s) # _ \<Rightarrow> Some s
             | [] \<Rightarrow> (case template_calls cs of (_, _, s) # _ \<Rightarrow> Some s | [] \<Rightarrow> None));
          fetch = (case fetch_calls cs of [] \<Rightarrow> None | f # _ \<Rightarrow> Some f);
          att = (case attestation_calls cs of [] \<Rightarrow> None | a # _ \<Rightarrow> Some a)
      in \<lparr>rd_decision = fst concl, rd_reasoning = snd concl,
          rd_collected = uniq (List.map_filter (\<lambda>c. case c of MarkCollected i \<Rightarrow> Some i | _ \<Rightarrow> None) cs),
          rd_matched = List.map_filter (\<lambda>c. case c of TieFile f d e \<Rightarrow> Some \<lparr>fp_file = f, fp_document = d, fp_evidence = evidence_of e\<rparr> | _ \<Rightarrow> None) cs,
          rd_text = (case text_calls cs of (t, _) # _ \<Rightarrow> Some t | [] \<Rightarrow> None),
          rd_template = (case template_calls cs of (t, vs, _) # _ \<Rightarrow> Some (t, vs) | [] \<Rightarrow> None),
          rd_send_at = (if send_at = Some [] then None else send_at),
          rd_fetch_action = map_option fst fetch, rd_fetch_provider = map_option (fst \<circ> snd) fetch,
          rd_fetch_keys = Option.bind fetch (\<lambda>f. some_list (snd (snd f))),
          rd_resolved = some_list (map (resolution_of ps) resolved), rd_added = some_list (map (addition_of ps) additions),
          rd_retired = some_list (List.map_filter (\<lambda>c. case c of RetireDocument i e p \<Rightarrow>
              Some \<lparr>rt_document = i, rt_evidence = evidence_of e, rt_proven_by = p\<rparr> | _ \<Rightarrow> None) cs),
          rd_costs = costs, rd_vehicles = vehicles, rd_attestation = map_option fst att,
          rd_attestation_evidence = Option.bind att (\<lambda>a. evidence_of (snd a))\<rparr>)"

definition assemble_decision :: "tool_call list \<Rightarrow> (tool_error, raw_decision) result" where
  "assemble_decision cs =
     (case conclude_calls cs of
        [] \<Rightarrow> Inl ConcludeNotOnce
      | concl # _ \<Rightarrow>
          if 1 < length (text_calls cs) + length (template_calls cs) then Inl SeveralMessages
          else if fst concl = FollowUp \<and> text_calls cs = [] \<and> template_calls cs = [] then Inl NoMessageCall
          else if 1 < length (attestation_calls cs) then Inl SeveralAttestations
          else if 1 < length (fetch_calls cs) then Inl SeveralFetches
          else (case first_repeat [] (map fst (resolve_calls cs)) of
              Some i \<Rightarrow> Inl (ResolvedTwice i)
            | None \<Rightarrow>
                rbind (place_costs cs ([], map pending_of (instance_calls cs))) (\<lambda>(costs, ps).
                  rbind (place_vehicles cs ([], ps)) (\<lambda>(vehicles, ps').
                    Inr (assembled cs concl costs vehicles ps')))))"

definition gate_decision ::
  "js_env \<Rightarrow> institution list \<Rightarrow> (tool_name \<Rightarrow> 'a \<Rightarrow> tool_call option) \<Rightarrow> decision_context \<Rightarrow> (tool_name \<times> 'a) list
   \<Rightarrow> (tool_error, normalized_decision) result"
where
  "gate_decision J tab parse ctx calls =
     rbind (parse_tool_calls parse ctx calls) (\<lambda>cs.
       rbind (assemble_decision cs) (\<lambda>r.
         (case normalize_decision J tab r ctx of Inl e \<Rightarrow> Inl (Gate e) | Inr d \<Rightarrow> Inr d)))"

section \<open>Properties\<close>

definition item_label :: "pending_instance \<Rightarrow> id \<times> utext" where
  "item_label p = (pi_anchor p, ri_name (pi_instance p))"

lemma set_on_named_labels:
  assumes "set_on_named n f ps = Some qs" and "\<And>i. ri_name (f i) = ri_name i"
  shows "map item_label qs = map item_label ps"
  using assms(1) by (induction ps arbitrary: qs) (auto simp: item_label_def assms(2) split: if_splits)

lemma place_statement_labels:
  "place_statement d n s f acc = Inr acc' \<Longrightarrow> (\<And>i. ri_name (f i) = ri_name i) \<Longrightarrow> map item_label (snd acc') = map item_label (snd acc)"
  by (auto simp: place_statement_def Let_def dest: set_on_named_labels split: if_splits option.splits)

lemma place_costs_labels: "place_costs cs acc = Inr acc' \<Longrightarrow> map item_label (snd acc') = map item_label (snd acc)"
  by (induction cs acc rule: place_costs.induct) (auto simp: rbind_Inr_iff dest!: place_statement_labels)

lemma place_vehicles_labels: "place_vehicles cs acc = Inr acc' \<Longrightarrow> map item_label (snd acc') = map item_label (snd acc)"
  by (induction cs acc rule: place_vehicles.induct) (auto simp: rbind_Inr_iff dest!: place_statement_labels)

lemma assemble_cases:
  assumes "assemble_decision cs = Inr r"
  obtains concl rest costs vehicles ps where "conclude_calls cs = concl # rest"
    "length (text_calls cs) + length (template_calls cs) \<le> 1"
    "fst concl = FollowUp \<longrightarrow> text_calls cs \<noteq> [] \<or> template_calls cs \<noteq> []"
    "first_repeat [] (map fst (resolve_calls cs)) = None"
    "map item_label ps = map (\<lambda>a. (ai_anchor a, ai_name a)) (instance_calls cs)"
    "r = assembled cs concl costs vehicles ps"
proof (cases "conclude_calls cs")
  case (Cons concl rest)
  note guards = assms [unfolded assemble_decision_def Cons list.case guard_Inr_iff fault_Inr_iff]
  obtain acc where acc: "place_costs cs ([], map pending_of (instance_calls cs)) = Inr acc"
    and acc2: "(case acc of (costs, ps) \<Rightarrow> rbind (place_vehicles cs ([], ps)) (\<lambda>(vehicles, ps'). Inr (assembled cs concl costs vehicles ps'))) = Inr r"
    using guards by (auto simp only: rbind_Inr_iff)
  obtain vs ps' where vs: "place_vehicles cs ([], snd acc) = Inr (vs, ps')" and r: "r = assembled cs concl (fst acc) vs ps'"
    using acc2 by (cases acc) (auto simp: rbind_Inr_iff)
  have labels: "map item_label ps' = map (\<lambda>a. (ai_anchor a, ai_name a)) (instance_calls cs)"
    using place_costs_labels [OF acc] place_vehicles_labels [OF vs] by (simp add: item_label_def pending_of_def comp_def)
  show ?thesis
  proof (rule that [OF Cons _ _ _ labels r])
    show "length (text_calls cs) + length (template_calls cs) \<le> 1" using guards by linarith
    show "fst concl = FollowUp \<longrightarrow> text_calls cs \<noteq> [] \<or> template_calls cs \<noteq> []" using guards by blast
    show "first_repeat [] (map fst (resolve_calls cs)) = None" using guards by blast
  qed
qed (use assms in \<open>simp add: assemble_decision_def\<close>)

lemma first_repeat_None: "first_repeat seen xs = None \<longleftrightarrow> distinct xs \<and> set xs \<inter> set seen = {}"
  by (induction xs arbitrary: seen) auto

lemma mset_by_key:
  "distinct ks \<Longrightarrow> mset (concat (map (\<lambda>k. filter (\<lambda>x. f x = k) xs) ks)) = mset (filter (\<lambda>x. f x \<in> set ks) xs)"
proof (induction ks)
  case (Cons k ks)
  have "mset (filter (\<lambda>x. f x = k) xs) + mset (filter (\<lambda>x. f x \<in> set ks) xs) = mset (filter (\<lambda>x. f x \<in> set (k # ks)) xs)"
    using Cons.prems by (induction xs) auto
  then show ?case using Cons by simp
qed simp

definition anchored_names :: "(id \<times> utext) list \<Rightarrow> id \<Rightarrow> utext list" where
  "anchored_names ls i = map snd (filter (\<lambda>l. fst l = i) ls)"

lemma concat_anchored: "concat (map (anchored_names ls) ks) = map snd (concat (map (\<lambda>k. filter (\<lambda>l. fst l = k) ls) ks))"
  by (induction ks) (simp_all add: anchored_names_def)

lemma key_value_unique: "distinct (map fst xs) \<Longrightarrow> c \<in> set xs \<Longrightarrow> c' \<in> set xs \<Longrightarrow> fst c = fst c' \<Longrightarrow> c = c'"
  by (induction xs) (auto simp: rev_image_eqI)

lemma anchored_labels: "map ri_name (map pi_instance (anchored i ps)) = anchored_names (map item_label ps) i"
  by (induction ps) (auto simp: anchored_def anchored_names_def item_label_def)

text \<open>The names of the instances the raw answer carries.\<close>

definition raw_instance_names :: "raw_decision \<Rightarrow> utext list" where
  "raw_instance_names r = map ri_name (concat (map (or_nil \<circ> rr_instances) (or_nil (rd_resolved r))) @ concat (map ra_instances (or_nil (rd_added r))))"

lemma assembled_names:
  "raw_instance_names (assembled cs concl costs vehicles ps) =
     concat (map (anchored_names (map item_label ps)) (map fst (filter (fst \<circ> snd) (resolve_calls cs))
       @ uniq (filter (\<lambda>i. i \<notin> set (map fst (resolve_calls cs))) (map pi_anchor ps))))"
proof -
  have nil: "or_nil (some_list xs) = xs" for xs :: "'a list" by (simp add: or_nil_def some_list_def)
  have res: "map ri_name (concat (map (or_nil \<circ> rr_instances) (map (resolution_of ps) rs)))
      = concat (map (anchored_names (map item_label ps)) (map fst (filter (fst \<circ> snd) rs)))" for rs
    by (induction rs) (auto simp: resolution_of_def or_nil_def anchored_labels [symmetric])
  have add: "map ri_name (concat (map ra_instances (map (addition_of ps) is))) = concat (map (anchored_names (map item_label ps)) is)" for "is"
    by (induction "is") (auto simp: addition_of_def anchored_labels [symmetric])
  show ?thesis
    unfolding raw_instance_names_def assembled_def Let_def raw_decision.select_convs nil map_append res add concat_append map_append ..
qed

text \<open>Every item the planner adds reaches the gate exactly once, under the row it resolves as required or as an addition to its anchor, except the items it adds under a row it dismisses in the same answer: those disappear without an error.\<close>

theorem added_items_reach_the_gate:
  assumes "assemble_decision cs = Inr r"
  shows "mset (raw_instance_names r)
    = mset (map ai_name (filter (\<lambda>a. \<forall>c \<in> set (resolve_calls cs). fst c = ai_anchor a \<longrightarrow> fst (snd c)) (instance_calls cs)))"
  using assms
proof (cases rule: assemble_cases)
  case (1 concl rest costs vehicles ps)
  let ?L = "map item_label ps" and ?R = "resolve_calls cs"
  let ?req = "map fst (filter (fst \<circ> snd) ?R)" and ?add = "uniq (filter (\<lambda>i. i \<notin> set (map fst ?R)) (map pi_anchor ps))"
  have d: "distinct (map fst ?R)" using 1(4) by (simp add: first_repeat_None)
  then have "distinct ?req" by (simp add: distinct_map_filter)
  then have keys: "distinct (?req @ ?add)" by auto
  have "mset (raw_instance_names r) = image_mset snd (mset (concat (map (\<lambda>k. filter (\<lambda>l. fst l = k) ?L) (?req @ ?add))))"
    unfolding 1(6) assembled_names concat_anchored by (rule mset_map)
  also have "\<dots> = image_mset snd (mset (filter (\<lambda>l. fst l \<in> set (?req @ ?add)) ?L))"
    unfolding mset_by_key [OF keys] ..
  also have "filter (\<lambda>l. fst l \<in> set (?req @ ?add)) ?L = filter (\<lambda>l. \<forall>c \<in> set ?R. fst c = fst l \<longrightarrow> fst (snd c)) ?L"
  proof (rule filter_cong [OF refl])
    fix l assume "l \<in> set ?L"
    then have "fst l \<in> set (map pi_anchor ps)" by (auto simp: item_label_def)
    then have add: "fst l \<in> set ?add \<longleftrightarrow> fst l \<notin> set (map fst ?R)" by simp
    have none: "fst c \<noteq> fst l" if "fst l \<notin> set (map fst ?R)" "c \<in> set ?R" for c using that by force
    have req: "fst l \<in> set ?req \<longleftrightarrow> fst l \<in> set (map fst ?R) \<and> (\<forall>c \<in> set ?R. fst c = fst l \<longrightarrow> fst (snd c))"
    proof
      assume "fst l \<in> set ?req"
      then obtain c where c: "c \<in> set ?R" "fst (snd c)" "fst c = fst l" by auto
      then show "fst l \<in> set (map fst ?R) \<and> (\<forall>c \<in> set ?R. fst c = fst l \<longrightarrow> fst (snd c))"
        using key_value_unique [OF d c(1)] by force
    qed auto
    show "fst l \<in> set (?req @ ?add) \<longleftrightarrow> (\<forall>c \<in> set ?R. fst c = fst l \<longrightarrow> fst (snd c))"
      unfolding set_append Un_iff req add using none by blast
  qed
  finally show ?thesis unfolding 1(5) by (simp add: filter_map comp_def image_mset.compositionality)
qed

text \<open>An item added under a row that the same answer dismisses is gone.\<close>

definition sample_args :: add_instance_args where
  "sample_args = \<lparr>ai_anchor = ''a'', ai_name = [1488], ai_description = [], ai_already_provided = False, ai_file_ids = [],
     ai_paper_key = [], ai_evidence = (''m'', [1488]), ai_proven_by = []\<rparr>"

definition sample_calls :: "tool_call list" where
  "sample_calls = [Conclude FollowUp [], SendText [1513] ASAP_SEND_AT, ResolveDocument ''a'' False (''m'', [1488]) [],
     AddInstance sample_args, AddInstance (sample_args\<lparr>ai_anchor := ''b'', ai_name := [1489]\<rparr>)]"

lemma sample_assembled: "\<exists>r. assemble_decision sample_calls = Inr r"
  by (simp add: assemble_decision_def sample_calls_def conclude_calls_def text_calls_def template_calls_def attestation_calls_def
      fetch_calls_def resolve_calls_def instance_calls_def map_filter_simps)

lemma added_items_reach_the_gate_witness:
  "\<exists>r. assemble_decision sample_calls = Inr r \<and> mset (raw_instance_names r) = {#[1489]#}"
proof -
  obtain r where r: "assemble_decision sample_calls = Inr r" using sample_assembled by blast
  have "mset (raw_instance_names r) = {#[1489]#}"
    unfolding added_items_reach_the_gate [OF r]
    by (simp add: sample_calls_def sample_args_def resolve_calls_def instance_calls_def map_filter_simps)
  then show ?thesis using r by blast
qed

lemma map_filter_none: "(\<And>c. c \<in> set cs \<Longrightarrow> f c = None) \<Longrightarrow> List.map_filter f cs = []"
  by (induction cs) (simp_all add: map_filter_simps)

lemma gated_Inr: "(case n of Inl e \<Rightarrow> Inl (g e) | Inr x \<Rightarrow> Inr x) = Inr y \<longleftrightarrow> n = Inr y"
  by (cases n) simp_all

lemma parsed_tools:
  assumes "parse_tool_calls parse ctx calls = Inr cs" and "c \<in> set cs"
  shows "tool_of c \<in> set (tools_for_context ctx) \<and> (\<forall>k t. c = Conclude k t \<longrightarrow> k \<in> set (decision_values ctx))"
proof -
  have "rmap (parse_call parse ctx) calls = Inr cs"
    using assms(1) by (auto simp: parse_tool_calls_def rbind_Inr_iff split: if_splits)
  then obtain call where "parse_call parse ctx call = Inr c" using rmap_Inr_mem assms(2) by metis
  then show ?thesis by (auto simp: parse_call_def split: if_splits option.splits)
qed

text \<open>What the gate and the offered tools make of an answer of the cycle after a verification.\<close>

lemma after_verification_answer:
  assumes "gate_decision J tab parse ctx calls = Inr d" and "dc_after_verification ctx"
  shows "nd_collected d = [] \<and> nd_matched d = [] \<and> nd_outcome d \<noteq> Collecting"
proof -
  obtain cs r where cs: "parse_tool_calls parse ctx calls = Inr cs" and r: "assemble_decision cs = Inr r"
    and d: "normalize_decision J tab r ctx = Inr d"
    using assms(1) by (auto simp: gate_decision_def rbind_Inr_iff gated_Inr)
  have tool: "tool_of c \<noteq> TMarkCollected \<and> tool_of c \<noteq> TTieFile" if "c \<in> set cs" for c
    using parsed_tools [OF cs that] assms(2) by (auto simp: tools_for_context_def split: if_splits)
  have "rd_collected r = [] \<and> rd_matched r = []"
    using r
  proof (cases rule: assemble_cases)
    case (1 concl rest costs vehicles ps)
    have "List.map_filter (\<lambda>c. case c of MarkCollected i \<Rightarrow> Some i | _ \<Rightarrow> None) cs = []"
    proof (rule map_filter_none)
      fix c assume "c \<in> set cs"
      from tool [OF this] show "(case c of MarkCollected i \<Rightarrow> Some i | _ \<Rightarrow> None) = None" by (cases c) simp_all
    qed
    moreover have "List.map_filter (\<lambda>c. case c of TieFile f d e \<Rightarrow> Some \<lparr>fp_file = f, fp_document = d, fp_evidence = evidence_of e\<rparr> | _ \<Rightarrow> None) cs = []"
    proof (rule map_filter_none)
      fix c assume "c \<in> set cs"
      from tool [OF this] show "(case c of TieFile f d e \<Rightarrow> Some \<lparr>fp_file = f, fp_document = d, fp_evidence = evidence_of e\<rparr> | _ \<Rightarrow> None) = None"
        by (cases c) simp_all
    qed
    ultimately show ?thesis by (simp add: 1(6) assembled_def Let_def uniq_def)
  qed
  moreover have "nd_collected d = rd_collected r \<or> nd_collected d = []" "length (nd_matched d) = length (rd_matched r) \<or> nd_matched d = []"
    using d by (auto simp: normalize_decision_def rbind_Inr_iff validate_matched_files_def Let_def split: if_splits)
  moreover have "nd_outcome d \<noteq> Collecting"
    using d assms(2) by (auto simp: normalize_decision_def rbind_Inr_iff shape_guard_def decided_outcome_def Let_def split: if_splits option.splits)
  ultimately show ?thesis by auto
qed

text \<open>In the cycle after a verification no accepted answer collects: it marks no document, ties no file and is not a collecting answer, whatever calls the model makes, so the verification cannot be asked for again.\<close>

theorem rerun_collects_nothing:
  assumes "gate_decision J tab parse ctx calls = Inr d" and "dc_after_verification ctx"
  shows "nd_collected d = [] \<and> nd_matched d = [] \<and> nd_outcome d \<noteq> Collecting"
  by (rule after_verification_answer [OF assms])

definition rerun_ctx :: decision_context where
  "rerun_ctx = \<lparr>dc_window_open = True, dc_templates = [], dc_hidden = [], dc_fetch = [], dc_intake = None, dc_after_verification = True\<rparr>"

definition rerun_calls :: "(tool_name \<times> tool_call) list" where
  "rerun_calls = [(TConclude, Conclude GoalComplete [])]"

definition plain_env :: js_env where
  "plain_env = \<lparr>je_lower = (\<lambda>s. s), je_upper = (\<lambda>s. s), je_words = (\<lambda>s. s)\<rparr>"

lemma rerun_collects_nothing_witness:
  "\<exists>d. gate_decision plain_env [] (\<lambda>_. Some) rerun_ctx rerun_calls = Inr d \<and> nd_outcome d \<noteq> Collecting"
proof -
  have "parse_tool_calls (\<lambda>_. Some) rerun_ctx rerun_calls = Inr [Conclude GoalComplete []]"
    by (simp add: parse_tool_calls_def parse_call_def tools_for_context_def decision_values_def rerun_calls_def rerun_ctx_def)
  moreover obtain r where r: "assemble_decision [Conclude GoalComplete []] = Inr r" "rd_decision r = GoalComplete" "rd_collected r = []"
    "rd_matched r = []" "rd_fetch_action r = None" "rd_resolved r = None" "rd_added r = None" "rd_retired r = None" "rd_costs r = []"
    "rd_vehicles r = []" "rd_attestation r = None"
    by (simp add: assemble_decision_def conclude_calls_def text_calls_def template_calls_def attestation_calls_def
        fetch_calls_def resolve_calls_def instance_calls_def map_filter_simps assembled_def some_list_def uniq_def)
  moreover obtain d where "normalize_decision plain_env [] r rerun_ctx = Inr d"
    using r by (simp add: normalize_decision_def shape_guard_def validate_tax_fetch_def validate_resolutions_def validate_added_instances_def
        validate_retirements_def with_intake_def or_nil_def validate_stated_costs_def validate_stated_vehicles_def validate_statements_def
        new_instances_def validate_attestation_def decided_outcome_def)
  ultimately have "gate_decision plain_env [] (\<lambda>_. Some) rerun_ctx rerun_calls = Inr d" by (simp add: gate_decision_def)
  moreover have "dc_after_verification rerun_ctx" by (simp add: rerun_ctx_def)
  ultimately show ?thesis using rerun_collects_nothing by blast
qed

end
