(* ===== verification/CompanySplit.thy ===== *)
theory CompanySplit
  imports Statements
begin

text \<open>
  The per-company and per-employer split of a checklist item
  (\<open>companySplit.ts\<close>): files of several companies tied to one item that names no
  company give the item the first company's name and every further company a
  sibling; for funds opened per employer each of these is divided again by the
  employer printed on the files. Pairs carry their position, which stands for the
  object identity the code's \<open>moved\<close> set relies on.
\<close>

section \<open>Names\<close>

text \<open>\<open>name.split(sep)\<close> for a separator that is not empty.\<close>

function split_text :: "utext \<Rightarrow> utext \<Rightarrow> utext list" where
  "split_text sep [] = [[]]"
| "split_text sep (c # s) =
     (if sep \<noteq> [] \<and> is_prefix sep (c # s) then [] # split_text sep (drop (length sep) (c # s))
      else (case split_text sep s of [] \<Rightarrow> [[c]] | p # ps \<Rightarrow> (c # p) # ps))"
  by pat_completeness auto

termination
proof (relation "measure (\<lambda>(_, s). length s)")
  fix sep :: utext and c s
  assume "sep \<noteq> [] \<and> is_prefix sep (c # s)"
  then have "0 < length sep" by simp
  then have "length (drop (length sep) (c # s)) < length (c # s)" by (cases "length sep") simp_all
  then show "((sep, drop (length sep) (c # s)), sep, c # s) \<in> measure (\<lambda>(_, s). length s)" by simp
qed auto

fun join_text :: "utext \<Rightarrow> utext list \<Rightarrow> utext" where
  "join_text sep [] = []"
| "join_text sep [p] = p"
| "join_text sep (p # ps) = p @ sep @ join_text sep ps"

definition employer_base_name :: "institution list \<Rightarrow> utext \<Rightarrow> utext" where
  "employer_base_name tab name =
     (let parts = split_text NAME_SEPARATOR name in
      if length parts < 2 then name
      else if identify_institution (Some (last parts)) tab = None \<and> identify_institution (Some (last (butlast parts))) tab \<noteq> None
      then join_text NAME_SEPARATOR (butlast parts) else name)"

definition MAX_ISSUER :: nat where "MAX_ISSUER = 200"

definition evidence_issuer :: "utext option \<Rightarrow> utext" where
  "evidence_issuer t = take MAX_ISSUER (js_trim (collapse_ws False (or_empty t)))"

section \<open>Groups\<close>

record split_created =
  sp_from :: id
  sp_name :: utext
  sp_company :: "string option"
  sp_employer :: "utext option"
  sp_files :: "id list"
  sp_evidence :: resolution_evidence

type_synonym placed_pair = "nat \<times> file_pair"

record split_group =
  gp_name :: utext
  gp_company :: "string option"
  gp_pairs :: "placed_pair list"
  gp_created :: "split_created option"

definition pair_analysis :: "file_map \<Rightarrow> placed_pair \<Rightarrow> file_analysis option" where
  "pair_analysis files p = Option.bind (files (fp_file (snd p))) df_analysis"

definition pair_issuer :: "file_map \<Rightarrow> placed_pair \<Rightarrow> utext option" where
  "pair_issuer files p = Option.bind (pair_analysis files p) fa_issuer"

definition add_pair :: "placed_pair \<Rightarrow> split_group \<Rightarrow> split_group" where
  "add_pair p g = g\<lparr>gp_pairs := gp_pairs g @ [p],
     gp_created := map_option (\<lambda>c. c\<lparr>sp_files := sp_files c @ [fp_file (snd p)]\<rparr>) (gp_created g)\<rparr>"

definition company_name :: "institution list \<Rightarrow> utext \<Rightarrow> string \<Rightarrow> utext" where
  "company_name tab name k = name @ NAME_SEPARATOR @ institution_label_he k tab"

definition new_sibling :: "institution list \<Rightarrow> file_map \<Rightarrow> client_document \<Rightarrow> string \<Rightarrow> placed_pair \<Rightarrow> split_group" where
  "new_sibling tab files doc k p =
     \<lparr>gp_name = company_name tab (cd_name doc) k, gp_company = Some k, gp_pairs = [p],
      gp_created = Some \<lparr>sp_from = cd_id doc, sp_name = company_name tab (cd_name doc) k, sp_company = Some k, sp_employer = None,
        sp_files = [fp_file (snd p)], sp_evidence = FileEvidence (fp_file (snd p)) (evidence_issuer (pair_issuer files p)) None\<rparr>\<rparr>"

fun add_to_sibling :: "string \<Rightarrow> placed_pair \<Rightarrow> split_group \<Rightarrow> split_group list \<Rightarrow> split_group list" where
  "add_to_sibling k p fresh [] = [fresh]"
| "add_to_sibling k p fresh (g # gs) =
     (if gp_company g = Some k then add_pair p g # gs else g # add_to_sibling k p fresh gs)"

text \<open>Stage 1, one pair: the head and the siblings so far.\<close>

definition company_step ::
  "institution list \<Rightarrow> file_map \<Rightarrow> client_document \<Rightarrow> placed_pair \<Rightarrow> split_group \<times> split_group list \<Rightarrow> split_group \<times> split_group list"
where
  "company_step tab files doc p st =
     (case st of (head, sibs) \<Rightarrow>
       (case identify_institution (pair_issuer files p) tab of
          None \<Rightarrow> (add_pair p head, sibs)
        | Some k \<Rightarrow>
            if gp_company head = None
            then (add_pair p (head\<lparr>gp_company := Some k, gp_name := company_name tab (cd_name doc) k\<rparr>), sibs)
            else if gp_company head = Some k then (add_pair p head, sibs)
            else (head, add_to_sibling k p (new_sibling tab files doc k p) sibs)))"

definition company_groups ::
  "institution list \<Rightarrow> file_map \<Rightarrow> client_document \<Rightarrow> placed_pair list \<Rightarrow> split_group list"
where
  "company_groups tab files doc ps =
     (let item_company = identify_institution (Some (cd_name doc)) tab;
          head = \<lparr>gp_name = cd_name doc, gp_company = item_company, gp_pairs = [], gp_created = None\<rparr>
      in if item_company = None then (case fold (company_step tab files doc) ps (head, []) of (h, sibs) \<Rightarrow> h # sibs)
         else [head\<lparr>gp_pairs := ps\<rparr>])"

text \<open>Stage 2, one pair of a group: the group, its employer, the employer rows, and the positions moved.\<close>

record employer_state =
  es_group :: split_group
  es_employer :: "utext option"
  es_rows :: "(utext \<times> split_created) list"
  es_moved :: "nat list"

definition claim_for_employer ::
  "institution list \<Rightarrow> file_map \<Rightarrow> utext \<Rightarrow> utext \<Rightarrow> placed_pair \<Rightarrow> split_group \<Rightarrow> split_group"
where
  "claim_for_employer tab files base e p g =
     (let name = base @ NAME_SEPARATOR @ e in
      g\<lparr>gp_name := name, gp_created := map_option (\<lambda>c. c\<lparr>sp_name := name, sp_employer := Some e,
          sp_evidence := FileEvidence (fp_file (snd p)) (evidence_issuer (pair_issuer files p)) (Some e)\<rparr>) (gp_created g)\<rparr>)"

definition release_file :: "id \<Rightarrow> split_group \<Rightarrow> split_group" where
  "release_file f g = g\<lparr>gp_created := map_option (\<lambda>c. c\<lparr>sp_files := filter (\<lambda>i. i \<noteq> f) (sp_files c)\<rparr>) (gp_created g)\<rparr>"

fun add_to_row :: "utext \<Rightarrow> id \<Rightarrow> split_created \<Rightarrow> (utext \<times> split_created) list \<Rightarrow> (utext \<times> split_created) list" where
  "add_to_row k f fresh [] = [(k, fresh)]"
| "add_to_row k f fresh ((k', c) # rows) =
     (if k' = k then (k', c\<lparr>sp_files := sp_files c @ [f]\<rparr>) # rows else (k', c) # add_to_row k f fresh rows)"

definition employer_step ::
  "(utext \<Rightarrow> utext) \<Rightarrow> institution list \<Rightarrow> file_map \<Rightarrow> id \<Rightarrow> utext \<Rightarrow> placed_pair \<Rightarrow> employer_state \<Rightarrow> employer_state"
where
  "employer_step lower tab files doc base p s =
     (case clean_employer (Option.bind (pair_analysis files p) fa_employer) of
        None \<Rightarrow> s
      | Some e \<Rightarrow>
          (let key = employer_key lower e; g = es_group s; f = fp_file (snd p) in
           if name_contains_employer lower (gp_name g) e
           then (if es_employer s = None then s\<lparr>es_employer := Some key\<rparr> else s)
           else if es_employer s = None then s\<lparr>es_employer := Some key, es_group := claim_for_employer tab files base e p g\<rparr>
           else if es_employer s = Some key then s
           else s\<lparr>es_rows := add_to_row key f \<lparr>sp_from = doc, sp_name = base @ NAME_SEPARATOR @ e, sp_company = gp_company g,
                    sp_employer = Some e, sp_files = [f],
                    sp_evidence = FileEvidence f (evidence_issuer (pair_issuer files p)) (Some e)\<rparr> (es_rows s),
                  es_group := release_file f g, es_moved := es_moved s @ [fst p]\<rparr>))"

definition employer_stage ::
  "(utext \<Rightarrow> utext) \<Rightarrow> institution list \<Rightarrow> file_map \<Rightarrow> id \<Rightarrow> split_group \<Rightarrow> employer_state"
where
  "employer_stage lower tab files doc g =
     (let base = employer_base_name tab (gp_name g) in
      fold (employer_step lower tab files doc base) (gp_pairs g)
        \<lparr>es_group = g, es_employer = (if base = gp_name g then None
            else Some (employer_key lower (drop (length base + length NAME_SEPARATOR) (gp_name g)))), es_rows = [], es_moved = []\<rparr>)"

section \<open>The plan\<close>

record company_split_plan =
  sl_renames :: "(id \<times> utext \<times> utext) list"
  sl_created :: "split_created list"
  sl_pairs :: "file_pair list"

text \<open>One item: its rename, its created rows, the positions moved.\<close>

definition split_item ::
  "(utext \<Rightarrow> utext) \<Rightarrow> institution list \<Rightarrow> file_map \<Rightarrow> client_document \<Rightarrow> placed_pair list
   \<Rightarrow> (id \<times> utext \<times> utext) list \<times> split_created list \<times> nat list"
where
  "split_item lower tab files doc ps =
     (let groups = company_groups tab files doc ps;
          stages = map (\<lambda>g. if is_employer_bound (cd_type_key doc) then employer_stage lower tab files (cd_id doc) g
             else \<lparr>es_group = g, es_employer = None, es_rows = [], es_moved = []\<rparr>) groups;
          head = es_group (hd stages)
      in (if gp_name head \<noteq> cd_name doc then [(cd_id doc, cd_name doc, gp_name head)] else [],
          concat (map (\<lambda>s. (case gp_created (es_group s) of None \<Rightarrow> [] | Some c \<Rightarrow> [c]) @ map snd (es_rows s)) stages),
          concat (map (map fst \<circ> gp_pairs) (tl groups)) @ concat (map es_moved stages)))"

definition split_document ::
  "(utext \<Rightarrow> utext) \<Rightarrow> institution list \<Rightarrow> file_map \<Rightarrow> docs \<Rightarrow> placed_pair list \<Rightarrow> id
   \<Rightarrow> (id \<times> utext \<times> utext) list \<times> split_created list \<times> nat list"
where
  "split_document lower tab files ds ps i =
     (case doc_by_id ds i of
        None \<Rightarrow> ([], [], [])
      | Some doc \<Rightarrow> if \<not> is_institution_bound (cd_type_key doc) then ([], [], [])
          else split_item lower tab files doc (filter (\<lambda>p. fp_document (snd p) = i) ps))"

definition plan_company_split ::
  "(utext \<Rightarrow> utext) \<Rightarrow> institution list \<Rightarrow> file_pair list \<Rightarrow> file_map \<Rightarrow> docs \<Rightarrow> company_split_plan"
where
  "plan_company_split lower tab pairs files ds =
     (let ps = enumerate 0 pairs; parts = map (split_document lower tab files ds ps) (uniq (map fp_document pairs));
          moved = concat (map (snd \<circ> snd) parts)
      in \<lparr>sl_renames = concat (map fst parts), sl_created = concat (map (fst \<circ> snd) parts),
          sl_pairs = map snd (filter (\<lambda>p. fst p \<notin> set moved) ps)\<rparr>)"

section \<open>No file is lost\<close>

text \<open>A group holds every file of its pairs, once it is a created row.\<close>

definition holds_files :: "split_group \<Rightarrow> bool" where
  "holds_files g = (case gp_created g of None \<Rightarrow> True | Some c \<Rightarrow> fp_file ` snd ` set (gp_pairs g) \<subseteq> set (sp_files c))"

definition group_of :: "id \<Rightarrow> split_group \<Rightarrow> bool" where
  "group_of i g = (case gp_created g of None \<Rightarrow> False | Some c \<Rightarrow> sp_from c = i)"

lemma add_pair_facts [simp]:
  "gp_pairs (add_pair p g) = gp_pairs g @ [p]" "holds_files g \<Longrightarrow> holds_files (add_pair p g)"
  "group_of i (add_pair p g) = group_of i g" "gp_created (add_pair p g) = None \<longleftrightarrow> gp_created g = None"
  by (auto simp: add_pair_def holds_files_def group_of_def split: option.splits)

lemma add_to_sibling_pairs:
  "set (concat (map gp_pairs (add_to_sibling k p fresh gs))) = insert p (set (concat (map gp_pairs gs)))" if "gp_pairs fresh = [p]"
  using that by (induction gs) auto

lemma add_to_sibling_all:
  "(\<forall>g \<in> set gs. holds_files g \<and> group_of i g) \<Longrightarrow> holds_files fresh \<Longrightarrow> group_of i fresh
   \<Longrightarrow> \<forall>g \<in> set (add_to_sibling k p fresh gs). holds_files g \<and> group_of i g"
  by (induction gs) auto

lemma new_sibling_facts:
  "gp_pairs (new_sibling tab files doc k p) = [p]" "holds_files (new_sibling tab files doc k p)"
  "group_of (cd_id doc) (new_sibling tab files doc k p)"
  by (simp_all add: new_sibling_def holds_files_def group_of_def)

lemma company_step_invariant:
  assumes "company_step tab files doc p (head, sibs) = (head', sibs')" and "gp_created head = None"
    and "\<forall>g \<in> set sibs. holds_files g \<and> group_of (cd_id doc) g"
  shows "gp_created head' = None \<and> (\<forall>g \<in> set sibs'. holds_files g \<and> group_of (cd_id doc) g)
    \<and> set (gp_pairs head') \<union> set (concat (map gp_pairs sibs')) = insert p (set (gp_pairs head) \<union> set (concat (map gp_pairs sibs)))"
proof (cases "identify_institution (pair_issuer files p) tab")
  case None
  then show ?thesis using assms by (auto simp: company_step_def)
next
  case (Some k)
  show ?thesis
  proof (cases "gp_company head \<noteq> None \<and> gp_company head \<noteq> Some k")
    case True
    then have h: "head' = head" "sibs' = add_to_sibling k p (new_sibling tab files doc k p) sibs"
      using assms(1) Some by (auto simp: company_step_def)
    show ?thesis
      using add_to_sibling_all [OF assms(3) new_sibling_facts(2,3)] add_to_sibling_pairs [OF new_sibling_facts(1)] assms(2)
      unfolding h by simp
  next
    case False
    then show ?thesis using assms Some by (auto simp: company_step_def split: if_splits)
  qed
qed

lemma company_fold_invariant:
  assumes "fold (company_step tab files doc) ps (head, sibs) = (head', sibs')" and "gp_created head = None"
    and "\<forall>g \<in> set sibs. holds_files g \<and> group_of (cd_id doc) g"
  shows "gp_created head' = None \<and> (\<forall>g \<in> set sibs'. holds_files g \<and> group_of (cd_id doc) g)
    \<and> set (gp_pairs head') \<union> set (concat (map gp_pairs sibs')) = set ps \<union> set (gp_pairs head) \<union> set (concat (map gp_pairs sibs))"
  using assms
proof (induction ps arbitrary: head sibs)
  case (Cons p ps)
  obtain h s where hs: "company_step tab files doc p (head, sibs) = (h, s)" by (cases "company_step tab files doc p (head, sibs)")
  note inv = company_step_invariant [OF hs Cons.prems(2,3)]
  have "fold (company_step tab files doc) ps (h, s) = (head', sibs')" using Cons.prems(1) hs by simp
  from Cons.IH [OF this] inv show ?case by auto
qed auto

definition rows_hold :: "employer_state \<Rightarrow> id \<Rightarrow> bool" where
  "rows_hold s f = list_ex (\<lambda>r. f \<in> set (sp_files (snd r))) (es_rows s)"

definition group_holds :: "employer_state \<Rightarrow> id \<Rightarrow> bool" where
  "group_holds s f = (case gp_created (es_group s) of None \<Rightarrow> False | Some c \<Rightarrow> f \<in> set (sp_files c))"

definition rows_of :: "id \<Rightarrow> employer_state \<Rightarrow> bool" where
  "rows_of i s = list_all (\<lambda>r. sp_from (snd r) = i) (es_rows s)"

lemma add_to_row_facts:
  "list_ex (\<lambda>r. h \<in> set (sp_files (snd r))) rows \<Longrightarrow> list_ex (\<lambda>r. h \<in> set (sp_files (snd r))) (add_to_row k f fresh rows)"
  "f \<in> set (sp_files fresh) \<Longrightarrow> list_ex (\<lambda>r. f \<in> set (sp_files (snd r))) (add_to_row k f fresh rows)"
  "list_all (\<lambda>r. sp_from (snd r) = i) rows \<Longrightarrow> sp_from fresh = i \<Longrightarrow> list_all (\<lambda>r. sp_from (snd r) = i) (add_to_row k f fresh rows)"
  by (induction rows) auto

lemma claim_release_facts:
  "gp_created (claim_for_employer tab files base e p g) = None \<longleftrightarrow> gp_created g = None"
  "gp_created (release_file f g) = None \<longleftrightarrow> gp_created g = None"
  "group_of i (claim_for_employer tab files base e p g) = group_of i g" "group_of i (release_file f g) = group_of i g"
  by (auto simp: claim_for_employer_def release_file_def group_of_def Let_def split: option.splits)

text \<open>What one pair does to the employer state.\<close>

definition employer_keeps :: "id \<Rightarrow> employer_state \<Rightarrow> employer_state \<Rightarrow> bool" where
  "employer_keeps doc s t = ((\<forall>f. rows_hold s f \<longrightarrow> rows_hold t f) \<and> (\<forall>f. group_holds s f \<longrightarrow> group_holds t f \<or> rows_hold t f)
     \<and> (rows_of doc s \<longrightarrow> rows_of doc t) \<and> (gp_created (es_group t) = None \<longleftrightarrow> gp_created (es_group s) = None)
     \<and> (group_of doc (es_group s) \<longrightarrow> group_of doc (es_group t)))"

lemma employer_keeps_refl [simp]: "employer_keeps doc s s"
  by (simp add: employer_keeps_def)

lemma employer_keeps_trans: "employer_keeps doc s t \<Longrightarrow> employer_keeps doc t u \<Longrightarrow> employer_keeps doc s u"
  unfolding employer_keeps_def by (elim conjE, intro conjI; (blast | simp))

lemma employer_step_keeps:
  "employer_keeps doc s (employer_step lower tab files doc base p s)
   \<and> (es_moved (employer_step lower tab files doc base p s) = es_moved s
      \<or> es_moved (employer_step lower tab files doc base p s) = es_moved s @ [fst p]
         \<and> rows_hold (employer_step lower tab files doc base p s) (fp_file (snd p)))"
proof (cases "clean_employer (Option.bind (pair_analysis files p) fa_employer)")
  case None
  then show ?thesis by (simp add: employer_step_def)
next
  case (Some e)
  let ?g = "es_group s" and ?k = "employer_key lower e" and ?f = "fp_file (snd p)"
  consider (stays) "name_contains_employer lower (gp_name ?g) e \<or> es_employer s = Some ?k"
    | (claims) "\<not> name_contains_employer lower (gp_name ?g) e" "es_employer s = None"
    | (moves) "\<not> name_contains_employer lower (gp_name ?g) e" "es_employer s \<noteq> None" "es_employer s \<noteq> Some ?k" by blast
  then show ?thesis
  proof cases
    case stays
    then show ?thesis using Some
      by (auto simp: employer_step_def employer_keeps_def rows_hold_def group_holds_def rows_of_def Let_def)
  next
    case claims
    have "group_holds s f \<Longrightarrow> group_holds (s\<lparr>es_employer := Some ?k, es_group := claim_for_employer tab files base e p ?g\<rparr>) f" for f
      by (auto simp: group_holds_def claim_for_employer_def Let_def split: option.splits)
    then show ?thesis using Some claims claim_release_facts
      by (auto simp: employer_step_def employer_keeps_def rows_hold_def rows_of_def Let_def)
  next
    case moves
    let ?row = "\<lparr>sp_from = doc, sp_name = base @ NAME_SEPARATOR @ e, sp_company = gp_company ?g, sp_employer = Some e, sp_files = [?f],
        sp_evidence = FileEvidence ?f (evidence_issuer (pair_issuer files p)) (Some e)\<rparr>"
    let ?t = "s\<lparr>es_rows := add_to_row ?k ?f ?row (es_rows s), es_group := release_file ?f ?g, es_moved := es_moved s @ [fst p]\<rparr>"
    obtain k' where "es_employer s = Some k'" using moves(2) by blast
    then have t: "employer_step lower tab files doc base p s = ?t" using Some moves by (simp add: employer_step_def Let_def)
    have "rows_hold ?t ?f" by (simp add: rows_hold_def add_to_row_facts(2))
    moreover have "group_holds s f \<Longrightarrow> f \<noteq> ?f \<Longrightarrow> group_holds ?t f" for f
      by (auto simp: group_holds_def release_file_def split: option.splits)
    ultimately show ?thesis unfolding t employer_keeps_def using claim_release_facts(2,4)
      by (auto simp: rows_hold_def rows_of_def intro: add_to_row_facts(1,3))
  qed
qed

lemma employer_fold_keeps:
  "employer_keeps doc s (fold (employer_step lower tab files doc base) ps s)
   \<and> (\<forall>n \<in> set (es_moved (fold (employer_step lower tab files doc base) ps s)). n \<in> set (es_moved s)
        \<or> (\<exists>p \<in> set ps. fst p = n \<and> rows_hold (fold (employer_step lower tab files doc base) ps s) (fp_file (snd p))))"
proof (induction ps arbitrary: s)
  case (Cons p ps)
  let ?s = "employer_step lower tab files doc base p s" and ?t = "fold (employer_step lower tab files doc base) ps (employer_step lower tab files doc base p s)"
  note step = employer_step_keeps [of doc s lower tab files base p] and ih = Cons.IH [of ?s]
  have keeps: "employer_keeps doc s ?t" using step ih employer_keeps_trans by blast
  have "n \<in> set (es_moved s) \<or> (\<exists>q \<in> set (p # ps). fst q = n \<and> rows_hold ?t (fp_file (snd q)))" if n: "n \<in> set (es_moved ?t)" for n
  proof (cases "n \<in> set (es_moved ?s)")
    case True
    show ?thesis
    proof (cases "n \<in> set (es_moved s)")
      case False
      then have "n = fst p" and "rows_hold ?s (fp_file (snd p))" using True step by auto
      moreover have "rows_hold ?t (fp_file (snd p))" using calculation(2) ih unfolding employer_keeps_def by blast
      ultimately show ?thesis by auto
    qed simp
  next
    case False
    then show ?thesis using n ih by auto
  qed
  then show ?case using keeps by simp
qed simp

definition stage_of :: "(utext \<Rightarrow> utext) \<Rightarrow> institution list \<Rightarrow> file_map \<Rightarrow> client_document \<Rightarrow> split_group \<Rightarrow> employer_state" where
  "stage_of lower tab files doc g = (if is_employer_bound (cd_type_key doc) then employer_stage lower tab files (cd_id doc) g
     else \<lparr>es_group = g, es_employer = None, es_rows = [], es_moved = []\<rparr>)"

definition stage_rows :: "employer_state \<Rightarrow> split_created list" where
  "stage_rows s = (case gp_created (es_group s) of None \<Rightarrow> [] | Some c \<Rightarrow> [c]) @ map snd (es_rows s)"

definition lists_file :: "split_created list \<Rightarrow> id \<Rightarrow> id \<Rightarrow> bool" where
  "lists_file rows i f = list_ex (\<lambda>c. sp_from c = i \<and> f \<in> set (sp_files c)) rows"

lemma stage_facts:
  shows "rows_of (cd_id doc) (stage_of lower tab files doc g)"
    and "group_of (cd_id doc) g \<Longrightarrow> group_of (cd_id doc) (es_group (stage_of lower tab files doc g))"
    and "holds_files g \<Longrightarrow> group_of (cd_id doc) g \<Longrightarrow> q \<in> set (gp_pairs g)
      \<Longrightarrow> group_holds (stage_of lower tab files doc g) (fp_file (snd q)) \<or> rows_hold (stage_of lower tab files doc g) (fp_file (snd q))"
    and "n \<in> set (es_moved (stage_of lower tab files doc g))
      \<Longrightarrow> \<exists>q \<in> set (gp_pairs g). fst q = n \<and> rows_hold (stage_of lower tab files doc g) (fp_file (snd q))"
proof -
  obtain x where keeps: "employer_keeps (cd_id doc) \<lparr>es_group = g, es_employer = x, es_rows = [], es_moved = []\<rparr> (stage_of lower tab files doc g)"
    and moved: "\<forall>n \<in> set (es_moved (stage_of lower tab files doc g)). \<exists>q \<in> set (gp_pairs g). fst q = n
       \<and> rows_hold (stage_of lower tab files doc g) (fp_file (snd q))"
  proof (cases "is_employer_bound (cd_type_key doc)")
    case False
    then show ?thesis by (intro that [of None]) (simp_all add: stage_of_def)
  next
    case True
    let ?base = "employer_base_name tab (gp_name g)"
    let ?x = "if ?base = gp_name g then None else Some (employer_key lower (drop (length ?base + length NAME_SEPARATOR) (gp_name g)))"
    have "stage_of lower tab files doc g = fold (employer_step lower tab files (cd_id doc) ?base) (gp_pairs g)
        \<lparr>es_group = g, es_employer = ?x, es_rows = [], es_moved = []\<rparr>"
      using True by (simp add: stage_of_def employer_stage_def Let_def)
    then show ?thesis
      using employer_fold_keeps [of "cd_id doc" "\<lparr>es_group = g, es_employer = ?x, es_rows = [], es_moved = []\<rparr>" lower tab files ?base "gp_pairs g"]
      by (intro that [of ?x]) simp_all
  qed
  show "rows_of (cd_id doc) (stage_of lower tab files doc g)"
    using keeps by (simp add: employer_keeps_def rows_of_def)
  show "group_of (cd_id doc) g \<Longrightarrow> group_of (cd_id doc) (es_group (stage_of lower tab files doc g))"
    using keeps by (simp add: employer_keeps_def)
  show "\<exists>q \<in> set (gp_pairs g). fst q = n \<and> rows_hold (stage_of lower tab files doc g) (fp_file (snd q))"
    if "n \<in> set (es_moved (stage_of lower tab files doc g))" using moved that by blast
  show "group_holds (stage_of lower tab files doc g) (fp_file (snd q)) \<or> rows_hold (stage_of lower tab files doc g) (fp_file (snd q))"
    if "holds_files g" "group_of (cd_id doc) g" "q \<in> set (gp_pairs g)"
  proof -
    have "group_holds \<lparr>es_group = g, es_employer = x, es_rows = [], es_moved = []\<rparr> (fp_file (snd q))"
      using that by (auto simp: group_holds_def holds_files_def group_of_def split: option.splits)
    then show ?thesis using keeps unfolding employer_keeps_def by blast
  qed
qed

lemma stage_lists:
  "rows_of i s \<Longrightarrow> rows_hold s f \<Longrightarrow> lists_file (stage_rows s) i f"
  "group_of i (es_group s) \<Longrightarrow> group_holds s f \<Longrightarrow> lists_file (stage_rows s) i f"
  by (auto simp: rows_of_def rows_hold_def lists_file_def stage_rows_def list_ex_iff list_all_iff)
    (auto simp: group_of_def group_holds_def lists_file_def stage_rows_def split: option.splits)

lemma company_groups_facts:
  "\<exists>head sibs. company_groups tab files doc ps = head # sibs \<and> (\<forall>g \<in> set sibs. holds_files g \<and> group_of (cd_id doc) g)
     \<and> set (gp_pairs head) \<union> set (concat (map gp_pairs sibs)) = set ps"
proof (cases "identify_institution (Some (cd_name doc)) tab")
  case None
  let ?head = "\<lparr>gp_name = cd_name doc, gp_company = None, gp_pairs = [], gp_created = None\<rparr>"
  obtain h s where f: "fold (company_step tab files doc) ps (?head, []) = (h, s)" by (cases "fold (company_step tab files doc) ps (?head, [])")
  show ?thesis using company_fold_invariant [OF f] None f by (simp add: company_groups_def Let_def)
qed (simp add: company_groups_def Let_def)

lemma split_item_sound:
  assumes "split_item lower tab files doc ps = (renames, created, moved)" and "n \<in> set moved"
  shows "\<exists>q \<in> set ps. fst q = n \<and> lists_file created (cd_id doc) (fp_file (snd q))"
proof -
  obtain head sibs where g: "company_groups tab files doc ps = head # sibs"
    and sibs: "\<forall>g \<in> set sibs. holds_files g \<and> group_of (cd_id doc) g"
    and all: "set (gp_pairs head) \<union> set (concat (map gp_pairs sibs)) = set ps"
    using company_groups_facts [of tab files doc ps] by blast
  let ?st = "stage_of lower tab files doc"
  have created: "created = concat (map (stage_rows \<circ> ?st) (head # sibs))"
    and moved: "moved = concat (map (map fst \<circ> gp_pairs) sibs) @ concat (map (es_moved \<circ> ?st) (head # sibs))"
    using assms(1) by (auto simp: split_item_def g stage_of_def [abs_def] stage_rows_def [abs_def] comp_def Let_def)
  have listed: "lists_file created (cd_id doc) f" if "g \<in> set (head # sibs)" "lists_file (stage_rows (?st g)) (cd_id doc) f" for g f
    using that unfolding created lists_file_def list_ex_iff by auto
  consider g where "g \<in> set sibs" "n \<in> fst ` set (gp_pairs g)" | g where "g \<in> set (head # sibs)" "n \<in> set (es_moved (?st g))"
    using assms(2) unfolding moved by auto
  then show ?thesis
  proof cases
    case 1
    then obtain q where q: "q \<in> set (gp_pairs g)" "fst q = n" by auto
    have "lists_file (stage_rows (?st g)) (cd_id doc) (fp_file (snd q))"
      using stage_facts(3) [where g = g and doc = doc and q = q and lower = lower and tab = tab and files = files]
        stage_facts(1,2) [where g = g and doc = doc and lower = lower and tab = tab and files = files] stage_lists sibs 1(1) q(1) by blast
    then show ?thesis using listed [of g] 1(1) q all by (intro bexI [of _ q]) auto
  next
    case 2
    then obtain q where q: "q \<in> set (gp_pairs g)" "fst q = n" "rows_hold (?st g) (fp_file (snd q))" using stage_facts(4) by blast
    have "lists_file (stage_rows (?st g)) (cd_id doc) (fp_file (snd q))" using stage_lists(1) stage_facts(1) q(3) by blast
    then show ?thesis using listed [OF 2(1)] 2(1) q all by (intro bexI [of _ q]) auto
  qed
qed

lemma split_document_sound:
  assumes "n \<in> set (snd (snd (split_document lower tab files ds ps i)))"
  shows "\<exists>q \<in> set ps. fst q = n \<and> fp_document (snd q) = i \<and> lists_file (fst (snd (split_document lower tab files ds ps i))) i (fp_file (snd q))"
proof (cases "doc_by_id ds i")
  case None
  then show ?thesis using assms by (simp add: split_document_def)
next
  case (Some doc)
  have i: "cd_id doc = i" using Some by (auto simp: doc_by_id_def dest: map_of_SomeD)
  obtain renames created moved where s: "split_item lower tab files doc (filter (\<lambda>p. fp_document (snd p) = i) ps) = (renames, created, moved)"
    by (metis prod.exhaust)
  show ?thesis
  proof (cases "is_institution_bound (cd_type_key doc)")
    case True
    then have d: "split_document lower tab files ds ps i = (renames, created, moved)" using Some s by (simp add: split_document_def)
    then obtain q where "q \<in> set (filter (\<lambda>p. fp_document (snd p) = i) ps)" "fst q = n" "lists_file created i (fp_file (snd q))"
      using split_item_sound [OF s, of n] assms i by auto
    then show ?thesis unfolding d by (intro bexI [of _ q]) simp_all
  qed (use assms Some in \<open>simp add: split_document_def\<close>)
qed

text \<open>C37: Dividing an item by company and employer loses no file: every pair the planner tied either stays on its item, or its file is listed by a row the split creates out of that same item.\<close>

theorem split_loses_no_file:
  assumes "p \<in> set pairs"
  shows "p \<in> set (sl_pairs (plan_company_split lower tab pairs files ds))
     \<or> lists_file (sl_created (plan_company_split lower tab pairs files ds)) (fp_document p) (fp_file p)"
proof -
  let ?ps = "enumerate 0 pairs" and ?parts = "map (split_document lower tab files ds (enumerate 0 pairs)) (uniq (map fp_document pairs))"
  obtain k where "k < length pairs" "pairs ! k = p" using assms by (auto simp: in_set_conv_nth)
  then have k: "(k, p) \<in> set ?ps" by (simp add: in_set_enumerate_eq)
  show ?thesis
  proof (cases "k \<in> set (concat (map (snd \<circ> snd) ?parts))")
    case False
    then show ?thesis using k by (force simp: plan_company_split_def Let_def)
  next
    case True
    then obtain i where i: "i \<in> set (uniq (map fp_document pairs))" "k \<in> set (snd (snd (split_document lower tab files ds ?ps i)))" by auto
    then obtain q where q: "q \<in> set ?ps" "fst q = k" "fp_document (snd q) = i"
      "lists_file (fst (snd (split_document lower tab files ds ?ps i))) i (fp_file (snd q))"
      using split_document_sound by blast
    then have "snd q = p" using k by (auto simp: in_set_enumerate_eq)
    then have "lists_file (sl_created (plan_company_split lower tab pairs files ds)) (fp_document p) (fp_file p)"
      using q i(1) unfolding lists_file_def list_ex_iff by (fastforce simp: plan_company_split_def Let_def)
    then show ?thesis ..
  qed
qed

text \<open>Two files of one item, of whatever companies the table knows.\<close>

lemma split_loses_no_file_witness:
  "let q = \<lparr>fp_file = ''g'', fp_document = ''a'', fp_evidence = None\<rparr>; p = \<lparr>fp_file = ''f'', fp_document = ''a'', fp_evidence = None\<rparr>;
       plan = plan_company_split id [] [p, q] Map.empty [] in
   q \<in> set (sl_pairs plan) \<or> lists_file (sl_created plan) ''a'' ''g''"
  using split_loses_no_file [of "\<lparr>fp_file = ''g'', fp_document = ''a'', fp_evidence = None\<rparr>"
    "[\<lparr>fp_file = ''f'', fp_document = ''a'', fp_evidence = None\<rparr>, \<lparr>fp_file = ''g'', fp_document = ''a'', fp_evidence = None\<rparr>]"
    id "[]" Map.empty "[]"]
  unfolding Let_def by simp

end
