(* ===== verification/Planner.thy ===== *)
theory Planner
  imports TaxFetch PlannerTools CompanySplit Verification Sanitize SendOps
begin

text \<open>
  The planning cycle of the capital-declaration agent, first half (\<open>plan.ts\<close>): what
  a cycle reads before the model is asked (\<open>loadPlanningContext\<close>, \<open>getWaChannelState\<close>,
  \<open>buildIntakeState\<close>, \<open>buildDecisionContext\<close>) and the asking with one corrective retry
  (\<open>decide.ts\<close>). The database the cycle works on is \<open>plan_world\<close>; what comes from
  outside (the clock, the thread, the channel, the model's calls, the database's fresh
  ids) is a \<open>cycle_input\<close>, one for the cycle and one for the cycle after a verification.
\<close>

section \<open>The world\<close>

text \<open>\<open>pw_request\<close> and \<open>pw_confirmed\<close> are the attestation's \<open>agent_fields\<close>; the e-mails sent to the accountant are notices.\<close>

datatype notice = ClaimedNotice "utext list" | GoalCompleteNotice

record plan_world =
  pw_docs :: docs
  pw_files :: "document_file list"
  pw_spouse :: stored_spouse
  pw_request :: "id option"
  pw_confirmed :: "(id \<times> utext) option"
  pw_goal :: goal_status
  pw_fetch :: fetch_world
  pw_notices :: "notice list"

datatype channel_reason = NotOptedIn | NoSender | NoTemplate bool

datatype plan_error = ChannelUnavailable channel_reason | ModelFailed | Rejected tool_error | RowError checklist_error
  | GoalNotDone bool | BadTime timing_error | FetchFailed fetch_error | OutOfFuel

text \<open>A step throws or answers, and either way leaves the database as far as it got.\<close>

type_synonym 'b planning = "plan_world \<Rightarrow> (plan_error, 'b) result \<times> plan_world"

definition preturn :: "'b \<Rightarrow> 'b planning" where "preturn x = (\<lambda>w. (Inr x, w))"
definition pfail :: "plan_error \<Rightarrow> 'b planning" where "pfail e = (\<lambda>w. (Inl e, w))"

definition pbind :: "'b planning \<Rightarrow> ('b \<Rightarrow> 'c planning) \<Rightarrow> 'c planning" where
  "pbind m f = (\<lambda>w. case m w of (Inl e, w') \<Rightarrow> (Inl e, w') | (Inr x, w') \<Rightarrow> f x w')"

definition pget :: "(plan_world \<Rightarrow> 'b) \<Rightarrow> 'b planning" where "pget f = (\<lambda>w. (Inr (f w), w))"
definition pmodify :: "(plan_world \<Rightarrow> plan_world) \<Rightarrow> unit planning" where "pmodify f = (\<lambda>w. (Inr (), f w))"

definition presult :: "('e \<Rightarrow> plan_error) \<Rightarrow> ('e, 'b) result \<Rightarrow> 'b planning" where
  "presult err r = (\<lambda>w. (case r of Inl e \<Rightarrow> Inl (err e) | Inr x \<Rightarrow> Inr x, w))"

fun peach :: "('a \<Rightarrow> 's \<Rightarrow> 's planning) \<Rightarrow> 'a list \<Rightarrow> 's \<Rightarrow> 's planning" where
  "peach f [] s = preturn s"
| "peach f (x # xs) s = pbind (f x s) (peach f xs)"

text \<open>A query on the checklist, and one that may throw.\<close>

definition on_docs :: "(docs \<Rightarrow> docs \<times> 'b) \<Rightarrow> 'b planning" where
  "on_docs q = (\<lambda>w. let (t, x) = q (pw_docs w) in (Inr x, w\<lparr>pw_docs := t\<rparr>))"

definition on_docs_or_throw :: "(docs \<Rightarrow> (checklist_error, docs \<times> 'b) result) \<Rightarrow> 'b planning" where
  "on_docs_or_throw q = (\<lambda>w. case q (pw_docs w) of Inl e \<Rightarrow> (Inl (RowError e), w) | Inr (t, x) \<Rightarrow> (Inr x, w\<lparr>pw_docs := t\<rparr>))"

lemma pbind_simps [simp]:
  "pbind (preturn x) f = f x" "pbind (pfail e) f = pfail e"
  by (simp_all add: pbind_def preturn_def pfail_def fun_eq_iff)

lemma pbind_Inr:
  "pbind m f w = (Inr y, w') \<longleftrightarrow> (\<exists>x w1. m w = (Inr x, w1) \<and> f x w1 = (Inr y, w'))"
  by (auto simp: pbind_def split: prod.splits sum.splits)

lemma snd_pbind: "snd (pbind m f w) = (case m w of (Inl e, w1) \<Rightarrow> w1 | (Inr x, w1) \<Rightarrow> snd (f x w1))"
  by (auto simp: pbind_def split: prod.splits sum.splits)

section \<open>The inputs of a cycle\<close>

record thread_message =
  tm_id :: id
  tm_inbound :: bool
  tm_channel :: message_channel
  tm_subject :: "utext option"
  tm_body :: utext
  tm_sent :: "ms option"
  tm_created :: ms

definition message_time :: "thread_message \<Rightarrow> ms" where
  "message_time m = (case tm_sent m of None \<Rightarrow> tm_created m | Some t \<Rightarrow> t)"

text \<open>A template of the agent type, and whether it is an introduction.\<close>

type_synonym purposed_template = "wa_template \<times> bool"

record channel_input =
  ch_enabled :: bool
  ch_phone :: "string option"
  ch_sender :: "string option"
  ch_last_inbound :: "ms option"
  ch_first_contact_done :: bool
  ch_templates :: "purposed_template list"

record 'a cycle_input =
  ci_live :: bool
  ci_now :: ms
  ci_name :: utext
  ci_history :: "thread_message list"
  ci_sent_at :: "id \<Rightarrow> ms option"
  ci_channel :: channel_input
  ci_providers :: "fetch_provider list"
  ci_answer :: "decision_context \<Rightarrow> nat \<Rightarrow> (tool_name \<times> 'a) list option"
  ci_resolved_id :: "nat \<Rightarrow> nat \<Rightarrow> id"
  ci_added_id :: "nat \<Rightarrow> nat \<Rightarrow> id"
  ci_split_id :: "nat \<Rightarrow> nat \<Rightarrow> id"
  ci_session_id :: id
  ci_draft_id :: id
  ci_send_now :: ms

record 'a plan_env =
  pe_client :: id
  pe_js :: js_env
  pe_institutions :: "institution list"
  pe_parse :: "tool_name \<Rightarrow> 'a \<Rightarrow> tool_call option"
  pe_calendar :: hebrew_calendar
  pe_wall :: "ms \<Rightarrow> ms"
  pe_label :: "ms \<Rightarrow> utext"
  pe_tax_year :: int
  pe_kill :: bool
  pe_id_on_file :: "utext option"
  pe_marital :: "marital_status option"
  pe_read :: "client_document \<Rightarrow> document_file \<Rightarrow> extraction"
  pe_cycle :: "bool \<Rightarrow> 'a cycle_input"

section \<open>The channel\<close>

text \<open>\<open>templatePurpose.ts\<close>.\<close>

definition split_templates_by_purpose :: "purposed_template list \<Rightarrow> bool \<Rightarrow> wa_template list \<times> wa_template list" where
  "split_templates_by_purpose ts first_contact_done =
     (let usable = (\<lambda>t. if snd t then \<not> first_contact_done else first_contact_done)
      in (map fst (filter usable ts), map fst (filter (\<lambda>t. \<not> usable t) ts)))"

record wa_channel_state =
  wc_unavailable :: "channel_reason option"
  wc_window_open :: bool
  wc_window_closes :: "ms option"
  wc_templates :: "wa_template list"
  wc_hidden :: "wa_template list"

definition wc_allowed :: "wa_channel_state \<Rightarrow> bool" where "wc_allowed s = (wc_unavailable s = None)"

definition get_wa_channel_state :: "channel_input \<Rightarrow> ms \<Rightarrow> wa_channel_state" where
  "get_wa_channel_state ch now =
     (let closed = (\<lambda>why hidden. \<lparr>wc_unavailable = Some why, wc_window_open = False, wc_window_closes = None, wc_templates = [], wc_hidden = hidden\<rparr>) in
      if \<not> ch_enabled ch \<or> \<not> truthy (ch_phone ch) then closed NotOptedIn []
      else if ch_sender ch = None then closed NoSender []
      else (let closes = window_close_time (ch_last_inbound ch);
                is_open = (case closes of None \<Rightarrow> False | Some t \<Rightarrow> now < t);
                (usable, hidden) = split_templates_by_purpose (ch_templates ch) (ch_first_contact_done ch)
            in if \<not> is_open \<and> usable = [] then closed (NoTemplate (ch_first_contact_done ch)) hidden
               else \<lparr>wc_unavailable = None, wc_window_open = is_open, wc_window_closes = closes, wc_templates = usable, wc_hidden = hidden\<rparr>))"

section \<open>The intake state\<close>

definition last_inbound_wa :: "thread_message list \<Rightarrow> ms option" where
  "last_inbound_wa history = map_option message_time (List.find (\<lambda>m. tm_inbound m \<and> tm_channel m = ChWhatsapp) (rev history))"

text \<open>\<open>approvedPropertyFilesOf\<close> of \<open>provenFacts.ts\<close>.\<close>

definition approved_extraction :: "client_document \<Rightarrow> (verification_record \<times> extracted_answer) option" where
  "approved_extraction d =
     (if cd_status d \<noteq> Approved \<or> cd_type_key d \<noteq> Some ''real_estate'' then None
      else (case cd_verification d of None \<Rightarrow> None
          | Some v \<Rightarrow> if \<not> vr_passed v then None else map_option (\<lambda>a. (v, a)) (vr_extracted v)))"

definition seller_kind_of :: "raw_value \<Rightarrow> seller_fact option" where
  "seller_kind_of v = (case v of
       RawText t \<Rightarrow> if t = jstr ''private'' then Some SellerPrivate else if t = jstr ''builder'' then Some SellerBuilder else None
     | _ \<Rightarrow> None)"

definition approved_property_files_of :: "docs \<Rightarrow> id \<Rightarrow> approved_property_file option" where
  "approved_property_files_of ds = map_of (rev (List.map_filter
     (\<lambda>d. case approved_extraction d of None \<Rightarrow> None
        | Some (v, a) \<Rightarrow> if vr_file_id v = [] then None
            else Some (vr_file_id v, \<lparr>ap_document = cd_id d, ap_seller = seller_kind_of (ea_field a ''seller_kind'')\<rparr>)) ds))"

definition inbound_text :: "thread_message \<Rightarrow> utext" where
  "inbound_text m = sanitize_inline 300 (or_empty (tm_subject m)) @ [10] @ sanitize_untrusted 10000 (tm_body m)"

definition is_multi_instance :: "string option \<Rightarrow> bool" where
  "is_multi_instance k = (case k of None \<Rightarrow> False
     | Some key \<Rightarrow> (case get_catalog_type key of None \<Rightarrow> False | Some t \<Rightarrow> ct_multi t))"

definition build_intake_state ::
  "'a plan_env \<Rightarrow> 'a cycle_input \<Rightarrow> docs \<Rightarrow> document_file list \<Rightarrow> plan_world \<Rightarrow> intake_state"
where
  "build_intake_state E ci ds files w =
     (let requested_at = Option.bind (pw_request w) (ci_sent_at ci);
          inbound = filter tm_inbound (ci_history ci)
      in \<lparr>in_resolvable = List.map_filter (\<lambda>d. if cd_status d \<in> {Unresolved, NotRequired}
              then Some \<lparr>rw_id = cd_id d, rw_status = cd_status d, rw_type = cd_type_key d, rw_multi = is_multi_instance (cd_type_key d)\<rparr>
              else None) ds,
          in_typed = List.map_filter (\<lambda>d. if cd_type_key d \<noteq> None \<and> cd_status d \<notin> {Unresolved, NotRequired}
              then Some \<lparr>tr_id = cd_id d, tr_status = cd_status d, tr_type = cd_type_key d, tr_multi = is_multi_instance (cd_type_key d),
                     tr_paper = cd_paper_key d\<rparr> else None) ds,
          in_texts = map_of (rev (map (\<lambda>m. (tm_id m, inbound_text m)) inbound)),
          in_approved = approved_property_files_of ds,
          in_self_evident = map_of (rev (self_evident_files_of (je_lower (pe_js E)) (pe_institutions E) (ci_name ci)
              (read_spouse (Some (pw_spouse w))) files)),
          in_all_settled = all_documents_settled ds,
          in_attestation_requested = (requested_at \<noteq> None),
          in_confirmable = (case requested_at of None \<Rightarrow> []
             | Some t \<Rightarrow> map tm_id (filter (\<lambda>m. t < message_time m) inbound)),
          in_attestation_confirmed = (pw_confirmed w \<noteq> None)\<rparr>)"

section \<open>A run\<close>

record 'a plan_run =
  pr_input :: "'a cycle_input"
  pr_after :: bool
  pr_docs :: docs
  pr_files :: "document_file list"
  pr_channel :: wa_channel_state
  pr_fetch :: "fetch_context list"
  pr_intake :: intake_state
  pr_confirmed :: bool

definition load_planning_context :: "'a plan_env \<Rightarrow> bool \<Rightarrow> 'a plan_run planning" where
  "load_planning_context E after w =
     (let ci = pe_cycle E after; ds = documents_of_client (pe_client E) (pw_docs w); files = files_of_client (pe_client E) (pw_files w);
          channel = get_wa_channel_state (ci_channel ci) (ci_now ci); intake = build_intake_state E ci ds files w
      in (case wc_unavailable channel of
            Some why \<Rightarrow> (Inl (ChannelUnavailable why), w)
          | None \<Rightarrow> (Inr \<lparr>pr_input = ci, pr_after = after, pr_docs = ds, pr_files = files, pr_channel = channel,
              pr_fetch = load_tax_fetch_contexts (ci_providers ci) (pe_client E) ds (wc_allowed channel) (wc_window_open channel)
                 (last_inbound_wa (ci_history ci)) (fw_sessions (pw_fetch w)),
              pr_intake = intake, pr_confirmed = in_attestation_confirmed intake\<rparr>, w)))"

definition build_decision_context :: "'a plan_run \<Rightarrow> decision_context" where
  "build_decision_context run = \<lparr>dc_window_open = wc_window_open (pr_channel run), dc_templates = wc_templates (pr_channel run),
     dc_hidden = wc_hidden (pr_channel run), dc_fetch = map fetch_state_of (pr_fetch run), dc_intake = Some (pr_intake run),
     dc_after_verification = pr_after run\<rparr>"

section \<open>Asking the model\<close>

definition MAX_DECISION_ATTEMPTS :: nat where "MAX_DECISION_ATTEMPTS = 2"

text \<open>\<open>decide\<close>: \<open>attempts\<close> are left, \<open>n\<close> is the number of the next one; a rejected answer is fed back, the last rejection is thrown.\<close>

fun decide ::
  "'a plan_env \<Rightarrow> (nat \<Rightarrow> (tool_name \<times> 'a) list option) \<Rightarrow> decision_context \<Rightarrow> nat \<Rightarrow> nat \<Rightarrow> tool_error
   \<Rightarrow> (plan_error, normalized_decision) result"
where
  "decide E answer ctx n 0 rejection = Inl (Rejected rejection)"
| "decide E answer ctx n (Suc attempts) rejection =
     (case answer n of
        None \<Rightarrow> Inl ModelFailed
      | Some calls \<Rightarrow>
          (case gate_decision (pe_js E) (pe_institutions E) (pe_parse E) ctx calls of
             Inr d \<Rightarrow> Inr d
           | Inl e \<Rightarrow> decide E answer ctx (Suc n) attempts e))"

definition ask_planner :: "'a plan_env \<Rightarrow> 'a plan_run \<Rightarrow> normalized_decision planning" where
  "ask_planner E run =
     (let ctx = build_decision_context run
      in presult id (decide E (ci_answer (pr_input run) ctx) ctx 1 MAX_DECISION_ATTEMPTS NoCall))"

lemma decide_gated:
  "decide E answer ctx n k e = Inr d \<Longrightarrow> \<exists>calls. gate_decision (pe_js E) (pe_institutions E) (pe_parse E) ctx calls = Inr d"
  by (induction k arbitrary: n e) (auto split: option.splits sum.splits)

lemma load_planning_context_Inr:
  assumes "load_planning_context E after w = (Inr run, w')"
  shows "w' = w" and "pr_after run = after" and "pr_input run = pe_cycle E after"
    and "pr_docs run = documents_of_client (pe_client E) (pw_docs w)" and "pr_files run = files_of_client (pe_client E) (pw_files w)"
    and "pr_intake run = build_intake_state E (pe_cycle E after) (pr_docs run) (pr_files run) w"
    and "pr_confirmed run = (pw_confirmed w \<noteq> None)"
  using assms by (auto simp: load_planning_context_def build_intake_state_def Let_def split: option.splits)

lemma ask_planner_Inr:
  assumes "ask_planner E run w = (Inr d, w')"
  shows "w' = w" and "\<exists>calls. gate_decision (pe_js E) (pe_institutions E) (pe_parse E) (build_decision_context run) calls = Inr d"
  using assms by (auto simp: ask_planner_def presult_def Let_def dest: decide_gated split: sum.splits)

end
