(* ===== verification/PlanApply.thy ===== *)
theory PlanApply
  imports Planner
begin

text \<open>
  The planning cycle, second half (\<open>plan.ts\<close>): the apply steps in the order
  \<open>planFollowUp\<close> runs them, the verification of what was collected with the one
  follow-up cycle after it, the completion of the goal and the scheduling of the reply.
  Audit rows, logs and the push to the workspace are left out. The decline routine,
  which takes over when the client refused, is the outcome \<open>ClientRefused\<close>.
\<close>

section \<open>What the apply steps changed\<close>

record checklist_changes =
  ch_applied :: nat
  ch_with_files :: "(client_document \<times> id list) list"
  ch_claimed :: "utext list"
  ch_costs :: "(client_document \<times> stated_cost) list"
  ch_vehicles :: "(client_document \<times> stated_vehicle) list"

definition NO_CHANGES :: checklist_changes where
  "NO_CHANGES = \<lparr>ch_applied = 0, ch_with_files = [], ch_claimed = [], ch_costs = [], ch_vehicles = []\<rparr>"

definition count_change :: "checklist_changes \<Rightarrow> checklist_changes" where
  "count_change ch = ch\<lparr>ch_applied := ch_applied ch + 1\<rparr>"

definition document_instance_of :: "resolved_instance \<Rightarrow> document_instance" where
  "document_instance_of i = \<lparr>di_name = rs_name i, di_description = rs_description i, di_already_provided = rs_already_provided i,
     di_paper_key = rs_paper i\<rparr>"

text \<open>The rows a resolution or an addition created, one per instance in order.\<close>

definition created_rows :: "docs \<Rightarrow> resolved_instance list \<Rightarrow> checklist_changes \<Rightarrow> checklist_changes" where
  "created_rows rows xs ch =
     (let pairs = zip rows xs in
      (count_change ch)\<lparr>ch_with_files := ch_with_files ch @ map (\<lambda>(r, i). (r, rs_files i)) pairs,
         ch_costs := ch_costs ch @ List.map_filter (\<lambda>(r, i). map_option (Pair r) (rs_cost i)) pairs,
         ch_vehicles := ch_vehicles ch @ List.map_filter (\<lambda>(r, i). map_option (Pair r) (rs_vehicle i)) pairs,
         ch_claimed := ch_claimed ch @ map cd_name (filter (\<lambda>r. cd_status r = Claimed) rows)\<rparr>)"

section \<open>The apply steps\<close>

definition counting :: "checklist_changes \<Rightarrow> 'r option \<Rightarrow> checklist_changes" where
  "counting ch row = (if row = None then ch else count_change ch)"

definition apply_resolution ::
  "'a plan_env \<Rightarrow> 'a plan_run \<Rightarrow> nat \<times> document_resolution \<Rightarrow> checklist_changes \<Rightarrow> checklist_changes planning"
where
  "apply_resolution E run r ch =
     (case snd r of
        ResolveNotRequired i e \<Rightarrow>
          pbind (on_docs (resolve_not_required i (pe_client E) e)) (\<lambda>row. preturn (counting ch row))
      | ResolveRequired i xs e \<Rightarrow>
          pbind (on_docs_or_throw (resolve_required (ci_resolved_id (pr_input run) (fst r)) i (pe_client E) (map document_instance_of xs) (Some e)))
            (\<lambda>rows. preturn (case rows of None \<Rightarrow> ch | Some rs \<Rightarrow> created_rows rs xs ch)))"

definition apply_addition ::
  "'a plan_env \<Rightarrow> 'a plan_run \<Rightarrow> nat \<times> instance_addition \<Rightarrow> checklist_changes \<Rightarrow> checklist_changes planning"
where
  "apply_addition E run a ch =
     pbind (on_docs_or_throw (add_instances (ci_added_id (pr_input run) (fst a)) (ad_anchor (snd a)) (pe_client E)
         (map document_instance_of (ad_instances (snd a))) (Some (ad_evidence (snd a)))))
       (\<lambda>rows. preturn (case rows of None \<Rightarrow> ch | Some [] \<Rightarrow> ch | Some rs \<Rightarrow> created_rows rs (ad_instances (snd a)) ch))"

definition apply_retirement :: "'a plan_env \<Rightarrow> document_retirement \<Rightarrow> checklist_changes \<Rightarrow> checklist_changes planning" where
  "apply_retirement E r ch = pbind (on_docs (retire (fst r) (pe_client E) (snd r))) (\<lambda>row. preturn (counting ch row))"

definition apply_stated_cost :: "'a plan_env \<Rightarrow> id \<times> stated_cost \<Rightarrow> checklist_changes \<Rightarrow> checklist_changes planning" where
  "apply_stated_cost E t ch =
     (let c = snd t in
      pbind (on_docs (mark_stated (fst t) (pe_client E)
          (ChatEvidence (fst (sc_evidence c)) (snd (sc_evidence c)) (sc_amount c) (sc_currency c))))
        (\<lambda>row. preturn (counting ch row)))"

text \<open>The statement is merged into what the row said when the cycle began.\<close>

definition apply_vehicle_declaration ::
  "'a plan_env \<Rightarrow> (id \<times> stated_vehicle) \<times> client_document option \<Rightarrow> checklist_changes \<Rightarrow> checklist_changes planning"
where
  "apply_vehicle_declaration E t ch =
     (case t of ((i, v), previous) \<Rightarrow>
       (let evidence = merge_vehicle_evidence (Option.bind previous (\<lambda>d. vehicle_evidence_of (cd_evidence d) (cd_paper_key d)))
              (sv_evidence v) (sv_facts v)
        in pbind (on_docs (mark_stated_vehicle i (pe_client E) (ChatVehicleEvidence (fst evidence) (snd evidence))))
             (\<lambda>row. preturn (counting ch row))))"

definition apply_resolutions :: "'a plan_env \<Rightarrow> 'a plan_run \<Rightarrow> normalized_decision \<Rightarrow> checklist_changes \<Rightarrow> checklist_changes planning" where
  "apply_resolutions E run d = peach (apply_resolution E run) (enumerate 0 (nd_resolutions d))"

definition apply_additions :: "'a plan_env \<Rightarrow> 'a plan_run \<Rightarrow> normalized_decision \<Rightarrow> checklist_changes \<Rightarrow> checklist_changes planning" where
  "apply_additions E run d = peach (apply_addition E run) (enumerate 0 (nd_additions d))"

definition apply_retirements :: "'a plan_env \<Rightarrow> normalized_decision \<Rightarrow> checklist_changes \<Rightarrow> checklist_changes planning" where
  "apply_retirements E d = peach (apply_retirement E) (nd_retired d)"

definition apply_stated_costs :: "'a plan_env \<Rightarrow> normalized_decision \<Rightarrow> checklist_changes \<Rightarrow> checklist_changes planning" where
  "apply_stated_costs E d ch = peach (apply_stated_cost E) (nd_costs d @ map (\<lambda>(r, c). (cd_id r, c)) (ch_costs ch)) ch"

definition apply_vehicle_declarations ::
  "'a plan_env \<Rightarrow> 'a plan_run \<Rightarrow> normalized_decision \<Rightarrow> checklist_changes \<Rightarrow> checklist_changes planning"
where
  "apply_vehicle_declarations E run d ch = peach (apply_vehicle_declaration E)
     (map (\<lambda>v. (v, List.find (\<lambda>r. cd_id r = fst v) (pr_docs run))) (nd_vehicles d) @ map (\<lambda>(r, v). ((cd_id r, v), None)) (ch_vehicles ch)) ch"

definition reload_documents :: "'a plan_env \<Rightarrow> 'a plan_run \<Rightarrow> 'a plan_run planning" where
  "reload_documents E run = pget (\<lambda>w. run\<lparr>pr_docs := documents_of_client (pe_client E) (pw_docs w)\<rparr>)"

text \<open>\<open>clearAttestation\<close>, \<open>setAttestationConfirmed\<close>, \<open>setAttestationRequest\<close> of \<open>db/queries/clients.ts\<close>.\<close>

definition clear_attestation :: "plan_world \<Rightarrow> plan_world" where
  "clear_attestation w = w\<lparr>pw_request := None, pw_confirmed := None\<rparr>"

definition set_attestation_confirmed :: "id \<times> utext \<Rightarrow> plan_world \<Rightarrow> plan_world" where
  "set_attestation_confirmed e w = w\<lparr>pw_confirmed := Some e\<rparr>"

definition set_attestation_request :: "id \<Rightarrow> plan_world \<Rightarrow> plan_world" where
  "set_attestation_request e w = w\<lparr>pw_request := Some e\<rparr>"

definition notify :: "notice \<Rightarrow> plan_world \<Rightarrow> plan_world" where
  "notify n w = w\<lparr>pw_notices := pw_notices w @ [n]\<rparr>"

definition settle_checklist_changes :: "'a plan_env \<Rightarrow> 'a plan_run \<Rightarrow> checklist_changes \<Rightarrow> 'a plan_run planning" where
  "settle_checklist_changes E run ch =
     pbind (if 0 < ch_applied ch
        then (let stale = (in_attestation_requested (pr_intake run) \<or> in_attestation_confirmed (pr_intake run)) in
          pbind (pmodify (if stale then clear_attestation else (\<lambda>w. w)))
            (\<lambda>_. reload_documents E (if stale then run\<lparr>pr_confirmed := False\<rparr> else run)))
        else preturn run)
       (\<lambda>run'. pbind (pmodify (if ch_claimed ch \<noteq> [] then notify (ClaimedNotice (ch_claimed ch)) else (\<lambda>w. w))) (\<lambda>_. preturn run'))"

definition apply_attestation_confirmed :: "'a plan_run \<Rightarrow> normalized_decision \<Rightarrow> 'a plan_run planning" where
  "apply_attestation_confirmed run d =
     (case nd_attestation d of
        Some (ConfirmAttestation e) \<Rightarrow> pbind (pmodify (set_attestation_confirmed e)) (\<lambda>_. preturn (run\<lparr>pr_confirmed := True\<rparr>))
      | _ \<Rightarrow> preturn run)"

section \<open>Collecting\<close>

definition doc_name :: "docs \<Rightarrow> id \<Rightarrow> utext option" where
  "doc_name ds i = map_option cd_name (List.find (\<lambda>d. cd_id d = i) ds)"

text \<open>What the split did: the re-pointed pairs, the items renamed, the rows created with their source item.\<close>

record split_outcome =
  so_pairs :: "(id \<times> id) list"
  so_renamed :: "id list"
  so_created :: "(id \<times> id) list"

definition split_items_of :: "company_split_plan \<Rightarrow> docs \<Rightarrow> company_split_item list" where
  "split_items_of plan ds =
     map (\<lambda>i. \<lparr>cs_document = i,
            cs_new_name = (case List.find (\<lambda>r. fst r = i) (sl_renames plan) of Some (_, _, n) \<Rightarrow> n | None \<Rightarrow> or_empty (doc_name ds i)),
            cs_siblings = map (\<lambda>c. (sp_name c, sp_evidence c)) (filter (\<lambda>c. sp_from c = i) (sl_created plan))\<rparr>)
       (uniq (map fst (sl_renames plan) @ map sp_from (sl_created plan)))"

text \<open>The files of one planned sibling go to its row, or back to the item when it got none.\<close>

definition place_sibling :: "id \<Rightarrow> split_created \<times> client_document option \<Rightarrow> (id \<times> id) list" where
  "place_sibling item p = map (\<lambda>f. (f, case snd p of None \<Rightarrow> item | Some row \<Rightarrow> cd_id row)) (sp_files (fst p))"

definition split_item_outcome :: "company_split_plan \<Rightarrow> id list \<Rightarrow> company_split_item \<times> docs \<Rightarrow> split_outcome" where
  "split_item_outcome plan left_out p =
     (let i = cs_document (fst p); rows = snd p; siblings = filter (\<lambda>c. sp_from c = i) (sl_created plan);
          placed = map (\<lambda>(j, c). (c, if j < length rows then Some (rows ! j) else None)) (enumerate 0 siblings)
      in if i \<in> set left_out then \<lparr>so_pairs = concat (map (\<lambda>c. place_sibling i (c, None)) siblings), so_renamed = [], so_created = []\<rparr>
         else \<lparr>so_pairs = concat (map (place_sibling i) placed),
                so_renamed = (if i \<in> set (map fst (sl_renames plan)) then [i] else []),
                so_created = List.map_filter (\<lambda>(c, row). map_option (\<lambda>r. (cd_id r, i)) row) placed\<rparr>)"

definition split_items_by_company ::
  "'a plan_env \<Rightarrow> 'a plan_run \<Rightarrow> file_pair list \<Rightarrow> ('a plan_run \<times> file_pair list \<times> split_outcome) planning"
where
  "split_items_by_company E run allowed =
     (let nil = \<lparr>so_pairs = [], so_renamed = [], so_created = []\<rparr>;
          plan = plan_company_split (je_lower (pe_js E)) (pe_institutions E) allowed (file_by_id (pr_files run)) (pr_docs run)
      in if pr_after run then preturn (run, allowed, nil)
         else if sl_renames plan = [] \<and> sl_created plan = [] then preturn (run, sl_pairs plan, nil)
         else (let items = split_items_of plan (pr_docs run) in
           pbind (on_docs (split_by_company (ci_split_id (pr_input run)) (pe_client E) items)) (\<lambda>(created, left_out).
             (let outs = map (split_item_outcome plan left_out) (zip items created) in
              pbind (reload_documents E run) (\<lambda>run'.
                preturn (run', sl_pairs plan, \<lparr>so_pairs = concat (map so_pairs outs), so_renamed = concat (map so_renamed outs),
                   so_created = concat (map so_created outs)\<rparr>))))))"

definition paired_file :: "(id \<times> id) list \<Rightarrow> id \<Rightarrow> id option" where
  "paired_file pairs i = map_option fst (List.find (\<lambda>p. snd p = i) pairs)"

text \<open>A real file earned the item: a strong match of the analyzer, or a verified legible file paired to it.\<close>

definition file_earns :: "document_file list \<Rightarrow> (id \<times> id) list \<Rightarrow> id \<Rightarrow> bool" where
  "file_earns files pairs i = (list_ex (\<lambda>f. file_matches_document f i) files
     \<or> (case Option.bind (paired_file pairs i) (file_by_id files) of None \<Rightarrow> False | Some f \<Rightarrow> is_verified_legible f))"

definition decide_collect_or_claim ::
  "bool \<Rightarrow> document_file list \<Rightarrow> id list \<Rightarrow> id set \<Rightarrow> (id \<times> id) list \<Rightarrow> (id \<times> id \<times> tie_refusal) list \<Rightarrow> id list \<times> id list"
where
  "decide_collect_or_claim after files proposed pending pairs refused =
     (if after then ([], [])
      else (filter (\<lambda>i. i \<in> pending \<and> file_earns files pairs i) proposed,
            filter (\<lambda>i. i \<in> pending \<and> \<not> file_earns files pairs i \<and> i \<notin> set (map (fst \<circ> snd) refused)) proposed))"

definition link_file :: "'a plan_env \<Rightarrow> 'a plan_run \<Rightarrow> id \<times> id \<Rightarrow> document_file list \<Rightarrow> document_file list" where
  "link_file E run p fs =
     (case file_by_id (pr_files run) (fst p) of
        None \<Rightarrow> fs
      | Some f \<Rightarrow> if is_quarantined f then fs
          else (if df_parent f = None then (\<lambda>t. t) else set_label (df_id f) (child_display_name (doc_name (pr_docs run) (snd p))))
                 (link_to_document (fst p) (pe_client E) (snd p) fs))"

record collection_outcome =
  co_collected :: "id list"
  co_claimed :: "id list"
  co_pairs :: "(id \<times> id) list"
  co_touched :: "id set"

definition write_collection :: "'a plan_env \<Rightarrow> 'a plan_run \<Rightarrow> collection_outcome \<Rightarrow> plan_world \<Rightarrow> plan_world" where
  "write_collection E run o' w =
     (let c = pe_client E; claimed = co_claimed o';
          t = (if co_collected o' = [] then pw_docs w else mark_collected c (co_collected o') (pw_docs w));
          w1 = w\<lparr>pw_docs := (if claimed = [] then t else mark_claimed c claimed t),
                 pw_files := fold (link_file E run) (co_pairs o') (pw_files w)\<rparr>
      in if claimed = [] then w1
         else notify (ClaimedNotice (map cd_name (filter (\<lambda>d. cd_id d \<in> set claimed) (pr_docs run)))) w1)"

definition collect_files ::
  "'a plan_env \<Rightarrow> 'a plan_run \<Rightarrow> normalized_decision \<Rightarrow> checklist_changes \<Rightarrow> ('a plan_run \<times> collection_outcome) planning"
where
  "collect_files E run d ch =
     (let files = file_by_id (pr_files run);
          pending = set (map cd_id (filter (\<lambda>r. cd_status r = Pending) (pr_docs run)));
          checked = filter_pairs_by_company (pe_institutions E)
             (applicable_file_pairs (nd_matched d) files (set (map cd_id (pr_docs run)))) files (pr_docs run)
      in pbind (split_items_by_company E run (fst checked)) (\<lambda>(run', allowed, split).
        (let fresh = (if pr_after run then ([], []) else assign_files_to_new_rows (pe_institutions E) (ch_with_files ch) files);
             pairs = map (\<lambda>p. (fp_file p, fp_document p)) allowed @ so_pairs split @ fst fresh;
             proposed = uniq (nd_collected d @ map snd (fst fresh)
                @ map fst (filter (\<lambda>c. snd c \<in> set (nd_collected d)) (so_created split)));
             (collected, claimed) = decide_collect_or_claim (pr_after run) (pr_files run) proposed
                (pending \<union> set (map fst (so_created split))) pairs (snd checked @ snd fresh);
             o' = \<lparr>co_collected = collected, co_claimed = claimed, co_pairs = pairs,
                   co_touched = set (so_renamed split) \<union> set (map fst (so_created split))\<rparr>
         in pbind (pmodify (write_collection E run' o')) (\<lambda>_. preturn (run', o')))))"

end
