(* ===== verification/Closing.thy ===== *)
theory Closing
  imports Files SendProps
begin

text \<open>
  The two fixed messages that end a conversation: the closing text after the goal
  completes (\<open>closingMessage.ts\<close>, \<open>sendClosingMessage\<close> of \<open>plan.ts\<close>) and the decline
  routine (\<open>clientDeclineRules.ts\<close>, \<open>clientDecline.ts\<close>) with the send that stores and
  delivers them (\<open>twilio/sendAndRecord.ts\<close>). Whether the provider accepts a text is an
  argument; e-mails to the accountant are recorded as values.
\<close>

section \<open>Texts\<close>

record accountant_names =
  ac_hebrew :: "utext option"
  ac_name :: "utext option"
  ac_email :: "utext option"

definition OFFICE_HE :: utext where
  "OFFICE_HE = [1492, 1502, 1496, 1508, 1500, 32, 1489, 1514, 1497, 1511]"

definition accountant_display_name :: "accountant_names option \<Rightarrow> utext" where
  "accountant_display_name a = (case a of None \<Rightarrow> OFFICE_HE
     | Some a \<Rightarrow>
         (let hebrew = js_trim (or_empty (ac_hebrew a)); name = js_trim (or_empty (ac_name a)); email = or_empty (ac_email a)
          in if hebrew \<noteq> [] then hebrew else if name \<noteq> [] then name else if email \<noteq> [] then email else OFFICE_HE))"

definition client_first_name :: "utext \<Rightarrow> utext" where
  "client_first_name name = takeWhile (\<lambda>c. \<not> js_space c) (js_trim name)"

definition THANKS_HE :: utext where "THANKS_HE = [1514, 1493, 1491, 1492, 32, 1512, 1489, 1492]"

definition CLOSING_BODY_HE :: utext where
  "CLOSING_BODY_HE = [32, 1511, 1497, 1489, 1500, 1504, 1493, 32, 1488, 1514, 32, 1499, 1500, 32, 1502, 1492, 32, 1513, 1510, 1512, 1497, 1498, 32, 1500, 1492, 1510, 1492, 1512, 1514, 32, 1492, 1492, 1493, 1503, 46, 32, 1488, 1501, 32, 1497, 1492, 1497, 1492, 32, 1510, 1493, 1512, 1498, 32, 1489, 1502, 1513, 1492, 1493, 32, 1504, 1493, 1505, 1507, 44, 32, 1512, 1493, 1488, 1492, 32, 1492, 1495, 1513, 1489, 1493, 1503, 32]"

definition WILL_CALL_HE :: utext where
  "WILL_CALL_HE = [32, 1497, 1497, 1510, 1493, 1512, 32, 1488, 1497, 1514, 1498, 32, 1511, 1513, 1512, 46]"

definition closing_message_text :: "utext \<Rightarrow> accountant_names option \<Rightarrow> utext" where
  "closing_message_text name a =
     (let first = client_first_name name;
          greeting = (if first \<noteq> [] then THANKS_HE @ [32] @ first @ [33] else THANKS_HE @ [33])
      in greeting @ CLOSING_BODY_HE @ accountant_display_name a @ WILL_CALL_HE)"

definition UNDERSTOOD_HE :: utext where
  "UNDERSTOOD_HE = [1492, 1489, 1504, 1514, 1497, 44, 32, 1514, 1493, 1491, 1492]"

definition DECLINE_BODY_HE :: utext where
  "DECLINE_BODY_HE = [32, 1500, 1488, 32, 1488, 1513, 1500, 1495, 32, 1506, 1493, 1491, 32, 1492, 1493, 1491, 1506, 1493, 1514, 32, 1502, 1499, 1488, 1503, 46, 32, 1488, 1514, 32, 1492, 1502, 1505, 1502, 1499, 1497, 1501, 32, 1500, 1492, 1510, 1492, 1512, 1514, 32, 1492, 1492, 1493, 1503, 32, 1488, 1508, 1513, 1512, 32, 1500, 1492, 1506, 1489, 1497, 1512, 32, 1497, 1513, 1497, 1512, 1493, 1514, 32, 1500, 1502, 1513, 1512, 1491, 32, 1512, 1493, 1488, 1492, 32, 1492, 1495, 1513, 1489, 1493, 1503, 32]"

definition decline_ack_text :: "utext \<Rightarrow> accountant_names option \<Rightarrow> utext" where
  "decline_ack_text name a =
     (let first = client_first_name name;
          opening = (if first \<noteq> [] then UNDERSTOOD_HE @ [32] @ first @ [46] else UNDERSTOOD_HE @ [46])
      in opening @ DECLINE_BODY_HE @ accountant_display_name a @ [46])"

section \<open>Delivery\<close>

datatype no_delivery = WhatsappUnavailable | WindowClosed | NoSenderNumber | NoClientNumber | SendFailure

text \<open>From, to and body; the same conditions for both messages.\<close>

definition fixed_text_delivery ::
  "string option \<Rightarrow> bool \<Rightarrow> bool \<Rightarrow> string option \<Rightarrow> utext \<Rightarrow> (no_delivery, string \<times> string \<times> utext) result"
where
  "fixed_text_delivery phone allowed window_open sender body =
     (if \<not> allowed then Inl WhatsappUnavailable
      else if \<not> window_open then Inl WindowClosed
      else (case sender of None \<Rightarrow> Inl NoSenderNumber
        | Some from_number \<Rightarrow> if \<not> truthy phone then Inl NoClientNumber else Inr (from_number, the phone, body)))"

definition closing_message_delivery ::
  "utext \<Rightarrow> string option \<Rightarrow> accountant_names option \<Rightarrow> bool \<Rightarrow> bool \<Rightarrow> string option \<Rightarrow> (no_delivery, string \<times> string \<times> utext) result"
where
  "closing_message_delivery name phone a allowed window_open sender =
     fixed_text_delivery phone allowed window_open sender (closing_message_text name a)"

definition decline_ack_delivery ::
  "utext \<Rightarrow> string option \<Rightarrow> accountant_names option \<Rightarrow> bool \<Rightarrow> bool \<Rightarrow> string option \<Rightarrow> (no_delivery, string \<times> string \<times> utext) result"
where
  "decline_ack_delivery name phone a allowed window_open sender =
     fixed_text_delivery phone allowed window_open sender (decline_ack_text name a)"

text \<open>The row is stored as a draft, sent, then marked sent; a refused text stays a draft.\<close>

definition send_text_and_record :: "id \<Rightarrow> bool \<Rightarrow> id \<Rightarrow> utext \<Rightarrow> ms \<Rightarrow> 'q world \<Rightarrow> bool \<times> 'q world" where
  "send_text_and_record e accepted c body now w =
     (let w1 = insert_draft e c ChWhatsapp body None now w in
      if \<not> accepted then (False, w1)
      else (True, record_audit ''wa.text_sent'' e (mark_sent e now
             (case email_by_id e w1 of None \<Rightarrow> w1 | Some m \<Rightarrow> log_sent c m w1))))"

definition send_closing_message ::
  "id \<Rightarrow> bool \<Rightarrow> id \<Rightarrow> (no_delivery, string \<times> string \<times> utext) result \<Rightarrow> ms \<Rightarrow> 'q world \<Rightarrow> (no_delivery, id) result \<times> 'q world"
where
  "send_closing_message e accepted c delivery now w =
     (case delivery of
        Inl why \<Rightarrow> (Inl why, w)
      | Inr (_, _, body) \<Rightarrow> (let (ok, w') = send_text_and_record e accepted c body now w in (if ok then Inr e else Inl SendFailure, w')))"

section \<open>The decline\<close>

definition DECLINE_BUTTON_ID :: string where "DECLINE_BUTTON_ID = ''decline''"

definition DECLINE_BUTTON_TEXT :: utext where
  "DECLINE_BUTTON_TEXT = [1492, 1506, 1489, 1512, 1492, 32, 1497, 1513, 1497, 1512, 1493, 1514, 32, 1500, 1502, 1513, 1512, 1491]"

definition normalize_button_text :: "utext \<Rightarrow> utext" where
  "normalize_button_text t = rev (dropWhile (\<lambda>c. c = 46 \<or> c = 33) (rev (collapse_ws False (js_trim t))))"

definition is_decline_button :: "message_channel \<Rightarrow> bool \<Rightarrow> utext option \<Rightarrow> utext option \<Rightarrow> bool" where
  "is_decline_button channel is_new payload body =
     (if channel \<noteq> ChWhatsapp \<or> \<not> is_new then False
      else if payload = Some (jstr DECLINE_BUTTON_ID) then True
      else (case body of None \<Rightarrow> False | Some t \<Rightarrow> normalize_button_text t = normalize_button_text DECLINE_BUTTON_TEXT))"

definition missing_document_names :: "docs \<Rightarrow> utext list" where
  "missing_document_names ds = map cd_name (filter (\<lambda>d. cd_status d \<in> {Pending, Unresolved}) ds)"

text \<open>The send world with the \<open>declined_at\<close> marks and the e-mails of missing documents sent to the accountant.\<close>

record 'q decline_state =
  dw_world :: "'q world"
  dw_declined :: "id set"
  dw_emails :: "(id \<times> utext list) list"

definition mark_declined :: "id \<Rightarrow> 'q decline_state \<Rightarrow> ('q decline_state) option" where
  "mark_declined c s = (case client_by_id c (dw_world s) of None \<Rightarrow> None
     | Some cl \<Rightarrow> if cl_goal cl = GPending \<and> c \<notin> dw_declined s
         then Some (s\<lparr>dw_world := set_paused c True (dw_world s), dw_declined := insert c (dw_declined s)\<rparr>) else None)"

text \<open>What the routine reads from outside: the acknowledgement's delivery, the provider's answer, the row id, the checklist.\<close>

record decline_input =
  dn_delivery :: "(no_delivery, string \<times> string \<times> utext) result"
  dn_accepted :: bool
  dn_row_id :: id
  dn_documents :: docs

text \<open>Whether the decline was handled and the acknowledgement sent.\<close>

definition handle_client_decline ::
  "'q send_env \<Rightarrow> decline_input \<Rightarrow> id \<Rightarrow> ms \<Rightarrow> 'q decline_state \<Rightarrow> (bool \<times> bool) \<times> 'q decline_state"
where
  "handle_client_decline E inp c now s =
     (case mark_declined c s of
        None \<Rightarrow> ((False, False), s)
      | Some s1 \<Rightarrow>
          (let w1 = record_audit ''client.declined'' c (clear_drafting_state c (remove_future_email E c (dw_world s1)));
               (sent, w2) = send_closing_message (dn_row_id inp) (dn_accepted inp) c (dn_delivery inp) now w1
           in ((True, \<exists>e. sent = Inr e),
               s1\<lparr>dw_world := record_audit ''send_decline_ack'' c w2,
                  dw_emails := dw_emails s1 @ [(c, missing_document_names (dn_documents inp))]\<rparr>)))"

section \<open>A decline is final\<close>

definition stands :: "id \<Rightarrow> 'q world \<Rightarrow> bool" where
  "stands c w = (w_jobs w c = None \<and> (\<exists>cl. client_by_id c w = Some cl \<and> cl_paused cl)
     \<and> (\<exists>m \<in> set (w_emails w). em_client m = c \<and> em_status m = EReceived))"

lemma mark_sent_keeps_received:
  "m \<in> set ms \<Longrightarrow> em_id m \<noteq> e \<Longrightarrow> m \<in> set (update_where (\<lambda>m. em_id m = e) f ms)"
  by (force simp: set_update_where)

lemma send_text_stands:
  assumes "stands c w" and "\<forall>m \<in> set (w_emails w). em_id m \<noteq> e"
  shows "stands c (snd (send_text_and_record e ok c body now w))"
proof -
  obtain m where "m \<in> set (w_emails w)" "em_client m = c" "em_status m = EReceived" using assms(1) by (auto simp: stands_def)
  then have m: "m \<in> set (w_emails w)" "em_id m \<noteq> e" "em_client m = c" "em_status m = EReceived" using assms(2) by auto
  have mails: "w_emails (snd (send_text_and_record e ok c body now w)) =
      (let t = w_emails (insert_draft e c ChWhatsapp body None now w)
       in if ok then update_where (\<lambda>m. em_id m = e) (\<lambda>m. m\<lparr>em_status := ESent, em_sent_at := Some now\<rparr>) t else t)"
    by (simp add: send_text_and_record_def mark_sent_def update_emails_def record_audit_def log_sent_def Let_def split: option.split)
  have "m \<in> set (w_emails (snd (send_text_and_record e ok c body now w)))"
    using m unfolding mails by (auto simp: insert_draft_def Let_def intro: mark_sent_keeps_received)
  moreover have "w_jobs (snd (send_text_and_record e ok c body now w)) = w_jobs w"
    and "w_clients (snd (send_text_and_record e ok c body now w)) = w_clients w"
    by (simp_all add: send_text_and_record_def mark_sent_def update_emails_def record_audit_def log_sent_def insert_draft_def Let_def
        split: option.split)
  ultimately show ?thesis using assms(1) m by (auto simp: stands_def client_by_id_def)
qed

lemma stands_no_plan:
  assumes "stands c w"
  shows "set_future_email E c now w = (Inr (), w)"
proof -
  obtain cl m where cl: "client_by_id c w = Some cl" "cl_paused cl" and m: "m \<in> set (w_emails w)" "em_client m = c" "em_status m = EReceived"
    using assms by (auto simp: stands_def)
  have "m \<in> set (list_for_client c w)" using m by (simp add: list_for_client_def)
  then have "\<not> is_held_first_message_client c cl w"
    by (auto simp: is_held_first_message_client_def holds_first_message_def split: option.splits)
  then show ?thesis using cl by (simp add: set_future_email_def)
qed

lemma remove_stands:
  assumes "client_by_id c w = Some cl" and "cl_paused cl"
    and "m \<in> set (w_emails w)" "em_client m = c" "em_status m = EReceived" "em_review m = None"
  shows "stands c (clear_drafting_state c (remove_future_email E c w))"
    and "em_id ` set (w_emails (clear_drafting_state c (remove_future_email E c w))) = em_id ` set (w_emails w)"
proof -
  let ?w = "remove_future_email E c w"
  have mails: "w_emails ?w = update_where (\<lambda>m. em_client m = c \<and> em_review m = Some RPending)
      (\<lambda>m. m\<lparr>em_review := Some RSuperseded, em_status := EDraft\<rparr>) (w_emails w)"
    by (simp add: remove_future_email_def supersede_pending_review_def update_emails_def delete_job_def Let_def split: option.split)
  have rest: "w_clients ?w = w_clients w" "w_jobs ?w c = None"
    by (auto simp: remove_future_email_def supersede_pending_review_def update_emails_def delete_job_def job_for_client_def Let_def
        split: option.split)
  have "m \<in> set (w_emails ?w)" unfolding mails set_update_where using assms(3,6) by force
  then show "stands c (clear_drafting_state c ?w)"
    using assms rest by (auto simp: stands_def clear_drafting_state_def update_client_def client_by_id_def split: option.splits if_splits)
  show "em_id ` set (w_emails (clear_drafting_state c ?w)) = em_id ` set (w_emails w)"
    unfolding image_set by (simp add: clear_drafting_state_def update_client_def mails update_where_def comp_def if_distrib [of em_id] cong: if_cong)
qed

text \<open>C21: A client who declined is left alone: once the decline is handled nothing is pending for them, the planner does nothing however often it is asked, and a second decline has no effect and sends no second acknowledgement.\<close>

theorem decline_is_final:
  assumes "handle_client_decline E inp c now s = ((True, sent), s')"
    and "m \<in> set (w_emails (dw_world s))" "em_client m = c" "em_status m = EReceived" "em_review m = None"
    and "\<forall>m \<in> set (w_emails (dw_world s)). em_id m \<noteq> dn_row_id inp"
  shows "w_jobs (dw_world s') c = None \<and> set_future_email E c later (dw_world s') = (Inr (), dw_world s')
     \<and> handle_client_decline E inp' c later s' = ((False, False), s')"
proof -
  obtain cl where cl: "client_by_id c (dw_world s) = Some cl" "cl_goal cl = GPending" "c \<notin> dw_declined s"
    using assms(1) by (auto simp: handle_client_decline_def mark_declined_def split: option.splits if_splits)
  let ?w = "set_paused c True (dw_world s)"
  let ?w1 = "record_audit ''client.declined'' c (clear_drafting_state c (remove_future_email E c ?w))"
  have p: "client_by_id c ?w = Some (cl\<lparr>cl_paused := True\<rparr>)" "w_emails ?w = w_emails (dw_world s)"
    using cl(1) by (auto simp: set_paused_def update_client_def client_by_id_def split: option.splits if_splits)
  have st: "stands c (clear_drafting_state c (remove_future_email E c ?w))"
    and ids: "em_id ` set (w_emails (clear_drafting_state c (remove_future_email E c ?w))) = em_id ` set (w_emails (dw_world s))"
    using remove_stands [OF p(1)] assms(2-5) p(2) by simp_all
  have audit: "stands c (record_audit x y w) = stands c w" "w_emails (record_audit x y w) = w_emails w" for x y and w :: "'a world"
    by (simp_all add: stands_def record_audit_def client_by_id_def)
  have "dn_row_id inp \<notin> em_id ` set (w_emails ?w1)" unfolding audit(2) ids using assms(6) by auto
  then have fresh: "\<forall>m \<in> set (w_emails ?w1). em_id m \<noteq> dn_row_id inp" by (metis image_eqI)
  have "stands c (snd (send_closing_message (dn_row_id inp) (dn_accepted inp) c (dn_delivery inp) now ?w1))"
  proof (cases "dn_delivery inp")
    case (Inr d)
    then show ?thesis using send_text_stands [OF _ fresh] st
      by (cases d) (simp add: send_closing_message_def audit split: prod.split, metis audit(1) snd_conv)
  qed (simp add: send_closing_message_def audit st)
  moreover have s': "dw_world s' = record_audit ''send_decline_ack'' c (snd (send_closing_message (dn_row_id inp) (dn_accepted inp) c (dn_delivery inp) now ?w1))"
    and d: "dw_declined s' = insert c (dw_declined s)"
    using assms(1) cl by (auto simp: handle_client_decline_def mark_declined_def Let_def split: prod.splits)
  ultimately have st': "stands c (dw_world s')" by (simp add: audit)
  have "mark_declined c s' = None" using d by (simp add: mark_declined_def split: option.split)
  then show ?thesis using st' stands_no_plan [OF st'] by (simp add: stands_def handle_client_decline_def)
qed

text \<open>A client who wrote and then declines: the acknowledgement goes out, the pending draft never does.\<close>

definition declining_state :: "job_table decline_state" where
  "declining_state = \<lparr>dw_world = (demo_world False EDraft None)\<lparr>w_emails := [demo_draft EDraft None, (demo_draft EReceived None)\<lparr>em_id := ''in''\<rparr>]\<rparr>,
     dw_declined = {}, dw_emails = []\<rparr>"

definition declining_input :: decline_input where
  "declining_input = \<lparr>dn_delivery = Inr (''+972'', ''+1'', UNDERSTOOD_HE), dn_accepted = True, dn_row_id = ''ack'', dn_documents = []\<rparr>"

lemma decline_is_final_witness:
  "let s' = snd (handle_client_decline demo_env declining_input ''c'' 600 declining_state)
   in w_jobs (dw_world s') ''c'' = None \<and> set_future_email demo_env ''c'' 700 (dw_world s') = (Inr (), dw_world s')"
proof -
  obtain s' where s': "handle_client_decline demo_env declining_input ''c'' 600 declining_state = ((True, True), s')"
    by (auto simp: handle_client_decline_def mark_declined_def declining_state_def declining_input_def demo_world_def client_by_id_def
        demo_client_def send_closing_message_def send_text_and_record_def Let_def)
  have "w_jobs (dw_world s') ''c'' = None \<and> set_future_email demo_env ''c'' 700 (dw_world s') = (Inr (), dw_world s')"
    using decline_is_final [OF s', of "(demo_draft EReceived None)\<lparr>em_id := ''in''\<rparr>" 700 declining_input]
    by (simp add: declining_state_def declining_input_def demo_draft_def)
  then show ?thesis by (simp add: s')
qed

end
