(* ===== verification/PlanCycle.thy ===== *)
theory PlanCycle
  imports PlanApply Closing
begin

text \<open>
  The planning cycle as a whole (\<open>planFollowUp\<close>): the verification of what a collecting
  answer collected and the one cycle after it, the completion of the goal, and the
  reply. \<open>planFollowUp\<close> calls itself, so the cycle takes fuel; two units are always enough.
\<close>

section \<open>After collecting\<close>

definition verify_env_of :: "'a plan_env \<Rightarrow> 'a plan_run \<Rightarrow> plan_world \<Rightarrow> verify_env" where
  "verify_env_of E run w = \<lparr>ve_lower = je_lower (pe_js E), ve_kill = pe_kill E, ve_client = pe_client E, ve_name = ci_name (pr_input run),
     ve_id_on_file = pe_id_on_file E, ve_marital = pe_marital E, ve_tax_year = pe_tax_year E, ve_files = pw_files w, ve_read = pe_read E\<rparr>"

definition pick_verification_targets :: "'a plan_run \<Rightarrow> collection_outcome \<Rightarrow> (id \<times> id) list" where
  "pick_verification_targets run o' = List.map_filter
     (\<lambda>i. let matched = map_option df_id (List.find (\<lambda>f. file_matches_document f i) (rev (pr_files run)));
              paired = paired_file (co_pairs o') i
          in map_option (Pair i) (if i \<in> co_touched o' then (case paired of None \<Rightarrow> matched | Some f \<Rightarrow> Some f)
               else (case matched of None \<Rightarrow> paired | Some f \<Rightarrow> Some f)))
     (co_collected o')"

definition run_verification :: "'a plan_env \<Rightarrow> 'a plan_run \<Rightarrow> (id \<times> id) list \<Rightarrow> plan_world \<Rightarrow> plan_world" where
  "run_verification E run targets w =
     (let s = fst (verify_batch (verify_env_of E run w) targets \<lparr>vs_docs = pw_docs w, vs_spouse = pw_spouse w\<rparr>)
      in w\<lparr>pw_docs := vs_docs s, pw_spouse := vs_spouse s\<rparr>)"

section \<open>The end of a cycle\<close>

text \<open>A reply: the draft's id, body, template and delay.\<close>

datatype planned = NothingPlanned | ClientRefused | GoalReached | ReplyScheduled id utext "id option" int

definition fetch_decision_of :: "'a plan_run \<Rightarrow> normalized_decision \<Rightarrow> (tax_fetch_action \<times> fetch_context) option \<times> string list option" where
  "fetch_decision_of run d = (case nd_fetch d of
       None \<Rightarrow> (None, None)
     | Some t \<Rightarrow> (map_option (Pair (td_action t)) (List.find (\<lambda>c. fc_provider c = td_provider t) (pr_fetch run)), Some (td_keys t)))"

definition apply_fetch :: "'a plan_env \<Rightarrow> 'a plan_run \<Rightarrow> normalized_decision \<Rightarrow> (id \<times> int) option \<Rightarrow> unit planning" where
  "apply_fetch E run d message = (\<lambda>w.
     case apply_tax_fetch_action (ci_session_id (pr_input run)) (pe_client E) (fst (fetch_decision_of run d)) (snd (fetch_decision_of run d))
            (pe_tax_year E) message (pw_fetch w) of
       Inl e \<Rightarrow> (Inl (FetchFailed e), w)
     | Inr fw \<Rightarrow> (Inr (), w\<lparr>pw_fetch := fw\<rparr>))"

definition goal_done :: "'a plan_run \<Rightarrow> normalized_decision \<Rightarrow> bool" where
  "goal_done run d = (if pr_docs run \<noteq> [] then all_documents_settled (pr_docs run) \<and> pr_confirmed run else nd_outcome d = GoalDone)"

definition complete_goal_if_done :: "'a plan_env \<Rightarrow> 'a plan_run \<Rightarrow> normalized_decision \<Rightarrow> bool planning" where
  "complete_goal_if_done E run d =
     (if goal_done run d then
        pbind (apply_fetch E run d None) (\<lambda>_.
        pbind (pmodify (\<lambda>w. w\<lparr>pw_goal := GComplete\<rparr>)) (\<lambda>_.
        pbind (pmodify (if pr_docs run \<noteq> [] then notify GoalCompleteNotice else (\<lambda>w. w))) (\<lambda>_. preturn True)))
      else if nd_outcome d = GoalDone then pfail (GoalNotDone (all_documents_settled (pr_docs run)))
      else preturn False)"

fun message_body :: "follow_up_message \<Rightarrow> utext" where
  "message_body (Freeform t) = t"
| "message_body (Template _ _ rendered) = rendered"

fun message_template :: "follow_up_message \<Rightarrow> id option" where
  "message_template (Freeform _) = None"
| "message_template (Template sid _ _) = Some sid"

text \<open>The send time: rolled off the blocked days, then resolved to an instant.\<close>

definition reply_time :: "'a plan_env \<Rightarrow> 'a plan_run \<Rightarrow> utext \<Rightarrow> (timing_error, resolved_send_at) result" where
  "reply_time E run t =
     (let ci = pr_input run;
          last_inbound = last_inbound_message_at (map (\<lambda>m. (tm_inbound m, tm_sent m, tm_created m)) (ci_history ci))
      in resolve_send_at (je_lower (pe_js E)) (pe_wall E) (pe_label E)
           (fst (roll_blocked_send_at (pe_calendar E) t last_inbound (ci_now ci))) (ci_send_now ci))"

definition schedule_reply ::
  "'a plan_env \<Rightarrow> 'a plan_run \<Rightarrow> normalized_decision \<Rightarrow> follow_up_message \<Rightarrow> utext \<Rightarrow> planned planning"
where
  "schedule_reply E run d m t =
     pbind (presult BadTime (reply_time E run t)) (\<lambda>resolved.
       (let draft = ci_draft_id (pr_input run); delay = max 0 (ra_utc resolved - ci_send_now (pr_input run)) in
        pbind (pmodify (if nd_attestation d = Some RequestAttestation then set_attestation_request draft else (\<lambda>w. w))) (\<lambda>_.
        pbind (apply_fetch E run d (Some (draft, delay))) (\<lambda>_.
          preturn (ReplyScheduled draft (message_body m) (message_template m) delay)))))"

section \<open>The cycle\<close>

definition apply_changes :: "'a plan_env \<Rightarrow> 'a plan_run \<Rightarrow> normalized_decision \<Rightarrow> checklist_changes planning" where
  "apply_changes E run d =
     pbind (apply_resolutions E run d NO_CHANGES) (\<lambda>ch.
     pbind (apply_additions E run d ch) (\<lambda>ch.
     pbind (apply_retirements E d ch) (\<lambda>ch.
     pbind (apply_stated_costs E d ch) (apply_vehicle_declarations E run d))))"

definition verify_then_replan :: "planned planning \<Rightarrow> 'a plan_env \<Rightarrow> 'a plan_run \<Rightarrow> collection_outcome \<Rightarrow> planned planning" where
  "verify_then_replan rerun E run o' =
     pbind (pmodify (run_verification E run (pick_verification_targets run o'))) (\<lambda>_.
       if ci_live (pe_cycle E True) then rerun else preturn NothingPlanned)"

definition conclude_cycle ::
  "planned planning \<Rightarrow> 'a plan_env \<Rightarrow> normalized_decision \<Rightarrow> 'a plan_run \<times> collection_outcome \<Rightarrow> planned planning"
where
  "conclude_cycle rerun E d p =
     (let (run, o') = p in
      if nd_outcome d = Collecting then verify_then_replan rerun E run o'
      else pbind (complete_goal_if_done E run d) (\<lambda>finished.
        if finished then preturn GoalReached
        else (case nd_outcome d of Reply m t \<Rightarrow> schedule_reply E run d m t | _ \<Rightarrow> preturn NothingPlanned)))"

definition act_on_decision :: "planned planning \<Rightarrow> 'a plan_env \<Rightarrow> 'a plan_run \<Rightarrow> normalized_decision \<Rightarrow> planned planning" where
  "act_on_decision rerun E run d =
     (if nd_outcome d = Declined then preturn ClientRefused
      else pbind (apply_changes E run d) (\<lambda>ch.
        pbind (settle_checklist_changes E run ch) (\<lambda>run.
        pbind (apply_attestation_confirmed run d) (\<lambda>run.
        pbind (collect_files E run d ch) (conclude_cycle rerun E d)))))"

definition plan_cycle :: "planned planning \<Rightarrow> 'a plan_env \<Rightarrow> bool \<Rightarrow> planned planning" where
  "plan_cycle rerun E after =
     pbind (load_planning_context E after) (\<lambda>run. pbind (ask_planner E run) (act_on_decision rerun E run))"

fun plan_follow_up :: "nat \<Rightarrow> 'a plan_env \<Rightarrow> bool \<Rightarrow> planned planning" where
  "plan_follow_up 0 E after = pfail OutOfFuel"
| "plan_follow_up (Suc n) E after = plan_cycle (plan_follow_up n E True) E after"

end
