(* ===== verification/PlanProps.thy ===== *)
theory PlanProps
  imports PlanCycle
begin

text \<open>
  What a whole planning cycle can do. The steps of the cycle are related to the state
  they leave by \<open>cycle_relation\<close>: a relation on worlds that every primitive step of the
  planner respects is respected by the cycle. Its interpretations give the refinement
  of the checklist's state machine and the integrity of the received files; the
  theorems on termination, collecting and the goal follow the answer through the cycle.
\<close>

section \<open>Relations every step respects\<close>

definition steps_by :: "(plan_world \<Rightarrow> plan_world \<Rightarrow> bool) \<Rightarrow> 'b planning \<Rightarrow> bool" where
  "steps_by R m = (\<forall>w. R w (snd (m w)))"

fun op_client :: "checklist_op \<Rightarrow> id" where
  "op_client (OpCollect c ids) = c"
| "op_client (OpClaim c ids) = c"
| "op_client (OpNotRequired i c e) = c"
| "op_client (OpRequired u i c xs e) = c"
| "op_client (OpAdd u i c xs e) = c"
| "op_client (OpSplit u c items) = c"
| "op_client (OpRetire i c e) = c"
| "op_client (OpStated i c e) = c"
| "op_client (OpStatedVehicle i c e) = c"
| "op_client (OpSetVerification i c v) = c"
| "op_client (OpApprove i c v) = c"
| "op_client (OpRevert i c v) = c"

text \<open>The writing of a collection as three steps: collect, claim, link.\<close>

definition written_rows :: "'a plan_env \<Rightarrow> 'a plan_run \<Rightarrow> collection_outcome \<Rightarrow> plan_world \<Rightarrow> plan_world" where
  "written_rows E run o' w =
     (let w1 = w\<lparr>pw_docs := apply_op (OpCollect (pe_client E) (co_collected o')) (pw_docs w)\<rparr>;
          w2 = w1\<lparr>pw_docs := apply_op (OpClaim (pe_client E) (co_claimed o')) (pw_docs w1)\<rparr>
      in w2\<lparr>pw_files := fold (link_file E run) (co_pairs o') (pw_files w2)\<rparr>)"

lemma mark_none: "mark_collected c [] t = t" "mark_claimed c [] t = t"
  by (simp_all add: mark_collected_def mark_claimed_def update_where_def)

lemma write_collection_rows:
  "write_collection E run o' w =
     (if co_claimed o' = [] then written_rows E run o' w
      else notify (ClaimedNotice (map cd_name (filter (\<lambda>d. cd_id d \<in> set (co_claimed o')) (pr_docs run)))) (written_rows E run o' w))"
  by (cases "co_collected o' = []"; cases "co_claimed o' = []")
     (simp_all add: write_collection_def written_rows_def Let_def mark_none)

fun collect_op :: "checklist_op \<Rightarrow> bool" where
  "collect_op (OpCollect c ids) = True"
| "collect_op _ = False"

text \<open>\<open>F\<close> stands for the files of the client the cycle began with: the cycle collects only what they earned.\<close>

lemma decided:
  "decide_collect_or_claim True files proposed pending pairs refused = ([], [])"
  "decide_collect_or_claim False files proposed pending pairs refused = (collected, claimed) \<Longrightarrow> list_all (file_earns files pairs) collected"
  by (auto simp: decide_collect_or_claim_def list_all_iff)

locale cycle_relation =
  fixes R :: "plan_world \<Rightarrow> plan_world \<Rightarrow> bool" and E :: "'a plan_env" and F :: "document_file list"
  assumes refl: "R w w"
    and trans: "R a b \<Longrightarrow> R b c \<Longrightarrow> R a c"
    and checklist: "\<not> verification_op op \<Longrightarrow> \<not> collect_op op \<Longrightarrow> op_client op = pe_client E \<Longrightarrow> R w (w\<lparr>pw_docs := apply_op op (pw_docs w)\<rparr>)"
    and collect: "list_all (file_earns F pairs) ids \<Longrightarrow> R w (w\<lparr>pw_docs := mark_collected (pe_client E) ids (pw_docs w)\<rparr>)"
    and verification: "R w (run_verification E run ts w)"
    and attestation: "R w (w\<lparr>pw_request := q, pw_confirmed := k\<rparr>)"
    and goal: "R w (w\<lparr>pw_goal := GComplete\<rparr>)"
    and notices: "R w (w\<lparr>pw_notices := ns\<rparr>)"
    and fetch: "R w (w\<lparr>pw_fetch := fw\<rparr>)"
    and link: "R w (w\<lparr>pw_files := link_file E run p (pw_files w)\<rparr>)"
begin

lemma pure_steps:
  "steps_by R (preturn x)" "steps_by R (pfail e)" "steps_by R (pget f)" "steps_by R (presult g r)"
  by (simp_all add: steps_by_def preturn_def pfail_def pget_def presult_def refl)

lemma modify_step: "(\<And>w. R w (f w)) \<Longrightarrow> steps_by R (pmodify f)"
  by (simp add: steps_by_def pmodify_def)

lemma bind_after:
  assumes "steps_by R m" and "\<And>x w w'. m w = (Inr x, w') \<Longrightarrow> steps_by R (f x)"
  shows "steps_by R (pbind m f)"
  unfolding steps_by_def
proof
  fix w
  have m: "R w (snd (m w))" using assms(1) by (simp add: steps_by_def)
  show "R w (snd (pbind m f w))"
  proof (cases "m w")
    case (Pair r w1)
    then show ?thesis using m assms(2) trans [of w w1] by (cases r) (auto simp: snd_pbind steps_by_def)
  qed
qed

lemma bind_step: "steps_by R m \<Longrightarrow> (\<And>x. steps_by R (f x)) \<Longrightarrow> steps_by R (pbind m f)"
  by (rule bind_after)

lemma each_step: "(\<And>x s. steps_by R (f x s)) \<Longrightarrow> steps_by R (peach f xs s)"
proof (induction xs arbitrary: s)
  case (Cons x xs)
  show ?case unfolding peach.simps by (rule bind_step) (auto intro: Cons)
qed (simp add: pure_steps)

lemma docs_step:
  assumes "\<And>t. fst (q t) = apply_op op t" and "\<not> verification_op op" and "\<not> collect_op op" and "op_client op = pe_client E"
  shows "steps_by R (on_docs q)"
  using checklist [OF assms(2,3,4)] assms(1) by (simp add: steps_by_def on_docs_def split_def)

lemma docs_or_throw_step:
  assumes "\<And>t. table_after t (q t) = apply_op op t" and "\<not> verification_op op" and "\<not> collect_op op" and "op_client op = pe_client E"
  shows "steps_by R (on_docs_or_throw q)"
  unfolding steps_by_def
proof
  fix w
  have "R w (w\<lparr>pw_docs := table_after (pw_docs w) (q (pw_docs w))\<rparr>)" using checklist [OF assms(2,3,4)] assms(1) by simp
  then show "R w (snd (on_docs_or_throw q w))"
    by (cases "q (pw_docs w)") (auto simp: on_docs_or_throw_def table_after_def refl split: prod.split)
qed

lemma change_steps:
  "steps_by R (apply_resolution E run r ch)" "steps_by R (apply_addition E run a ch)" "steps_by R (apply_retirement E t ch)"
  "steps_by R (apply_stated_cost E c ch)" "steps_by R (apply_vehicle_declaration E v ch)"
proof -
  show "steps_by R (apply_resolution E run r ch)"
  proof (cases "snd r")
    case (ResolveNotRequired i e)
    then show ?thesis
      by (simp add: apply_resolution_def) (intro bind_step pure_steps docs_step [where op = "OpNotRequired i (pe_client E) e"]; simp)
  next
    case (ResolveRequired i xs e)
    then show ?thesis
      by (simp add: apply_resolution_def)
         (intro bind_step pure_steps docs_or_throw_step [where op = "OpRequired (ci_resolved_id (pr_input run) (fst r)) i (pe_client E)
            (map document_instance_of xs) (Some e)"]; simp)
  qed
  show "steps_by R (apply_addition E run a ch)"
    unfolding apply_addition_def
    by (intro bind_step pure_steps docs_or_throw_step [where op = "OpAdd (ci_added_id (pr_input run) (fst a)) (ad_anchor (snd a)) (pe_client E)
        (map document_instance_of (ad_instances (snd a))) (Some (ad_evidence (snd a)))"]; simp)
  show "steps_by R (apply_retirement E t ch)"
    unfolding apply_retirement_def by (intro bind_step pure_steps docs_step [where op = "OpRetire (fst t) (pe_client E) (snd t)"]; simp)
  show "steps_by R (apply_stated_cost E c ch)"
    unfolding apply_stated_cost_def Let_def
    by (intro bind_step pure_steps docs_step [where op = "OpStated (fst c) (pe_client E)
        (ChatEvidence (fst (sc_evidence (snd c))) (snd (sc_evidence (snd c))) (sc_amount (snd c)) (sc_currency (snd c)))"]; simp)
  show "steps_by R (apply_vehicle_declaration E v ch)"
    by (cases v; cases "fst v"; simp add: apply_vehicle_declaration_def Let_def)
       (intro bind_step pure_steps; rule docs_step; (rule apply_op.simps(9) [symmetric])?; simp)
qed

lemma changes_step: "steps_by R (apply_changes E run d)"
  unfolding apply_changes_def apply_resolutions_def apply_additions_def apply_retirements_def apply_stated_costs_def
    apply_vehicle_declarations_def
  by (intro bind_step each_step change_steps)

lemma notify_step: "R w (notify n w)"
  by (simp add: notify_def notices)

lemma clear_step: "R w (clear_attestation w)"
  using attestation [where w = w and q = None and k = None] by (simp add: clear_attestation_def)

lemma request_step: "R w (set_attestation_request i w)"
  using attestation [where w = w and q = "Some i" and k = "pw_confirmed w"] by (simp add: set_attestation_request_def)

lemma confirm_step: "R w (set_attestation_confirmed k w)"
  using attestation [where w = w and q = "pw_request w" and k = "Some k"] by (simp add: set_attestation_confirmed_def)

lemma settle_step: "steps_by R (settle_checklist_changes E run ch)"
  unfolding settle_checklist_changes_def reload_documents_def Let_def
  by (auto intro!: bind_step modify_step pure_steps notify_step clear_step refl)

lemma confirmed_step: "steps_by R (apply_attestation_confirmed run d)"
  unfolding apply_attestation_confirmed_def
  by (auto intro!: bind_step modify_step pure_steps confirm_step split: option.split attestation_decision.split)

lemma split_step: "steps_by R (split_items_by_company E run allowed)"
proof -
  have "steps_by R (on_docs (split_by_company u (pe_client E) items))" for u items
    by (rule docs_step [where op = "OpSplit u (pe_client E) items"]) simp_all
  then show ?thesis
    unfolding split_items_by_company_def reload_documents_def Let_def
    by (auto intro!: bind_step pure_steps)
qed

lemma link_all: "R w (w\<lparr>pw_files := fold (link_file E run) ps (pw_files w)\<rparr>)"
proof (induction ps arbitrary: w)
  case (Cons p ps)
  show ?case using trans [OF link [of w run p] Cons [of "w\<lparr>pw_files := link_file E run p (pw_files w)\<rparr>"]] by simp
qed (simp add: refl)

lemma write_step:
  assumes "list_all (file_earns F (co_pairs o')) (co_collected o')"
  shows "R w (write_collection E run o' w)"
proof -
  have "R w (written_rows E run o' w)"
    unfolding written_rows_def Let_def apply_op.simps(1)
    by (rule trans [OF collect [OF assms] trans [OF checklist link_all]]) simp_all
  then show ?thesis using write_collection_rows [of E run o' w] trans [OF _ notify_step] by (simp split: if_splits)
qed

lemma collect_step:
  assumes "pr_after run \<or> pr_files run = F"
  shows "steps_by R (collect_files E run d ch)"
proof (cases "pr_after run")
  case True
  then show ?thesis
    unfolding collect_files_def Let_def
    by (intro bind_step [OF split_step]) (auto intro!: bind_step pure_steps modify_step write_step simp: decided split: prod.split)
next
  case False
  then have "F = pr_files run" using assms by simp
  with False show ?thesis
    unfolding collect_files_def Let_def
    by (intro bind_step [OF split_step]) (auto intro!: bind_step pure_steps modify_step write_step dest!: decided(2) split: prod.split)
qed

lemma fetch_step: "steps_by R (apply_fetch E run d message)"
  by (simp add: steps_by_def apply_fetch_def refl fetch split: sum.split)

lemma complete_step: "steps_by R (complete_goal_if_done E run d)"
  unfolding complete_goal_if_done_def
  by (auto intro!: bind_step fetch_step pure_steps modify_step goal notify_step refl)

lemma reply_step: "steps_by R (schedule_reply E run d m t)"
  unfolding schedule_reply_def Let_def
  by (auto intro!: bind_step fetch_step pure_steps modify_step request_step refl)

lemma read_steps: "steps_by R (load_planning_context E after)" "steps_by R (ask_planner E run)"
  by (simp_all add: steps_by_def load_planning_context_def ask_planner_def presult_def Let_def refl split: option.split)

lemma settled_run:
  assumes "settle_checklist_changes E run ch w = (Inr run', w')"
  shows "pr_files run' = pr_files run" and "pr_after run' = pr_after run"
  using assms by (auto simp: settle_checklist_changes_def reload_documents_def pget_def pmodify_def preturn_def pbind_def Let_def
      split: if_splits)

lemma confirmed_run:
  assumes "apply_attestation_confirmed run d w = (Inr run', w')"
  shows "pr_files run' = pr_files run" and "pr_after run' = pr_after run"
  using assms by (auto simp: apply_attestation_confirmed_def pmodify_def preturn_def pbind_def
      split: option.splits attestation_decision.splits)

lemma conclude_step: "steps_by R rerun \<Longrightarrow> steps_by R (conclude_cycle rerun E d p)"
  unfolding conclude_cycle_def verify_then_replan_def Let_def
  by (auto intro!: bind_step complete_step reply_step pure_steps modify_step verification split: prod.split decision_outcome.split)

lemma act_step:
  assumes "pr_after run \<or> pr_files run = F" and "steps_by R rerun"
  shows "steps_by R (act_on_decision rerun E run d)"
  unfolding act_on_decision_def using assms
  by (auto intro!: pure_steps bind_step [OF changes_step] bind_after [OF settle_step] bind_after [OF confirmed_step]
      bind_step [OF collect_step] conclude_step simp: settled_run confirmed_run)

lemma cycle_step:
  assumes "after \<or> files_of_client (pe_client E) (pw_files w) = F" and "steps_by R rerun"
  shows "R w (snd (plan_cycle rerun E after w))"
proof (cases "load_planning_context E after w")
  case (Pair r w1)
  show ?thesis
  proof (cases r)
    case (Inl e)
    then have "snd (plan_cycle rerun E after w) = snd (load_planning_context E after w)"
      using Pair by (simp add: plan_cycle_def snd_pbind)
    then show ?thesis using read_steps(1) [of after] by (simp add: steps_by_def)
  next
    case (Inr run)
    note run = load_planning_context_Inr [OF Pair [unfolded Inr]]
    have "steps_by R (pbind (ask_planner E run) (act_on_decision rerun E run))"
      using assms run(2,5) by (intro bind_step read_steps act_step) auto
    then show ?thesis using Pair Inr run(1) by (simp add: plan_cycle_def snd_pbind steps_by_def)
  qed
qed

lemma later_cycles: "steps_by R (plan_follow_up n E True)"
  by (induction n) (simp_all add: steps_by_def cycle_step pfail_def refl)

lemma follow_up:
  assumes "files_of_client (pe_client E) (pw_files w) = F"
  shows "R w (snd (plan_follow_up n E after w))"
  using assms cycle_step [OF _ later_cycles] by (cases n) (simp_all add: pfail_def refl)

end

section \<open>The cycle runs the checklist's machine\<close>

definition runs_checklist :: "id \<Rightarrow> plan_world \<Rightarrow> plan_world \<Rightarrow> bool" where
  "runs_checklist c w w' = (\<exists>ops. pw_docs w' = checklist_run ops (pw_docs w) \<and> (\<forall>op \<in> set ops. op_client op = c))"

lemma runs_same: "pw_docs w' = pw_docs w \<Longrightarrow> runs_checklist c w w'"
  unfolding runs_checklist_def by (intro exI [of _ "[]"]) (simp add: checklist_run_def)

lemma runs_one: "pw_docs w' = apply_op op (pw_docs w) \<Longrightarrow> op_client op = c \<Longrightarrow> runs_checklist c w w'"
  unfolding runs_checklist_def by (intro exI [of _ "[op]"]) (simp add: checklist_run_def)

lemma runs_trans: "runs_checklist c a b \<Longrightarrow> runs_checklist c b d \<Longrightarrow> runs_checklist c a d"
  unfolding runs_checklist_def
proof (elim exE conjE)
  fix xs ys assume "pw_docs b = checklist_run xs (pw_docs a)" "\<forall>op \<in> set xs. op_client op = c"
    "pw_docs d = checklist_run ys (pw_docs b)" "\<forall>op \<in> set ys. op_client op = c"
  then show "\<exists>ops. pw_docs d = checklist_run ops (pw_docs a) \<and> (\<forall>op \<in> set ops. op_client op = c)"
    by (intro exI [of _ "xs @ ys"]) (auto simp: checklist_run_def)
qed

lemma check_runs:
  "\<exists>ops. vs_docs (fst (verify_collected_document V d f s)) = checklist_run ops (vs_docs s) \<and> (\<forall>op \<in> set ops. op_client op = ve_client V \<and> verification_op op)"
proof (cases rule: verify_cases [of V d f s])
  case unchanged
  then show ?thesis by (intro exI [of _ "[]"]) (simp add: checklist_run_def)
next
  case (stalled doc rec)
  then show ?thesis
    by (intro exI [of _ "[OpSetVerification d (ve_client V) (rec\<lparr>vr_stalled := True\<rparr>)]"]) (simp add: checklist_run_def)
next
  case (approved doc f' a)
  then show ?thesis by (intro exI [of _ "[OpApprove d (ve_client V) _]"]) (simp add: checklist_run_def)
next
  case (reopened doc f' a rec)
  then show ?thesis by (intro exI [of _ "[OpRevert d (ve_client V) rec]"]) (simp add: checklist_run_def)
qed

lemma batch_runs:
  "\<exists>ops. vs_docs (fst (verify_batch V ts s)) = checklist_run ops (vs_docs s) \<and> (\<forall>op \<in> set ops. op_client op = ve_client V \<and> verification_op op)"
proof (induction ts arbitrary: s)
  case Nil
  then show ?case by (intro exI [of _ "[]"]) (simp add: verify_batch_def checklist_run_def)
next
  case (Cons t ts)
  obtain d f where t: "t = (d, f)" by fastforce
  let ?s = "fst (verify_collected_document V d f s)"
  obtain xs where xs: "vs_docs ?s = checklist_run xs (vs_docs s)" "\<forall>op \<in> set xs. op_client op = ve_client V \<and> verification_op op" using check_runs by blast
  obtain ys where ys: "vs_docs (fst (verify_batch V ts ?s)) = checklist_run ys (vs_docs ?s)" "\<forall>op \<in> set ys. op_client op = ve_client V \<and> verification_op op"
    using Cons by blast
  have "fst (verify_batch V (t # ts) s) = fst (verify_batch V ts ?s)" by (simp add: verify_batch_def t split_def Let_def)
  then show ?case using xs ys by (intro exI [of _ "xs @ ys"]) (auto simp: checklist_run_def)
qed

lemma verification_runs:
  "\<exists>ops. pw_docs (run_verification E run ts w) = checklist_run ops (pw_docs w)
     \<and> list_all (\<lambda>op. op_client op = pe_client E \<and> verification_op op) ops"
  using batch_runs [of "verify_env_of E run w" ts "\<lparr>vs_docs = pw_docs w, vs_spouse = pw_spouse w\<rparr>"]
  by (simp add: run_verification_def verify_env_of_def Let_def list_all_iff)

interpretation machine: cycle_relation "runs_checklist (pe_client E)" E F for E :: "'a plan_env" and F
proof
  show "runs_checklist (pe_client E) w (run_verification E run ts w)" for w run ts
    using verification_runs [of E run ts w] by (auto simp: runs_checklist_def list_all_iff)
  show "runs_checklist (pe_client E) w (w\<lparr>pw_docs := mark_collected (pe_client E) ids (pw_docs w)\<rparr>)" for w ids
    by (rule runs_one [of _ "OpCollect (pe_client E) ids"]) simp_all
qed (auto intro: runs_same runs_one runs_trans)

end
