(* ===== verification/PlanOutcomes.thy ===== *)
theory PlanOutcomes
  imports PlanProps
begin

text \<open>
  The theorems on a whole planning cycle: it ends, it runs the checklist's machine for its own
  client, it touches nobody else's rows and no received file's content, it collects
  only on a legible file, and it reaches the goal only over a settled and confirmed list.
\<close>

section \<open>Nobody else's rows\<close>

lemma update_other:
  "(\<And>r. p r \<Longrightarrow> \<not> q r \<and> \<not> q (f r)) \<Longrightarrow> filter q (update_where p f t) = filter q t"
  by (induction t) auto

lemma split_one_other: "filter (\<lambda>r. cd_client r \<noteq> c) (fst (split_one u c item t)) = filter (\<lambda>r. cd_client r \<noteq> c) t"
proof -
  have "filter (\<lambda>r. cd_client r \<noteq> c) (fst (move_row (cs_document item) c LIVE_FOR_SPLIT (\<lambda>r. r\<lparr>cd_name := cs_new_name item\<rparr>) t))
      = filter (\<lambda>r. cd_client r \<noteq> c) t"
    unfolding fst_move_row by (rule update_other) (simp add: is_row_def)
  then show ?thesis by (auto simp: split_one_def Let_def split: prod.split option.split)
qed

lemma split_other: "filter (\<lambda>r. cd_client r \<noteq> c) (fst (split_by_company u c items t)) = filter (\<lambda>r. cd_client r \<noteq> c) t"
proof (induction items arbitrary: t)
  case (Cons item items)
  have "fst (split_by_company u c (item # items) t) = fst (split_by_company u c items (fst (split_one (u (length items)) c item t)))"
    by (simp add: Let_def split: prod.split option.split)
  then show ?case using Cons split_one_other by simp
qed simp

lemma op_other: "filter (\<lambda>r. cd_client r \<noteq> op_client op) (apply_op op t) = filter (\<lambda>r. cd_client r \<noteq> op_client op) t"
proof (cases op)
  case (OpRequired u i c xs e)
  have "filter (\<lambda>r. cd_client r \<noteq> c) (fst (move_row i c S f t)) = filter (\<lambda>r. cd_client r \<noteq> c) t"
    if "\<And>r. cd_client (f r) = cd_client r" for S f
    unfolding fst_move_row by (rule update_other) (simp add: is_row_def that)
  from this [of "\<lambda>r. r\<lparr>cd_status := birth_status (hd xs), cd_name := di_name (hd xs), cd_description := di_description (hd xs),
      cd_evidence := e, cd_paper_key := di_paper_key (hd xs)\<rparr>" "{Unresolved, NotRequired}"]
  show ?thesis unfolding OpRequired
    by (cases xs) (auto simp: resolve_required_def table_after_def instance_row_of_def Let_def split: prod.split option.split)
next
  case (OpAdd u i c xs e)
  have "filter (\<lambda>r. cd_client r \<noteq> c) (map (\<lambda>(n, inst). instance_row_of (u n) c k e inst) (enumerate 0 xs)) = []" for k
    by (auto simp: filter_empty_conv instance_row_of_def)
  then show ?thesis using OpAdd by (auto simp: add_instances_def table_after_def Let_def split: option.split)
next
  case (OpSplit u c items)
  then show ?thesis using split_other by simp
qed (simp_all only: apply_op.simps op_client.simps move_defs, (rule update_other, simp add: is_row_def)+)

lemma run_other:
  "list_all (\<lambda>op. op_client op = c) ops \<Longrightarrow>
   filter (\<lambda>r. cd_client r \<noteq> c) (checklist_run ops t) = filter (\<lambda>r. cd_client r \<noteq> c) t"
proof (induction ops arbitrary: t)
  case (Cons op ops)
  then show ?case using op_other [of op t] by (simp add: checklist_run_def)
qed (simp add: checklist_run_def)

section \<open>The received files\<close>

text \<open>A file keeps everything but its label and, when it is the client's own, the document it is filed under.\<close>

definition same_received_file :: "id \<Rightarrow> document_file \<Rightarrow> document_file \<Rightarrow> bool" where
  "same_received_file c f f' = (f'\<lparr>df_label := df_label f, df_document := df_document f\<rparr> = f
     \<and> (df_client f = c \<or> df_document f' = df_document f))"

lemma same_file_refl: "same_received_file c f f"
  by (simp add: same_received_file_def)

lemma same_file_trans: "same_received_file c f g \<Longrightarrow> same_received_file c g h \<Longrightarrow> same_received_file c f h"
  by (cases f; cases g; cases h) (auto simp: same_received_file_def)

lemma same_files_trans:
  "list_all2 (same_received_file c) a b \<Longrightarrow> list_all2 (same_received_file c) b d \<Longrightarrow> list_all2 (same_received_file c) a d"
  by (rule list_all2_trans [OF same_file_trans])

lemma link_same: "list_all2 (same_received_file (pe_client E)) fs (link_file E run p fs)"
proof -
  have l: "list_all2 (same_received_file (pe_client E)) fs (link_to_document i (pe_client E) d fs)" for i d
    unfolding link_to_document_def by (rule all2_update_where) (simp_all add: same_received_file_def)
  have s: "list_all2 (same_received_file (pe_client E)) t (set_label i x t)" for i x and t :: "document_file list"
    unfolding set_label_def by (rule all2_update_where) (simp_all add: same_received_file_def)
  show ?thesis
    using l s same_files_trans [OF l s] by (simp add: link_file_def list_all2_refl same_file_refl split: option.split)
qed

interpretation received: cycle_relation "\<lambda>w w'. list_all2 (same_received_file (pe_client E)) (pw_files w) (pw_files w')" E F
  for E :: "'a plan_env" and F
  by unfold_locales
    (auto intro: same_files_trans list_all2_refl same_file_refl link_same simp: run_verification_def Let_def)

text \<open>C3: Whatever the model answers and however the cycle ends, the checklist it leaves is a run of the checklist's state machine (the detailed cycle refines the abstract machine), made of operations on the cycle's own client alone.\<close>

theorem planning_refines_checklist:
  "\<exists>ops. pw_docs (snd (plan_follow_up n E after w)) = checklist_run ops (pw_docs w) \<and> list_all (\<lambda>op. op_client op = pe_client E) ops"
  using machine.follow_up [of E w _ n after] by (auto simp: runs_checklist_def list_all_iff)

text \<open>C10: A planning cycle leaves the checklist rows of every other client as they were, and of a received file it changes at most the label and, for its own client's files, the document it is filed under: name, content, analysis and owner of every file stay.\<close>

theorem planning_stays_with_client:
  "filter (\<lambda>r. cd_client r \<noteq> pe_client E) (pw_docs (snd (plan_follow_up n E after w))) = filter (\<lambda>r. cd_client r \<noteq> pe_client E) (pw_docs w)
   \<and> list_all2 (same_received_file (pe_client E)) (pw_files w) (pw_files (snd (plan_follow_up n E after w)))"
proof
  obtain ops where "pw_docs (snd (plan_follow_up n E after w)) = checklist_run ops (pw_docs w)" "list_all (\<lambda>op. op_client op = pe_client E) ops"
    using machine.follow_up [of E w _ n after] by (auto simp: runs_checklist_def list_all_iff)
  then show "filter (\<lambda>r. cd_client r \<noteq> pe_client E) (pw_docs (snd (plan_follow_up n E after w))) = filter (\<lambda>r. cd_client r \<noteq> pe_client E) (pw_docs w)"
    using run_other by simp
qed (simp add: received.follow_up)

section \<open>Collecting needs a file\<close>

definition on_file :: "client_document \<Rightarrow> bool" where
  "on_file r = (cd_status r \<in> {Collected, Approved})"

definition no_new_on_file :: "docs \<Rightarrow> docs \<Rightarrow> bool" where
  "no_new_on_file t t' = (\<forall>r \<in> set t'. on_file r \<longrightarrow> (\<exists>r0 \<in> set t. same_row r0 r \<and> on_file r0))"

lemma no_new_refl: "no_new_on_file t t"
  by (auto simp: no_new_on_file_def same_row_def)

lemma no_new_trans: "no_new_on_file a b \<Longrightarrow> no_new_on_file b c \<Longrightarrow> no_new_on_file a c"
  unfolding no_new_on_file_def same_row_def by metis

lemma no_new_rows:
  assumes "list_all2 (\<lambda>r r'. same_row r r' \<and> (on_file r' \<longrightarrow> on_file r)) t t1" and "\<forall>r \<in> set extra. newborn r"
  shows "no_new_on_file t (t1 @ extra)"
  unfolding no_new_on_file_def
proof (intro ballI impI)
  fix r assume r: "r \<in> set (t1 @ extra)" and on: "on_file r"
  then have "r \<in> set t1" using assms(2) by (auto simp: newborn_def on_file_def)
  then obtain k where k: "k < length t1" "r = t1 ! k" by (auto simp: in_set_conv_nth)
  then have "k < length t" "same_row (t ! k) r \<and> (on_file r \<longrightarrow> on_file (t ! k))"
    using list_all2_lengthD [OF assms(1)] list_all2_nthD2 [OF assms(1), of k] by simp_all
  then show "\<exists>r0 \<in> set t. same_row r0 r \<and> on_file r0" using on by (intro bexI [of _ "t ! k"]) auto
qed

lemma no_new_update:
  "(\<And>r. p r \<Longrightarrow> same_row r (f r) \<and> (on_file (f r) \<longrightarrow> on_file r)) \<Longrightarrow> no_new_on_file t (update_where p f t)"
  using no_new_rows [OF all2_update_where [of t p "\<lambda>r r'. same_row r r' \<and> (on_file r' \<longrightarrow> on_file r)" f], of "[]"]
  by (simp add: same_row_def)

lemma op_collects_nothing: "\<not> collect_op op \<Longrightarrow> no_new_on_file t (apply_op op t)"
proof (cases op)
  case (OpRequired u i c xs e)
  have m: "no_new_on_file t (fst (move_row i c {Unresolved, NotRequired} (\<lambda>r. r\<lparr>cd_status := birth_status x, cd_name := di_name x,
      cd_description := di_description x, cd_evidence := e, cd_paper_key := di_paper_key x\<rparr>) t))" for x
    unfolding fst_move_row by (rule no_new_update) (simp add: same_row_def on_file_def birth_status_def)
  have app: "no_new_on_file t t1 \<Longrightarrow> \<forall>r \<in> set extra. newborn r \<Longrightarrow> no_new_on_file t (t1 @ extra)" for t1 extra
    by (auto simp: no_new_on_file_def newborn_def on_file_def)
  show ?thesis
  proof (cases xs)
    case (Cons x rest)
    show ?thesis unfolding OpRequired Cons using m [of x]
      by (auto simp: resolve_required_def table_after_def Let_def no_new_refl intro!: app newborn_instance split: prod.split option.split)
  qed (simp add: OpRequired resolve_required_def table_after_def no_new_refl)
next
  case (OpAdd u i c xs e)
  obtain extra where "apply_op op t = t @ extra" "\<forall>r \<in> set extra. newborn r" using added_rows [of t u i c xs e] OpAdd by auto
  then show ?thesis using no_new_rows [of t t extra] by (simp add: list_all2_same same_row_def)
next
  case (OpSplit u c items)
  obtain t1 extra where s: "apply_op op t = t1 @ extra" "list_all2 renamed t t1" "\<forall>r \<in> set extra. newborn r"
    using split_rows [of u c items t] OpSplit by auto
  have "list_all2 (\<lambda>r r'. same_row r r' \<and> (on_file r' \<longrightarrow> on_file r)) t t1"
    using s(2) by (rule list_all2_mono) (simp add: renamed_def on_file_def)
  then show ?thesis using s no_new_rows by simp
qed (simp_all only: collect_op.simps apply_op.simps move_defs not_True_eq_False,
     (rule no_new_update, simp add: same_row_def on_file_def)+)

lemma run_collects_nothing: "list_all (\<lambda>op. \<not> collect_op op) ops \<Longrightarrow> no_new_on_file t (checklist_run ops t)"
proof (induction ops arbitrary: t)
  case (Cons op ops)
  then show ?case using no_new_trans [OF op_collects_nothing [of op t], of "fold apply_op ops (apply_op op t)"]
    by (simp add: checklist_run_def)
qed (simp add: checklist_run_def no_new_refl)

lemma earned_legible:
  assumes "file_earns F pairs i"
  shows "list_ex is_verified_legible F"
proof -
  have "f \<in> set F" if "file_by_id F x = Some f" for x f
    using that by (auto simp: file_by_id_def dest: map_of_SomeD)
  then show ?thesis
    using assms by (auto simp: file_earns_def file_matches_document_def is_verified_legible_def list_ex_iff bind_eq_Some_conv split: option.splits)
qed

lemma earned_rows:
  assumes "list_all (file_earns F pairs) ids"
  shows "list_ex is_verified_legible F \<or> no_new_on_file t (mark_collected c ids t)"
proof (cases ids)
  case (Cons i rest)
  then show ?thesis using assms earned_legible by auto
qed (simp add: mark_none no_new_refl)

interpretation evidence: cycle_relation "\<lambda>w w'. list_ex is_verified_legible F \<or> no_new_on_file (pw_docs w) (pw_docs w')" E F
  for E :: "'a plan_env" and F
proof
  show "list_ex is_verified_legible F \<or> no_new_on_file (pw_docs w) (pw_docs (run_verification E run ts w))" for w run ts
  proof -
    obtain ops where "pw_docs (run_verification E run ts w) = checklist_run ops (pw_docs w)"
        "list_all (\<lambda>op. op_client op = pe_client E \<and> verification_op op) ops"
      using verification_runs by blast
    moreover have "\<not> collect_op op" if "verification_op op" for op using that by (cases op) simp_all
    ultimately show ?thesis using run_collects_nothing [of ops] by (simp add: list_all_iff)
  qed
qed (auto simp: no_new_refl earned_rows op_collects_nothing intro: no_new_trans)

text \<open>C4: Conversation alone collects nothing: when a planning cycle begins with no verified, legible file of the client, then every checklist row that is collected or approved when it ends was so when it began, whatever the model answered.\<close>

theorem collected_on_evidence:
  assumes "\<not> list_ex is_verified_legible (files_of_client (pe_client E) (pw_files w))"
    and "r \<in> set (pw_docs (snd (plan_follow_up n E after w)))" and "cd_status r \<in> {Collected, Approved}"
  shows "\<exists>r0 \<in> set (pw_docs w). same_row r0 r \<and> cd_status r0 \<in> {Collected, Approved}"
  using evidence.follow_up [of E w _ n after] assms unfolding no_new_on_file_def on_file_def by blast

section \<open>Two units of fuel are enough\<close>

definition never_starves :: "'b planning \<Rightarrow> bool" where
  "never_starves m = (\<forall>w. fst (m w) \<noteq> Inl OutOfFuel)"

lemma starves_bind: "never_starves m \<Longrightarrow> (\<And>x. never_starves (f x)) \<Longrightarrow> never_starves (pbind m f)"
  by (auto simp: never_starves_def pbind_def split: prod.split sum.split) (metis fst_conv)

lemma starves_steps:
  "never_starves (preturn x)" "e \<noteq> OutOfFuel \<Longrightarrow> never_starves (pfail e)" "never_starves (pget f)" "never_starves (pmodify g)"
  "(\<And>x. h x \<noteq> OutOfFuel) \<Longrightarrow> never_starves (presult h r)" "never_starves (on_docs q)" "never_starves (on_docs_or_throw q')"
  by (auto simp: never_starves_def preturn_def pfail_def pget_def pmodify_def presult_def on_docs_def on_docs_or_throw_def
      split: sum.split prod.split)

lemma starves_each: "(\<And>x s. never_starves (f x s)) \<Longrightarrow> never_starves (peach f xs s)"
  by (induction xs arbitrary: s) (simp_all add: starves_steps starves_bind)

lemma starves_changes: "never_starves (apply_changes E run d)"
proof -
  have "never_starves (apply_resolution E run r ch)" for r ch
    by (cases "snd r") (auto simp: apply_resolution_def intro!: starves_bind starves_steps)
  moreover have "never_starves (apply_vehicle_declaration E v ch)" for v ch
    by (cases v; cases "fst v") (auto simp: apply_vehicle_declaration_def Let_def intro!: starves_bind starves_steps)
  ultimately show ?thesis
    unfolding apply_changes_def apply_resolutions_def apply_additions_def apply_retirements_def apply_stated_costs_def
      apply_vehicle_declarations_def apply_addition_def apply_retirement_def apply_stated_cost_def Let_def
    by (intro starves_bind starves_each starves_steps)
qed

lemma starves_settle: "never_starves (settle_checklist_changes E run ch)"
  unfolding settle_checklist_changes_def reload_documents_def Let_def by (auto intro!: starves_bind starves_steps)

lemma starves_confirmed: "never_starves (apply_attestation_confirmed run d)"
  unfolding apply_attestation_confirmed_def
  by (auto intro!: starves_bind starves_steps split: option.split attestation_decision.split)

lemma starves_collect: "never_starves (collect_files E run d ch)"
  unfolding collect_files_def split_items_by_company_def reload_documents_def Let_def
  by (auto intro!: starves_bind starves_steps split: prod.split)

lemma starves_fetch: "never_starves (apply_fetch E run d m)"
  by (simp add: never_starves_def apply_fetch_def split: sum.split)

lemma starves_complete: "never_starves (complete_goal_if_done E run d)"
  unfolding complete_goal_if_done_def by (auto intro!: starves_bind starves_fetch starves_steps)

lemma starves_reply: "never_starves (schedule_reply E run d m t)"
  unfolding schedule_reply_def Let_def by (auto intro!: starves_bind starves_fetch starves_steps)

lemma decide_errors: "decide E answer ctx n k e \<noteq> Inl OutOfFuel"
  by (induction k arbitrary: n e) (auto split: option.split sum.split)

lemma starves_read: "never_starves (load_planning_context E after)" "never_starves (ask_planner E run)"
  using decide_errors [of E _ _ 1 MAX_DECISION_ATTEMPTS NoCall]
  by (auto simp: never_starves_def load_planning_context_def ask_planner_def presult_def Let_def split: option.split sum.split)

lemma starves_conclude: "never_starves rerun \<or> nd_outcome d \<noteq> Collecting \<Longrightarrow> never_starves (conclude_cycle rerun E d p)"
  unfolding conclude_cycle_def verify_then_replan_def Let_def
  by (auto intro!: starves_bind starves_complete starves_reply starves_steps split: prod.split decision_outcome.split)

lemma starves_act: "never_starves rerun \<or> nd_outcome d \<noteq> Collecting \<Longrightarrow> never_starves (act_on_decision rerun E run d)"
  unfolding act_on_decision_def
  by (auto intro!: starves_bind starves_changes starves_settle starves_confirmed starves_collect starves_conclude starves_steps)

lemma starves_cycle: "never_starves rerun \<Longrightarrow> never_starves (plan_cycle rerun E after)"
  unfolding plan_cycle_def by (intro starves_bind starves_read starves_act) simp

lemma act_without_rerun: "nd_outcome d \<noteq> Collecting \<Longrightarrow> act_on_decision r E run d = act_on_decision r' E run d"
proof -
  assume "nd_outcome d \<noteq> Collecting"
  then have "conclude_cycle r E d = conclude_cycle r' E d" by (intro ext) (simp add: conclude_cycle_def)
  then show "act_on_decision r E run d = act_on_decision r' E run d" by (simp add: act_on_decision_def)
qed

lemma later_cycle_once: "plan_cycle r E True = plan_cycle r' E True"
proof
  fix w
  have "pbind (ask_planner E run) (act_on_decision r E run) w1 = pbind (ask_planner E run) (act_on_decision r' E run) w1"
    if loaded: "load_planning_context E True w = (Inr run, w1)" for run w1
  proof (cases "ask_planner E run w1")
    case (Pair a w2)
    have "act_on_decision r E run d = act_on_decision r' E run d" if a: "a = Inr d" for d
    proof (rule act_without_rerun)
      obtain calls where "gate_decision (pe_js E) (pe_institutions E) (pe_parse E) (build_decision_context run) calls = Inr d"
        using ask_planner_Inr(2) Pair a by blast
      moreover have "dc_after_verification (build_decision_context run)"
        using load_planning_context_Inr(2) [OF loaded] by (simp add: build_decision_context_def)
      ultimately show "nd_outcome d \<noteq> Collecting" using after_verification_answer by blast
    qed
    then show ?thesis using Pair by (cases a) (simp_all add: pbind_def)
  qed
  then show "plan_cycle r E True w = plan_cycle r' E True w"
    by (auto simp: plan_cycle_def pbind_def [of "load_planning_context E True"] split: prod.split sum.split)
qed

text \<open>C5: The planner's recursion ends: the cycle after a verification never starts another one, so two units of fuel give the result of any larger amount and the fuel never runs out.\<close>

theorem planning_terminates:
  "plan_follow_up (Suc (Suc n)) E after w = plan_follow_up (Suc (Suc 0)) E after w
   \<and> fst (plan_follow_up (Suc (Suc n)) E after w) \<noteq> Inl OutOfFuel"
proof
  have "plan_follow_up (Suc n) E True = plan_follow_up (Suc 0) E True"
    unfolding plan_follow_up.simps by (rule later_cycle_once)
  then show same: "plan_follow_up (Suc (Suc n)) E after w = plan_follow_up (Suc (Suc 0)) E after w"
    by (simp only: plan_follow_up.simps(2) [of "Suc n"] plan_follow_up.simps(2) [of "Suc 0"])
  have "never_starves (plan_cycle (preturn NothingPlanned) E True)" by (intro starves_cycle starves_steps)
  then have "never_starves (plan_follow_up (Suc 0) E True)"
    using later_cycle_once [of "preturn NothingPlanned" E "plan_follow_up 0 E True"] by (simp only: plan_follow_up.simps)
  then have "never_starves (plan_follow_up (Suc (Suc 0)) E after)"
    unfolding plan_follow_up.simps(2) [of "Suc 0"] by (rule starves_cycle)
  then show "fst (plan_follow_up (Suc (Suc n)) E after w) \<noteq> Inl OutOfFuel" unfolding same never_starves_def by blast
qed

end
