(* ===== verification/PlanGoal.thy ===== *)
theory PlanGoal
  imports PlanOutcomes GateProps
begin

text \<open>
  When the goal is reached: the cycle completes it only over a checklist that is settled
  and confirmed. What the run remembers of the tables is followed through the apply
  steps (\<open>in_step\<close>) up to \<open>completeGoalIfDone\<close>.
\<close>

section \<open>The goal\<close>

text \<open>What the run remembers agrees with the tables.\<close>

definition in_step :: "'a plan_env \<Rightarrow> 'a plan_run \<Rightarrow> plan_world \<Rightarrow> bool" where
  "in_step E run w = (pr_docs run = documents_of_client (pe_client E) (pw_docs w) \<and> pr_confirmed run = (pw_confirmed w \<noteq> None))"

text \<open>A counting step: it leaves the confirmation alone, and a step that counted nothing changed nothing.\<close>

definition counted :: "(checklist_changes \<Rightarrow> checklist_changes planning) \<Rightarrow> bool" where
  "counted f = (\<forall>ch w ch' w'. f ch w = (Inr ch', w') \<longrightarrow> ch_applied ch \<le> ch_applied ch' \<and> pw_confirmed w' = pw_confirmed w
     \<and> (ch_applied ch' = ch_applied ch \<longrightarrow> pw_docs w' = pw_docs w))"

lemma counted_bind: "counted f \<Longrightarrow> counted g \<Longrightarrow> counted (\<lambda>ch. pbind (f ch) g)"
  unfolding counted_def pbind_Inr
  by (intro allI impI) (metis le_antisym le_trans)

lemma counted_each: "(\<And>x. counted (f x)) \<Longrightarrow> counted (peach f xs)"
proof (induction xs)
  case Nil
  then show ?case by (simp add: counted_def preturn_def)
next
  case (Cons x xs)
  have "peach f (x # xs) = (\<lambda>ch. pbind (f x ch) (peach f xs))" by (simp add: fun_eq_iff)
  then show ?case using counted_bind Cons by simp
qed

lemma move_row_missed: "move_row i c S f t = (t', None) \<Longrightarrow> t' = t"
  by (auto simp: move_row_def Let_def find_None_all intro!: update_where_none)

lemma counted_move: "counted (\<lambda>ch. pbind (on_docs (move_row i c S f)) (\<lambda>row. preturn (counting ch row)))"
  by (auto dest: move_row_missed simp: counted_def pbind_def on_docs_def preturn_def counting_def count_change_def Let_def split: prod.splits)

lemma counted_created: "ch_applied (created_rows rows xs ch) = ch_applied ch + 1"
  by (simp add: created_rows_def count_change_def Let_def)

lemma counted_required:
  "counted (\<lambda>ch. pbind (on_docs_or_throw (resolve_required u i c xs e)) (\<lambda>rows. preturn (case rows of None \<Rightarrow> ch | Some rs \<Rightarrow> created_rows rs ys ch)))"
  by (auto simp: counted_def pbind_def on_docs_or_throw_def preturn_def resolve_required_def counted_created Let_def
      split: prod.splits option.splits list.splits sum.splits)

lemma counted_added:
  "counted (\<lambda>ch. pbind (on_docs_or_throw (add_instances u i c xs e)) (\<lambda>rows. preturn (case rows of None \<Rightarrow> ch | Some [] \<Rightarrow> ch | Some rs \<Rightarrow> created_rows rs ys ch)))"
  by (auto simp: counted_def pbind_def on_docs_or_throw_def preturn_def add_instances_def counted_created Let_def
      split: prod.splits option.splits list.splits sum.splits if_splits)

lemma counted_steps:
  "counted (apply_resolution E run r)" "counted (apply_addition E run a)" "counted (apply_retirement E t)"
  "counted (apply_stated_cost E k)" "counted (apply_vehicle_declaration E v)"
proof -
  show "counted (apply_resolution E run r)"
    by (cases "snd r") (simp_all add: apply_resolution_def [abs_def] counted_required counted_move resolve_not_required_def)
  show "counted (apply_addition E run a)" using counted_added by (simp add: apply_addition_def [abs_def])
  show "counted (apply_retirement E t)" by (simp add: apply_retirement_def [abs_def] retire_def counted_move)
  show "counted (apply_stated_cost E k)" by (simp add: apply_stated_cost_def [abs_def] Let_def mark_stated_def counted_move)
  show "counted (apply_vehicle_declaration E v)"
    by (cases v; cases "fst v") (simp add: apply_vehicle_declaration_def [abs_def] Let_def mark_stated_vehicle_def counted_move)
qed

lemma counted_costs: "counted (apply_stated_costs E d)" "counted (apply_vehicle_declarations E run d)"
proof -
  have "\<exists>xs. apply_stated_costs E d ch = peach (apply_stated_cost E) xs ch" for ch by (auto simp: apply_stated_costs_def)
  then show "counted (apply_stated_costs E d)"
    using counted_each [of "apply_stated_cost E", OF counted_steps(4)] unfolding counted_def by metis
  have "\<exists>xs. apply_vehicle_declarations E run d ch = peach (apply_vehicle_declaration E) xs ch" for ch
    by (auto simp: apply_vehicle_declarations_def)
  then show "counted (apply_vehicle_declarations E run d)"
    using counted_each [of "apply_vehicle_declaration E", OF counted_steps(5)] unfolding counted_def by metis
qed

lemma counted_changes:
  assumes "apply_changes E run d w = (Inr ch, w')"
  shows "pw_confirmed w' = pw_confirmed w \<and> (ch_applied ch = 0 \<longrightarrow> pw_docs w' = pw_docs w)"
proof -
  have "counted (\<lambda>ch. pbind (apply_resolutions E run d ch) (\<lambda>ch. pbind (apply_additions E run d ch) (\<lambda>ch.
      pbind (apply_retirements E d ch) (\<lambda>ch. pbind (apply_stated_costs E d ch) (apply_vehicle_declarations E run d)))))"
    unfolding apply_resolutions_def apply_additions_def apply_retirements_def
    by (intro counted_bind counted_each counted_steps counted_costs)
  then show ?thesis
    using assms unfolding counted_def apply_changes_def by (metis NO_CHANGES_def checklist_changes.select_convs(1))
qed

lemma settle_in_step:
  assumes "in_step E run w" and "in_attestation_confirmed (pr_intake run) = pr_confirmed run"
    and "apply_changes E run d w = (Inr ch, w1)" and "settle_checklist_changes E run ch w1 = (Inr run', w2)"
  shows "in_step E run' w2"
  using assms(1,2,4) counted_changes [OF assms(3)]
  by (auto simp: settle_checklist_changes_def in_step_def reload_documents_def pget_def pmodify_def preturn_def pbind_def Let_def
      clear_attestation_def notify_def split: if_splits)

lemma confirmed_in_step:
  "in_step E run w \<Longrightarrow> apply_attestation_confirmed run d w = (Inr run', w') \<Longrightarrow> in_step E run' w'"
  by (auto simp: apply_attestation_confirmed_def in_step_def pmodify_def preturn_def pbind_def set_attestation_confirmed_def
      split: option.splits attestation_decision.splits)

section \<open>Collecting over a settled list\<close>

lemma split_one_created:
  assumes "split_one u c item t = (t', Some rows)" and "r \<in> set rows"
  shows "r \<in> set t' \<and> cd_client r = c \<and> cd_status r = Pending"
  using assms by (auto simp: split_one_def Let_def split: prod.splits option.splits)

lemma renamed_in:
  assumes "list_all2 renamed t t1" and "r \<in> set t"
  shows "\<exists>r' \<in> set t1. cd_id r' = cd_id r \<and> cd_client r' = cd_client r \<and> cd_status r' = cd_status r"
proof -
  obtain k where k: "k < length t" "r = t ! k" using assms(2) by (auto simp: in_set_conv_nth)
  then have "renamed r (t1 ! k)" "k < length t1" using list_all2_nthD [OF assms(1)] list_all2_lengthD [OF assms(1)] by auto
  then show ?thesis by (intro bexI [of _ "t1 ! k"]) (simp_all add: renamed_def same_row_def)
qed

lemma split_keeps:
  assumes "r \<in> set t"
  shows "\<exists>r' \<in> set (fst (split_by_company u c items t)). cd_id r' = cd_id r \<and> cd_client r' = cd_client r \<and> cd_status r' = cd_status r"
proof -
  obtain t1 extra where "fst (split_by_company u c items t) = t1 @ extra" "list_all2 renamed t t1" using split_rows by blast
  then show ?thesis using renamed_in [OF _ assms] by auto
qed

lemma split_created:
  assumes "split_by_company u c items t = (t', created, left_out)" and "rows \<in> set created" and "r \<in> set rows"
  shows "\<exists>r' \<in> set t'. cd_id r' = cd_id r \<and> cd_client r' = c \<and> cd_status r' = Pending"
  using assms
proof (induction items arbitrary: t created left_out)
  case (Cons item items)
  obtain t1 made where one: "split_one (u (length items)) c item t = (t1, made)" by fastforce
  obtain cr sk where rest: "split_by_company u c items t1 = (t', cr, sk)"
    using Cons.prems(1) one by (auto simp: Let_def split: prod.splits option.splits)
  show ?case
  proof (cases "rows \<in> set cr")
    case True
    then show ?thesis using Cons.IH [OF rest] Cons.prems(3) by blast
  next
    case False
    then have "made = Some rows" using Cons.prems one rest by (auto split: option.splits)
    then have "r \<in> set t1 \<and> cd_client r = c \<and> cd_status r = Pending"
      using split_one_created one Cons.prems(3) by blast
    then show ?thesis using split_keeps [of r t1 u c items] rest by auto
  qed
qed simp

lemma split_outcome_created: "so_created (split_item_outcome plan left_out x) \<noteq> [] \<Longrightarrow> snd x \<noteq> []"
  by (auto simp: filter_empty_conv split_item_outcome_def Let_def List.map_filter_def split: if_splits)

lemma split_items_cases:
  assumes "split_items_by_company E run allowed w = (Inr (run', pairs, so), w')"
  obtains (same) "run' = run" "w' = w" "so_created so = []"
  | (divided) items plan t' created left_out where
      "split_by_company (ci_split_id (pr_input run)) (pe_client E) items (pw_docs w) = (t', created, left_out)"
      "w' = w\<lparr>pw_docs := t'\<rparr>" "run' = run\<lparr>pr_docs := documents_of_client (pe_client E) t'\<rparr>"
      "so_created so = concat (map (\<lambda>x. so_created (split_item_outcome plan left_out x)) (zip items created))"
proof -
  let ?plan = "plan_company_split (je_lower (pe_js E)) (pe_institutions E) allowed (file_by_id (pr_files run)) (pr_docs run)"
  have "(run' = run \<and> w' = w \<and> so_created so = []) \<or> (\<exists>t' created left_out.
      split_by_company (ci_split_id (pr_input run)) (pe_client E) (split_items_of ?plan (pr_docs run)) (pw_docs w) = (t', created, left_out)
      \<and> w' = w\<lparr>pw_docs := t'\<rparr> \<and> run' = run\<lparr>pr_docs := documents_of_client (pe_client E) t'\<rparr>
      \<and> so_created so = concat (map so_created (map (split_item_outcome ?plan left_out) (zip (split_items_of ?plan (pr_docs run)) created))))"
    using assms by (auto simp: split_items_by_company_def reload_documents_def on_docs_def pget_def preturn_def pbind_def Let_def
        split: if_splits prod.splits)
  then show thesis
  proof (elim disjE exE conjE)
    assume "run' = run" "w' = w" "so_created so = []"
    then show thesis by (rule same)
  next
    fix t' created left_out
    assume h: "split_by_company (ci_split_id (pr_input run)) (pe_client E) (split_items_of ?plan (pr_docs run)) (pw_docs w) = (t', created, left_out)"
      "w' = w\<lparr>pw_docs := t'\<rparr>" "run' = run\<lparr>pr_docs := documents_of_client (pe_client E) t'\<rparr>"
      and so: "so_created so = concat (map so_created (map (split_item_outcome ?plan left_out) (zip (split_items_of ?plan (pr_docs run)) created)))"
    show thesis by (rule divided [OF h]) (unfold so map_map comp_def, rule refl)
  qed
qed

lemma split_in_step:
  assumes "split_items_by_company E run allowed w = (Inr (run', pairs, so), w')" and "in_step E run w"
  shows "in_step E run' w'"
    and "(\<exists>r \<in> set (pr_docs run). cd_status r = Pending) \<or> so_created so \<noteq> [] \<Longrightarrow> \<exists>r \<in> set (pr_docs run'). cd_status r = Pending"
proof -
  show "in_step E run' w'"
    using assms(1) by (cases rule: split_items_cases) (use assms(2) in \<open>auto simp: in_step_def\<close>)
  assume p: "(\<exists>r \<in> set (pr_docs run). cd_status r = Pending) \<or> so_created so \<noteq> []"
  show "\<exists>r \<in> set (pr_docs run'). cd_status r = Pending"
    using assms(1)
  proof (cases rule: split_items_cases)
    case (divided items plan t' created left_out)
    let ?c = "pe_client E"
    have kept: "\<exists>r' \<in> set (pr_docs run'). cd_status r' = Pending" if "r \<in> set (pr_docs run)" "cd_status r = Pending" for r
    proof -
      have "r \<in> set (pw_docs w)" "cd_client r = ?c" using that(1) assms(2) by (auto simp: in_step_def documents_of_client_def)
      then show ?thesis
        using split_keeps [of r "pw_docs w" "ci_split_id (pr_input run)" ?c items] divided(1,3) that(2) by (auto simp: documents_of_client_def)
    qed
    have made: ?thesis if some: "so_created so \<noteq> []"
    proof -
      obtain x where x: "x \<in> set (zip items created)" "so_created (split_item_outcome plan left_out x) \<noteq> []"
        using some unfolding divided(4) by auto
      then obtain r where "r \<in> set (snd x)" using split_outcome_created by (metis list.set_sel(1))
      moreover have "snd x \<in> set created" using x(1) by (metis prod.collapse set_zip_rightD)
      ultimately show ?thesis using split_created [OF divided(1)] divided(3) by (force simp: documents_of_client_def)
    qed
    show ?thesis using p kept made by blast
  qed (use p in auto)
qed

lemma modify_then: "pbind (pmodify g) f w = f () (g w)"
  by (simp add: pbind_def pmodify_def)

lemma nothing_pending: "decide_collect_or_claim a fs ps {} prs ref = ([], [])"
  by (simp add: decide_collect_or_claim_def)

text \<open>A cycle that collects into a list with nothing pending leaves the list as it was.\<close>

lemma collect_in_step:
  assumes "collect_files E run d ch w = (Inr (run', o'), w')" and "in_step E run w"
    and "\<forall>r \<in> set (pr_docs run'). cd_status r \<noteq> Pending"
  shows "in_step E run' w'"
proof -
  let ?files = "file_by_id (pr_files run)"
  let ?checked = "filter_pairs_by_company (pe_institutions E)
     (applicable_file_pairs (nd_matched d) ?files (set (map cd_id (pr_docs run)))) ?files (pr_docs run)"
  obtain run1 allowed so w1 where s: "split_items_by_company E run (fst ?checked) w = (Inr (run1, allowed, so), w1)"
    using assms(1) unfolding collect_files_def Let_def pbind_Inr by auto
  have run1: "run' = run1"
    using assms(1) s unfolding collect_files_def Let_def pbind_Inr by (auto simp: modify_then preturn_def split: prod.splits)
  note split = split_in_step [OF s assms(2)]
  have pending: "{r \<in> set (pr_docs run). cd_status r = Pending} = {}" "so_created so = []"
    using split(2) assms(3) run1 by blast+
  have "co_collected o' = []" "co_claimed o' = []" "w' = write_collection E run1 o' w1"
    using assms(1) s nothing_pending pending unfolding collect_files_def Let_def pbind_Inr
    by (auto simp: modify_then preturn_def split: prod.splits)
  then show ?thesis using split(1) run1 by (simp add: write_collection_def in_step_def)
qed

section \<open>Completion\<close>

lemma complete_reached:
  "complete_goal_if_done E run d w = (Inr True, w') \<Longrightarrow>
   goal_done run d \<and> pw_docs w' = pw_docs w \<and> pw_confirmed w' = pw_confirmed w \<and> pw_goal w' = GComplete"
  by (auto simp: complete_goal_if_done_def apply_fetch_def pbind_def pmodify_def preturn_def pfail_def notify_def
      split: if_splits sum.splits prod.splits)

lemma reply_reached: "schedule_reply E run d m t w \<noteq> (Inr GoalReached, w')"
  by (auto simp: schedule_reply_def pbind_Inr preturn_def Let_def)

lemma conclude_reached:
  assumes "conclude_cycle rerun E d (run, o') w = (Inr GoalReached, w')"
  shows "(\<exists>w1. rerun w1 = (Inr GoalReached, w')) \<or> complete_goal_if_done E run d w = (Inr True, w')"
proof (cases "nd_outcome d = Collecting")
  case True
  then show ?thesis using assms
    by (auto simp: conclude_cycle_def verify_then_replan_def modify_then preturn_def split: if_splits)
next
  case False
  then show ?thesis using assms
    by (auto simp: conclude_cycle_def pbind_Inr preturn_def reply_reached split: if_splits decision_outcome.splits)
qed

lemma cycle_reached:
  assumes "plan_cycle rerun E after w = (Inr GoalReached, w')"
  shows "(\<exists>w1. rerun w1 = (Inr GoalReached, w'))
     \<or> (\<exists>run d w3. goal_done run d \<and> pw_docs w' = pw_docs w3 \<and> pw_confirmed w' = pw_confirmed w3 \<and> pw_goal w' = GComplete
          \<and> ((\<forall>r \<in> set (pr_docs run). cd_status r \<noteq> Pending) \<longrightarrow> in_step E run w3))"
proof -
  obtain run w1 where load: "load_planning_context E after w = (Inr run, w1)"
    and rest: "pbind (ask_planner E run) (act_on_decision rerun E run) w1 = (Inr GoalReached, w')"
    using assms unfolding plan_cycle_def pbind_Inr by auto
  note run = load_planning_context_Inr [OF load]
  obtain d where "ask_planner E run w1 = (Inr d, w1)" and act: "act_on_decision rerun E run d w1 = (Inr GoalReached, w')"
    using rest ask_planner_Inr(1) unfolding pbind_Inr by metis
  then obtain ch wa run2 wb run3 wc run4 o' wd where
    steps: "apply_changes E run d w1 = (Inr ch, wa)" "settle_checklist_changes E run ch wa = (Inr run2, wb)"
      "apply_attestation_confirmed run2 d wb = (Inr run3, wc)" "collect_files E run3 d ch wc = (Inr (run4, o'), wd)"
    and conclude: "conclude_cycle rerun E d (run4, o') wd = (Inr GoalReached, w')"
    by (auto simp: act_on_decision_def pbind_Inr preturn_def split: if_splits)
  have "in_step E run w1" using run by (simp add: in_step_def)
  moreover have "in_attestation_confirmed (pr_intake run) = pr_confirmed run" using run by (simp add: build_intake_state_def Let_def)
  ultimately have "in_step E run3 wc" using settle_in_step confirmed_in_step steps by blast
  then have "(\<forall>r \<in> set (pr_docs run4). cd_status r \<noteq> Pending) \<longrightarrow> in_step E run4 wd" using collect_in_step [OF steps(4)] by blast
  then show ?thesis using conclude_reached [OF conclude] complete_reached by blast
qed

text \<open>C2: A planning cycle completes the goal of a client with a checklist only when the list it leaves is settled in every row (approved, stated, not required or retired) and the client's confirmation of the closing summary is on file; the goal status is then complete.\<close>

theorem goal_reached_only_when_settled:
  assumes "plan_follow_up n E after w = (Inr GoalReached, w')" and "documents_of_client (pe_client E) (pw_docs w') \<noteq> []"
  shows "all_documents_settled (documents_of_client (pe_client E) (pw_docs w')) \<and> pw_confirmed w' \<noteq> None \<and> pw_goal w' = GComplete"
  using assms(1)
proof (induction n arbitrary: after w)
  case 0
  then show ?case by (simp add: pfail_def)
next
  case (Suc n)
  from cycle_reached [OF Suc.prems [unfolded plan_follow_up.simps]] show ?case
  proof (elim disjE exE conjE)
    fix run d w3
    assume fin: "goal_done run d" "pw_docs w' = pw_docs w3" "pw_confirmed w' = pw_confirmed w3" "pw_goal w' = GComplete"
      and step: "(\<forall>r \<in> set (pr_docs run). cd_status r \<noteq> Pending) \<longrightarrow> in_step E run w3"
    have "\<forall>r \<in> set (pr_docs run). cd_status r \<noteq> Pending"
      using fin(1) by (auto simp: goal_done_def all_documents_settled_def list_all_iff split: if_splits)
    then have "in_step E run w3" using step by blast
    then show ?thesis using fin assms(2) by (auto simp: in_step_def goal_done_def split: if_splits)
  qed (rule Suc.IH)
qed

section \<open>A demonstration\<close>

text \<open>A client whose one document is approved and who confirmed the summary; the model concludes.\<close>

definition settled_cycle :: "tool_call cycle_input" where
  "settled_cycle = \<lparr>ci_live = True, ci_now = 0, ci_name = [], ci_history = [], ci_sent_at = (\<lambda>_. None),
     ci_channel = \<lparr>ch_enabled = True, ch_phone = Some ''1'', ch_sender = Some ''2'', ch_last_inbound = Some 0, ch_first_contact_done = True,
       ch_templates = []\<rparr>,
     ci_providers = [], ci_answer = (\<lambda>_ _. Some [(TConclude, Conclude GoalComplete [])]), ci_resolved_id = (\<lambda>_ _. ''n''),
     ci_added_id = (\<lambda>_ _. ''n''), ci_split_id = (\<lambda>_ _. ''n''), ci_session_id = ''s'', ci_draft_id = ''e'', ci_send_now = 0\<rparr>"

definition settled_env :: "tool_call plan_env" where
  "settled_env = \<lparr>pe_client = ''c'', pe_js = plain_env, pe_institutions = [], pe_parse = (\<lambda>_. Some), pe_calendar = (\<lambda>_. []),
     pe_wall = (\<lambda>t. t), pe_label = (\<lambda>_. []), pe_tax_year = 2024, pe_kill = False, pe_id_on_file = None, pe_marital = None,
     pe_read = (\<lambda>_ _. NotRenderable), pe_cycle = (\<lambda>_. settled_cycle)\<rparr>"

definition settled_world :: plan_world where
  "settled_world = \<lparr>pw_docs = [sample_row ''a'' Approved], pw_files = [], pw_spouse = spouse_to_stored EMPTY_SPOUSE, pw_request = None,
     pw_confirmed = Some (''m'', []), pw_goal = GPending, pw_fetch = \<lparr>fw_sessions = [], fw_jobs = []\<rparr>, pw_notices = []\<rparr>"

lemma demo_context:
  "load_planning_context settled_env after settled_world =
     (Inr \<lparr>pr_input = settled_cycle, pr_after = after, pr_docs = [sample_row ''a'' Approved], pr_files = [],
        pr_channel = \<lparr>wc_unavailable = None, wc_window_open = True, wc_window_closes = window_close_time (Some 0), wc_templates = [], wc_hidden = []\<rparr>,
        pr_fetch = [], pr_intake = build_intake_state settled_env settled_cycle [sample_row ''a'' Approved] [] settled_world, pr_confirmed = True\<rparr>, settled_world)"
  by (simp add: load_planning_context_def settled_env_def settled_cycle_def settled_world_def get_wa_channel_state_def split_templates_by_purpose_def
      window_close_time_def WHATSAPP_WINDOW_MS_def truthy_def documents_of_client_def files_of_client_def sample_row_def load_tax_fetch_contexts_def
      List.map_filter_def build_intake_state_def Let_def)

lemma bare_conclusion:
  "assemble_decision [Conclude GoalComplete []] = Inr \<lparr>rd_decision = GoalComplete, rd_reasoning = [], rd_collected = [], rd_matched = [],
     rd_text = None, rd_template = None, rd_send_at = None, rd_fetch_action = None, rd_fetch_provider = None, rd_fetch_keys = None,
     rd_resolved = None, rd_added = None, rd_retired = None, rd_costs = [], rd_vehicles = [], rd_attestation = None,
     rd_attestation_evidence = None\<rparr>"
  by (simp add: assemble_decision_def conclude_calls_def text_calls_def template_calls_def attestation_calls_def
        fetch_calls_def resolve_calls_def instance_calls_def map_filter_simps assembled_def some_list_def uniq_def)

definition bare_completion :: normalized_decision where
  "bare_completion = \<lparr>nd_outcome = GoalDone, nd_reasoning = [], nd_collected = [], nd_matched = [], nd_fetch = None,
     nd_resolutions = [], nd_additions = [], nd_retired = [], nd_costs = [], nd_vehicles = [], nd_attestation = None\<rparr>"

lemma bare_gated: "gate_decision plain_env [] (\<lambda>_. Some) ctx [(TConclude, Conclude GoalComplete [])] = Inr bare_completion"
proof -
  have "parse_tool_calls (\<lambda>_. Some) ctx [(TConclude, Conclude GoalComplete [])] = Inr [Conclude GoalComplete []]"
    by (simp add: parse_tool_calls_def parse_call_def tools_for_context_def decision_values_def)
  then show ?thesis
    by (simp add: gate_decision_def bare_conclusion bare_completion_def normalize_decision_def shape_guard_def answer_ties_files_def
        validate_tax_fetch_def validate_resolutions_def validate_added_instances_def validate_retirements_def with_intake_def or_nil_def
        validate_stated_costs_def validate_stated_vehicles_def validate_statements_def new_instances_def validate_attestation_def
        decided_outcome_def validate_matched_files_def)
qed

lemma bare_asked:
  "pe_js E = plain_env \<Longrightarrow> pe_institutions E = [] \<Longrightarrow> pe_parse E = (\<lambda>_. Some) \<Longrightarrow> pr_input run = settled_cycle \<Longrightarrow>
   ask_planner E run w = (Inr bare_completion, w)"
  by (simp add: ask_planner_def presult_def MAX_DECISION_ATTEMPTS_def numeral_2_eq_2 settled_cycle_def bare_gated Let_def)

lemma bare_changes: "apply_changes E run bare_completion = preturn NO_CHANGES"
  by (simp add: apply_changes_def apply_resolutions_def apply_additions_def apply_retirements_def apply_stated_costs_def
      apply_vehicle_declarations_def bare_completion_def NO_CHANGES_def)

lemma bare_settled: "settle_checklist_changes E run NO_CHANGES w = (Inr run, w)"
  by (simp add: settle_checklist_changes_def NO_CHANGES_def modify_then) (simp add: preturn_def)

lemma bare_collect:
  "collect_files E run bare_completion NO_CHANGES w = (Inr (run, \<lparr>co_collected = [], co_claimed = [], co_pairs = [], co_touched = {}\<rparr>), w)"
proof -
  have "split_items_by_company E run [] = preturn (run, [], \<lparr>so_pairs = [], so_renamed = [], so_created = []\<rparr>)"
    by (simp add: split_items_by_company_def plan_company_split_def uniq_def Let_def)
  then show ?thesis
    by (simp add: collect_files_def bare_completion_def applicable_file_pairs_def filter_pairs_by_company_def List.map_filter_def NO_CHANGES_def
        assign_files_to_new_rows_def uniq_def decide_collect_or_claim_def modify_then write_collection_def Let_def) (simp add: preturn_def)
qed

lemma demo_reached: "plan_follow_up (Suc n) settled_env after settled_world
   = (Inr GoalReached, settled_world\<lparr>pw_goal := GComplete, pw_notices := [GoalCompleteNotice]\<rparr>)"
proof -
  obtain run where load: "load_planning_context settled_env after settled_world = (Inr run, settled_world)" and r: "pr_input run = settled_cycle"
    "pr_docs run = [sample_row ''a'' Approved]" "pr_confirmed run" "pr_fetch run = []"
    by (simp add: demo_context)
  have ask: "ask_planner settled_env run settled_world = (Inr bare_completion, settled_world)"
    by (rule bare_asked) (simp_all add: settled_env_def r)
  have "apply_attestation_confirmed run bare_completion = preturn run"
    by (simp add: apply_attestation_confirmed_def bare_completion_def)
  moreover have "complete_goal_if_done settled_env run bare_completion settled_world
    = (Inr True, settled_world\<lparr>pw_goal := GComplete, pw_notices := [GoalCompleteNotice]\<rparr>)"
    using r by (simp add: complete_goal_if_done_def goal_done_def all_documents_settled_def sample_row_def apply_fetch_def fetch_decision_of_def
        bare_completion_def apply_tax_fetch_action_def modify_then pbind_def preturn_def pmodify_def notify_def settled_world_def)
  ultimately have "act_on_decision rerun settled_env run bare_completion settled_world
    = (Inr GoalReached, settled_world\<lparr>pw_goal := GComplete, pw_notices := [GoalCompleteNotice]\<rparr>)" for rerun
    by (simp add: act_on_decision_def bare_changes pbind_def bare_settled bare_collect conclude_cycle_def preturn_def)
      (simp add: bare_completion_def preturn_def)
  then show ?thesis using load ask by (simp add: plan_cycle_def pbind_def)
qed

lemma goal_reached_only_when_settled_witness:
  "pw_confirmed (snd (plan_follow_up 1 settled_env False settled_world)) \<noteq> None"
proof -
  have reached: "plan_follow_up 1 settled_env False settled_world = (Inr GoalReached, settled_world\<lparr>pw_goal := GComplete, pw_notices := [GoalCompleteNotice]\<rparr>)"
    using demo_reached [of 0] by simp
  have "documents_of_client (pe_client settled_env) (pw_docs (settled_world\<lparr>pw_goal := GComplete, pw_notices := [GoalCompleteNotice]\<rparr>)) \<noteq> []"
    by (simp add: settled_world_def settled_env_def documents_of_client_def sample_row_def)
  then show ?thesis using goal_reached_only_when_settled [OF reached] reached by simp
qed

section \<open>Confirmation and change in one answer\<close>

text \<open>A change of the checklist clears the client's earlier confirmation, but a confirmation carried by the same answer is recorded after the clearing, so it stands over the list that answer has just changed; and the gate does not look at an answer's own changes when it accepts a confirmation (it does for a request).\<close>

theorem confirmation_survives_own_change:
  assumes "0 < ch_applied ch" and "nd_attestation d = Some (ConfirmAttestation e)" and "rd_attestation r = Some AttestConfirmed"
  shows "(\<exists>run' w'. pbind (settle_checklist_changes E run ch) (\<lambda>run. apply_attestation_confirmed run d) w = (Inr run', w')
       \<and> pw_confirmed w' = Some e \<and> pr_confirmed run' \<and> pr_docs run' = documents_of_client (pe_client E) (pw_docs w))
     \<and> validate_attestation r ctx = validate_attestation (r\<lparr>rd_resolved := xs, rd_added := ys, rd_retired := zs\<rparr>) ctx"
proof
  show "\<exists>run' w'. pbind (settle_checklist_changes E run ch) (\<lambda>run. apply_attestation_confirmed run d) w = (Inr run', w')
       \<and> pw_confirmed w' = Some e \<and> pr_confirmed run' \<and> pr_docs run' = documents_of_client (pe_client E) (pw_docs w)"
    using assms(1,2) by (auto simp: settle_checklist_changes_def reload_documents_def apply_attestation_confirmed_def pbind_def pmodify_def
        pget_def preturn_def set_attestation_confirmed_def clear_attestation_def notify_def Let_def)
qed (use assms(3) in \<open>simp add: validate_attestation_def split: option.split\<close>)

lemma confirmation_survives_own_change_witness:
  "\<exists>run' w'. pbind (settle_checklist_changes settled_env (\<lparr>pr_input = settled_cycle, pr_after = False, pr_docs = [], pr_files = [],
        pr_channel = get_wa_channel_state (ci_channel settled_cycle) 0, pr_fetch = [], pr_intake = sample_intake, pr_confirmed = False\<rparr>)
        (NO_CHANGES\<lparr>ch_applied := 2\<rparr>)) (\<lambda>run. apply_attestation_confirmed run (bare_completion\<lparr>nd_attestation := Some (ConfirmAttestation (''m'', [1488]))\<rparr>))
       settled_world = (Inr run', w')
     \<and> pw_confirmed w' = Some (''m'', [1488])"
proof -
  have a: "0 < ch_applied (NO_CHANGES\<lparr>ch_applied := 2\<rparr>)" by simp
  have b: "nd_attestation (bare_completion\<lparr>nd_attestation := Some (ConfirmAttestation (''m'', [1488]))\<rparr>) = Some (ConfirmAttestation (''m'', [1488]))"
    by simp
  have c: "rd_attestation sample_reply = Some AttestConfirmed" by (simp add: sample_reply_def)
  show ?thesis using conjunct1 [OF confirmation_survives_own_change [OF a b c]] by blast
qed

section \<open>Retiring a stated row\<close>

text \<open>The gate accepts the retirement of a row the client closed by a statement, when quoted words support it, but the write behind it moves no stated row: the checklist, the evidence and the count of changes stay as they were.\<close>

theorem stated_retirement_lost:
  assumes "row_by tr_id (in_typed intake) (rt_document e) = Some row" and "tr_status row = Stated"
    and "validate_evidence (rt_evidence e) (in_texts intake) = Inr (m, q)" and "rt_evidence e \<noteq> None"
    and "\<And>r. r \<in> set (pw_docs w) \<Longrightarrow> cd_id r = rt_document e \<Longrightarrow> cd_status r = Stated"
  shows "validate_retirement intake e = Inr (rt_document e, QuoteEvidence m q)
     \<and> apply_retirement E (rt_document e, QuoteEvidence m q) ch w = (Inr ch, w)"
proof
  show "validate_retirement intake e = Inr (rt_document e, QuoteEvidence m q)"
    using assms(1-4) by (auto simp: validate_retirement_def quoted_def)
  have none: "\<not> (is_row (rt_document e) (pe_client E) r \<and> cd_status r \<in> {Pending, Claimed, Collected, Approved})" if "r \<in> set (pw_docs w)" for r
    using assms(5) [OF that] by (auto simp: is_row_def)
  then have "retire (rt_document e) (pe_client E) (QuoteEvidence m q) (pw_docs w) = (pw_docs w, None)"
    unfolding retire_def move_row_def Let_def using none by (simp add: find_None_all update_where_none)
  then show "apply_retirement E (rt_document e, QuoteEvidence m q) ch w = (Inr ch, w)"
    by (simp add: apply_retirement_def on_docs_def pbind_def preturn_def counting_def)
qed

lemma stated_retirement_lost_witness:
  "apply_retirement settled_env (''a'', QuoteEvidence ''m'' (jstr ''one account'')) NO_CHANGES (settled_world\<lparr>pw_docs := [sample_row ''a'' Stated]\<rparr>)
   = (Inr NO_CHANGES, settled_world\<lparr>pw_docs := [sample_row ''a'' Stated]\<rparr>)"
proof -
  let ?intake = "sample_intake\<lparr>in_typed := [\<lparr>tr_id = ''a'', tr_status = Stated, tr_type = Some ''vehicle'', tr_multi = True, tr_paper = None\<rparr>]\<rparr>"
  let ?e = "\<lparr>rt_document = ''a'', rt_evidence = Some (''m'', jstr ''one account''), rt_proven_by = []\<rparr>"
  have "validate_evidence (rt_evidence ?e) (in_texts ?intake) = Inr (''m'', jstr ''one account'')"
    using sample_quotes(1) by (simp add: validate_evidence_def sample_intake_def js_trim_def js_space_def)
  then show ?thesis
    using stated_retirement_lost [of ?intake ?e _ "''m''" "jstr ''one account''" "settled_world\<lparr>pw_docs := [sample_row ''a'' Stated]\<rparr>" settled_env NO_CHANGES]
    by (simp add: row_by_def sample_row_def)
qed

lemma collected_on_evidence_witness:
  "\<exists>r0 \<in> set (pw_docs settled_world). cd_status r0 \<in> {Collected, Approved}"
proof -
  have w: "pw_docs (snd (plan_follow_up 2 settled_env False settled_world)) = [sample_row ''a'' Approved]"
    using demo_reached [of 1 False] by (simp add: numeral_2_eq_2 settled_world_def)
  have "\<exists>r0 \<in> set (pw_docs settled_world). same_row r0 (sample_row ''a'' Approved) \<and> cd_status r0 \<in> {Collected, Approved}"
  proof (rule collected_on_evidence [where E = settled_env and n = 2 and after = False])
    show "\<not> list_ex is_verified_legible (files_of_client (pe_client settled_env) (pw_files settled_world))"
      by (simp add: files_of_client_def settled_world_def)
  qed (simp_all only: w, simp_all add: sample_row_def)
  then show ?thesis by blast
qed

end
