(* ===== verification/InboundFiles.thy ===== *)
theory InboundFiles
  imports IntakeProps
begin

text \<open>
  Storing the files of an inbound message: the bounded retry (\<open>webhook/ingestRetry.ts\<close>), the
  fetch, upload and insert of one file (\<open>ingestInboundFileCore.ts\<close>), the media of a WhatsApp
  message with the guard on their addresses (\<open>ingestWaMedia.ts\<close>, \<open>twilioMediaUrl.ts\<close>,
  \<open>waMediaName.ts\<close>), and the list of files that could not be stored, as the planner sees it
  (\<open>lostFiles.ts\<close>). Downloading, the blob store and the parsing of an address are
  arguments; log lines are left out.
\<close>

section \<open>Bounded retry\<close>

definition delay_before_retry :: "int list \<Rightarrow> nat \<Rightarrow> int" where
  "delay_before_retry delays attempt = (if delays = [] then 0 else delays ! min (attempt - 1) (length delays - 1))"

text \<open>The attempts from number \<open>n\<close> with \<open>k\<close> more after it: the value and the number of the attempt that gave it, or the count and the last error; the pauses made.\<close>

fun attempts_after ::
  "nat \<Rightarrow> nat \<Rightarrow> (nat \<Rightarrow> 's \<Rightarrow> ('e, 'a) result \<times> 's) \<Rightarrow> int list \<Rightarrow> 's \<Rightarrow> (nat \<times> 'e, 'a \<times> nat) result \<times> int list \<times> 's"
where
  "attempts_after 0 n f delays s =
     (case f n s of (Inr v, s1) \<Rightarrow> (Inr (v, n), [], s1) | (Inl e, s1) \<Rightarrow> (Inl (n, e), [], s1))"
| "attempts_after (Suc k) n f delays s =
     (case f n s of (Inr v, s1) \<Rightarrow> (Inr (v, n), [], s1)
      | (Inl e, s1) \<Rightarrow>
          (let d = delay_before_retry delays n; (r, pauses, s2) = attempts_after k (n + 1) f delays s1
           in (r, (if 0 < d then [d] else []) @ pauses, s2)))"

definition with_attempts ::
  "nat \<Rightarrow> (nat \<Rightarrow> 's \<Rightarrow> ('e, 'a) result \<times> 's) \<Rightarrow> int list \<Rightarrow> 's \<Rightarrow> (nat \<times> 'e, 'a \<times> nat) result \<times> int list \<times> 's"
where
  "with_attempts attempts f delays s = attempts_after (max 1 attempts - 1) 1 f delays s"

definition INGEST_ATTEMPTS :: "nat \<times> int list" where
  "INGEST_ATTEMPTS = (3, [2000, 8000])"

section \<open>One file\<close>

record inbound_item =
  ii_provider_id :: string
  ii_index :: nat
  ii_content_type :: utext
  ii_filename :: utext
  ii_hint :: "utext option"
  ii_source :: utext

record inbound_owner =
  io_client :: id
  io_email :: "id option"

text \<open>The audit row \<open>file.ingest_failed\<close>.\<close>

record lost_step =
  ls_target :: "id option"
  ls_provider_id :: string
  ls_index :: nat
  ls_content_type :: utext
  ls_hint :: "utext option"
  ls_attempts :: nat

text \<open>The stored files, the rows of lost ones, the addresses requested so far.\<close>

record ingest_world =
  ig_intake :: intake_world
  ig_lost :: "lost_step list"
  ig_requests :: "utext list"

text \<open>
  From outside: what fetching and uploading gives per attempt (the size, or an error), the id
  of the row, and the surroundings of the analysis, or none when the client is gone or the
  analysis could not be started.
\<close>

record ingest_env =
  ge_fetch :: "string \<Rightarrow> nat \<Rightarrow> (string, nat) result"
  ge_row_id :: "string \<Rightarrow> id"
  ge_analysis :: "document_file \<Rightarrow> analysis_env option"
  ge_now :: ms

definition inbound_row :: "ingest_env \<Rightarrow> inbound_owner \<Rightarrow> inbound_item \<Rightarrow> nat \<Rightarrow> document_file" where
  "inbound_row G own it sz =
     \<lparr>df_id = ge_row_id G (ii_provider_id it), df_client = io_client own, df_email = io_email own, df_document = None,
      df_provider_id = ii_provider_id it, df_filename = ii_filename it, df_label = None, df_content_type = ii_content_type it,
      df_size = sz, df_status = AnPending, df_analysis = None, df_parent = None, df_pages = None, df_created = ge_now G\<rparr>"

definition store_attempt ::
  "ingest_env \<Rightarrow> inbound_owner \<Rightarrow> inbound_item \<Rightarrow> nat \<Rightarrow> ingest_world \<Rightarrow> (string, document_file option \<times> nat) result \<times> ingest_world"
where
  "store_attempt G own it n w0 =
     (let w = w0\<lparr>ig_requests := ig_requests w0 @ [ii_source it]\<rparr> in
      case ge_fetch G (ii_provider_id it) n of
        Inl e \<Rightarrow> (Inl e, w)
      | Inr sz \<Rightarrow> (let (t, row) = insert_file_if_new (inbound_row G own it sz) (iw_files (ig_intake w))
          in (Inr (row, sz), w\<lparr>ig_intake := on_files (\<lambda>_. t) (ig_intake w)\<rparr>)))"

definition analyze_stored_file :: "ingest_env \<Rightarrow> document_file \<Rightarrow> nat \<Rightarrow> ingest_world \<Rightarrow> ingest_world" where
  "analyze_stored_file G f sz w = (case ge_analysis G f of None \<Rightarrow> w
     | Some A \<Rightarrow> w\<lparr>ig_intake := analyze_inbound_file A f sz (ig_intake w)\<rparr>)"

definition lost_step_of :: "inbound_owner \<Rightarrow> inbound_item \<Rightarrow> nat \<Rightarrow> lost_step" where
  "lost_step_of own it attempts = \<lparr>ls_target = io_email own, ls_provider_id = ii_provider_id it, ls_index = ii_index it,
     ls_content_type = ii_content_type it, ls_hint = ii_hint it, ls_attempts = attempts\<rparr>"

definition ingest_inbound_file :: "ingest_env \<Rightarrow> inbound_owner \<Rightarrow> inbound_item \<Rightarrow> ingest_world \<Rightarrow> document_file option \<times> ingest_world" where
  "ingest_inbound_file G own it w =
     (case with_attempts (fst INGEST_ATTEMPTS) (store_attempt G own it) (snd INGEST_ATTEMPTS) w of
        (Inl (attempts, _), _, w1) \<Rightarrow> (None, w1\<lparr>ig_lost := ig_lost w1 @ [lost_step_of own it attempts]\<rparr>)
      | (Inr ((None, _), _), _, w1) \<Rightarrow> (None, w1)
      | (Inr ((Some f, sz), _), _, w1) \<Rightarrow> (Some f, analyze_stored_file G f sz w1))"

section \<open>The media of a WhatsApp message\<close>

record wa_media =
  wm_url :: utext
  wm_type :: utext

definition ends_with :: "'a list \<Rightarrow> 'a list \<Rightarrow> bool" where
  "ends_with e s = is_prefix (rev e) (rev s)"

text \<open>\<open>parse\<close> is \<open>new URL\<close>: the protocol and the host name, or none for a text that is not an address.\<close>

definition is_allowed_twilio_media_url :: "(utext \<Rightarrow> utext) \<Rightarrow> (utext \<Rightarrow> (utext \<times> utext) option) \<Rightarrow> utext \<Rightarrow> bool" where
  "is_allowed_twilio_media_url lower parse raw =
     (case parse raw of None \<Rightarrow> False
      | Some (protocol, hostname) \<Rightarrow>
          if protocol \<noteq> jstr ''https:'' then False
          else (let host = lower hostname in host = jstr ''twilio.com'' \<or> ends_with (jstr ''.twilio.com'') host))"

definition EXTENSION_BY_TYPE :: "(string \<times> string) list" where
  "EXTENSION_BY_TYPE = [(''image/jpeg'', ''jpg''), (''image/png'', ''png''), (''image/webp'', ''webp''), (''application/pdf'', ''pdf''),
     (''application/vnd.openxmlformats-officedocument.spreadsheetml.sheet'', ''xlsx''), (''text/csv'', ''csv''),
     (''audio/ogg'', ''ogg''), (''audio/mpeg'', ''mp3''), (''video/mp4'', ''mp4'')]"

definition wa_media_extension :: "(utext \<Rightarrow> utext) \<Rightarrow> utext \<Rightarrow> string" where
  "wa_media_extension lower t =
     (case List.find (\<lambda>(k, _). jstr k = lower t) EXTENSION_BY_TYPE of None \<Rightarrow> ''bin'' | Some (_, e) \<Rightarrow> e)"

text \<open>\<open>stamp\<close> is the receipt time on the Israeli clock, \<open>yyyymmdd-hhmmss\<close>.\<close>

definition wa_media_filename :: "string \<Rightarrow> nat \<Rightarrow> nat \<Rightarrow> string \<Rightarrow> utext" where
  "wa_media_filename stamp index count extension =
     jstr (''whatsapp-media-'' @ stamp @ (if 1 < count then ''-'' @ show_nat (index + 1) else '''') @ ''.'' @ extension)"

definition media_provider_id :: "string \<Rightarrow> nat \<Rightarrow> string" where
  "media_provider_id sid index = sid @ ''-'' @ show_nat index"

record media_env =
  me_ingest :: ingest_env
  me_lower :: "utext \<Rightarrow> utext"
  me_parse_url :: "utext \<Rightarrow> (utext \<times> utext) option"
  me_stamp :: string

definition media_item :: "media_env \<Rightarrow> string \<Rightarrow> utext \<Rightarrow> nat \<Rightarrow> nat \<Rightarrow> wa_media \<Rightarrow> inbound_item" where
  "media_item M sid caption count index m =
     (let content_type = (if wm_type m = [] then jstr ''application/octet-stream'' else wm_type m) in
      \<lparr>ii_provider_id = media_provider_id sid index, ii_index = index, ii_content_type = content_type,
       ii_filename = wa_media_filename (me_stamp M) index count (wa_media_extension (me_lower M) content_type),
       ii_hint = (if js_trim caption = [] then None else Some (take 200 (js_trim caption))), ii_source = wm_url m\<rparr>)"

abbreviation allowed_media :: "media_env \<Rightarrow> wa_media \<Rightarrow> bool" where
  "allowed_media M m \<equiv> is_allowed_twilio_media_url (me_lower M) (me_parse_url M) (wm_url m)"

text \<open>The items one after another; the answer counts the rows inserted now.\<close>

fun ingest_media_items ::
  "media_env \<Rightarrow> inbound_owner \<Rightarrow> string \<Rightarrow> utext \<Rightarrow> nat \<Rightarrow> (nat \<times> wa_media) list \<Rightarrow> ingest_world \<Rightarrow> nat \<times> ingest_world"
where
  "ingest_media_items M own sid caption count [] w = (0, w)"
| "ingest_media_items M own sid caption count ((index, m) # ms) w =
     (if \<not> allowed_media M m then ingest_media_items M own sid caption count ms w
      else (let (f, w1) = ingest_inbound_file (me_ingest M) own (media_item M sid caption count index m) w;
                (n, w2) = ingest_media_items M own sid caption count ms w1
            in ((if f = None then 0 else 1) + n, w2)))"

definition ingest_wa_media ::
  "media_env \<Rightarrow> inbound_owner \<Rightarrow> string \<Rightarrow> wa_media list \<Rightarrow> utext \<Rightarrow> ingest_world \<Rightarrow> nat \<times> ingest_world"
where
  "ingest_wa_media M own sid media caption w = ingest_media_items M own sid caption (length media) (enumerate 0 media) w"

section \<open>The lost files as the planner sees them\<close>

record lost_file =
  lf_provider_id :: string
  lf_index :: nat
  lf_content_type :: utext
  lf_hint :: "utext option"
  lf_attempts :: nat

definition lost_file_of :: "lost_step \<Rightarrow> lost_file" where
  "lost_file_of s = \<lparr>lf_provider_id = ls_provider_id s, lf_index = ls_index s, lf_content_type = ls_content_type s,
     lf_hint = (if ls_hint s = Some [] then None else ls_hint s), lf_attempts = ls_attempts s\<rparr>"

definition note_lost :: "string set \<Rightarrow> lost_step \<Rightarrow> (string \<times> id \<times> lost_file) list \<Rightarrow> (string \<times> id \<times> lost_file) list" where
  "note_lost stored s acc = (case ls_target s of None \<Rightarrow> acc
     | Some m \<Rightarrow> if m = [] \<or> ls_provider_id s = [] \<or> ls_provider_id s \<in> stored then acc
         else map_set (ls_provider_id s) (m, lost_file_of s) acc)"

definition lost_by_attachment :: "lost_step list \<Rightarrow> string set \<Rightarrow> (string \<times> id \<times> lost_file) list" where
  "lost_by_attachment steps stored = fold (note_lost stored) steps []"

definition group_lost :: "string \<times> id \<times> lost_file \<Rightarrow> (id \<times> lost_file list) list \<Rightarrow> (id \<times> lost_file list) list" where
  "group_lost x out = (let (_, m, f) = x in map_set m ((case map_of out m of None \<Rightarrow> [] | Some fs \<Rightarrow> fs) @ [f]) out)"

definition lost_files_by_message :: "lost_step list \<Rightarrow> string set \<Rightarrow> (id \<times> lost_file list) list" where
  "lost_files_by_message steps stored =
     map (\<lambda>(m, fs). (m, sort_key lf_index fs)) (fold group_lost (lost_by_attachment steps stored) [])"

end
