(* ===== verification/InboundProps.thy ===== *)
theory InboundProps
  imports InboundFiles
begin

text \<open>
  What storing the files of a message leaves: every file the message brought from an allowed
  address is a row of the table or a lost file of that message, nothing is fetched from
  another address, and the retry runs at most its number of attempts.
\<close>

section \<open>The retry\<close>

text \<open>The answer is that of the last attempt, made in a state the failed ones before it left; \<open>P\<close> is what they keep.\<close>

lemma attempts_after_result:
  assumes "attempts_after k n f delays s = (r, ps, s')" and "P s" and "\<And>m s e s1. \<lbrakk>P s; f m s = (Inl e, s1)\<rbrakk> \<Longrightarrow> P s1"
  shows "case r of Inr (v, m) \<Rightarrow> n \<le> m \<and> m \<le> n + k \<and> (\<exists>s1. P s1 \<and> f m s1 = (Inr v, s'))
      | Inl (m, e) \<Rightarrow> m = n + k \<and> (\<exists>s1. P s1 \<and> f m s1 = (Inl e, s'))"
  using assms(1,2)
proof (induction k arbitrary: n s r ps)
  case 0
  then show ?case by (auto split: prod.splits sum.splits)
next
  case (Suc k)
  show ?case
  proof (cases "f n s")
    case (Pair o1 s1)
    show ?thesis
    proof (cases o1)
      case (Inr v)
      then show ?thesis using Suc.prems Pair by auto
    next
      case (Inl e)
      obtain r2 ps2 s2 where rest: "attempts_after k (n + 1) f delays s1 = (r2, ps2, s2)" by (rule prod_cases3)
      then have "r = r2" "s' = s2" using Suc.prems(1) Pair Inl by (simp_all add: Let_def)
      moreover have "P s1" using assms(3) [OF Suc.prems(2)] Pair Inl by blast
      ultimately show ?thesis using Suc.IH [of "n + 1" s1 r2 ps2] rest by (auto split: sum.splits)
    qed
  qed
qed

lemma attempts_after_keeps:
  assumes "P s" and "\<And>m s. P s \<Longrightarrow> P (snd (f m s))"
  shows "P (snd (snd (attempts_after k n f delays s)))"
  using assms(1)
proof (induction k arbitrary: n s)
  case 0
  then show ?case using assms(2) [of s n] by (auto split: prod.splits sum.splits)
next
  case (Suc k)
  show ?case
  proof (cases "f n s")
    case (Pair o1 s1)
    then have "P s1" using assms(2) [OF Suc.prems, of n] by simp
    then show ?thesis using Suc.IH [of s1 "n + 1"] Pair by (cases o1) (simp_all add: Let_def split_def)
  qed
qed

section \<open>The analysis keeps what was received\<close>

definition received :: "document_file list \<Rightarrow> (string \<times> id \<times> id \<times> id option) list" where
  "received t = map (\<lambda>f. (df_provider_id f, df_id f, df_client f, df_email f)) (filter (\<lambda>f. df_parent f = None) t)"

definition part_ids :: "document_file list \<Rightarrow> string set" where
  "part_ids t = df_provider_id ` {f \<in> set t. df_parent f \<noteq> None}"

text \<open>Nothing received changes; the new parts carry the id of the file they were cut out of.\<close>

definition cuts :: "string \<Rightarrow> document_file list \<Rightarrow> document_file list \<Rightarrow> bool" where
  "cuts p t t' = (received t' = received t \<and> part_ids t' \<subseteq> part_ids t \<union> range (\<lambda>x. p @ ''#'' @ x))"

lemma cuts_refl: "cuts p t t"
  by (simp add: cuts_def)

lemma cuts_trans: "\<lbrakk>cuts p t t1; cuts p t1 t2\<rbrakk> \<Longrightarrow> cuts p t t2"
  by (auto simp: cuts_def)

lemma cuts_update:
  assumes "\<And>f. df_provider_id (h f) = df_provider_id f \<and> df_id (h f) = df_id f \<and> df_client (h f) = df_client f
     \<and> df_email (h f) = df_email f \<and> df_parent (h f) = df_parent f"
  shows "cuts p t (update_where q h t)"
proof -
  have "received (update_where q h t) = received t"
    using assms by (induction t) (auto simp: received_def)
  moreover have "part_ids (update_where q h t) \<subseteq> part_ids t"
    using assms by (auto simp: part_ids_def set_update_where image_iff split: if_splits)
  ultimately show ?thesis by (auto simp: cuts_def)
qed

lemma cuts_writes:
  "cuts p t (set_analysis i s a t)" "cuts p t (set_blocked i t)" "cuts p t (set_label i l t)" "cuts p t (set_split i t)"
  unfolding set_analysis_def set_blocked_def set_label_def set_split_def by (auto intro: cuts_update)

lemma cuts_delete: "cuts p t (delete_children i t)"
  by (auto simp: cuts_def received_def part_ids_def delete_children_def intro!: arg_cong [where f = "map _"] filter_cong)

lemma cuts_store: "cuts (df_provider_id f) t (fst (store_children A f ks t))"
proof (induction A f ks t rule: store_children.induct)
  case (2 A parent k r rs t)
  have one: "cuts (df_provider_id parent) t (fst (insert_file_if_new (child_row A parent k r) t))"
    by (auto simp: cuts_def received_def part_ids_def insert_file_if_new_def child_row_def Let_def)
  show ?case using 2 one cuts_trans by (auto simp: cuts_refl)
qed (simp add: cuts_refl)

lemma cuts_classify: "cuts p (iw_files w) (iw_files (classify_and_store A f w))"
proof -
  have labelled: "cuts p t (set_label i l (set_analysis j st a t))" for i l j st a t
    by (rule cuts_trans [OF cuts_writes(1) cuts_writes(3)])
  show ?thesis by (simp add: classify_and_store_def label_child_def Let_def cuts_writes labelled split: option.split)
qed

lemma cuts_child: "cuts p (iw_files w) (iw_files (classify_child A c w))"
  using cuts_classify [of p "keep_drafting A w" A c] by (simp add: classify_child_def Let_def cuts_refl cuts_writes)

lemma cuts_children: "cuts p (iw_files w) (iw_files (fold (classify_child A) cs w))"
  by (induction cs arbitrary: w) (auto simp: cuts_refl intro: cuts_trans cuts_child)

lemma cuts_split: "cuts (df_provider_id f) (iw_files w) (iw_files (snd (split_or_keep_whole A f w)))"
proof -
  have cut: "cuts (df_provider_id f) (iw_files w) (iw_files (snd (cut_into_children A f rs w)))" for rs w
    using cuts_store [of f "iw_files w" A "enumerate 0 rs"] cuts_delete cuts_writes(4) cuts_trans
    by (auto simp: cut_into_children_def Let_def split_def cuts_refl)
  show ?thesis
    using cut [of "keep_drafting A w"] by (simp add: split_or_keep_whole_def Let_def cuts_refl split: option.split)
qed

lemma analysis_cuts: "cuts (df_provider_id f) (iw_files w) (iw_files (analyze_inbound_file A f sz w))"
proof -
  obtain r w2 where s: "split_or_keep_whole A f (keep_drafting A w) = (r, w2)" by (rule prod.exhaust)
  have one: "cuts (df_provider_id f) (iw_files w) (iw_files w2)"
    using cuts_split [of f "keep_drafting A w" A] by (simp add: s)
  have whole: "cuts (df_provider_id f) (iw_files w2) (iw_files (classify_and_store A f (keep_drafting A w2)))"
    using cuts_classify [of _ "keep_drafting A w2"] by simp
  show ?thesis
    using cuts_trans [OF one whole] cuts_trans [OF one cuts_children] s
    by (auto simp: analyze_inbound_file_def Let_def cuts_writes split: option.split)
qed

section \<open>One file\<close>

abbreviation files_of :: "ingest_world \<Rightarrow> document_file list" where
  "files_of w \<equiv> iw_files (ig_intake w)"

abbreviation stored_ids :: "ingest_world \<Rightarrow> string set" where
  "stored_ids w \<equiv> df_provider_id ` set (files_of w)"

text \<open>Before the file is stored only requests to its own address are added.\<close>

definition only_asked :: "inbound_item \<Rightarrow> ingest_world \<Rightarrow> ingest_world \<Rightarrow> bool" where
  "only_asked it w w' = (ig_intake w' = ig_intake w \<and> ig_lost w' = ig_lost w \<and> (\<exists>k. ig_requests w' = ig_requests w @ replicate k (ii_source it)))"

lemma only_asked_next: "only_asked it w w1 \<Longrightarrow> only_asked it w (w1\<lparr>ig_requests := ig_requests w1 @ [ii_source it]\<rparr>)"
  unfolding only_asked_def by (auto simp: replicate_append_same intro: exI [of _ "Suc _"])

lemma store_attempt_cases:
  assumes "store_attempt G own it n w = (r, w')"
  obtains (failed) e where "r = Inl e" "w' = w\<lparr>ig_requests := ig_requests w @ [ii_source it]\<rparr>"
  | (known) sz where "r = Inr (None, sz)" "ii_provider_id it \<in> stored_ids w" "ig_intake w' = ig_intake w"
      "ig_lost w' = ig_lost w" "ig_requests w' = ig_requests w @ [ii_source it]"
  | (inserted) sz where "r = Inr (Some (inbound_row G own it sz), sz)" "ii_provider_id it \<notin> stored_ids w"
      "files_of w' = files_of w @ [inbound_row G own it sz]" "ig_lost w' = ig_lost w" "ig_requests w' = ig_requests w @ [ii_source it]"
proof (cases "ge_fetch G (ii_provider_id it) n")
  case (Inl e)
  then show ?thesis using assms by (intro failed [of e]) (simp_all add: store_attempt_def)
next
  case (Inr sz)
  have row: "(inbound_row G own it sz)\<lparr>df_document := None, df_analysis := None\<rparr> = inbound_row G own it sz"
    "df_provider_id (inbound_row G own it sz) = ii_provider_id it" by (simp_all add: inbound_row_def)
  show ?thesis
  proof (cases "list_ex (\<lambda>f. df_provider_id f = ii_provider_id it) (files_of w)")
    case True
    then have "ii_provider_id it \<in> stored_ids w" by (force simp: list_ex_iff)
    then show ?thesis using assms Inr True
      by (intro known [of sz]) (auto simp: store_attempt_def insert_file_if_new_def row Let_def on_files_def)
  next
    case False
    then have "ii_provider_id it \<notin> stored_ids w" by (auto simp: list_ex_iff)
    then show ?thesis using assms Inr False
      by (intro inserted [of sz]) (auto simp: store_attempt_def insert_file_if_new_def row Let_def)
  qed
qed

lemma ingest_file_cases:
  assumes "ingest_inbound_file G own it w = (f, w')"
  obtains (lost) "f = None" "ig_intake w' = ig_intake w" "ig_lost w' = ig_lost w @ [lost_step_of own it 3]"
  | (known) "f = None" "ig_intake w' = ig_intake w" "ig_lost w' = ig_lost w" "ii_provider_id it \<in> stored_ids w"
  | (stored) sz where "f = Some (inbound_row G own it sz)" "ii_provider_id it \<notin> stored_ids w" "ig_lost w' = ig_lost w"
      "cuts (ii_provider_id it) (files_of w @ [inbound_row G own it sz]) (files_of w')"
proof -
  obtain r ps w1 where run: "attempts_after 2 1 (store_attempt G own it) [2000, 8000] w = (r, ps, w1)" by (rule prod_cases3)
  have keep: "only_asked it w s1" if "only_asked it w s" "store_attempt G own it m s = (Inl e, s1)" for m s e s1
    using that(2) by (cases rule: store_attempt_cases) (use only_asked_next [OF that(1)] in simp_all)
  have start: "only_asked it w w" by (auto simp: only_asked_def intro: exI [of _ 0])
  have out: "case r of Inr (v, m) \<Rightarrow> 1 \<le> m \<and> m \<le> 1 + 2 \<and> (\<exists>s1. only_asked it w s1 \<and> store_attempt G own it m s1 = (Inr v, w1))
      | Inl (m, e) \<Rightarrow> m = 1 + 2 \<and> (\<exists>s1. only_asked it w s1 \<and> store_attempt G own it m s1 = (Inl e, w1))"
    by (rule attempts_after_result [where P = "only_asked it w", OF run start keep])
  have def: "ingest_inbound_file G own it w = (case (r, ps, w1) of
        (Inl (attempts, _), _, w1) \<Rightarrow> (None, w1\<lparr>ig_lost := ig_lost w1 @ [lost_step_of own it attempts]\<rparr>)
      | (Inr ((None, _), _), _, w1) \<Rightarrow> (None, w1)
      | (Inr ((Some f, sz), _), _, w1) \<Rightarrow> (Some f, analyze_stored_file G f sz w1))"
    using run by (simp add: ingest_inbound_file_def with_attempts_def INGEST_ATTEMPTS_def)
  show ?thesis
  proof (cases r)
    case (Inl me)
    obtain m e where me: "me = (m, e)" by fastforce
    obtain s1 where s1: "m = 1 + 2" "only_asked it w s1" "store_attempt G own it m s1 = (Inl e, w1)" using out Inl me by auto
    have "only_asked it w w1" using keep [OF s1(2,3)] .
    then show ?thesis using assms def Inl me s1(1) by (intro lost) (auto simp: only_asked_def numeral_3_eq_3)
  next
    case (Inr vm)
    obtain row sz m where vm: "vm = ((row, sz), m)" by (metis surj_pair)
    obtain s1 where s1: "only_asked it w s1" "store_attempt G own it m s1 = (Inr (row, sz), w1)" using out Inr vm by auto
    have same: "ig_intake s1 = ig_intake w" "ig_lost s1 = ig_lost w" using s1(1) by (auto simp: only_asked_def)
    show ?thesis using s1(2)
    proof (cases rule: store_attempt_cases)
      case (known sz')
      then show ?thesis using assms def Inr vm same that(2) by simp
    next
      case (inserted sz')
      let ?row = "inbound_row G own it sz"
      have row: "row = Some ?row" using inserted(1) by auto
      then have w': "f = Some ?row" "w' = analyze_stored_file G ?row sz w1" using assms def Inr vm by auto
      have pid: "df_provider_id ?row = ii_provider_id it" by (simp add: inbound_row_def)
      have "cuts (ii_provider_id it) (files_of w1) (files_of (analyze_stored_file G ?row sz w1))"
        using analysis_cuts [of ?row "ig_intake w1" _ sz] by (simp add: analyze_stored_file_def pid cuts_refl split: option.split)
      moreover have "files_of w1 = files_of w @ [?row]" using inserted(1,3) same by auto
      moreover have "ig_lost w' = ig_lost w" using inserted(4) same w'(2) by (simp add: analyze_stored_file_def split: option.split)
      ultimately show ?thesis using w' inserted(2) same by (intro stored [of sz]) simp_all
    qed simp
  qed
qed

section \<open>The files of one message\<close>

definition received_ids :: "ingest_world \<Rightarrow> string set" where
  "received_ids w = fst ` set (received (files_of w))"

text \<open>No part cut out of a file carries an attachment id of the message.\<close>

definition apart :: "string \<Rightarrow> ingest_world \<Rightarrow> bool" where
  "apart sid w = (part_ids (files_of w) \<inter> range (media_provider_id sid) = {})"

lemma part_id_apart: "media_provider_id sid k @ ''#'' @ x \<notin> range (media_provider_id sid)"
proof
  assume "media_provider_id sid k @ ''#'' @ x \<in> range (media_provider_id sid)"
  then obtain j where "show_nat k @ ''#'' @ x = show_nat j" by (auto simp: media_provider_id_def)
  then have "CHR ''#'' \<in> set (show_nat j)" by (metis append_Cons in_set_conv_decomp self_append_conv2)
  then obtain d where "d < 10" "digit d = CHR ''#''" using show_nat_digits by fastforce
  then have "(of_char (digit d) :: nat) = of_char (CHR ''#'')" by simp
  then show False using \<open>d < 10\<close> by (simp add: digit_def)
qed

lemma stored_split: "stored_ids w = received_ids w \<union> part_ids (files_of w)"
proof -
  have "set (files_of w) = {f \<in> set (files_of w). df_parent f = None} \<union> {f \<in> set (files_of w). df_parent f \<noteq> None}" by blast
  then have "stored_ids w = df_provider_id ` {f \<in> set (files_of w). df_parent f = None} \<union> part_ids (files_of w)"
    unfolding part_ids_def by (metis image_Un)
  moreover have "received_ids w = df_provider_id ` {f \<in> set (files_of w). df_parent f = None}"
    by (force simp: received_ids_def received_def)
  ultimately show ?thesis by simp
qed

text \<open>What one item, and then a list of them, leaves; \<open>n\<close> rows are new.\<close>

definition batch_step :: "inbound_owner \<Rightarrow> string \<Rightarrow> nat set \<Rightarrow> nat \<Rightarrow> ingest_world \<Rightarrow> ingest_world \<Rightarrow> bool" where
  "batch_step own sid ks n w w' = (apart sid w' \<and> received_ids w \<subseteq> received_ids w'
     \<and> length (received (files_of w')) = length (received (files_of w)) + n
     \<and> (\<exists>xs. ig_lost w' = ig_lost w @ xs \<and> (\<forall>s \<in> set xs. ls_target s = io_email own)
          \<and> (\<forall>k \<in> ks. media_provider_id sid k \<in> received_ids w' \<union> ls_provider_id ` set xs)))"

lemma item_step:
  assumes "ingest_inbound_file G own it w = (f, w')" and "apart sid w" and "ii_provider_id it = media_provider_id sid k"
  shows "batch_step own sid {k} (if f = None then 0 else 1) w w'"
  using assms(1)
proof (cases rule: ingest_file_cases)
  case lost
  then show ?thesis using assms(2,3)
    by (simp add: batch_step_def apart_def received_ids_def lost_step_of_def)
next
  case known
  then have "media_provider_id sid k \<in> received_ids w" using assms(2,3) stored_split [of w] by (auto simp: apart_def)
  then show ?thesis using known assms(2) by (simp add: batch_step_def apart_def received_ids_def)
next
  case (stored sz)
  let ?row = "inbound_row G own it sz"
  have row: "df_parent ?row = None" "df_provider_id ?row = media_provider_id sid k" by (simp_all add: inbound_row_def assms(3))
  have rec: "received (files_of w') = received (files_of w) @ [(media_provider_id sid k, df_id ?row, df_client ?row, df_email ?row)]"
    using stored(4) row by (simp add: cuts_def received_def)
  have "part_ids (files_of w @ [?row]) = part_ids (files_of w)" using row by (auto simp: part_ids_def)
  then have "part_ids (files_of w') \<subseteq> part_ids (files_of w) \<union> range (\<lambda>x. media_provider_id sid k @ ''#'' @ x)"
    using stored(4) by (simp add: cuts_def assms(3))
  moreover have "range (\<lambda>x. media_provider_id sid k @ ''#'' @ x) \<inter> range (media_provider_id sid) = {}"
    using part_id_apart by blast
  ultimately have "apart sid w'" using assms(2) unfolding apart_def by blast
  then show ?thesis using stored(1,3) rec by (simp add: batch_step_def received_ids_def subset_insertI)
qed

lemma batch_step_trans:
  assumes "batch_step own sid ks n w w1" "batch_step own sid js m w1 w2"
  shows "batch_step own sid (ks \<union> js) (n + m) w w2"
proof -
  obtain xs where xs: "ig_lost w1 = ig_lost w @ xs" "\<forall>s \<in> set xs. ls_target s = io_email own"
      "\<forall>k \<in> ks. media_provider_id sid k \<in> received_ids w1 \<union> ls_provider_id ` set xs"
    using assms(1) unfolding batch_step_def by blast
  obtain ys where ys: "ig_lost w2 = ig_lost w1 @ ys" "\<forall>s \<in> set ys. ls_target s = io_email own"
      "\<forall>k \<in> js. media_provider_id sid k \<in> received_ids w2 \<union> ls_provider_id ` set ys"
    using assms(2) unfolding batch_step_def by blast
  have mono: "received_ids w1 \<subseteq> received_ids w2" using assms(2) by (simp add: batch_step_def)
  have "\<forall>k \<in> ks \<union> js. media_provider_id sid k \<in> received_ids w2 \<union> ls_provider_id ` set (xs @ ys)"
    using xs(3) ys(3) mono by fastforce
  then show ?thesis using assms xs ys mono
    unfolding batch_step_def by (intro conjI exI [of _ "xs @ ys"]) auto
qed

lemma batch_step_refl: "apart sid w \<Longrightarrow> batch_step own sid {} 0 w w"
  by (simp add: batch_step_def)

lemma items_step:
  "\<lbrakk>ingest_media_items M own sid caption count ms w = (n, w'); apart sid w\<rbrakk>
   \<Longrightarrow> batch_step own sid {k. \<exists>m. (k, m) \<in> set ms \<and> allowed_media M m} n w w'"
proof (induction ms arbitrary: n w)
  case Nil
  then show ?case using batch_step_refl by simp
next
  case (Cons km ms)
  obtain k m where km: "km = (k, m)" by fastforce
  show ?case
  proof (cases "allowed_media M m")
    case False
    then have "{j. \<exists>x. (j, x) \<in> set (km # ms) \<and> allowed_media M x} = {j. \<exists>x. (j, x) \<in> set ms \<and> allowed_media M x}"
      by (auto simp: km)
    then show ?thesis using Cons False by (simp add: km)
  next
    case True
    obtain f w1 where one: "ingest_inbound_file (me_ingest M) own (media_item M sid caption count k m) w = (f, w1)" by (rule prod.exhaust)
    obtain n2 w2 where rest: "ingest_media_items M own sid caption count ms w1 = (n2, w2)" by (rule prod.exhaust)
    have eq: "n = (if f = None then 0 else 1) + n2" "w' = w2" using Cons.prems(1) True one rest by (auto simp: km)
    have first: "batch_step own sid {k} (if f = None then 0 else 1) w w1"
      using item_step [OF one Cons.prems(2)] by (simp add: media_item_def Let_def)
    then have "apart sid w1" by (simp add: batch_step_def)
    then have "batch_step own sid {j. \<exists>x. (j, x) \<in> set ms \<and> allowed_media M x} n2 w1 w2" using Cons.IH rest eq(2) by blast
    note both = batch_step_trans [OF first this]
    have "{j. \<exists>x. (j, x) \<in> set (km # ms) \<and> allowed_media M x} = {k} \<union> {j. \<exists>x. (j, x) \<in> set ms \<and> allowed_media M x}"
      using True by (auto simp: km)
    then show ?thesis using both eq by simp
  qed
qed

section \<open>The lost files\<close>

lemma lost_kept:
  assumes "\<forall>s \<in> set xs. ls_provider_id s = p \<longrightarrow> ls_target s = Some m" and "m \<noteq> []" "p \<noteq> []" "p \<notin> stored"
    and "p \<in> ls_provider_id ` set xs \<or> (\<exists>f. map_of acc p = Some (m, f) \<and> lf_provider_id f = p)"
  shows "\<exists>f. map_of (fold (note_lost stored) xs acc) p = Some (m, f) \<and> lf_provider_id f = p"
  using assms(1,5)
proof (induction xs arbitrary: acc)
  case (Cons s xs)
  have "p \<in> ls_provider_id ` set xs \<or> (\<exists>f. map_of (note_lost stored s acc) p = Some (m, f) \<and> lf_provider_id f = p)"
  proof (cases "ls_provider_id s = p")
    case True
    then have "map_of (note_lost stored s acc) p = Some (m, lost_file_of s) \<and> lf_provider_id (lost_file_of s) = p"
      using Cons.prems(1) assms(2-4) by (simp add: note_lost_def map_of_map_set lost_file_of_def)
    then show ?thesis by blast
  next
    case False
    then have "map_of (note_lost stored s acc) p = map_of acc p" by (simp add: note_lost_def map_of_map_set split: option.split)
    then show ?thesis using Cons.prems(2) False by auto
  qed
  then show ?case using Cons.IH [of "note_lost stored s acc"] Cons.prems(1) by simp
qed simp

lemma grouped:
  assumes "(p, m, f) \<in> set L \<or> (\<exists>fs. map_of out m = Some fs \<and> f \<in> set fs)"
  shows "\<exists>fs. map_of (fold group_lost L out) m = Some fs \<and> f \<in> set fs"
  using assms
proof (induction L arbitrary: out)
  case (Cons x L)
  obtain q m' g where x: "x = (q, m', g)" by (metis surj_pair)
  have "(p, m, f) \<in> set L \<or> (\<exists>fs. map_of (group_lost x out) m = Some fs \<and> f \<in> set fs)"
    using Cons.prems by (cases "m' = m") (auto simp: x group_lost_def map_of_map_set)
  then show ?case using Cons.IH by simp
qed auto

lemma lost_told:
  assumes "map_of (lost_by_attachment steps stored) p = Some (m, f)"
  shows "\<exists>fs. map_of (lost_files_by_message steps stored) m = Some fs \<and> f \<in> set fs"
proof -
  let ?groups = "fold group_lost (lost_by_attachment steps stored) []"
  obtain fs where fs: "map_of ?groups m = Some fs" "f \<in> set fs" using grouped [OF disjI1, OF map_of_SomeD [OF assms], of "[]"] by blast
  have "map_of (map (\<lambda>(m, fs). (m, sort_key lf_index fs)) xs) m = map_option (sort_key lf_index) (map_of xs m)" for xs :: "(id \<times> lost_file list) list"
    by (induction xs) auto
  then have "map_of (lost_files_by_message steps stored) m = map_option (sort_key lf_index) (map_of ?groups m)"
    unfolding lost_files_by_message_def by blast
  then show ?thesis using fs by simp
qed

lemma lost_not_stored:
  assumes "(m, fs) \<in> set (lost_files_by_message steps stored)" and "f \<in> set fs"
  shows "lf_provider_id f \<notin> stored"
proof -
  have set_mem: "x \<in> set (map_set k v acc) \<Longrightarrow> x = (k, v) \<or> x \<in> set acc" for x k v and acc :: "('k \<times> 'v) list"
    by (induction acc) (auto split: if_splits)
  have noted: "\<forall>(p, m, f) \<in> set (fold (note_lost stored) xs acc). lf_provider_id f \<notin> stored"
    if "\<forall>(p, m, f) \<in> set acc. lf_provider_id f \<notin> stored" for xs acc
    using that
  proof (induction xs arbitrary: acc)
    case (Cons x xs)
    have "\<forall>(p, m, f) \<in> set (note_lost stored x acc). lf_provider_id f \<notin> stored"
      using Cons.prems by (auto simp: note_lost_def lost_file_of_def dest!: set_mem split: option.splits if_splits)
    then show ?case using Cons.IH by simp
  qed simp
  have grouped: "\<forall>(m, fs) \<in> set (fold group_lost L out). \<forall>f \<in> set fs. lf_provider_id f \<notin> stored"
    if "\<forall>(p, m, f) \<in> set L. lf_provider_id f \<notin> stored" "\<forall>(m, fs) \<in> set out. \<forall>f \<in> set fs. lf_provider_id f \<notin> stored" for L out
    using that
  proof (induction L arbitrary: out)
    case (Cons x L)
    obtain p m f where x: "x = (p, m, f)" by (metis surj_pair)
    define grown where "grown = (case map_of out m of None \<Rightarrow> [] | Some fs \<Rightarrow> fs) @ [f]"
    have fs: "\<forall>g \<in> set grown. lf_provider_id g \<notin> stored"
      using Cons.prems map_of_SomeD [of out m] by (cases "map_of out m") (auto simp: x grown_def)
    have step: "group_lost x out = map_set m grown out" by (simp add: x group_lost_def grown_def)
    have "lf_provider_id g \<notin> stored" if "(m', gs) \<in> set (group_lost x out)" "g \<in> set gs" for m' gs g
      using that(2) set_mem [OF that(1) [unfolded step]] fs Cons.prems(2) by auto
    then show ?case using Cons.IH [of "group_lost x out"] Cons.prems(1) by auto
  qed simp
  show ?thesis
    using grouped [OF noted [of "[]" steps], of "[]"] assms by (fastforce simp: lost_files_by_message_def lost_by_attachment_def)
qed

text \<open>C30: A file the client sent does not vanish silently: when the media of a WhatsApp message have been taken in, every one that came from an address of the provider is a stored file of its own attachment id, or is shown to the planner as a lost file of that message; a stored file is never shown as lost, and the count returned is the number of received files the table gained.\<close>

theorem file_stored_or_told:
  assumes "ingest_wa_media M own sid media caption w = (n, w')" and "io_email own = Some m" "m \<noteq> []"
    and "part_ids (files_of w) \<inter> range (media_provider_id sid) = {}"
    and "k < length media" and "is_allowed_twilio_media_url (me_lower M) (me_parse_url M) (wm_url (media ! k))"
  shows "length (received (files_of w')) = length (received (files_of w)) + n
     \<and> (media_provider_id sid k \<in> stored_ids w'
        \<or> (\<exists>fs. map_of (lost_files_by_message (ig_lost w') (stored_ids w')) m = Some fs
              \<and> media_provider_id sid k \<in> lf_provider_id ` set fs))
     \<and> (\<forall>(m', fs) \<in> set (lost_files_by_message (ig_lost w') (stored_ids w')). \<forall>f \<in> set fs. lf_provider_id f \<notin> stored_ids w')"
proof -
  let ?p = "media_provider_id sid k"
  have "(k, media ! k) \<in> set (enumerate 0 media)" using assms(5) by (simp add: in_set_enumerate_eq)
  then have k: "k \<in> {j. \<exists>x. (j, x) \<in> set (enumerate 0 media) \<and> allowed_media M x}" using assms(6) by blast
  have batch: "batch_step own sid {j. \<exists>x. (j, x) \<in> set (enumerate 0 media) \<and> allowed_media M x} n w w'"
    using items_step assms(1,4) by (simp add: ingest_wa_media_def apart_def)
  then obtain xs where xs: "ig_lost w' = ig_lost w @ xs" "\<forall>s \<in> set xs. ls_target s = Some m"
      "?p \<in> received_ids w' \<union> ls_provider_id ` set xs"
    using k assms(2) unfolding batch_step_def by fastforce
  have told: "\<exists>fs. map_of (lost_files_by_message (ig_lost w') (stored_ids w')) m = Some fs \<and> ?p \<in> lf_provider_id ` set fs"
    if "?p \<notin> stored_ids w'"
  proof -
    have lost: "?p \<in> ls_provider_id ` set xs" using xs(3) that stored_split [of w'] by blast
    have "?p \<noteq> []" by (simp add: media_provider_id_def)
    then have "\<exists>f. map_of (fold (note_lost (stored_ids w')) xs (fold (note_lost (stored_ids w')) (ig_lost w) [])) ?p = Some (m, f)
        \<and> lf_provider_id f = ?p"
      using lost_kept xs(2) assms(3) that lost by blast
    then obtain f where f: "map_of (lost_by_attachment (ig_lost w') (stored_ids w')) ?p = Some (m, f)" "lf_provider_id f = ?p"
      unfolding lost_by_attachment_def xs(1) fold_append comp_apply by blast
    then show ?thesis using lost_told [OF f(1)] by (metis image_eqI)
  qed
  then show ?thesis using batch lost_not_stored by (fastforce simp: batch_step_def)
qed

definition failing_media :: media_env where
  "failing_media = \<lparr>me_ingest = \<lparr>ge_fetch = (\<lambda>_ _. Inl ''503''), ge_row_id = (\<lambda>_. ''f''), ge_analysis = (\<lambda>_. None), ge_now = 0\<rparr>,
     me_lower = (\<lambda>t. t), me_parse_url = (\<lambda>_. Some (jstr ''https:'', jstr ''api.twilio.com'')), me_stamp = ''20260101-100000''\<rparr>"

definition no_files :: ingest_world where
  "no_files = \<lparr>ig_intake = \<lparr>iw_files = [], iw_drafting = None\<rparr>, ig_lost = [], ig_requests = []\<rparr>"

lemma file_stored_or_told_witness:
  "let w' = snd (ingest_wa_media failing_media \<lparr>io_client = ''c'', io_email = Some ''m''\<rparr> ''SM'' [\<lparr>wm_url = [1], wm_type = []\<rparr>] [] no_files)
   in files_of w' = [] \<and> (\<exists>fs. map_of (lost_files_by_message (ig_lost w') {}) ''m'' = Some fs \<and> ''SM-0'' \<in> lf_provider_id ` set fs)"
proof -
  let ?run = "ingest_wa_media failing_media \<lparr>io_client = ''c'', io_email = Some ''m''\<rparr> ''SM'' [\<lparr>wm_url = [1], wm_type = []\<rparr>] [] no_files"
  have run: "?run = (fst ?run, snd ?run)" by simp
  have none: "files_of (snd ?run) = []" by code_simp
  have url: "is_allowed_twilio_media_url (me_lower failing_media) (me_parse_url failing_media) (wm_url ([\<lparr>wm_url = [1], wm_type = []\<rparr>] ! 0))"
    by code_simp
  have pid: "media_provider_id ''SM'' 0 = ''SM-0''" by code_simp
  show ?thesis
    using file_stored_or_told [OF run _ _ _ _ url, of "''m''"] none by (simp add: pid no_files_def part_ids_def Let_def)
qed

section \<open>Addresses\<close>

lemma ends_with_iff: "ends_with e s \<longleftrightarrow> (\<exists>r. s = r @ e)"
  unfolding ends_with_def is_prefix_iff by (metis rev_append rev_rev_ident)

lemma ingest_requests: "set (ig_requests (snd (ingest_inbound_file G own it w))) \<subseteq> insert (ii_source it) (set (ig_requests w))"
proof -
  let ?P = "\<lambda>v. set (ig_requests v) \<subseteq> insert (ii_source it) (set (ig_requests w))"
  have "?P (snd (store_attempt G own it m v))" if "?P v" for m v
    using that by (auto simp: store_attempt_def Let_def split: sum.split prod.split)
  then have "?P (snd (snd (attempts_after 2 1 (store_attempt G own it) [2000, 8000] w)))"
    by (intro attempts_after_keeps [where P = ?P]) auto
  then show ?thesis
    by (auto simp: ingest_inbound_file_def with_attempts_def INGEST_ATTEMPTS_def analyze_stored_file_def split: prod.splits sum.splits option.splits)
qed

text \<open>C32: The account's credentials go only to the messaging provider: whatever addresses a webhook body names, taking in its media asks only addresses that use https and a host of the provider's own domain, on every attempt.\<close>

theorem media_only_from_provider:
  "set (ig_requests (snd (ingest_wa_media M own sid media caption w)))
     \<subseteq> set (ig_requests w) \<union> (wm_url ` set media \<inter> {u. \<exists>h. me_parse_url M u = Some (jstr ''https:'', h)
          \<and> (me_lower M h = jstr ''twilio.com'' \<or> (\<exists>sub. me_lower M h = sub @ jstr ''.twilio.com''))})"
proof -
  have provider: "\<exists>h. me_parse_url M u = Some (jstr ''https:'', h) \<and> (me_lower M h = jstr ''twilio.com'' \<or> (\<exists>sub. me_lower M h = sub @ jstr ''.twilio.com''))"
    if "is_allowed_twilio_media_url (me_lower M) (me_parse_url M) u" for u
    using that by (auto simp: is_allowed_twilio_media_url_def ends_with_iff Let_def split: option.splits if_splits)
  let ?U = "{wm_url m | m. m \<in> set media \<and> allowed_media M m}"
  have "set (ig_requests (snd (ingest_media_items M own sid caption count ms w))) \<subseteq> set (ig_requests w) \<union> ?U"
    if "snd ` set ms \<subseteq> set media" for count ms w
    using that
  proof (induction ms arbitrary: w)
    case (Cons km ms)
    obtain k m where km: "km = (k, m)" by fastforce
    show ?case
    proof (cases "allowed_media M m")
      case False
      then show ?thesis using Cons by (simp add: km)
    next
      case True
      let ?it = "media_item M sid caption count k m"
      let ?w = "snd (ingest_inbound_file (me_ingest M) own ?it w)"
      have "ii_source ?it \<in> ?U" using True Cons.prems by (auto simp: media_item_def Let_def km)
      then have "set (ig_requests ?w) \<subseteq> set (ig_requests w) \<union> ?U"
        using ingest_requests [of "me_ingest M" own ?it w] by blast
      moreover have "set (ig_requests (snd (ingest_media_items M own sid caption count ms ?w))) \<subseteq> set (ig_requests ?w) \<union> ?U"
        using Cons by simp
      moreover have "snd (ingest_media_items M own sid caption count (km # ms) w) = snd (ingest_media_items M own sid caption count ms ?w)"
        using True by (simp add: km split_def Let_def)
      ultimately show ?thesis by auto
    qed
  qed simp
  from this [of "enumerate 0 media" "length media" w]
  have "set (ig_requests (snd (ingest_wa_media M own sid media caption w))) \<subseteq> set (ig_requests w) \<union> ?U"
    by (simp add: ingest_wa_media_def flip: set_map)
  also have "\<dots> \<subseteq> set (ig_requests w) \<union> (wm_url ` set media \<inter> {u. \<exists>h. me_parse_url M u = Some (jstr ''https:'', h)
          \<and> (me_lower M h = jstr ''twilio.com'' \<or> (\<exists>sub. me_lower M h = sub @ jstr ''.twilio.com''))})"
    using provider by blast
  finally show ?thesis .
qed

end
