(* ===== verification/OtpCode.thy ===== *)
theory OtpCode
  imports Identity
begin

text \<open>
  Finding the one-time code in a reply of the client (\<open>taxFetch/inboundOtp.ts\<close>): the
  pattern \<open>\b(\d[\d\s-]{2,}\d)\b\<close> as a search for its leftmost, longest match, the digits
  of the code, and the masked body that stays stored once the code is consumed.
\<close>

section \<open>The pattern\<close>

definition word_char :: "nat \<Rightarrow> bool" where
  "word_char c = (is_digit c \<or> (65 \<le> c \<and> c \<le> 90) \<or> (97 \<le> c \<and> c \<le> 122) \<or> c = 95)"

definition separator :: "nat \<Rightarrow> bool" where
  "separator c = (js_space c \<or> c = 45)"

text \<open>The length of the longest match at the head of a text: it ends on a digit, at a word boundary, after at least four characters.\<close>

definition otp_here :: "utext \<Rightarrow> nat option" where
  "otp_here s = (let n = length (takeWhile (\<lambda>c. is_digit c \<or> separator c) s) in
     List.find (\<lambda>l. 4 \<le> l \<and> is_digit (s ! (l - 1)) \<and> (l = length s \<or> \<not> word_char (s ! l))) (rev [0..<Suc n]))"

text \<open>What stands before the match, the match, and the rest; \<open>inside\<close>: the character before is a word character.\<close>

fun otp_match :: "bool \<Rightarrow> utext \<Rightarrow> (utext \<times> utext \<times> utext) option" where
  "otp_match inside [] = None"
| "otp_match inside (c # s) =
     (case (if \<not> inside \<and> is_digit c then otp_here (c # s) else None) of
        Some l \<Rightarrow> Some ([], take l (c # s), drop l (c # s))
      | None \<Rightarrow> map_option (\<lambda>(a, m, b). (c # a, m, b)) (otp_match (word_char c) s))"

definition extract_otp :: "utext \<Rightarrow> utext option" where
  "extract_otp body = (case otp_match False body of None \<Rightarrow> None
     | Some (_, m, _) \<Rightarrow> (let digits = filter (\<lambda>c. \<not> separator c) m in
         if 4 \<le> length digits \<and> length digits \<le> 8 then Some digits else None))"

definition redacted :: "utext \<Rightarrow> utext" where
  "redacted body = (case otp_match False body of None \<Rightarrow> body | Some (a, _, b) \<Rightarrow> a @ replicate 6 8226 @ b)"

section \<open>What the search finds\<close>

lemma digit_word: "is_digit c \<Longrightarrow> word_char c"
  by (simp add: word_char_def)

lemma separator_no_digit: "separator c \<Longrightarrow> \<not> is_digit c"
  by (auto simp: separator_def is_digit_def js_space_def)

lemma find_first_hit: "p x \<Longrightarrow> List.find p (x # xs) = Some x"
  by simp

text \<open>A run of digits between boundaries is matched as a whole.\<close>

lemma otp_here_code:
  assumes "4 \<le> length ds" and "\<forall>c \<in> set ds. is_digit c" and "b = [] \<or> \<not> word_char (hd b) \<and> \<not> separator (hd b)"
  shows "otp_here (ds @ b) = Some (length ds)"
proof -
  have stop: "takeWhile (\<lambda>c. is_digit c \<or> separator c) b = []"
    using assms(3) digit_word by (cases b) auto
  have run: "takeWhile (\<lambda>c. is_digit c \<or> separator c) (ds @ b) = ds"
    using assms(2) stop by (simp add: takeWhile_append2)
  have last: "is_digit ((ds @ b) ! (length ds - 1))"
    using assms(1,2) by (auto simp: nth_append intro: nth_mem)
  have bound: "length ds = length (ds @ b) \<or> \<not> word_char ((ds @ b) ! length ds)"
    using assms(3) by (cases b) (auto simp: nth_append)
  have upto: "rev [0..<Suc (length ds)] = length ds # rev [0..<length ds]" by simp
  show ?thesis unfolding otp_here_def run Let_def upto
    by (rule find_first_hit) (use assms(1) last bound in blast)
qed

lemma otp_match_code:
  assumes "\<forall>c \<in> set a. \<not> is_digit c" and "if a = [] then \<not> inside else \<not> word_char (last a)"
    and "4 \<le> length ds" and "\<forall>c \<in> set ds. is_digit c" and "b = [] \<or> \<not> word_char (hd b) \<and> \<not> separator (hd b)"
  shows "otp_match inside (a @ ds @ b) = Some (a, ds, b)"
  using assms(1,2)
proof (induction a arbitrary: inside)
  case Nil
  obtain d ds' where ds: "ds = d # ds'" using assms(3) by (cases ds) auto
  have "otp_here (d # ds' @ b) = Some (length ds)" using otp_here_code [OF assms(3-5)] by (simp add: ds)
  then show ?case using Nil assms(4) by (simp add: ds)
next
  case (Cons c a)
  have "otp_match (word_char c) (a @ ds @ b) = Some (a, ds, b)"
    using Cons.prems by (intro Cons.IH) (auto split: if_splits)
  then show ?case using Cons.prems(1) by simp
qed

lemma extract_otp_code:
  assumes "\<forall>c \<in> set a. \<not> is_digit c" and "a = [] \<or> \<not> word_char (last a)"
    and "4 \<le> length ds" "length ds \<le> 8" and "\<forall>c \<in> set ds. is_digit c" and "b = [] \<or> \<not> word_char (hd b) \<and> \<not> separator (hd b)"
  shows "extract_otp (a @ ds @ b) = Some ds \<and> redacted (a @ ds @ b) = a @ replicate 6 8226 @ b"
proof -
  have m: "otp_match False (a @ ds @ b) = Some (a, ds, b)"
    using assms by (intro otp_match_code) auto
  have "filter (\<lambda>c. \<not> separator c) ds = ds" using assms(5) separator_no_digit by (auto simp: filter_id_conv)
  then show ?thesis using assms(3,4) by (simp add: extract_otp_def redacted_def m)
qed

text \<open>Every match splits the text, starts and ends on a digit at a word boundary and holds only digits and separators.\<close>

lemma otp_here_shape:
  assumes "otp_here s = Some l"
  shows "4 \<le> l" "l \<le> length s" "\<forall>c \<in> set (take l s). is_digit c \<or> separator c" "is_digit (s ! (l - 1))"
proof -
  let ?run = "takeWhile (\<lambda>c. is_digit c \<or> separator c) s"
  have "l \<in> set (rev [0..<Suc (length ?run)])" and l: "4 \<le> l" "is_digit (s ! (l - 1))"
    using find_Some_mem [OF assms [unfolded otp_here_def Let_def]] by blast+
  then have n: "l \<le> length ?run" by auto
  then show "l \<le> length s" using length_takeWhile_le le_trans by blast
  have "take l s = take l ?run" using n by (metis takeWhile_eq_take take_take min.absorb2 min.commute)
  then show "\<forall>c \<in> set (take l s). is_digit c \<or> separator c"
    by (metis in_set_takeD set_takeWhileD)
  show "4 \<le> l" "is_digit (s ! (l - 1))" using l by blast+
qed

lemma otp_match_shape:
  "otp_match inside s = Some (a, m, b) \<Longrightarrow>
     s = a @ m @ b \<and> 4 \<le> length m \<and> (\<forall>c \<in> set m. is_digit c \<or> separator c) \<and> is_digit (hd m) \<and> is_digit (last m)"
proof (induction inside s arbitrary: a rule: otp_match.induct)
  case (2 inside c s)
  show ?case
  proof (cases "if \<not> inside \<and> is_digit c then otp_here (c # s) else None")
    case None
    then obtain a' where a': "otp_match (word_char c) s = Some (a', m, b)" "a = c # a'" using "2.prems" by auto
    show ?thesis using "2.IH" [OF None a'(1)] a'(2) by simp
  next
    case (Some l)
    then have c: "is_digit c" and here: "otp_here (c # s) = Some l" by (auto split: if_splits)
    have eq: "a = []" "m = take l (c # s)" "b = drop l (c # s)" using "2.prems" Some by auto
    have shape: "4 \<le> l" "l \<le> length (c # s)" "\<forall>x \<in> set m. is_digit x \<or> separator x" "is_digit ((c # s) ! (l - 1))"
      using otp_here_shape [OF here] eq(2) by blast+
    have len: "length m = l" using shape(2) by (simp add: eq(2))
    have "last m = (c # s) ! (l - 1)" using len shape(1) unfolding eq(2) by (subst last_conv_nth) auto
    then show ?thesis using eq shape len c by (cases l) simp_all
  qed
qed simp

end
