(* ===== verification/FetchRunner.thy ===== *)
theory FetchRunner
  imports TaxFetch Closing
begin

text \<open>
  The worker that drives a document fetch (\<open>taxFetch/runner.ts\<close>, \<open>sessionTracker.ts\<close>,
  \<open>deliver.ts\<close>): the login job with its guards, the job that submits a
  one-time code, the download and its delivery, cancelling, the expiry of a wait and the
  sweep at boot. A job runs as one step, as in the static mode of the worker (one job at a
  time). What the browser service answers, the provider registry, the accepting of a text by
  the messaging provider and the storing of bytes are arguments; screenshots and log lines
  are left out.
\<close>

section \<open>State\<close>

datatype fetch_text = OtpSentText | LoginFailedText | BusyText | OtpExpiredText | OtpRejectedText | OtpGaveUpText
  | DownloadFailedText | NoDocumentsText

record fetched_document =
  fd_filename :: utext
  fd_content_type :: utext
  fd_size :: nat
  fd_kind :: "string option"

text \<open>The part of a provider's entry the worker uses; \<open>None\<close> from the registry is its throw for an unknown id.\<close>

record runner_provider =
  rp_types :: "fetch_type list"
  rp_owns :: "string \<Rightarrow> fetched_document \<Rightarrow> bool"
  rp_text :: "fetch_text \<Rightarrow> utext"
  rp_confirmation :: "fetched_document list \<Rightarrow> bool \<Rightarrow> utext"
  rp_label :: "fetched_document \<Rightarrow> utext option"

datatype runner_job = RunStartLogin id "id option" nat | RunSubmitOtp id utext nat | RunCancel id

text \<open>\<open>rw_verify\<close> are the verification batches started beside a delivery: the client and the pairs of row and file.\<close>

text \<open>The calls made to the browser service; a login call says whether the service refused it for capacity.\<close>

datatype browser_call = CallLogin id bool | CallSubmit id utext | CallDownload id | CallClose id

record 'q runner_world =
  rw_send :: "'q world"
  rw_sessions :: "fetch_session list"
  rw_attempts :: "id \<Rightarrow> nat"
  rw_tracked :: "(id \<times> id \<times> string) list"
  rw_jobs :: "(runner_job \<times> int) list"
  rw_browser :: "browser_call list"
  rw_docs :: docs
  rw_files :: "document_file list"
  rw_verify :: "(id \<times> (id \<times> id) list) list"

datatype login_answer = LoginDone | LoginAtCapacity | LoginFailed string
datatype submit_answer = CodeAccepted | CodeRejected | BrowserGone | SubmitFailed string
datatype download_answer = Downloaded "fetched_document list" | NothingOnSite string | DownloadFailed string

record 'q runner_env =
  ru_send :: "'q send_env"
  ru_registry :: "string \<Rightarrow> runner_provider option"
  ru_credentials :: "string \<Rightarrow> id \<Rightarrow> bool"
  ru_max_live :: nat
  ru_login :: login_answer
  ru_submit :: submit_answer
  ru_download :: download_answer
  ru_accepts :: "utext \<Rightarrow> bool"
  ru_can_email :: "id \<Rightarrow> bool"
  ru_email_sent :: bool
  ru_stored :: "nat \<Rightarrow> bool"
  ru_file_id :: "nat \<Rightarrow> id"

definition MAX_OTP_ATTEMPTS :: nat where "MAX_OTP_ATTEMPTS = 3"
definition START_WAIT_RETRY_MS :: int where "START_WAIT_RETRY_MS = 10000"
definition MAX_START_WAIT_ATTEMPTS :: nat where "MAX_START_WAIT_ATTEMPTS = 6"
definition OTP_SETTLE_RETRY_MS :: int where "OTP_SETTLE_RETRY_MS = 10000"
definition MAX_OTP_SETTLE_ATTEMPTS :: nat where "MAX_OTP_SETTLE_ATTEMPTS = 30"

section \<open>Queries and small steps\<close>

definition session_by_id :: "id \<Rightarrow> fetch_session list \<Rightarrow> fetch_session option" where
  "session_by_id i t = List.find (\<lambda>s. ts_id s = i) t"

text \<open>\<open>updateStatus\<close>: a given error replaces the stored one.\<close>

definition update_status :: "id \<Rightarrow> session_status \<Rightarrow> string option \<Rightarrow> 'q runner_world \<Rightarrow> 'q runner_world" where
  "update_status i st err w = w\<lparr>rw_sessions := update_where (\<lambda>s. ts_id s = i)
     (\<lambda>s. s\<lparr>ts_status := st, ts_error := (case err of None \<Rightarrow> ts_error s | Some e \<Rightarrow> Some e)\<rparr>) (rw_sessions w)\<rparr>"

definition increment_otp_attempts :: "id \<Rightarrow> 'q runner_world \<Rightarrow> nat \<times> 'q runner_world" where
  "increment_otp_attempts i w = (let n = rw_attempts w i + 1 in (n, w\<lparr>rw_attempts := (rw_attempts w)(i := n)\<rparr>))"

definition list_stale_live :: "fetch_session list \<Rightarrow> fetch_session list" where
  "list_stale_live t = filter (\<lambda>s. ts_status s \<in> LIVE_BROWSER_STATUSES) t"

definition awaiting_otp_session :: "id \<Rightarrow> fetch_session list \<Rightarrow> fetch_session option" where
  "awaiting_otp_session c t = List.find (\<lambda>s. ts_client s = c \<and> ts_status s \<in> {SLoggingIn, SAwaitingOtp}) (rev t)"

definition at_capacity :: "'q runner_env \<Rightarrow> 'q runner_world \<Rightarrow> bool" where
  "at_capacity R w = (ru_max_live R \<le> length (rw_tracked w))"

definition tracker_discard :: "id \<Rightarrow> 'q runner_world \<Rightarrow> 'q runner_world" where
  "tracker_discard i w = w\<lparr>rw_tracked := filter (\<lambda>x. fst x \<noteq> i) (rw_tracked w)\<rparr>"

definition tracker_put :: "id \<Rightarrow> id \<Rightarrow> string \<Rightarrow> 'q runner_world \<Rightarrow> 'q runner_world" where
  "tracker_put i c p w = (let w1 = tracker_discard i w in w1\<lparr>rw_tracked := rw_tracked w1 @ [(i, c, p)]\<rparr>)"

definition tracker_take :: "id \<Rightarrow> 'q runner_world \<Rightarrow> (id \<times> string) option \<times> 'q runner_world" where
  "tracker_take i w = (map_of (rw_tracked w) i, tracker_discard i w)"

definition browser :: "browser_call \<Rightarrow> 'q runner_world \<Rightarrow> 'q runner_world" where
  "browser call w = w\<lparr>rw_browser := rw_browser w @ [call]\<rparr>"

definition enqueue_run :: "runner_job \<Rightarrow> int \<Rightarrow> 'q runner_world \<Rightarrow> 'q runner_world" where
  "enqueue_run j delay w = w\<lparr>rw_jobs := rw_jobs w @ [(j, delay)]\<rparr>"

definition on_send :: "('q world \<Rightarrow> 'q world) \<Rightarrow> 'q runner_world \<Rightarrow> 'q runner_world" where
  "on_send f w = w\<lparr>rw_send := f (rw_send w)\<rparr>"

definition wa_sender :: "'q runner_env \<Rightarrow> client_row \<Rightarrow> string option" where
  "wa_sender R cl = (case cl_instance cl of None \<Rightarrow> None | Some i \<Rightarrow> se_sender (ru_send R) i)"

text \<open>Best effort: a refused text stays a draft and the fetch goes on.\<close>

definition send_canned :: "'q runner_env \<Rightarrow> ms \<Rightarrow> id \<Rightarrow> client_row \<Rightarrow> utext \<Rightarrow> 'q runner_world \<Rightarrow> 'q runner_world" where
  "send_canned R now c cl body w =
     (if wa_sender R cl = None \<or> \<not> truthy_text (cl_wa_phone cl) then w
      else on_send (\<lambda>s. snd (send_text_and_record (se_fresh (ru_send R) s) (ru_accepts R body) c body now s)) w)"

definition replan_after_fetch_end :: "'q runner_env \<Rightarrow> ms \<Rightarrow> id \<Rightarrow> 'q runner_world \<Rightarrow> 'q runner_world" where
  "replan_after_fetch_end R now c = on_send (\<lambda>s. snd (replan (ru_send R) c now s))"

section \<open>The login job\<close>

definition start_browser_login ::
  "'q runner_env \<Rightarrow> ms \<Rightarrow> fetch_session \<Rightarrow> client_row \<Rightarrow> runner_provider \<Rightarrow> 'q runner_world \<Rightarrow> 'q runner_world"
where
  "start_browser_login R now s cl p w0 =
     (let i = ts_id s; c = ts_client s; w = browser (CallLogin i (ru_login R = LoginAtCapacity)) (update_status i SLoggingIn None w0)
      in case ru_login R of
           LoginDone \<Rightarrow> on_send (record_audit ''tax_fetch.login_started'' i)
             (send_canned R now c cl (rp_text p OtpSentText) (update_status i SAwaitingOtp None (tracker_put i c (ts_provider s) w)))
         | LoginAtCapacity \<Rightarrow> send_canned R now c cl (rp_text p BusyText) (update_status i (ts_status s) None w)
         | LoginFailed e \<Rightarrow> replan_after_fetch_end R now c
             (send_canned R now c cl (rp_text p LoginFailedText)
               (on_send (record_audit ''tax_fetch.failed'' i)
                 (update_status i SFailed (Some e) (browser (CallClose i) (tracker_discard i w))))))"

text \<open>After the guards on session and agent: the heads-up message must have been sent.\<close>

definition heads_up_ready :: "id option \<Rightarrow> 'q runner_world \<Rightarrow> bool option" where
  "heads_up_ready e w = (if \<not> truthy_text e then Some True
     else (case email_by_id (the e) (rw_send w) of None \<Rightarrow> None | Some m \<Rightarrow> Some (em_status m = ESent)))"

definition run_start_login :: "'q runner_env \<Rightarrow> ms \<Rightarrow> id \<Rightarrow> id option \<Rightarrow> nat \<Rightarrow> 'q runner_world \<Rightarrow> 'q runner_world" where
  "run_start_login R now i e attempt w =
     (case session_by_id i (rw_sessions w) of None \<Rightarrow> w
      | Some s \<Rightarrow>
        if ts_status s \<notin> {SAgreed, SIntroSent} then w
        else (case client_by_id (ts_client s) (rw_send w) of None \<Rightarrow> w
          | Some cl \<Rightarrow>
            if agent_work_blocked cl (rw_send w) \<noteq> None then update_status i SCancelled None w
            else (case heads_up_ready e w of None \<Rightarrow> w
              | Some False \<Rightarrow> if MAX_START_WAIT_ATTEMPTS \<le> attempt then w
                  else enqueue_run (RunStartLogin i e (attempt + 1)) START_WAIT_RETRY_MS w
              | Some True \<Rightarrow>
                  (case ru_registry R (ts_provider s) of
                     None \<Rightarrow> update_status i SFailed (Some (''unknown document-fetch provider: '' @ ts_provider s)) w
                   | Some p \<Rightarrow>
                       if \<not> ru_credentials R (ts_provider s) (ts_client s) then
                         replan_after_fetch_end R now (ts_client s) (send_canned R now (ts_client s) cl (rp_text p LoginFailedText)
                           (update_status i SFailed (Some ''no portal credentials on file'') w))
                       else if at_capacity R w then send_canned R now (ts_client s) cl (rp_text p BusyText) w
                       else start_browser_login R now s cl p w))))"

section \<open>Delivery\<close>

text \<open>The row a fetched document is filed under: by name, whatever its status.\<close>

definition target_row :: "runner_provider \<Rightarrow> fetch_session \<Rightarrow> docs \<Rightarrow> fetched_document \<Rightarrow> id option" where
  "target_row p s rows d =
     (let active = (case ts_keys s of None \<Rightarrow> map ty_key (rp_types p) | Some ks \<Rightarrow> ks);
          ty = List.find (\<lambda>ty. ty_key ty \<in> set active \<and> rp_owns p (ty_key ty) d) (rp_types p);
          match = (case ty of None \<Rightarrow> None | Some ty \<Rightarrow> List.find (\<lambda>r. ty_matches ty (cd_name r)) rows)
      in case match of Some r \<Rightarrow> Some (cd_id r) | None \<Rightarrow> ts_document s)"

definition fetched_file :: "'q runner_env \<Rightarrow> ms \<Rightarrow> runner_provider \<Rightarrow> fetch_session \<Rightarrow> id \<Rightarrow> bool \<Rightarrow> nat \<Rightarrow> fetched_document \<Rightarrow> document_file" where
  "fetched_file R now p s message single k d =
     \<lparr>df_id = ru_file_id R k, df_client = ts_client s, df_email = Some message, df_document = None,
      df_provider_id = (if single then ''taxfetch-'' @ ts_id s else ''taxfetch-'' @ ts_id s @ ''-'' @ show_nat (k + 1)),
      df_filename = fd_filename d, df_label = rp_label p d, df_content_type = fd_content_type d, df_size = fd_size d,
      df_status = AnNotNeeded, df_analysis = None, df_parent = None, df_pages = None, df_created = now\<rparr>"

fun store_fetched ::
  "'q runner_env \<Rightarrow> ms \<Rightarrow> runner_provider \<Rightarrow> fetch_session \<Rightarrow> docs \<Rightarrow> id \<Rightarrow> bool \<Rightarrow> (nat \<times> fetched_document) list \<Rightarrow> (id \<times> id) list
   \<Rightarrow> 'q runner_world \<Rightarrow> (string, (id \<times> id) list) result \<times> 'q runner_world"
where
  "store_fetched R now p s rows message single [] pairs w = (Inr pairs, w)"
| "store_fetched R now p s rows message single ((k, d) # ds) pairs w =
     (if \<not> ru_stored R k then (Inl ''blob upload failed'', w)
      else (case insert_file_if_new (fetched_file R now p s message single k d) (rw_files w) of
          (_, None) \<Rightarrow> (Inl ''tax fetch: document_files insert returned no row'', w)
        | (t, Some f) \<Rightarrow> (case target_row p s rows d of
              None \<Rightarrow> store_fetched R now p s rows message single ds pairs (w\<lparr>rw_files := t\<rparr>)
            | Some row \<Rightarrow> store_fetched R now p s rows message single ds (map_set row (df_id f) pairs)
                (w\<lparr>rw_files := link_to_document (df_id f) (ts_client s) row t\<rparr>))))"

definition collect_fetched :: "id \<Rightarrow> client_row \<Rightarrow> (id \<times> id) list \<Rightarrow> 'q runner_world \<Rightarrow> 'q runner_world" where
  "collect_fetched c cl pairs w =
     (if pairs = [] then w
      else (let w1 = w\<lparr>rw_docs := mark_collected c (map fst pairs) (rw_docs w)\<rparr> in
        if is_supervised (instance_of cl (rw_send w)) then w1\<lparr>rw_verify := rw_verify w1 @ [(c, pairs)]\<rparr> else w1))"

definition conclude_delivery ::
  "'q runner_env \<Rightarrow> ms \<Rightarrow> fetch_session \<Rightarrow> 'q runner_world \<Rightarrow> (string, unit) result \<times> 'q runner_world"
where
  "conclude_delivery R now s w =
     (let w1 = on_send (record_audit ''tax_fetch.document_delivered'' (ts_id s)) (update_status (ts_id s) SDelivered None w);
          (r, send) = replan (ru_send R) (ts_client s) now (rw_send w1)
      in (r, w1\<lparr>rw_send := send\<rparr>))"

definition deliver ::
  "'q runner_env \<Rightarrow> ms \<Rightarrow> fetch_session \<Rightarrow> client_row \<Rightarrow> runner_provider \<Rightarrow> fetched_document list \<Rightarrow> 'q runner_world
   \<Rightarrow> (string, unit) result \<times> 'q runner_world"
where
  "deliver R now s cl p ds w =
     (if ds = [] then (Inl ''tax fetch: nothing to deliver'', w)
      else if wa_sender R cl = None \<or> \<not> truthy_text (cl_wa_phone cl) then (Inl ''cannot deliver tax documents: client is not WhatsApp-reachable'', w)
      else (let c = ts_client s; can_email = ru_can_email R c; body = rp_confirmation p ds can_email;
                message = se_fresh (ru_send R) (rw_send w);
                (ok, send) = send_text_and_record message (ru_accepts R body) c body now (rw_send w);
                w1 = w\<lparr>rw_send := send\<rparr>
        in if \<not> ok then (Inl ''provider rejected the send'', w1)
           else (case store_fetched R now p s (documents_of_client c (rw_docs w1)) message (length ds = 1) (enumerate 0 ds) [] w1 of
               (Inl e, w2) \<Rightarrow> (Inl e, w2)
             | (Inr pairs, w2) \<Rightarrow>
                 (let w3 = collect_fetched c cl pairs w2 in
                  if can_email \<and> \<not> ru_email_sent R then (Inl ''email send failed'', w3) else conclude_delivery R now s w3))))"

section \<open>The code job\<close>

definition fetch_failed :: "'q runner_env \<Rightarrow> ms \<Rightarrow> id \<Rightarrow> id \<Rightarrow> client_row \<Rightarrow> string \<Rightarrow> utext \<Rightarrow> 'q runner_world \<Rightarrow> 'q runner_world" where
  "fetch_failed R now i c cl err body w =
     replan_after_fetch_end R now c (send_canned R now c cl body (on_send (record_audit ''tax_fetch.failed'' i) (update_status i SFailed (Some err) w)))"

definition download_and_deliver ::
  "'q runner_env \<Rightarrow> ms \<Rightarrow> id \<Rightarrow> id \<Rightarrow> client_row \<Rightarrow> runner_provider \<Rightarrow> 'q runner_world \<Rightarrow> 'q runner_world"
where
  "download_and_deliver R now i c cl p w =
     browser (CallClose i)
      (case session_by_id i (rw_sessions w) of None \<Rightarrow> w
       | Some s \<Rightarrow> (let w1 = browser (CallDownload i) (update_status i SDownloading None w) in
           case ru_download R of
             NothingOnSite e \<Rightarrow> fetch_failed R now i c cl e (rp_text p NoDocumentsText) w1
           | DownloadFailed e \<Rightarrow> fetch_failed R now i c cl e (rp_text p DownloadFailedText) w1
           | Downloaded ds \<Rightarrow> (case deliver R now s cl p ds w1 of
                 (Inl e, w2) \<Rightarrow> fetch_failed R now i c cl e (rp_text p DownloadFailedText) w2
               | (Inr _, w2) \<Rightarrow> w2)))"

definition submit_code ::
  "'q runner_env \<Rightarrow> ms \<Rightarrow> id \<Rightarrow> id \<Rightarrow> string \<Rightarrow> client_row \<Rightarrow> runner_provider \<Rightarrow> utext \<Rightarrow> 'q runner_world \<Rightarrow> 'q runner_world"
where
  "submit_code R now i c pid cl p otp w0 =
     (let w = browser (CallSubmit i otp) (update_status i SVerifying None w0) in
      case ru_submit R of
        CodeRejected \<Rightarrow>
          (let (n, w1) = increment_otp_attempts i w in
           if n < MAX_OTP_ATTEMPTS
           then send_canned R now c cl (rp_text p OtpRejectedText) (update_status i SAwaitingOtp None (tracker_put i c pid w1))
           else fetch_failed R now i c cl ''otp rejected too many times'' (rp_text p OtpGaveUpText) (browser (CallClose i) w1))
      | BrowserGone \<Rightarrow> replan_after_fetch_end R now c (send_canned R now c cl (rp_text p OtpExpiredText)
            (update_status i SExpired (Some ''browser session was lost'') w))
      | SubmitFailed e \<Rightarrow> fetch_failed R now i c cl e (rp_text p LoginFailedText) (browser (CallClose i) w)
      | CodeAccepted \<Rightarrow> download_and_deliver R now i c cl p (on_send (record_audit ''tax_fetch.otp_submitted'' i) w))"

text \<open>A code for a session nobody tracks: the wait expired or the worker restarted. \<open>None\<close> from the registry is a throw.\<close>

definition code_for_lost_session :: "'q runner_env \<Rightarrow> ms \<Rightarrow> id \<Rightarrow> 'q runner_world \<Rightarrow> 'q runner_world" where
  "code_for_lost_session R now i w0 =
     (let w = browser (CallClose i) w0 in
      case session_by_id i (rw_sessions w) of None \<Rightarrow> w
      | Some s \<Rightarrow>
          if ts_status s \<noteq> SAwaitingOtp then w
          else (let w1 = update_status i SExpired (Some ''otp submitted after session was lost'') w in
            case client_by_id (ts_client s) (rw_send w1) of None \<Rightarrow> w1
            | Some cl \<Rightarrow> (case ru_registry R (ts_provider s) of None \<Rightarrow> w1
                | Some p \<Rightarrow> replan_after_fetch_end R now (ts_client s) (send_canned R now (ts_client s) cl (rp_text p OtpExpiredText) w1))))"

definition run_submit_otp :: "'q runner_env \<Rightarrow> ms \<Rightarrow> id \<Rightarrow> utext \<Rightarrow> nat \<Rightarrow> 'q runner_world \<Rightarrow> 'q runner_world" where
  "run_submit_otp R now i otp attempt w =
     (if (case session_by_id i (rw_sessions w) of None \<Rightarrow> False | Some s \<Rightarrow> ts_status s = SLoggingIn) then
        (if MAX_OTP_SETTLE_ATTEMPTS \<le> attempt then w else enqueue_run (RunSubmitOtp i otp (attempt + 1)) OTP_SETTLE_RETRY_MS w)
      else (case tracker_take i w of
          (None, w1) \<Rightarrow> code_for_lost_session R now i w1
        | (Some (c, pid), w1) \<Rightarrow>
            (case ru_registry R pid of None \<Rightarrow> w1
             | Some p \<Rightarrow> (case client_by_id c (rw_send w1) of None \<Rightarrow> browser (CallClose i) w1
                 | Some cl \<Rightarrow>
                     if agent_work_blocked cl (rw_send w1) \<noteq> None then update_status i SCancelled None (browser (CallClose i) w1)
                     else submit_code R now i c pid cl p otp w1))))"

section \<open>Cancelling, expiry, boot\<close>

definition run_cancel :: "id \<Rightarrow> 'q runner_world \<Rightarrow> 'q runner_world" where
  "run_cancel i w0 =
     (let w = browser (CallClose i) (tracker_discard i w0) in
      case session_by_id i (rw_sessions w) of None \<Rightarrow> w
      | Some s \<Rightarrow> if ts_status s \<in> ACTIVE_TAX_FETCH_STATUSES then update_status i SCancelled None w else w)"

definition on_session_expiry :: "'q runner_env \<Rightarrow> ms \<Rightarrow> id \<Rightarrow> 'q runner_world \<Rightarrow> 'q runner_world" where
  "on_session_expiry R now i w0 =
     (case tracker_take i w0 of
        (None, w) \<Rightarrow> w
      | (Some (c, pid), w1) \<Rightarrow>
          (let w = browser (CallClose i) w1;
               w2 = (case session_by_id i (rw_sessions w) of None \<Rightarrow> w
                 | Some s \<Rightarrow> if ts_status s = SAwaitingOtp then update_status i SExpired (Some ''otp not received in time'') w else w)
           in case client_by_id c (rw_send w2) of None \<Rightarrow> w2
              | Some cl \<Rightarrow> (case ru_registry R pid of None \<Rightarrow> w2
                  | Some p \<Rightarrow> replan_after_fetch_end R now c (send_canned R now c cl (rp_text p OtpExpiredText) w2))))"

definition expire_orphaned_sessions :: "'q runner_world \<Rightarrow> 'q runner_world" where
  "expire_orphaned_sessions w =
     fold (\<lambda>s w. update_status (ts_id s) SExpired (Some ''worker restarted; browser session lost'') (browser (CallClose (ts_id s)) w))
       (list_stale_live (rw_sessions w)) w"

fun run_fetch_job :: "'q runner_env \<Rightarrow> ms \<Rightarrow> runner_job \<Rightarrow> 'q runner_world \<Rightarrow> 'q runner_world" where
  "run_fetch_job R now (RunStartLogin i e n) w = run_start_login R now i e n w"
| "run_fetch_job R now (RunSubmitOtp i otp n) w = run_submit_otp R now i otp n w"
| "run_fetch_job R now (RunCancel i) w = run_cancel i w"

end
