(* ===== verification/InboundMessage.thy ===== *)
theory InboundMessage
  imports InboundProps OtpCode FetchRunner InboundTurn Sanitize
begin

text \<open>
  The handler of an inbound WhatsApp message (\<open>webhook/onInboundWhatsApp.ts\<close>) with the agent's
  own hook behind it (\<open>onInboundMessage\<close> in \<open>declarationOfCapital/index.ts\<close>,
  \<open>taxFetch/inboundOtp.ts\<close>, \<open>screenInbound.ts\<close>): routing, storing once per provider
  message id, the opt-out, cancelling the outdated draft, taking in the media, and then one of
  three ends, a code for the fetch, a decline or a request for one planner run. The verdict
  of the injection screen, the lookups by phone number and the parsing of addresses are
  arguments; the tripwire log lines are left out.
\<close>

section \<open>State and surroundings\<close>

record inbound_params =
  ip_sid :: string
  ip_from :: utext
  ip_to :: utext
  ip_body :: "utext option"
  ip_num_media :: nat
  ip_media :: "nat \<Rightarrow> utext option \<times> utext option"
  ip_button :: "utext option"

text \<open>\<open>bw_message_ids\<close> is the unique key of client and provider message id; \<open>bw_turn\<close> the replan queue and the turn store.\<close>

record ('q, 'p, 'r) inbound_world =
  bw_run :: "'q runner_world"
  bw_message_ids :: "((id \<times> string) \<times> id) list"
  bw_blocked :: "id set"
  bw_lost :: "lost_step list"
  bw_requests :: "utext list"
  bw_declined :: "id set"
  bw_decline_mails :: "(id \<times> utext list) list"
  bw_turn :: "'p \<times> 'r"

record ('q, 'p, 'r) inbound_env =
  be_runner :: "'q runner_env"
  be_redis :: "'r turn_redis"
  be_replans :: "'p replan_queue"
  be_quiet :: int
  be_ttl :: int
  be_sender :: "utext \<Rightarrow> id option"
  be_client :: "id \<Rightarrow> utext \<Rightarrow> id option"
  be_media :: media_env
  be_blocks :: "utext \<Rightarrow> bool"
  be_decline :: "'q world \<Rightarrow> decline_input"

abbreviation in_send :: "('q, 'p, 'r) inbound_world \<Rightarrow> 'q world" where
  "in_send w \<equiv> rw_send (bw_run w)"

definition on_run :: "('q runner_world \<Rightarrow> 'q runner_world) \<Rightarrow> ('q, 'p, 'r) inbound_world \<Rightarrow> ('q, 'p, 'r) inbound_world" where
  "on_run f w = w\<lparr>bw_run := f (bw_run w)\<rparr>"

text \<open>What the agent's hook is told of the message.\<close>

record inbound_event =
  ev_row :: "id option"
  ev_new :: bool
  ev_files :: nat
  ev_button :: "utext option"

section \<open>Opting out\<close>

definition OPT_OUT_KEYWORDS :: "utext list" where
  "OPT_OUT_KEYWORDS = [jstr ''stop'', jstr ''unsubscribe'', [1492, 1505, 1512],
     [1492, 1505, 1497, 1512, 1493, 32, 1488, 1493, 1514, 1497], [1514, 1508, 1505, 1497, 1511, 1493],
     [1514, 1508, 1505, 1497, 1511, 1493, 32, 1500, 1513, 1500, 1493, 1495], [1500, 1488, 32, 1502, 1506, 1493, 1504, 1497, 1497, 1503],
     [1500, 1488, 32, 1502, 1506, 1493, 1504, 1497, 1497, 1504, 1514], [1500, 1492, 1505, 1512, 1492]]"

definition is_opt_out :: "(utext \<Rightarrow> utext) \<Rightarrow> utext \<Rightarrow> bool" where
  "is_opt_out lower body = (rev (dropWhile (\<lambda>c. c = 46 \<or> c = 33) (rev (lower (js_trim body)))) \<in> set OPT_OUT_KEYWORDS)"

definition strip_whatsapp_prefix :: "utext \<Rightarrow> utext" where
  "strip_whatsapp_prefix s =
     (if map (\<lambda>c. if 65 \<le> c \<and> c \<le> 90 then c + 32 else c) (take 9 s) = jstr ''whatsapp:'' then drop 9 s else s)"

definition disable_whatsapp :: "id \<Rightarrow> 'q world \<Rightarrow> 'q world" where
  "disable_whatsapp c = update_client c (\<lambda>cl. cl\<lparr>cl_wa_enabled := False\<rparr>)"

section \<open>The steps of the handler\<close>

definition store_inbound_message ::
  "('q, 'p, 'r) inbound_env \<Rightarrow> ms \<Rightarrow> id \<Rightarrow> inbound_params \<Rightarrow> utext \<Rightarrow> ('q, 'p, 'r) inbound_world \<Rightarrow> (bool \<times> id) \<times> ('q, 'p, 'r) inbound_world"
where
  "store_inbound_message B now c p body w =
     (case map_of (bw_message_ids w) (c, ip_sid p) of
        Some e \<Rightarrow> ((False, e), w)
      | None \<Rightarrow> (let e = se_fresh (ru_send (be_runner B)) (in_send w) in
          ((True, e), (on_run (on_send (insert_inbound_if_new e c body now False)) w)\<lparr>bw_message_ids := bw_message_ids w @ [((c, ip_sid p), e)]\<rparr>)))"

definition cancel_pending_send_and_show_drafting :: "'q send_env \<Rightarrow> ms \<Rightarrow> id \<Rightarrow> client_row \<Rightarrow> 'q world \<Rightarrow> 'q world" where
  "cancel_pending_send_and_show_drafting E now c cl w =
     (let w1 = remove_future_email E c w in if \<not> cl_paused cl \<and> cl_goal cl = GPending then mark_drafting_started c now w1 else w1)"

definition media_of_params :: "inbound_params \<Rightarrow> wa_media list" where
  "media_of_params p = List.map_filter (\<lambda>i. case ip_media p i of (url, t) \<Rightarrow>
     (case url of None \<Rightarrow> None | Some u \<Rightarrow> if u = [] then None else Some \<lparr>wm_url = u, wm_type = (case t of None \<Rightarrow> [] | Some t \<Rightarrow> t)\<rparr>)) [0..<ip_num_media p]"

text \<open>The part of the state the intake of files works on, and its way back; a new drafting stamp clears the failure stamp.\<close>

definition ingest_view :: "id \<Rightarrow> ('q, 'p, 'r) inbound_world \<Rightarrow> ingest_world" where
  "ingest_view c w = \<lparr>ig_intake = \<lparr>iw_files = rw_files (bw_run w), iw_drafting = Option.bind (w_clients (in_send w) c) cl_drafting_since\<rparr>,
     ig_lost = bw_lost w, ig_requests = bw_requests w\<rparr>"

definition keep_since :: "ms option \<Rightarrow> client_row \<Rightarrow> client_row" where
  "keep_since d cl = (if d = cl_drafting_since cl then cl else cl\<lparr>cl_drafting_since := d, cl_draft_failed_at := None\<rparr>)"

definition ingested :: "id \<Rightarrow> ingest_world \<Rightarrow> ('q, 'p, 'r) inbound_world \<Rightarrow> ('q, 'p, 'r) inbound_world" where
  "ingested c g w = (on_run (\<lambda>r. on_send (update_client c (keep_since (iw_drafting (ig_intake g)))) (r\<lparr>rw_files := iw_files (ig_intake g)\<rparr>)) w)
     \<lparr>bw_lost := ig_lost g, bw_requests := ig_requests g\<rparr>"

definition ingest_message_media ::
  "('q, 'p, 'r) inbound_env \<Rightarrow> id \<Rightarrow> inbound_params \<Rightarrow> utext \<Rightarrow> id \<Rightarrow> ('q, 'p, 'r) inbound_world \<Rightarrow> nat \<times> ('q, 'p, 'r) inbound_world"
where
  "ingest_message_media B c p body e w =
     (let media = media_of_params p in
      if media = [] then (0, w)
      else (let (n, g) = ingest_wa_media (be_media B) \<lparr>io_client = c, io_email = Some e\<rparr> (ip_sid p) media body (ingest_view c w)
            in (n, ingested c g w)))"

section \<open>The agent's hook\<close>

definition overwrite_body :: "id \<Rightarrow> utext \<Rightarrow> 'q world \<Rightarrow> 'q world" where
  "overwrite_body e body = update_emails (\<lambda>m. em_id m = e) (\<lambda>m. m\<lparr>em_body := body\<rparr>)"

text \<open>Whether the message was consumed as a one-time code.\<close>

definition maybe_handle_otp_inbound :: "id \<Rightarrow> inbound_event \<Rightarrow> 'q runner_world \<Rightarrow> bool \<times> 'q runner_world" where
  "maybe_handle_otp_inbound c ev w =
     (if \<not> ev_new ev then (False, w)
      else (case ev_row ev of None \<Rightarrow> (False, w)
        | Some e \<Rightarrow> (case awaiting_otp_session c (rw_sessions w) of None \<Rightarrow> (False, w)
            | Some s \<Rightarrow> (case email_by_id e (rw_send w) of None \<Rightarrow> (False, w)
                | Some m \<Rightarrow> (case extract_otp (em_body m) of None \<Rightarrow> (False, w)
                    | Some otp \<Rightarrow> (True, on_send (overwrite_body (em_id m) (redacted (em_body m))) (enqueue_run (RunSubmitOtp (ts_id s) otp 0) 0 w)))))))"

definition BLOCKED_REPLY_HE :: utext where
  "BLOCKED_REPLY_HE = [1511, 1497, 1489, 1500, 1504, 1493, 32, 1488, 1514, 32, 1492, 1493, 1491, 1506, 1514, 1498, 44, 32, 1488, 1498, 32, 1492, 1497, 1488, 32, 1502, 1499, 1497, 1500, 1492, 32, 1514, 1493, 1499, 1503, 32, 1513, 1492, 1502, 1506, 1512, 1499, 1514, 32, 1488, 1497, 1504, 1492, 32, 1497, 1499, 1493, 1500, 1492, 32, 1500, 1506, 1489, 1491, 46, 32, 1504, 1513, 1502, 1495, 32, 1488, 1501, 32, 1514, 1513, 1500, 1495, 47, 1497, 32, 1513, 1493, 1489, 32, 1488, 1514, 32, 1492, 1502, 1497, 1491, 1506, 32, 1488, 1493, 32, 1492, 1502, 1505, 1502, 1499, 1497, 1501, 32, 1489, 1504, 1493, 1505, 1495, 32, 1508, 1513, 1493, 1496, 44, 32, 1493, 1504, 1502, 1513, 1497, 1498, 32, 1502, 1513, 1501, 46]"

definition inbound_message_to_screen :: "inbound_event \<Rightarrow> ('q, 'p, 'r) inbound_world \<Rightarrow> (email_row \<times> utext) option" where
  "inbound_message_to_screen ev w =
     (if \<not> ev_new ev then None
      else (case ev_row ev of None \<Rightarrow> None
        | Some e \<Rightarrow> (case email_by_id e (in_send w) of None \<Rightarrow> None
            | Some m \<Rightarrow> if em_dir m \<noteq> Inbound \<or> em_id m \<in> bw_blocked w then None
                else (let text = js_trim (sanitize_untrusted 10000 (em_body m)) in if text = [] then None else Some (m, text)))))"

definition withhold_message :: "email_row \<Rightarrow> ('q, 'p, 'r) inbound_world \<Rightarrow> ('q, 'p, 'r) inbound_world" where
  "withhold_message m w = on_run (on_send (record_audit ''injection.cycle_suppressed'' (em_id m))) (w\<lparr>bw_blocked := insert (em_id m) (bw_blocked w)\<rparr>)"

definition screen_inbound_message ::
  "('q, 'p, 'r) inbound_env \<Rightarrow> ms \<Rightarrow> id \<Rightarrow> client_row \<Rightarrow> inbound_event \<Rightarrow> ('q, 'p, 'r) inbound_world \<Rightarrow> bool \<times> ('q, 'p, 'r) inbound_world"
where
  "screen_inbound_message B now c cl ev w =
     (case inbound_message_to_screen ev w of None \<Rightarrow> (False, w)
      | Some (m, text) \<Rightarrow> if \<not> be_blocks B text then (False, w)
          else (True, on_run (send_canned (be_runner B) now c cl BLOCKED_REPLY_HE) (withhold_message m w)))"

definition inbound_message_body :: "inbound_event \<Rightarrow> 'q world \<Rightarrow> utext option" where
  "inbound_message_body ev w = (case ev_row ev of None \<Rightarrow> None | Some e \<Rightarrow> map_option em_body (email_by_id e w))"

definition decline_by_button :: "('q, 'p, 'r) inbound_env \<Rightarrow> ms \<Rightarrow> id \<Rightarrow> ('q, 'p, 'r) inbound_world \<Rightarrow> ('q, 'p, 'r) inbound_world" where
  "decline_by_button B now c w =
     (let s = snd (handle_client_decline (ru_send (be_runner B)) (be_decline B (in_send w)) c now
                \<lparr>dw_world = in_send w, dw_declined = bw_declined w, dw_emails = bw_decline_mails w\<rparr>)
      in (on_run (\<lambda>r. r\<lparr>rw_send := dw_world s\<rparr>) w)\<lparr>bw_declined := dw_declined s, bw_decline_mails := dw_emails s\<rparr>)"

datatype inbound_end = CodeTaken | DeclineTaken | ReplanRequested

definition on_inbound_message ::
  "('q, 'p, 'r) inbound_env \<Rightarrow> ms \<Rightarrow> id \<Rightarrow> client_row \<Rightarrow> inbound_event \<Rightarrow> ('q, 'p, 'r) inbound_world \<Rightarrow> inbound_end \<times> ('q, 'p, 'r) inbound_world"
where
  "on_inbound_message B now c cl ev w =
     (let (taken, r) = maybe_handle_otp_inbound c ev (bw_run w) in
      if taken then (CodeTaken, w\<lparr>bw_run := r\<rparr>)
      else (let (_, w1) = screen_inbound_message B now c cl ev w in
        if is_decline_button ChWhatsapp (ev_new ev) (ev_button ev) (inbound_message_body ev (in_send w1))
        then (DeclineTaken, decline_by_button B now c w1)
        else (ReplanRequested, w1\<lparr>bw_turn := request_replan (be_replans B) (be_redis B) (be_quiet B) (be_ttl B) c now (bw_turn w1)\<rparr>)))"

section \<open>The handler\<close>

definition trimmed_button :: "utext option \<Rightarrow> utext option" where
  "trimmed_button b = (case b of None \<Rightarrow> None | Some t \<Rightarrow> if js_trim t = [] then None else Some (js_trim t))"

text \<open>The answer is how the message ended, or nothing for a redelivery that brought no new file; an unknown agent type is a throw.\<close>

definition handle_client_message ::
  "('q, 'p, 'r) inbound_env \<Rightarrow> ms \<Rightarrow> id \<Rightarrow> client_row \<Rightarrow> instance_row \<Rightarrow> inbound_params \<Rightarrow> ('q, 'p, 'r) inbound_world
   \<Rightarrow> (string, inbound_end option) result \<times> ('q, 'p, 'r) inbound_world"
where
  "handle_client_message B now c cl inst p w0 =
     (let body = (case ip_body p of None \<Rightarrow> [] | Some t \<Rightarrow> t);
          ((new, e), w1) = store_inbound_message B now c p body w0;
          w2 = (if new \<and> is_opt_out (me_lower (be_media B)) body then on_run (on_send (disable_whatsapp c)) w1 else w1)
      in if \<not> agent_type_known (in_agent_type inst) then (Inl ''unknown agent type'', w2)
         else (let w3 = (if new then on_run (on_send (cancel_pending_send_and_show_drafting (ru_send (be_runner B)) now c cl)) w2 else w2);
                   (files, w4) = ingest_message_media B c p body e w3
               in if new \<or> 0 < files
                  then (let (how, w5) = on_inbound_message B now c cl
                          \<lparr>ev_row = Some e, ev_new = new, ev_files = files, ev_button = trimmed_button (ip_button p)\<rparr> w4
                        in (Inr (Some how), w5))
                  else (Inr None, w4)))"

text \<open>Who the message is for: the instance of the number it was sent to, enabled, and its client of the number it came from.\<close>

definition route_inbound ::
  "('q, 'p, 'r) inbound_env \<Rightarrow> inbound_params \<Rightarrow> 'q world \<Rightarrow> (id \<times> client_row \<times> instance_row) option"
where
  "route_inbound B p w =
     (if w_kill_switch w then None
      else (case be_sender B (strip_whatsapp_prefix (ip_to p)) of None \<Rightarrow> None
        | Some i \<Rightarrow> (case w_instances w i of None \<Rightarrow> None
            | Some inst \<Rightarrow> if \<not> in_enabled inst then None
                else (case be_client B i (strip_whatsapp_prefix (ip_from p)) of None \<Rightarrow> None
                  | Some c \<Rightarrow> (case client_by_id c w of None \<Rightarrow> None
                      | Some cl \<Rightarrow> if cl_instance cl = Some i then Some (c, cl, inst) else None)))))"

text \<open>The handler runs between the marks of the turn store, the second one also after a throw.\<close>

definition on_inbound_whatsapp ::
  "('q, 'p, 'r) inbound_env \<Rightarrow> ms \<Rightarrow> ms \<Rightarrow> inbound_params \<Rightarrow> ('q, 'p, 'r) inbound_world
   \<Rightarrow> (string, inbound_end option) result \<times> ('q, 'p, 'r) inbound_world"
where
  "on_inbound_whatsapp B now later p w =
     (case route_inbound B p (in_send w) of None \<Rightarrow> (Inr None, w)
      | Some (c, cl, inst) \<Rightarrow>
          (let w1 = w\<lparr>bw_turn := (fst (bw_turn w), mark_inbound_started (be_redis B) (be_ttl B) c now (snd (bw_turn w)))\<rparr>;
               (res, w2) = handle_client_message B now c cl inst p w1
           in (res, w2\<lparr>bw_turn := (fst (bw_turn w2), mark_inbound_finished (be_redis B) c later (snd (bw_turn w2)))\<rparr>)))"

end
