(* ===== verification/FetchProps.thy ===== *)
theory FetchProps
  imports FetchRunner
begin

text \<open>
  What the fetch worker may do to a client: the real login, which sends a code to the client,
  fires at most once per session and only behind its guards; at most three codes are submitted;
  a fetch that ends is followed by a plan. Two places where the code falls short are stated too.
\<close>

section \<open>What a step shows of a session\<close>

definition status_of :: "'q runner_world \<Rightarrow> id \<Rightarrow> session_status option" where
  "status_of w i = map_option ts_status (session_by_id i (rw_sessions w))"

text \<open>The logins the browser service did not refuse, and the codes submitted.\<close>

definition logins :: "'q runner_world \<Rightarrow> id \<Rightarrow> nat" where
  "logins w i = length (filter (\<lambda>c. c = CallLogin i False) (rw_browser w))"

definition submits :: "'q runner_world \<Rightarrow> id \<Rightarrow> nat" where
  "submits w i = length (filter (\<lambda>c. case c of CallSubmit j _ \<Rightarrow> j = i | _ \<Rightarrow> False) (rw_browser w))"

definition tracked :: "'q runner_world \<Rightarrow> id \<Rightarrow> bool" where
  "tracked w i = (i \<in> fst ` set (rw_tracked w))"

lemmas view_defs = status_of_def logins_def submits_def tracked_def

lemma on_send_view [simp]:
  "status_of (on_send f w) = status_of w" "logins (on_send f w) = logins w" "submits (on_send f w) = submits w"
  "tracked (on_send f w) = tracked w" "rw_attempts (on_send f w) = rw_attempts w" "rw_browser (on_send f w) = rw_browser w"
  "rw_sessions (on_send f w) = rw_sessions w" "rw_tracked (on_send f w) = rw_tracked w"
  by (simp_all add: on_send_def view_defs fun_eq_iff)

lemma enqueue_run_view [simp]:
  "status_of (enqueue_run j d w) = status_of w" "logins (enqueue_run j d w) = logins w" "submits (enqueue_run j d w) = submits w"
  "tracked (enqueue_run j d w) = tracked w" "rw_attempts (enqueue_run j d w) = rw_attempts w" "rw_browser (enqueue_run j d w) = rw_browser w"
  "rw_sessions (enqueue_run j d w) = rw_sessions w"
  by (simp_all add: enqueue_run_def view_defs fun_eq_iff)

lemma send_canned_view [simp]:
  "status_of (send_canned R now c cl b w) = status_of w" "logins (send_canned R now c cl b w) = logins w"
  "submits (send_canned R now c cl b w) = submits w" "tracked (send_canned R now c cl b w) = tracked w"
  "rw_attempts (send_canned R now c cl b w) = rw_attempts w" "rw_browser (send_canned R now c cl b w) = rw_browser w"
  "rw_sessions (send_canned R now c cl b w) = rw_sessions w"
  by (simp_all add: send_canned_def)

lemma replan_view [simp]:
  "status_of (replan_after_fetch_end R now c w) = status_of w" "logins (replan_after_fetch_end R now c w) = logins w"
  "submits (replan_after_fetch_end R now c w) = submits w" "tracked (replan_after_fetch_end R now c w) = tracked w"
  "rw_attempts (replan_after_fetch_end R now c w) = rw_attempts w" "rw_browser (replan_after_fetch_end R now c w) = rw_browser w"
  "rw_sessions (replan_after_fetch_end R now c w) = rw_sessions w"
  by (simp_all add: replan_after_fetch_end_def)

lemma browser_view [simp]:
  "status_of (browser call w) = status_of w" "tracked (browser call w) = tracked w" "rw_attempts (browser call w) = rw_attempts w"
  "logins (browser call w) i = logins w i + (if call = CallLogin i False then 1 else 0)"
  "submits (browser call w) i = submits w i + (case call of CallSubmit j _ \<Rightarrow> if j = i then 1 else 0 | _ \<Rightarrow> 0)"
  "rw_browser (browser call w) = rw_browser w @ [call]" "rw_sessions (browser call w) = rw_sessions w" "rw_send (browser call w) = rw_send w"
  "rw_tracked (browser call w) = rw_tracked w"
  by (simp_all add: browser_def view_defs fun_eq_iff split: browser_call.split)

lemma update_status_view [simp]:
  "status_of (update_status i st e w) j = (if j = i then map_option (\<lambda>_. st) (status_of w i) else status_of w j)"
  "tracked (update_status i st e w) = tracked w" "rw_attempts (update_status i st e w) = rw_attempts w"
  "logins (update_status i st e w) = logins w" "submits (update_status i st e w) = submits w"
  "rw_browser (update_status i st e w) = rw_browser w" "rw_send (update_status i st e w) = rw_send w"
  "rw_tracked (update_status i st e w) = rw_tracked w"
proof -
  have "session_by_id j (rw_sessions (update_status i st e w)) = map_option
      (\<lambda>s. if ts_id s = i then s\<lparr>ts_status := st, ts_error := (case e of None \<Rightarrow> ts_error s | Some e \<Rightarrow> Some e)\<rparr> else s) (session_by_id j (rw_sessions w))"
    unfolding session_by_id_def update_status_def by (simp add: find_update_where)
  moreover have "session_by_id j (rw_sessions w) = Some s \<Longrightarrow> ts_id s = j" for s
    using find_Some_mem [of "\<lambda>s. ts_id s = j" "rw_sessions w" s] by (simp add: session_by_id_def)
  ultimately show "status_of (update_status i st e w) j = (if j = i then map_option (\<lambda>_. st) (status_of w i) else status_of w j)"
    by (cases "session_by_id j (rw_sessions w)") (auto simp: status_of_def)
qed (simp_all add: update_status_def view_defs fun_eq_iff)

lemma tracker_view [simp]:
  "status_of (tracker_discard i w) = status_of w" "tracked (tracker_discard i w) j = (j \<noteq> i \<and> tracked w j)"
  "rw_attempts (tracker_discard i w) = rw_attempts w" "logins (tracker_discard i w) = logins w" "submits (tracker_discard i w) = submits w"
  "rw_browser (tracker_discard i w) = rw_browser w" "rw_sessions (tracker_discard i w) = rw_sessions w" "rw_send (tracker_discard i w) = rw_send w"
  "status_of (tracker_put i c p w) = status_of w" "tracked (tracker_put i c p w) j = (j = i \<or> tracked w j)"
  "rw_attempts (tracker_put i c p w) = rw_attempts w" "logins (tracker_put i c p w) = logins w" "submits (tracker_put i c p w) = submits w"
  "rw_browser (tracker_put i c p w) = rw_browser w" "rw_sessions (tracker_put i c p w) = rw_sessions w" "rw_send (tracker_put i c p w) = rw_send w"
  by (auto simp: tracker_discard_def tracker_put_def view_defs fun_eq_iff image_iff Let_def) force+

lemma take_tracked: "fst (tracker_take i w) = None \<longleftrightarrow> \<not> tracked w i" "snd (tracker_take i w) = tracker_discard i w"
  by (auto simp: tracker_take_def tracked_def map_of_eq_None_iff)

lemma session_status: "session_by_id i (rw_sessions w) = Some s \<Longrightarrow> status_of w i = Some (ts_status s) \<and> ts_id s = i"
  using find_Some_mem [of "\<lambda>s. ts_id s = i" "rw_sessions w" s] by (simp add: status_of_def session_by_id_def)

lemma session_none: "session_by_id i (rw_sessions w) = None \<longleftrightarrow> status_of w i = None"
  by (simp add: status_of_def)

section \<open>Delivery keeps out of the browser\<close>

lemma store_fetched_view:
  assumes "store_fetched R now p s rows m single ds pairs w = (r, w')"
  shows "rw_sessions w' = rw_sessions w \<and> rw_tracked w' = rw_tracked w \<and> rw_attempts w' = rw_attempts w \<and> rw_browser w' = rw_browser w"
  using assms
  by (induction R now p s rows m single ds pairs w rule: store_fetched.induct)
    (auto split: if_splits prod.splits option.splits)

lemma collect_fetched_view:
  "rw_sessions (collect_fetched c cl pairs w) = rw_sessions w" "rw_tracked (collect_fetched c cl pairs w) = rw_tracked w"
  "rw_attempts (collect_fetched c cl pairs w) = rw_attempts w" "rw_browser (collect_fetched c cl pairs w) = rw_browser w"
  by (simp_all add: collect_fetched_def Let_def)

definition same_but_status :: "id \<Rightarrow> 'q runner_world \<Rightarrow> 'q runner_world \<Rightarrow> bool" where
  "same_but_status i w w' = (logins w' = logins w \<and> submits w' = submits w \<and> tracked w' = tracked w \<and> rw_attempts w' = rw_attempts w
     \<and> rw_browser w' = rw_browser w \<and> map ts_id (rw_sessions w') = map ts_id (rw_sessions w)
     \<and> (\<forall>j. status_of w' j = status_of w j \<or> j = i \<and> status_of w' j = Some SDelivered))"

lemma same_viewI:
  assumes "rw_sessions w' = rw_sessions w" "rw_tracked w' = rw_tracked w" "rw_attempts w' = rw_attempts w" "rw_browser w' = rw_browser w"
  shows "same_but_status i w w'"
  using assms by (simp add: same_but_status_def view_defs fun_eq_iff)

lemma update_status_ids [simp]: "map ts_id (rw_sessions (update_status i st e w)) = map ts_id (rw_sessions w)"
  by (simp add: update_status_def map_update_where)

lemma conclude_view:
  assumes "status_of w (ts_id s) \<noteq> None"
  shows "same_but_status (ts_id s) w (snd (conclude_delivery R now s w))"
proof -
  have send: "status_of (v\<lparr>rw_send := x\<rparr>) = status_of v" "logins (v\<lparr>rw_send := x\<rparr>) = logins v" "submits (v\<lparr>rw_send := x\<rparr>) = submits v"
    "tracked (v\<lparr>rw_send := x\<rparr>) = tracked v" for v :: "'a runner_world" and x
    by (simp_all add: view_defs fun_eq_iff)
  show ?thesis using assms
    by (auto simp: conclude_delivery_def Let_def split_def same_but_status_def send)
qed

lemma same_but_status_trans:
  "\<lbrakk>same_but_status i w w1; same_but_status i w1 w2\<rbrakk> \<Longrightarrow> same_but_status i w w2"
  unfolding same_but_status_def by metis

lemma deliver_view:
  assumes "status_of w (ts_id s) \<noteq> None"
  shows "same_but_status (ts_id s) w (snd (deliver R now s cl p ds w))"
proof -
  define c where "c = ts_client s"
  define m where "m = se_fresh (ru_send R) (rw_send w)"
  define body where "body = rp_confirmation p ds (ru_can_email R c)"
  define sent where "sent = send_text_and_record m (ru_accepts R body) c body now (rw_send w)"
  define w1 where "w1 = w\<lparr>rw_send := snd sent\<rparr>"
  define out where "out = store_fetched R now p s (documents_of_client c (rw_docs w1)) m (length ds = 1) (enumerate 0 ds) [] w1"
  have one: "same_but_status (ts_id s) w w1" by (rule same_viewI) (simp_all add: w1_def)
  have two: "same_but_status (ts_id s) w1 (snd out)"
    using store_fetched_view [OF out_def [symmetric, THEN trans, OF surjective_pairing]] by (intro same_viewI) simp_all
  have three: "same_but_status (ts_id s) (snd out) (collect_fetched c cl pairs (snd out))" for pairs
    by (rule same_viewI) (simp_all add: collect_fetched_view)
  have alive: "status_of v (ts_id s) \<noteq> None" if "same_but_status (ts_id s) w v" for v
  proof -
    have "status_of v (ts_id s) = status_of w (ts_id s) \<or> status_of v (ts_id s) = Some SDelivered"
      using that unfolding same_but_status_def by blast
    then show ?thesis using assms by auto
  qed
  have self: "same_but_status (ts_id s) w w" by (rule same_viewI) simp_all
  have result: "snd (deliver R now s cl p ds w) = (if ds = [] \<or> wa_sender R cl = None \<or> \<not> truthy_text (cl_wa_phone cl) then w
      else if \<not> fst sent then w1
      else (case fst out of Inl e \<Rightarrow> snd out
        | Inr pairs \<Rightarrow> (let w3 = collect_fetched c cl pairs (snd out) in
            if ru_can_email R c \<and> \<not> ru_email_sent R then w3 else snd (conclude_delivery R now s w3))))"
    by (simp add: deliver_def Let_def split_def c_def m_def body_def sent_def w1_def out_def split: sum.split)
  note steps = same_but_status_trans [OF same_but_status_trans [OF one two] three]
  show ?thesis unfolding result
    using self one same_but_status_trans [OF one two] steps same_but_status_trans [OF steps conclude_view [OF alive [OF steps]]]
    by (simp add: Let_def split: sum.split)
qed

section \<open>The invariant of a session\<close>

definition login_inv :: "'q runner_world \<Rightarrow> id \<Rightarrow> bool" where
  "login_inv w i = (if logins w i = 0 then submits w i = 0 \<and> rw_attempts w i = 0 \<and> \<not> tracked w i
     else logins w i = 1 \<and> status_of w i \<noteq> None \<and> status_of w i \<notin> Some ` {SAgreed, SIntroSent}
       \<and> (if tracked w i then submits w i = rw_attempts w i \<and> rw_attempts w i < MAX_OTP_ATTEMPTS else submits w i \<le> MAX_OTP_ATTEMPTS))"

text \<open>Changes that leave calls, codes and tracking alone and may only settle a status.\<close>

lemma login_inv_settle:
  assumes "login_inv w i" "logins w' = logins w" "submits w' = submits w" "rw_attempts w' = rw_attempts w"
    "tracked w' i \<longrightarrow> tracked w i"
    "status_of w' i = status_of w i \<or> status_of w i \<noteq> None \<and> status_of w' i \<noteq> None \<and> status_of w' i \<notin> Some ` {SAgreed, SIntroSent}"
  shows "login_inv w' i"
  using assms by (auto simp: login_inv_def split: if_splits)

lemma login_inv_quiet [simp]:
  "login_inv (on_send f w) = login_inv w" "login_inv (send_canned R now c cl b w) = login_inv w"
  "login_inv (replan_after_fetch_end R now c w) = login_inv w" "login_inv (enqueue_run job d w) = login_inv w"
  by (simp_all add: login_inv_def fun_eq_iff)

lemma start_login_inv:
  assumes "login_inv w j"
  shows "login_inv (run_start_login R now i e n w) j"
proof (cases "session_by_id i (rw_sessions w)")
  case None
  then show ?thesis using assms by (simp add: run_start_login_def)
next
  case (Some s)
  note s = session_status [OF Some]
  have fresh: "logins w i = 0" if "ts_status s \<in> {SAgreed, SIntroSent}" "j = i"
    using assms s that by (auto simp: login_inv_def split: if_splits)
  have login: "login_inv (start_browser_login R now s cl p w) j" if "ts_status s \<in> {SAgreed, SIntroSent}" for cl p
    using assms s that fresh [OF that]
    by (auto simp: start_browser_login_def login_inv_def MAX_OTP_ATTEMPTS_def Let_def split: login_answer.splits if_splits)
  have failed: "login_inv (update_status i st err w) j" if "st \<notin> {SAgreed, SIntroSent}" for st err
    by (rule login_inv_settle [OF assms]) (use that s in auto)
  show ?thesis
    using assms login failed s
    by (auto simp: run_start_login_def Some split: option.split bool.split)
qed

lemma login_inv_close:
  assumes "login_inv w j"
  shows "login_inv (browser (CallClose i) w) j"
  by (rule login_inv_settle [OF assms]) (simp_all add: fun_eq_iff)

lemma login_inv_discard:
  assumes "login_inv w j"
  shows "login_inv (tracker_discard i w) j"
  by (rule login_inv_settle [OF assms]) simp_all

lemma login_inv_status:
  assumes "login_inv w j" "st \<notin> {SAgreed, SIntroSent}"
  shows "login_inv (update_status i st err w) j"
  by (rule login_inv_settle [OF assms(1)]) (use assms(2) in auto)

lemma login_inv_failed: "login_inv w j \<Longrightarrow> login_inv (fetch_failed R now i c cl err b w) j"
  by (simp add: fetch_failed_def login_inv_status)

lemma login_inv_download:
  assumes "login_inv w j"
  shows "login_inv (download_and_deliver R now i c cl p w) j"
proof (cases "session_by_id i (rw_sessions w)")
  case None
  then show ?thesis using assms by (simp add: download_and_deliver_def login_inv_close)
next
  case (Some s)
  note s = session_status [OF Some]
  let ?w1 = "browser (CallDownload i) (update_status i SDownloading None w)"
  have w1: "login_inv ?w1 j" by (rule login_inv_settle [OF assms]) (use s in \<open>auto simp: fun_eq_iff\<close>)
  have "status_of ?w1 (ts_id s) \<noteq> None" using s by simp
  then have same: "same_but_status (ts_id s) ?w1 (snd (deliver R now s cl p ds ?w1))" for ds by (rule deliver_view)
  have delivered: "login_inv (snd (deliver R now s cl p ds ?w1)) j" for ds
  proof (rule login_inv_settle [OF w1])
    have "status_of (snd (deliver R now s cl p ds ?w1)) j = status_of ?w1 j
        \<or> j = ts_id s \<and> status_of (snd (deliver R now s cl p ds ?w1)) j = Some SDelivered"
      using same [of ds] unfolding same_but_status_def by blast
    then show "status_of (snd (deliver R now s cl p ds ?w1)) j = status_of ?w1 j
        \<or> status_of ?w1 j \<noteq> None \<and> status_of (snd (deliver R now s cl p ds ?w1)) j \<noteq> None
          \<and> status_of (snd (deliver R now s cl p ds ?w1)) j \<notin> Some ` {SAgreed, SIntroSent}"
      using s by auto
  qed (use same [of ds] in \<open>simp_all add: same_but_status_def\<close>)
  have out: "login_inv (case deliver R now s cl p ds ?w1 of (Inl e, w2) \<Rightarrow> fetch_failed R now i c cl e b w2 | (Inr _, w2) \<Rightarrow> w2) j" for ds b
    using delivered [of ds] by (auto simp: login_inv_failed split: prod.split sum.split)
  show ?thesis
    unfolding download_and_deliver_def Some option.case Let_def
    by (rule login_inv_close) (use out w1 in \<open>auto simp: login_inv_failed split: download_answer.split\<close>)
qed

lemma increment_view [simp]:
  "fst (increment_otp_attempts i w) = rw_attempts w i + 1"
  "rw_attempts (snd (increment_otp_attempts i w)) = (rw_attempts w)(i := rw_attempts w i + 1)"
  "status_of (snd (increment_otp_attempts i w)) = status_of w" "logins (snd (increment_otp_attempts i w)) = logins w"
  "submits (snd (increment_otp_attempts i w)) = submits w" "tracked (snd (increment_otp_attempts i w)) = tracked w"
  "rw_browser (snd (increment_otp_attempts i w)) = rw_browser w" "rw_sessions (snd (increment_otp_attempts i w)) = rw_sessions w"
  "rw_send (snd (increment_otp_attempts i w)) = rw_send w"
  by (simp_all add: increment_otp_attempts_def view_defs fun_eq_iff Let_def)

lemma login_inv_submit:
  fixes otp :: utext
  assumes "login_inv w j" "tracked w i"
  defines "w2 \<equiv> browser (CallSubmit i otp) (update_status i SVerifying None (tracker_discard i w))"
  shows "login_inv w2 j" "login_inv (snd (increment_otp_attempts i w2)) j"
    "rw_attempts w i + 1 < MAX_OTP_ATTEMPTS \<Longrightarrow>
      login_inv (update_status i SAwaitingOtp None (tracker_put i c pid (snd (increment_otp_attempts i w2)))) j"
  using assms(1,2) unfolding w2_def by (cases "j = i"; auto simp: login_inv_def split: if_splits)+

lemma login_inv_submit_code:
  assumes "login_inv w j" "tracked w i"
  shows "login_inv (submit_code R now i c pid cl p otp (tracker_discard i w)) j"
proof -
  note submitted = login_inv_submit [OF assms]
  show ?thesis
  proof (cases "ru_submit R")
    case CodeAccepted
    then show ?thesis by (simp add: submit_code_def Let_def login_inv_download submitted)
  next
    case CodeRejected
    then show ?thesis using submitted
      by (auto simp: submit_code_def Let_def split_def login_inv_failed login_inv_close)
  next
    case BrowserGone
    then show ?thesis by (simp add: submit_code_def Let_def login_inv_status submitted)
  next
    case (SubmitFailed e)
    then show ?thesis by (simp add: submit_code_def Let_def login_inv_failed login_inv_close submitted)
  qed
qed

lemma login_inv_lost:
  assumes "login_inv w j"
  shows "login_inv (code_for_lost_session R now i w) j"
  using assms by (auto simp: code_for_lost_session_def Let_def login_inv_close login_inv_status split: option.split)

lemma submit_otp_inv:
  assumes "login_inv w j"
  shows "login_inv (run_submit_otp R now i otp n w) j"
proof (cases "map_of (rw_tracked w) i")
  case None
  then show ?thesis using assms
    by (auto simp: run_submit_otp_def tracker_take_def login_inv_discard login_inv_lost split: option.split)
next
  case (Some x)
  then have live: "tracked w i" using map_of_SomeD [of "rw_tracked w" i x] by (force simp: tracked_def)
  show ?thesis using Some assms live
    by (cases x) (auto simp: run_submit_otp_def tracker_take_def login_inv_discard login_inv_close login_inv_status login_inv_submit_code
      split: option.split)
qed

lemma cancel_inv:
  assumes "login_inv w j"
  shows "login_inv (run_cancel i w) j"
  using assms by (auto simp: run_cancel_def Let_def login_inv_close login_inv_discard login_inv_status split: option.split)

lemma expiry_inv:
  assumes "login_inv w j"
  shows "login_inv (on_session_expiry R now i w) j"
  using assms
  by (auto simp: on_session_expiry_def tracker_take_def Let_def login_inv_close login_inv_discard login_inv_status split: option.split)

lemma fold_keeps:
  assumes "P w" "\<And>s w. P w \<Longrightarrow> P (f s w)"
  shows "P (fold f xs w)"
  using assms(1) by (induction xs arbitrary: w) (simp_all add: assms(2))

lemma boot_inv:
  assumes "login_inv w j"
  shows "login_inv (expire_orphaned_sessions w) j"
  unfolding expire_orphaned_sessions_def
  by (rule fold_keeps [of "\<lambda>w. login_inv w j"]) (simp_all add: assms login_inv_close login_inv_status)

lemma job_inv: "login_inv w j \<Longrightarrow> login_inv (run_fetch_job R now job w) j"
  by (cases job) (simp_all add: start_login_inv submit_otp_inv cancel_inv)

section \<open>Runs of the worker, the planner and the rest\<close>

fun run_job_of :: "fetch_job \<Rightarrow> runner_job" where
  "run_job_of (JobStartLogin i e) = RunStartLogin i e 0"
| "run_job_of (JobCancel i) = RunCancel i"

text \<open>
  One event: any job of the queue, redelivered or not; a wait for a code that runs out; a
  restart, which loses the tracking; the planner's fetch action on the sessions as they are;
  and whatever else happens to clients, messages, checklists, files and the queue.
\<close>

inductive runner_step :: "'q runner_world \<Rightarrow> 'q runner_world \<Rightarrow> bool" where
  StepJob: "runner_step w (run_fetch_job R now job w)"
| StepExpiry: "runner_step w (on_session_expiry R now i w)"
| StepRestart: "runner_step w (expire_orphaned_sessions (w\<lparr>rw_tracked := []\<rparr>))"
| StepPlanner: "\<lbrakk>load_context_for_provider pv c ds wa on (rw_sessions w) = Some ctx; new_id \<notin> ts_id ` set (rw_sessions w);
    apply_tax_fetch_action new_id c (Some (action, ctx)) agreed year message \<lparr>fw_sessions = rw_sessions w, fw_jobs = []\<rparr> = Inr fw\<rbrakk>
    \<Longrightarrow> runner_step w (w\<lparr>rw_sessions := fw_sessions fw, rw_jobs := rw_jobs w @ map (map_prod run_job_of id) (fw_jobs fw)\<rparr>)"
| StepElsewhere: "runner_step w (w\<lparr>rw_send := x, rw_docs := ds, rw_files := fs, rw_jobs := js, rw_verify := vs\<rparr>)"

inductive_cases runner_stepE: "runner_step w w'"

definition fresh_runner :: "'q runner_world \<Rightarrow> bool" where
  "fresh_runner w = (distinct (map ts_id (rw_sessions w)) \<and> rw_browser w = [] \<and> rw_tracked w = [] \<and> rw_attempts w = (\<lambda>_. 0))"

definition runner_inv :: "'q runner_world \<Rightarrow> bool" where
  "runner_inv w = (distinct (map ts_id (rw_sessions w)) \<and> (\<forall>i. login_inv w i))"

subsection \<open>The rows of the sessions table keep their ids\<close>

abbreviation ids_of :: "'q runner_world \<Rightarrow> id list" where
  "ids_of w \<equiv> map ts_id (rw_sessions w)"

lemma failed_ids [simp]: "ids_of (fetch_failed R now i c cl err b w) = ids_of w" "logins (fetch_failed R now i c cl err b w) j = logins w j"
  by (simp_all add: fetch_failed_def)

lemma start_login_ids: "ids_of (run_start_login R now i e n w) = ids_of w"
  by (auto simp: run_start_login_def start_browser_login_def Let_def split: option.split bool.split login_answer.split)

lemma download_ids: "ids_of (download_and_deliver R now i c cl p w) = ids_of w" "logins (download_and_deliver R now i c cl p w) j = logins w j"
proof -
  let ?w1 = "browser (CallDownload i) (update_status i SDownloading None w)"
  have delivered: "ids_of (snd (deliver R now s cl p ds ?w1)) = ids_of w \<and> logins (snd (deliver R now s cl p ds ?w1)) j = logins w j"
    if "session_by_id i (rw_sessions w) = Some s" for s ds
  proof -
    have "status_of ?w1 (ts_id s) \<noteq> None" using session_status [OF that] by simp
    then show ?thesis using deliver_view [of ?w1 s R now cl p ds] by (simp add: same_but_status_def)
  qed
  let ?out = "\<lambda>s ds b. case deliver R now s cl p ds ?w1 of (Inl e, w2) \<Rightarrow> fetch_failed R now i c cl e b w2 | (Inr _, w2) \<Rightarrow> w2"
  have out: "ids_of (?out s ds b) = ids_of w \<and> logins (?out s ds b) j = logins w j"
    if "session_by_id i (rw_sessions w) = Some s" for s ds b
    using delivered [OF that, of ds] by (auto split: prod.split sum.split)
  show "ids_of (download_and_deliver R now i c cl p w) = ids_of w" "logins (download_and_deliver R now i c cl p w) j = logins w j"
    unfolding download_and_deliver_def using out by (auto simp: Let_def split: option.split download_answer.split)
qed

lemma submit_code_ids: "ids_of (submit_code R now i c pid cl p otp w) = ids_of w" "logins (submit_code R now i c pid cl p otp w) j = logins w j"
  by (cases "ru_submit R"; simp add: submit_code_def Let_def split_def download_ids)+

lemma lost_ids: "ids_of (code_for_lost_session R now i w) = ids_of w" "logins (code_for_lost_session R now i w) j = logins w j"
  by (auto simp: code_for_lost_session_def Let_def split: option.split)

lemma submit_otp_ids: "ids_of (run_submit_otp R now i otp n w) = ids_of w" "logins (run_submit_otp R now i otp n w) j = logins w j"
  by (auto simp: run_submit_otp_def tracker_take_def submit_code_ids lost_ids split: option.split)

lemma cancel_ids: "ids_of (run_cancel i w) = ids_of w" "logins (run_cancel i w) j = logins w j"
  by (auto simp: run_cancel_def Let_def split: option.split)

lemma expiry_ids: "ids_of (on_session_expiry R now i w) = ids_of w"
  by (auto simp: on_session_expiry_def tracker_take_def Let_def split: option.split)

lemma boot_ids: "ids_of (expire_orphaned_sessions w) = ids_of w"
  unfolding expire_orphaned_sessions_def by (rule fold_keeps [of "\<lambda>v. ids_of v = ids_of w"]) simp_all

lemma job_ids: "ids_of (run_fetch_job R now job w) = ids_of w"
  by (cases job) (simp_all add: start_login_ids submit_otp_ids cancel_ids)

subsection \<open>The planner's step\<close>

definition status_in :: "fetch_session list \<Rightarrow> id \<Rightarrow> session_status option" where
  "status_in t i = map_option ts_status (session_by_id i t)"

lemma status_in_rewrite:
  assumes "\<And>s. ts_id (f s) = ts_id s"
  shows "map_option g (session_by_id j (update_where (\<lambda>s. ts_id s = i) f t))
    = map_option (\<lambda>s. g (if j = i then f s else s)) (session_by_id j t)"
  by (induction t) (auto simp: session_by_id_def update_where_def assms)

lemma status_in_keys [simp]: "status_in (set_document_keys i ks t) j = status_in t j"
  unfolding status_in_def set_document_keys_def by (subst status_in_rewrite, simp) (cases "session_by_id j t", simp_all)

lemma status_in_update: "status_in (update_session_status i st t) j = (if j = i then map_option (\<lambda>_. st) (status_in t j) else status_in t j)"
  unfolding status_in_def update_session_status_def by (subst status_in_rewrite) (auto simp: option.map_comp comp_def)

lemma status_in_fresh: "status_in (t @ [s]) j = (if status_in t j = None then (if ts_id s = j then Some (ts_status s) else None) else status_in t j)"
  by (auto simp: status_in_def session_by_id_def find_append split: option.split)

lemma rewrite_ids [simp]:
  "map ts_id (set_document_keys i ks t) = map ts_id t" "map ts_id (update_session_status i st t) = map ts_id t"
  by (simp_all add: set_document_keys_def update_session_status_def map_update_where)

lemma find_unique: "distinct (map ts_id t) \<Longrightarrow> s \<in> set t \<Longrightarrow> session_by_id (ts_id s) t = Some s"
  by (induction t) (auto simp: session_by_id_def image_iff)

text \<open>The planner opens a row under a new id or moves a session the client agreed to; it never takes a started one back.\<close>

lemma planner_status:
  assumes "load_context_for_provider pv c ds wa on t = Some ctx" and "distinct (map ts_id t)" and "new_id \<notin> ts_id ` set t"
    and "apply_tax_fetch_action new_id c (Some (action, ctx)) agreed year message \<lparr>fw_sessions = t, fw_jobs = js\<rparr> = Inr fw"
  shows "distinct (map ts_id (fw_sessions fw))"
    and "status_in (fw_sessions fw) i = status_in t i \<or> status_in t i = None \<or> status_in t i = Some SAgreed"
proof -
  have agreed: "status_in t (ts_id s) = Some SAgreed" if "in_flight ctx = Some s" "ts_status s = SAgreed" for s
  proof -
    have "s \<in> set t" using that(1) load_context_session(2) [OF assms(1)] active_session_Some by metis
    then show ?thesis using find_unique [OF assms(2)] that(2) by (simp add: status_in_def)
  qed
  note def = assms(4) [unfolded apply_tax_fetch_action_def Let_def]
  show "distinct (map ts_id (fw_sessions fw))"
    using assms(4) by (cases rule: fetch_step_cases) (use assms(2,3) in \<open>auto simp: fresh_session_def\<close>)
  show "status_in (fw_sessions fw) i = status_in t i \<or> status_in t i = None \<or> status_in t i = Some SAgreed"
  proof (cases "action = ClientAgreed \<and> in_flight ctx \<noteq> None")
    case True
    then show ?thesis using def agreed
      by (auto simp: status_in_update split: if_splits)
  next
    case False
    show ?thesis using assms(4)
      by (cases rule: fetch_step_cases) (use False in \<open>auto simp: status_in_fresh\<close>)
  qed
qed

lemma runner_step_inv:
  assumes "runner_step w w'" "runner_inv w"
  shows "runner_inv w'"
  using assms
proof (cases rule: runner_step.cases)
  case (StepJob R now job)
  then show ?thesis using assms(2) by (simp add: runner_inv_def job_ids job_inv)
next
  case (StepExpiry R now i)
  then show ?thesis using assms(2) by (simp add: runner_inv_def expiry_ids expiry_inv)
next
  case StepRestart
  have lost: "login_inv (w\<lparr>rw_tracked := []\<rparr>) j" for j
  proof (rule login_inv_settle [of w])
    show "login_inv w j" using assms(2) by (simp add: runner_inv_def)
  qed (simp_all add: view_defs fun_eq_iff)
  show ?thesis unfolding StepRestart runner_inv_def boot_ids
    using boot_inv [OF lost] assms(2) unfolding runner_inv_def by simp blast
next
  case (StepPlanner pv c ds wa on ctx new_id action agreed year message fw)
  note p = planner_status [OF StepPlanner(2) _ StepPlanner(3,4)]
  have view: "logins w' = logins w" "submits w' = submits w" "rw_attempts w' = rw_attempts w" "tracked w' = tracked w"
    "status_of w' = status_in (fw_sessions fw)" "status_of w = status_in (rw_sessions w)"
    by (simp_all add: StepPlanner(1) view_defs status_in_def fun_eq_iff)
  have "login_inv w' i" for i
  proof -
    have inv: "login_inv w i" and d: "distinct (ids_of w)" using assms(2) by (simp_all add: runner_inv_def)
    show ?thesis using p(2) [OF d, of i] inv by (auto simp: login_inv_def view split: if_splits)
  qed
  then show ?thesis using p(1) assms(2) StepPlanner(1) by (simp add: runner_inv_def)
next
  case (StepElsewhere x ds fs js vs)
  then have "login_inv w' = login_inv w" by (simp add: login_inv_def view_defs fun_eq_iff)
  then show ?thesis using assms(2) StepElsewhere by (simp add: runner_inv_def)
qed

lemma runner_run_inv:
  assumes "runner_step\<^sup>*\<^sup>* w0 w" "fresh_runner w0"
  shows "runner_inv w"
  using assms(1)
proof (induction rule: rtranclp_induct)
  case base
  then show ?case using assms(2) by (auto simp: runner_inv_def fresh_runner_def login_inv_def view_defs)
next
  case (step y z)
  then show ?case by (blast intro: runner_step_inv)
qed

section \<open>A concrete worker\<close>

definition demo_runner_provider :: runner_provider where
  "demo_runner_provider = \<lparr>rp_types = [], rp_owns = (\<lambda>_ _. True), rp_text = (\<lambda>_. [120]), rp_confirmation = (\<lambda>_ _. [121]), rp_label = (\<lambda>_. None)\<rparr>"

definition demo_runner_env :: "job_table runner_env" where
  "demo_runner_env = \<lparr>ru_send = demo_env, ru_registry = (\<lambda>_. Some demo_runner_provider), ru_credentials = (\<lambda>_ _. True), ru_max_live = 2,
     ru_login = LoginDone, ru_submit = CodeAccepted, ru_download = NothingOnSite ''none'', ru_accepts = (\<lambda>_. True),
     ru_can_email = (\<lambda>_. False), ru_email_sent = False, ru_stored = (\<lambda>_. True), ru_file_id = (\<lambda>_. ''f'')\<rparr>"

definition demo_session :: fetch_session where
  "demo_session = \<lparr>ts_id = ''s'', ts_client = ''c'', ts_provider = ''tax'', ts_document = Some ''r'', ts_status = SIntroSent, ts_tax_year = 2024,
     ts_error = None, ts_keys = None\<rparr>"

definition demo_runner :: "job_table runner_world" where
  "demo_runner = \<lparr>rw_send = demo_world False ESent None, rw_sessions = [demo_session], rw_attempts = (\<lambda>_. 0), rw_tracked = [], rw_jobs = [],
     rw_browser = [], rw_docs = [], rw_files = [], rw_verify = []\<rparr>"

lemmas demo_runner_defs = demo_runner_provider_def demo_runner_env_def demo_session_def demo_runner_def

lemma demo_login_fires:
  "logins (run_fetch_job demo_runner_env 7 (RunStartLogin ''s'' (Some ''d'') 0) demo_runner) ''s'' = 1"
proof -
  have s: "session_by_id ''s'' (rw_sessions demo_runner) = Some demo_session" by (simp add: demo_runner_def session_by_id_def demo_session_def)
  have c: "client_by_id ''c'' (rw_send demo_runner) = Some demo_client" "rw_send demo_runner = demo_world False ESent None"
    by (simp_all add: demo_runner_def)
  have f: "ts_id demo_session = ''s''" "ts_client demo_session = ''c''" "ts_status demo_session = SIntroSent" by (simp_all add: demo_session_def)
  have b: "agent_work_blocked demo_client (rw_send demo_runner) = None"
    by (simp add: agent_work_blocked_def c(2)) (simp add: demo_world_def)
  have h: "heads_up_ready (Some ''d'') demo_runner = Some True" by (simp add: heads_up_ready_def truthy_text_def c(2))
  have l: "logins demo_runner ''s'' = 0" by (simp add: logins_def demo_runner_def)
  show ?thesis
    by (simp add: run_start_login_def s f c(1) b h at_capacity_def demo_runner_env_def start_browser_login_def Let_def l)
      (simp add: demo_runner_def)
qed

section \<open>Properties\<close>

text \<open>C27: Over every run of the worker with the planner and everything else, including redelivered jobs, expired waits and restarts, the login that sends a real code to the client goes through at most once per session, at most three codes are submitted for it, and none before the login.\<close>

theorem login_fires_once:
  assumes "fresh_runner w0" and "runner_step\<^sup>*\<^sup>* w0 w"
  shows "logins w i \<le> 1 \<and> submits w i \<le> MAX_OTP_ATTEMPTS * logins w i"
proof -
  have "login_inv w i" using runner_run_inv [OF assms(2,1)] by (simp add: runner_inv_def)
  then show ?thesis by (auto simp: login_inv_def split: if_splits)
qed

lemma login_fires_once_witness:
  "logins (run_fetch_job demo_runner_env 7 (RunStartLogin ''s'' (Some ''d'') 0) demo_runner) ''s'' = 1
   \<and> logins (run_fetch_job demo_runner_env 9 (RunStartLogin ''s'' (Some ''d'') 0)
       (run_fetch_job demo_runner_env 7 (RunStartLogin ''s'' (Some ''d'') 0) demo_runner)) ''s'' \<le> 1"
proof -
  have fresh: "fresh_runner demo_runner" by (simp add: fresh_runner_def demo_runner_def)
  have run: "runner_step\<^sup>*\<^sup>* demo_runner (run_fetch_job R 9 k (run_fetch_job R 7 j demo_runner))" for R j k
    by (meson StepJob rtranclp.rtrancl_into_rtrancl rtranclp.rtrancl_refl)
  show ?thesis using login_fires_once [OF fresh run] demo_login_fires by blast
qed

text \<open>C28: The login, which sends a real code to the client, goes through only as a start_login job of a session that has not started, for a live client whose agent is enabled, with credentials on file, below the limit of live browsers, and, where the job names a heads-up message, after that message was sent; any other job of the worker fires none.\<close>

theorem login_guarded:
  assumes "logins (run_fetch_job R now job w) i \<noteq> logins w i"
  shows "\<exists>s cl p e n. job = RunStartLogin i e n \<and> session_by_id i (rw_sessions w) = Some s \<and> ts_status s \<in> {SAgreed, SIntroSent}
     \<and> client_by_id (ts_client s) (rw_send w) = Some cl \<and> agent_work_blocked cl (rw_send w) = None
     \<and> (truthy_text e \<longrightarrow> (\<exists>m. email_by_id (the e) (rw_send w) = Some m \<and> em_status m = ESent))
     \<and> ru_registry R (ts_provider s) = Some p \<and> ru_credentials R (ts_provider s) (ts_client s)
     \<and> length (rw_tracked w) < ru_max_live R \<and> logins (run_fetch_job R now job w) i = logins w i + 1"
proof (cases job)
  case (RunStartLogin k e n)
  have changed: "logins (run_start_login R now k e n w) i \<noteq> logins w i" using assms RunStartLogin by simp
  then obtain s where s: "session_by_id k (rw_sessions w) = Some s" "ts_status s \<in> {SAgreed, SIntroSent}"
    by (cases "session_by_id k (rw_sessions w)") (auto simp: run_start_login_def split: if_splits)
  note w1 = changed [unfolded run_start_login_def s(1) option.case]
  obtain cl where cl: "client_by_id (ts_client s) (rw_send w) = Some cl" "agent_work_blocked cl (rw_send w) = None"
    using w1 s(2) by (cases "client_by_id (ts_client s) (rw_send w)") (auto split: if_splits)
  have h: "heads_up_ready e w = Some True"
    using w1 s(2) cl by (auto split: option.splits bool.splits if_splits)
  obtain p where p: "ru_registry R (ts_provider s) = Some p" "ru_credentials R (ts_provider s) (ts_client s)" "\<not> at_capacity R w"
    using w1 s(2) cl h by (auto split: option.splits if_splits)
  have eq: "run_start_login R now k e n w = start_browser_login R now s cl p w"
    using s cl h p by (simp add: run_start_login_def)
  have "ts_id s = k" using session_status [OF s(1)] by simp
  then have "i = k \<and> logins (start_browser_login R now s cl p w) i = logins w i + 1"
    using changed unfolding eq start_browser_login_def Let_def by (auto split: login_answer.splits if_splits)
  moreover have "truthy_text e \<longrightarrow> (\<exists>m. email_by_id (the e) (rw_send w) = Some m \<and> em_status m = ESent)"
    using h by (auto simp: heads_up_ready_def split: option.splits if_splits)
  ultimately show ?thesis using RunStartLogin s cl p eq by (auto simp: at_capacity_def)
next
  case (RunSubmitOtp k otp n)
  then show ?thesis using assms submit_otp_ids(2) by fastforce
next
  case (RunCancel k)
  then show ?thesis using assms cancel_ids(2) by fastforce
qed

lemma login_guarded_witness:
  "logins demo_runner ''s'' = 0 \<and> logins (run_fetch_job demo_runner_env 7 (RunStartLogin ''s'' (Some ''d'') 0) demo_runner) ''s'' = 1
   \<and> (\<exists>m. email_by_id ''d'' (rw_send demo_runner) = Some m \<and> em_status m = ESent)"
proof -
  have zero: "logins demo_runner ''s'' = 0" by (simp add: logins_def demo_runner_def)
  have "logins (run_fetch_job demo_runner_env 7 (RunStartLogin ''s'' (Some ''d'') 0) demo_runner) ''s'' \<noteq> logins demo_runner ''s''"
    using demo_login_fires zero by simp
  from login_guarded [OF this] show ?thesis using demo_login_fires zero by (auto simp: truthy_text_def)
qed

section \<open>A delivered fetch told as failed\<close>

lemma failed_keeps_delivery:
  "rw_docs (fetch_failed R now i c cl err b w) = rw_docs w" "rw_files (fetch_failed R now i c cl err b w) = rw_files w"
  by (simp_all add: fetch_failed_def replan_after_fetch_end_def send_canned_def on_send_def update_status_def)

text \<open>The plan that follows a delivery runs inside the guarded block of the download. When it fails, after the files were sent and stored, their rows collected and the session marked delivered, the same session is marked failed and the client is told that the download failed, while files and collected rows stay.\<close>

theorem delivered_fetch_reported_failed:
  fixes R :: "'q runner_env"
  defines "start \<equiv> \<lambda>i w. browser (CallDownload i) (update_status i SDownloading None w)"
  assumes "session_by_id i (rw_sessions w) = Some s" and "ru_download R = Downloaded ds"
    and "deliver R now s cl p ds (start i w) = (Inl e, w2)" and "status_of w2 i = Some SDelivered"
  shows "download_and_deliver R now i c cl p w = browser (CallClose i) (fetch_failed R now i c cl e (rp_text p DownloadFailedText) w2)
     \<and> status_of (download_and_deliver R now i c cl p w) i = Some SFailed
     \<and> rw_files (download_and_deliver R now i c cl p w) = rw_files w2 \<and> rw_docs (download_and_deliver R now i c cl p w) = rw_docs w2"
proof -
  have eq: "download_and_deliver R now i c cl p w = browser (CallClose i) (fetch_failed R now i c cl e (rp_text p DownloadFailedText) w2)"
    using assms(2-4) by (simp add: download_and_deliver_def start_def)
  have "status_of (fetch_failed R now i c cl e b w2) i = Some SFailed" for b
    using assms(5) by (simp add: fetch_failed_def)
  then show ?thesis unfolding eq using failed_keeps_delivery [of R now i c cl e _ w2] by (simp add: browser_def view_defs)
qed

definition failing_plan :: "job_table runner_env" where
  "failing_plan = demo_runner_env\<lparr>ru_send := demo_env\<lparr>se_plan := (\<lambda>_ _ _. Inl ''model unavailable'')\<rparr>,
     ru_download := Downloaded [\<lparr>fd_filename = [97], fd_content_type = [98], fd_size = 1, fd_kind = None\<rparr>]\<rparr>"

definition collecting_runner :: "job_table runner_world" where
  "collecting_runner = demo_runner\<lparr>rw_docs := [sample_row ''r'' Pending]\<rparr>"

lemma delivered_fetch_reported_failed_witness:
  "status_of (download_and_deliver failing_plan 7 ''s'' ''c'' demo_client demo_runner_provider collecting_runner) ''s'' = Some SFailed
   \<and> map cd_status (rw_docs (download_and_deliver failing_plan 7 ''s'' ''c'' demo_client demo_runner_provider collecting_runner)) = [Collected]"
proof -
  let ?w1 = "browser (CallDownload ''s'') (update_status ''s'' SDownloading None collecting_runner)"
  obtain r w2 where d: "deliver failing_plan 7 demo_session demo_client demo_runner_provider
      [\<lparr>fd_filename = [97], fd_content_type = [98], fd_size = 1, fd_kind = None\<rparr>] ?w1 = (r, w2)"
    by (rule prod.exhaust)
  have "(case deliver failing_plan 7 demo_session demo_client demo_runner_provider
      [\<lparr>fd_filename = [97], fd_content_type = [98], fd_size = 1, fd_kind = None\<rparr>] ?w1 of (r, w2) \<Rightarrow>
      r = Inl ''model unavailable'' \<and> status_of w2 ''s'' = Some SDelivered \<and> map cd_status (rw_docs w2) = [Collected])"
    by code_simp
  then have f: "r = Inl ''model unavailable''" "status_of w2 ''s'' = Some SDelivered" "map cd_status (rw_docs w2) = [Collected]"
    unfolding d by simp_all
  have s: "session_by_id ''s'' (rw_sessions collecting_runner) = Some demo_session"
    by (simp add: collecting_runner_def demo_runner_def session_by_id_def demo_session_def)
  have l: "ru_download failing_plan = Downloaded [\<lparr>fd_filename = [97], fd_content_type = [98], fd_size = 1, fd_kind = None\<rparr>]"
    by (simp add: failing_plan_def)
  note told = delivered_fetch_reported_failed [OF s l d [unfolded f(1)] f(2), of "''c''"]
  have "rw_docs (download_and_deliver failing_plan 7 ''s'' ''c'' demo_client demo_runner_provider collecting_runner) = rw_docs w2" by (rule told [THEN conjunct2, THEN conjunct2, THEN conjunct2])
  moreover have "status_of (download_and_deliver failing_plan 7 ''s'' ''c'' demo_client demo_runner_provider collecting_runner) ''s'' = Some SFailed" by (rule told [THEN conjunct2, THEN conjunct1])
  ultimately show ?thesis using f(3) by (simp only: simp_thms)
qed

end
