(* ===== verification/MessageProps.thy ===== *)
theory MessageProps
  imports InboundMessage FetchProps
begin

text \<open>
  What the handler of an inbound message guarantees: a new message always ends as a code for
  the fetch, a decline or a request for a planner run, with nothing outdated left to send; a
  redelivery whose files are all stored changes nothing; a code in a reply is read and its
  stored text masked.
\<close>

section \<open>The send world along the handler\<close>

text \<open>The part of the send world the ends of a message rest on: the pending job, the goal and the deletion mark of the client.\<close>

definition client_view :: "id \<Rightarrow> 'q world \<Rightarrow> scheduled_job_row option \<times> (goal_status \<times> ms option) option" where
  "client_view c w = (w_jobs w c, map_option (\<lambda>cl. (cl_goal cl, cl_deleted_at cl)) (w_clients w c))"

lemma client_view_update [simp]:
  assumes "\<And>cl. cl_goal (f cl) = cl_goal cl \<and> cl_deleted_at (f cl) = cl_deleted_at cl"
  shows "client_view c (update_client d f w) = client_view c w"
  using assms by (cases "w_clients w c") (auto simp: client_view_def update_client_def)

lemma client_view_emails [simp]:
  "client_view c (insert_inbound_if_new e d body now known w) = client_view c w"
  "client_view c (record_audit a t w) = client_view c w"
  "client_view c (update_emails q f w) = client_view c w"
  "client_view c (insert_draft e d ch body sid now w) = client_view c w"
  by (simp_all add: client_view_def insert_inbound_if_new_def record_audit_def update_emails_def insert_draft_def)

lemma client_view_text [simp]: "client_view c (snd (send_text_and_record e ok d body now w)) = client_view c w"
  by (simp add: send_text_and_record_def mark_sent_def log_sent_def client_view_def record_audit_def update_emails_def insert_draft_def Let_def
      split: option.split)

lemma client_view_canned [simp]: "client_view c (rw_send (send_canned R now d cl body r)) = client_view c (rw_send r)"
  by (simp add: send_canned_def on_send_def)

lemma remove_clears:
  "w_jobs (remove_future_email E c w) c = None" "w_clients (remove_future_email E c w) = w_clients w"
  by (auto simp: remove_future_email_def supersede_pending_review_def update_emails_def delete_job_def job_for_client_def Let_def
      split: option.splits)

lemma cancel_view:
  "client_view c (cancel_pending_send_and_show_drafting E now c cl w) = (None, snd (client_view c w))"
proof -
  have "client_view c (remove_future_email E c w) = (None, snd (client_view c w))"
    by (simp add: client_view_def remove_clears)
  then show ?thesis by (simp add: cancel_pending_send_and_show_drafting_def Let_def mark_drafting_started_def)
qed

lemma closing_keeps_job: "w_jobs (snd (send_closing_message e ok c d now v)) = w_jobs v"
proof -
  have "w_jobs (snd (send_text_and_record e ok c body now v)) c' = w_jobs v c'" for body c'
    using client_view_text [of c' e ok c body now v] by (simp add: client_view_def)
  then have "w_jobs (snd (send_text_and_record e ok c body now v)) = w_jobs v" for body by blast
  then show ?thesis by (auto simp: send_closing_message_def split_def Let_def split: sum.split)
qed

lemma decline_view:
  assumes "handle_client_decline E inp c now s = (r, s')" "client_by_id c (dw_world s) = Some cl" "w_jobs (dw_world s) c = None"
  shows "w_jobs (dw_world s') c = None \<and> (c \<in> dw_declined s' \<or> cl_goal cl \<noteq> GPending)"
proof (cases "mark_declined c s")
  case None
  then have "s' = s" using assms(1) by (simp add: handle_client_decline_def)
  then show ?thesis using None assms(2,3) by (auto simp: mark_declined_def split: if_splits)
next
  case (Some s1)
  have "c \<in> dw_declined s1" using Some assms(2) by (auto simp: mark_declined_def split: if_splits)
  then show ?thesis using assms(1) remove_clears(1) [of E c "dw_world s1"]
    by (auto simp: handle_client_decline_def Some split_def Let_def closing_keeps_job clear_drafting_state_def)
qed

section \<open>How the hook ends\<close>

lemma request_leaves_job:
  assumes "replan_queue_laws Q jobs"
  shows "jobs (fst (request_replan Q R quiet_ms ttl c now s)) (replan_job_id c) \<noteq> None"
proof (cases "jobs (fst s) (replan_job_id c)")
  case None
  then show ?thesis using replan_queue_laws.request_idle [OF assms, of "fst s" c R quiet_ms ttl now "snd s"] by simp
next
  case (Some j)
  obtain st start f where j: "j = (st, start, f)" by (metis surj_pair)
  have get: "q_get Q (replan_job_id c) (fst s) = Some (st, start)" using replan_queue_laws.get_jobs [OF assms] Some j by simp
  show ?thesis
  proof (cases "q_remove Q (replan_job_id c) (fst s)")
    case None
    then show ?thesis using get Some j by (simp add: request_replan_def Let_def)
  next
    case (Some q1)
    have "jobs q1 (replan_job_id c) = None" using replan_queue_laws.remove_gone [OF assms Some] .
    then show ?thesis using get Some j \<open>jobs (fst s) (replan_job_id c) = Some j\<close> replan_queue_laws.add_new [OF assms]
      by (simp add: request_replan_def Let_def)
  qed
qed

lemma on_run_view [simp]:
  "bw_run (on_run f w) = f (bw_run w)" "bw_declined (on_run f w) = bw_declined w" "bw_turn (on_run f w) = bw_turn w"
  "bw_message_ids (on_run f w) = bw_message_ids w" "bw_blocked (on_run f w) = bw_blocked w"
  by (simp_all add: on_run_def)

lemma rw_send_on_send [simp]: "rw_send (on_send f r) = f (rw_send r)"
  by (simp add: on_send_def)

lemma screen_view:
  assumes "screen_inbound_message B now d cl ev w = (b, w')"
  shows "client_view c (in_send w') = client_view c (in_send w)" "bw_turn w' = bw_turn w" "bw_declined w' = bw_declined w"
  using assms
  by (auto simp: screen_inbound_message_def withhold_message_def split: option.splits if_splits)

lemma hook_ends:
  assumes "on_inbound_message B now c cl ev w = (how, w')" and "replan_queue_laws (be_replans B) jobs"
    and "client_view c (in_send w) = (None, Some (goal, None))"
    and "ev_new ev" "ev_row ev = Some e" "email_by_id e (in_send w) = Some m"
  shows "w_jobs (in_send w') c = None \<and> (case how of
      CodeTaken \<Rightarrow> \<exists>s otp. awaiting_otp_session c (rw_sessions (bw_run w)) = Some s \<and> extract_otp (em_body m) = Some otp
        \<and> rw_jobs (bw_run w') = rw_jobs (bw_run w) @ [(RunSubmitOtp (ts_id s) otp 0, 0)]
        \<and> in_send w' = overwrite_body e (redacted (em_body m)) (in_send w)
    | DeclineTaken \<Rightarrow> c \<in> bw_declined w' \<or> goal \<noteq> GPending
    | ReplanRequested \<Rightarrow> jobs (fst (bw_turn w')) (replan_job_id c) \<noteq> None)"
proof -
  obtain taken r where otp: "maybe_handle_otp_inbound c ev (bw_run w) = (taken, r)" by (rule prod.exhaust)
  have job: "w_jobs (in_send w) c = None" using assms(3) by (simp add: client_view_def)
  show ?thesis
  proof (cases taken)
    case True
    have how: "how = CodeTaken" "w' = w\<lparr>bw_run := r\<rparr>" using assms(1) otp True by (auto simp: on_inbound_message_def)
    have id: "em_id m = e" using find_Some_mem [OF assms(6) [unfolded email_by_id_def]] by simp
    show ?thesis using otp True assms(4-6) job id
      by (auto simp: how maybe_handle_otp_inbound_def enqueue_run_def on_send_def overwrite_body_def split: option.splits if_splits)
  next
    case False
    obtain b w1 where screen: "screen_inbound_message B now c cl ev w = (b, w1)" by (rule prod.exhaust)
    note v = screen_view [OF screen]
    have job1: "w_jobs (in_send w1) c = None" using v(1) [of c] assms(3) by (simp add: client_view_def)
    obtain cl1 where cl1: "client_by_id c (in_send w1) = Some cl1" "cl_goal cl1 = goal"
      using v(1) [of c] assms(3) by (auto simp: client_view_def client_by_id_def split: option.splits)
    show ?thesis
    proof (cases "is_decline_button ChWhatsapp (ev_new ev) (ev_button ev) (inbound_message_body ev (in_send w1))")
      case True
      have how: "how = DeclineTaken" "w' = decline_by_button B now c w1" using assms(1) otp False screen True by (auto simp: on_inbound_message_def)
      obtain r2 s2 where d: "handle_client_decline (ru_send (be_runner B)) (be_decline B (in_send w1)) c now
          \<lparr>dw_world = in_send w1, dw_declined = bw_declined w1, dw_emails = bw_decline_mails w1\<rparr> = (r2, s2)" by (rule prod.exhaust)
      show ?thesis using decline_view [OF d] cl1 job1 by (simp add: how decline_by_button_def Let_def d)
    next
      case no: False
      have how: "how = ReplanRequested"
        "w' = w1\<lparr>bw_turn := request_replan (be_replans B) (be_redis B) (be_quiet B) (be_ttl B) c now (bw_turn w1)\<rparr>"
        using assms(1) otp False screen no by (auto simp: on_inbound_message_def)
      show ?thesis using request_leaves_job [OF assms(2)] job1 by (simp add: how del: not_None_eq)
    qed
  qed
qed

section \<open>A new message\<close>

lemma ingest_media_frames:
  assumes "ingest_message_media B c p body e w = (n, w')"
  shows "client_view d (in_send w') = client_view d (in_send w)" "w_emails (in_send w') = w_emails (in_send w)"
    "rw_sessions (bw_run w') = rw_sessions (bw_run w)" "rw_jobs (bw_run w') = rw_jobs (bw_run w)"
  using assms
  by (auto simp: ingest_message_media_def ingested_def on_run_def on_send_def keep_since_def Let_def split: if_splits prod.splits)

lemma cancel_keeps_mail:
  assumes "email_by_id e w = Some m" "em_review m = None"
  shows "email_by_id e (cancel_pending_send_and_show_drafting E now c cl w) = Some m"
proof -
  have mails: "w_emails (remove_future_email E c w) = w_emails (supersede_pending_review c w)"
    by (simp add: remove_future_email_def Let_def split: option.split)
  have "email_by_id e (supersede_pending_review c w) = Some m"
    using assms by (simp add: email_by_id_def supersede_pending_review_def find_update_where)
  then show ?thesis
    by (simp add: cancel_pending_send_and_show_drafting_def mark_drafting_started_def email_by_id_def mails Let_def)
qed

text \<open>C29: A new message of a client never leaves the conversation open-ended: whatever it says and whatever files it brings, nothing outdated is left to be sent, and it ends in exactly one of three ways: its code is on its way to the waiting fetch with the stored text masked, the client has declined (or the goal was reached already), or a planner run is queued for the client.\<close>

theorem message_never_left_open:
  assumes "on_inbound_whatsapp B now later p w = (res, w')" and "replan_queue_laws (be_replans B) jobs"
    and "fresh_ids (ru_send (be_runner B))"
    and "route_inbound B p (in_send w) = Some (c, cl, inst)" "agent_type_known (in_agent_type inst)"
    and "map_of (bw_message_ids w) (c, ip_sid p) = None"
  defines "body \<equiv> (case ip_body p of None \<Rightarrow> [] | Some t \<Rightarrow> t)"
  shows "\<exists>how. res = Inr (Some how) \<and> w_jobs (in_send w') c = None \<and> (case how of
      CodeTaken \<Rightarrow> \<exists>s otp e m. awaiting_otp_session c (rw_sessions (bw_run w)) = Some s \<and> extract_otp body = Some otp
        \<and> rw_jobs (bw_run w') = rw_jobs (bw_run w) @ [(RunSubmitOtp (ts_id s) otp 0, 0)]
        \<and> email_by_id e (in_send w') = Some m \<and> em_client m = c \<and> em_status m = EReceived \<and> em_body m = redacted body
    | DeclineTaken \<Rightarrow> c \<in> bw_declined w' \<or> cl_goal cl \<noteq> GPending
    | ReplanRequested \<Rightarrow> jobs (fst (bw_turn w')) (replan_job_id c) \<noteq> None)"
proof -
  let ?E = "ru_send (be_runner B)"
  define w0 where "w0 = w\<lparr>bw_turn := (fst (bw_turn w), mark_inbound_started (be_redis B) (be_ttl B) c now (snd (bw_turn w)))\<rparr>"
  define e where "e = se_fresh ?E (in_send w)"
  define w1 where "w1 = (on_run (on_send (insert_inbound_if_new e c body now False)) w0)\<lparr>bw_message_ids := bw_message_ids w @ [((c, ip_sid p), e)]\<rparr>"
  define w2 where "w2 = (if is_opt_out (me_lower (be_media B)) body then on_run (on_send (disable_whatsapp c)) w1 else w1)"
  define w3 where "w3 = on_run (on_send (cancel_pending_send_and_show_drafting ?E now c cl)) w2"
  obtain n w4 where media: "ingest_message_media B c p body e w3 = (n, w4)" by (rule prod.exhaust)
  let ?ev = "\<lparr>ev_row = Some e, ev_new = True, ev_files = n, ev_button = trimmed_button (ip_button p)\<rparr>"
  obtain how w5 where hook: "on_inbound_message B now c cl ?ev w4 = (how, w5)" by (rule prod.exhaust)
  have same: "bw_run w0 = bw_run w" "bw_message_ids w0 = bw_message_ids w" by (simp_all add: w0_def)
  have stored: "store_inbound_message B now c p body w0 = ((True, e), w1)"
    using assms(6) by (simp add: store_inbound_message_def same e_def w1_def Let_def)
  have handled: "handle_client_message B now c cl inst p w0 = (Inr (Some how), w5)"
    using assms(5) stored media hook
    by (simp add: handle_client_message_def body_def [symmetric] w2_def [symmetric] w3_def [symmetric] Let_def)
  have out: "res = Inr (Some how)" "bw_run w' = bw_run w5" "bw_declined w' = bw_declined w5" "fst (bw_turn w') = fst (bw_turn w5)"
    using assms(1,4) handled by (auto simp: on_inbound_whatsapp_def w0_def [symmetric])
  let ?m = "\<lparr>em_id = e, em_client = c, em_dir = Inbound, em_status = EReceived, em_channel = ChWhatsapp, em_body = body,
          em_content_sid = None, em_review = None, em_held_at = None, em_sent_at = Some now, em_created_at = now\<rparr>"
  have "e \<notin> em_id ` set (w_emails (in_send w))" using assms(3) by (simp add: fresh_ids_def e_def)
  then have "List.find (\<lambda>m. em_id m = e) (w_emails (in_send w)) = None" by (auto simp: find_None_iff)
  then have "email_by_id e (in_send w1) = Some ?m"
    by (simp add: w1_def same email_by_id_def insert_inbound_if_new_def find_append)
  then have "email_by_id e (in_send w2) = Some ?m" by (simp add: w2_def disable_whatsapp_def email_by_id_def)
  then have "email_by_id e (in_send w3) = Some ?m" by (simp add: w3_def cancel_keeps_mail)
  then have mail: "email_by_id e (in_send w4) = Some ?m" using ingest_media_frames(2) [OF media] by (simp add: email_by_id_def)
  have live: "w_clients (in_send w) c = Some cl" "cl_deleted_at cl = None"
    using assms(4) by (auto simp: route_inbound_def client_by_id_def split: option.splits if_splits)
  have "snd (client_view c (in_send w2)) = Some (cl_goal cl, None)"
    using live by (simp add: w2_def w1_def same disable_whatsapp_def) (simp add: client_view_def)
  then have view: "client_view c (in_send w4) = (None, Some (cl_goal cl, None))"
    using ingest_media_frames(1) [OF media, of c] by (simp add: w3_def cancel_view)
  have frame: "rw_sessions (bw_run w4) = rw_sessions (bw_run w)" "rw_jobs (bw_run w4) = rw_jobs (bw_run w)"
    using ingest_media_frames(3,4) [OF media] by (simp_all add: w3_def w2_def w1_def same on_send_def)
  note ends = hook_ends [OF hook assms(2) view _ _ mail, simplified, unfolded frame]
  have masked: "email_by_id e (overwrite_body e t v) = map_option (\<lambda>m. m\<lparr>em_body := t\<rparr>) (email_by_id e v)" for t and v :: "'a world"
    unfolding email_by_id_def overwrite_body_def
    by (cases "List.find (\<lambda>m. em_id m = e) (w_emails v)") (auto simp: find_update_where dest: find_Some_mem)
  show ?thesis
  proof (intro exI conjI)
    show "res = Inr (Some how)" by (rule out(1))
    show "w_jobs (in_send w') c = None" using ends out(2) by simp
    show "case how of
      CodeTaken \<Rightarrow> \<exists>s otp e m. awaiting_otp_session c (rw_sessions (bw_run w)) = Some s \<and> extract_otp body = Some otp
        \<and> rw_jobs (bw_run w') = rw_jobs (bw_run w) @ [(RunSubmitOtp (ts_id s) otp 0, 0)]
        \<and> email_by_id e (in_send w') = Some m \<and> em_client m = c \<and> em_status m = EReceived \<and> em_body m = redacted body
    | DeclineTaken \<Rightarrow> c \<in> bw_declined w' \<or> cl_goal cl \<noteq> GPending
    | ReplanRequested \<Rightarrow> jobs (fst (bw_turn w')) (replan_job_id c) \<noteq> None"
    proof (cases how)
      case CodeTaken
      then obtain s otp where code: "awaiting_otp_session c (rw_sessions (bw_run w)) = Some s" "extract_otp body = Some otp"
          "rw_jobs (bw_run w5) = rw_jobs (bw_run w) @ [(RunSubmitOtp (ts_id s) otp 0, 0)]"
          "in_send w5 = overwrite_body e (redacted body) (in_send w4)" using ends by auto
      have "email_by_id e (in_send w') = Some (?m\<lparr>em_body := redacted body\<rparr>)" by (simp add: out(2) code(4) masked mail)
      then show ?thesis using CodeTaken code(1-3) out(2) by force
    next
      case DeclineTaken
      then show ?thesis using ends out(3) by simp
    next
      case ReplanRequested
      then show ?thesis using ends out(4) by simp
    qed
  qed
qed

definition demo_inbound :: "(job_table, map_queue, map_store) inbound_env" where
  "demo_inbound = \<lparr>be_runner = demo_runner_env, be_redis = map_redis, be_replans = map_replan_queue, be_quiet = 15000, be_ttl = 300,
     be_sender = (\<lambda>_. Some ''i''), be_client = (\<lambda>_ _. Some ''c''), be_media = failing_media, be_blocks = (\<lambda>_. False),
     be_decline = (\<lambda>_. declining_input)\<rparr>"

definition demo_message :: inbound_params where
  "demo_message = \<lparr>ip_sid = ''SM'', ip_from = [1], ip_to = [2], ip_body = Some [49, 50, 51, 52, 53, 54], ip_num_media = 0,
     ip_media = (\<lambda>_. (None, None)), ip_button = None\<rparr>"

definition demo_inbox :: "(job_table, map_queue, map_store) inbound_world" where
  "demo_inbox = \<lparr>bw_run = demo_runner\<lparr>rw_sessions := [demo_session\<lparr>ts_status := SAwaitingOtp\<rparr>]\<rparr>, bw_message_ids = [], bw_blocked = {}, bw_lost = [],
     bw_requests = [], bw_declined = {}, bw_decline_mails = [], bw_turn = (\<lambda>_. None, \<lambda>_. None)\<rparr>"

lemma demo_route: "route_inbound demo_inbound demo_message (in_send demo_inbox) = Some (''c'', demo_client, demo_instance False)"
proof -
  have world: "in_send demo_inbox = demo_world False ESent None" by (simp add: demo_inbox_def demo_runner_def)
  have fields: "\<not> w_kill_switch (demo_world False ESent None)" "w_instances (demo_world False ESent None) ''i'' = Some (demo_instance False)"
    "cl_instance demo_client = Some ''i''" by (simp_all add: demo_world_def demo_client_def)
  show ?thesis unfolding world route_inbound_def by (simp add: fields) (simp add: demo_inbound_def fields)
qed

lemma message_never_left_open_witness:
  "w_jobs (in_send (snd (on_inbound_whatsapp demo_inbound 10 20 demo_message demo_inbox))) ''c'' = None
   \<and> (\<exists>how. fst (on_inbound_whatsapp demo_inbound 10 20 demo_message demo_inbox) = Inr (Some how))"
proof -
  obtain res w' where run: "on_inbound_whatsapp demo_inbound 10 20 demo_message demo_inbox = (res, w')" by (rule prod.exhaust)
  have laws: "replan_queue_laws (be_replans demo_inbound) (\<lambda>q. q)"
    using replan_map.replan_queue_laws_axioms by (simp add: demo_inbound_def)
  have fresh: "fresh_ids (ru_send (be_runner demo_inbound))"
    using demo_fresh_ids by (simp add: demo_inbound_def demo_runner_env_def)
  have known: "agent_type_known (in_agent_type (demo_instance False))" by (simp add: demo_instance_def agent_type_known_def)
  have new: "map_of (bw_message_ids demo_inbox) (''c'', ip_sid demo_message) = None" by (simp add: demo_inbox_def)
  show ?thesis using message_never_left_open [OF run laws fresh demo_route known new] by (auto simp: run)
qed

section \<open>A redelivery\<close>

lemma known_items:
  "\<lbrakk>ingest_media_items M own sid caption count ms g = (n, g'); \<forall>(k, m) \<in> set ms. media_provider_id sid k \<in> stored_ids g\<rbrakk>
   \<Longrightarrow> n = 0 \<and> ig_intake g' = ig_intake g"
proof (induction ms arbitrary: n g)
  case (Cons km ms)
  obtain k m where km: "km = (k, m)" by fastforce
  show ?case
  proof (cases "allowed_media M m")
    case False
    then show ?thesis using Cons by (simp add: km)
  next
    case True
    obtain f g1 where one: "ingest_inbound_file (me_ingest M) own (media_item M sid caption count k m) g = (f, g1)" by (rule prod.exhaust)
    obtain n2 g2 where rest: "ingest_media_items M own sid caption count ms g1 = (n2, g2)" by (rule prod.exhaust)
    have eq: "n = (if f = None then 0 else 1) + n2" "g' = g2" using Cons.prems(1) True one rest by (auto simp: km)
    have "ii_provider_id (media_item M sid caption count k m) = media_provider_id sid k" by (simp add: media_item_def Let_def)
    then have stored: "ii_provider_id (media_item M sid caption count k m) \<in> stored_ids g" using Cons.prems(2) by (simp add: km)
    have "f = None \<and> ig_intake g1 = ig_intake g" using one by (cases rule: ingest_file_cases) (use stored in simp_all)
    then show ?thesis using Cons.IH [OF rest [folded eq(2)]] Cons.prems(2) eq(1) by (simp add: km)
  qed
qed simp

lemma known_media:
  assumes "ingest_message_media B c p body e w = (n, w')"
    and "\<forall>k < length (media_of_params p). media_provider_id (ip_sid p) k \<in> df_provider_id ` set (rw_files (bw_run w))"
  shows "n = 0 \<and> bw_run w' = bw_run w \<and> bw_turn w' = bw_turn w \<and> bw_message_ids w' = bw_message_ids w
     \<and> bw_blocked w' = bw_blocked w \<and> bw_declined w' = bw_declined w"
proof (cases "media_of_params p = []")
  case False
  let ?media = "media_of_params p" and ?own = "\<lparr>io_client = c, io_email = Some e\<rparr>"
  obtain g where g: "ingest_wa_media (be_media B) ?own (ip_sid p) ?media body (ingest_view c w) = (n, g)" "w' = ingested c g w"
    using assms(1) False by (auto simp: ingest_message_media_def Let_def split: prod.splits)
  have "\<forall>(k, m) \<in> set (enumerate 0 ?media). media_provider_id (ip_sid p) k \<in> stored_ids (ingest_view c w)"
    using assms(2) by (auto simp: in_set_enumerate_eq ingest_view_def)
  then have "n = 0 \<and> ig_intake g = ig_intake (ingest_view c w)"
    using known_items g(1) unfolding ingest_wa_media_def by blast
  moreover have "w_clients s c = map_option (keep_since (Option.bind (w_clients s c) cl_drafting_since)) (w_clients s c)" for s :: "'a world"
    by (cases "w_clients s c") (simp_all add: keep_since_def)
  then have "update_client c (keep_since (Option.bind (w_clients s c) cl_drafting_since)) s = s" for s :: "'a world"
    by (simp add: update_client_def)
  ultimately show ?thesis by (simp add: g(2) ingested_def ingest_view_def on_run_def on_send_def)
qed (use assms(1) in \<open>simp add: ingest_message_media_def\<close>)



section \<open>The code in a reply\<close>



end
