(* ===== verification/Office.thy ===== *)
theory Office
  imports Closing FormIntake
begin

text \<open>
  The accountant's side of a client: the hand-off to the accountant when the due date passes
  (\<open>agents/declarationOfCapital/overdueScan.ts\<close>) or the client declines, the pause switch
  (\<open>api/workspace.ts\<close>), the due date and the edits of the checklist
  (\<open>agents/declarationOfCapital/router.ts\<close>), and the status written back to the board
  (\<open>agents/shared/mondayDocumentsStatus.ts\<close>, \<open>mondayStatusSync.ts\<close>).

  A handler is one function on the state, in the order of its writes. The session checks
  before a handler, the schema check of a body (its parsed value is the argument), the texts
  of the e-mails and the audit rows are left out.
\<close>

section \<open>State\<close>

datatype documents_label = InTreatment | SuccessfullyDone | AgentRefused | PartlyEnded

datatype office_event = OverdueMailed "utext list" | DueDateSet

text \<open>
  The send world with the decline marks, and the rest of the clients' \<open>agent_fields\<close>: the
  attestation, the two overdue markers. \<open>of_mapped\<close> are the clients whose board row, status
  column and connection are in place; \<open>of_board\<close> is the last label the board accepted;
  \<open>of_log\<close> is history kept for the theorems.
\<close>

record 'q office =
  of_send :: "'q decline_state"
  of_docs :: docs
  of_request :: "id \<Rightarrow> id option"
  of_confirmed :: "id \<Rightarrow> ms option"
  of_notified :: "id set"
  of_stopped :: "id set"
  of_mapped :: "id set"
  of_board :: "id \<Rightarrow> documents_label option"
  of_log :: "(id \<times> office_event) list"

abbreviation of_world :: "'q office \<Rightarrow> 'q world" where
  "of_world s \<equiv> dw_world (of_send s)"

abbreviation of_declined :: "'q office \<Rightarrow> id set" where
  "of_declined s \<equiv> dw_declined (of_send s)"

definition on_world :: "('q world \<Rightarrow> 'q world) \<Rightarrow> 'q office \<Rightarrow> 'q office" where
  "on_world f s = s\<lparr>of_send := (of_send s)\<lparr>dw_world := f (of_world s)\<rparr>\<rparr>"

text \<open>
  What the handlers read from outside: the send environment, whether a mail to the client's
  accountant goes through, the closing message's delivery and the provider's answer, the stored
  questionnaire with its screen and mapping.
\<close>

record 'q office_env =
  oe_send :: "'q send_env"
  oe_mails :: "id \<Rightarrow> bool"
  oe_delivery :: "id \<Rightarrow> 'q world \<Rightarrow> (no_delivery, string \<times> string \<times> utext) result"
  oe_accepted :: "id \<Rightarrow> bool"
  oe_form :: "id \<Rightarrow> form_answer list option"
  oe_form_env :: "id \<Rightarrow> form_env"

section \<open>The label of a client\<close>

definition documents_status_label_of :: "goal_status \<times> bool \<times> bool \<Rightarrow> documents_label" where
  "documents_status_label_of = (\<lambda>(goal, declined, overdue).
     if declined \<and> goal = GPending then AgentRefused
     else if goal = GComplete then SuccessfullyDone
     else if overdue then PartlyEnded
     else InTreatment)"

definition documents_status_input_of :: "id \<Rightarrow> client_row \<Rightarrow> 'q office \<Rightarrow> goal_status \<times> bool \<times> bool" where
  "documents_status_input_of c cl s = (cl_goal cl, c \<in> of_declined s, c \<in> of_stopped s)"

definition sync_documents_status :: "id \<Rightarrow> 'q office \<Rightarrow> 'q office" where
  "sync_documents_status c s =
     (case client_by_id c (of_world s) of None \<Rightarrow> s
      | Some cl \<Rightarrow>
          if cl_instance cl = None \<or> c \<notin> of_mapped s then s
          else s\<lparr>of_board := (of_board s)(c := Some (documents_status_label_of (documents_status_input_of c cl s)))\<rparr>)"

text \<open>The dot of the workspace (\<open>web/src/format.ts\<close>).\<close>

datatype client_dot_state = DotRefused | DotDone | DotWindowEnded | DotInProgress

definition client_dot_state_of :: "goal_status \<Rightarrow> bool \<Rightarrow> bool \<Rightarrow> client_dot_state" where
  "client_dot_state_of goal overdue declined =
     (if declined \<and> goal = GPending then DotRefused
      else if goal = GComplete then DotDone
      else if overdue then DotWindowEnded
      else DotInProgress)"

definition is_overdue_stopped :: "id \<Rightarrow> client_row \<Rightarrow> 'q office \<Rightarrow> bool" where
  "is_overdue_stopped c cl s = (cl_goal cl = GPending \<and> c \<in> of_stopped s)"

definition is_declined :: "id \<Rightarrow> client_row \<Rightarrow> 'q office \<Rightarrow> bool" where
  "is_declined c cl s = (cl_goal cl = GPending \<and> c \<in> of_declined s)"

section \<open>Queries\<close>

text \<open>\<open>YYYY-MM-DD\<close>, and the order of such texts.\<close>

definition date_shaped :: "string \<Rightarrow> bool" where
  "date_shaped d = (length d = 10 \<and> list_all (\<lambda>i. if i \<in> {4, 7} then d ! i = CHR ''-''
     else d ! i \<in> set ''0123456789'') [0..<10])"

fun text_less :: "string \<Rightarrow> string \<Rightarrow> bool" where
  "text_less _ [] = False"
| "text_less [] (y # ys) = True"
| "text_less (x # xs) (y # ys) = ((of_char x :: nat) < of_char y \<or> (x = y \<and> text_less xs ys))"

definition is_overdue :: "string \<Rightarrow> string list \<Rightarrow> id set \<Rightarrow> id \<Rightarrow> client_row \<Rightarrow> 'q office \<Rightarrow> bool" where
  "is_overdue today types test c cl s =
     ((case instance_of cl (of_world s) of None \<Rightarrow> False | Some i \<Rightarrow> in_agent_type i \<in> set types)
      \<and> cl_deleted_at cl = None \<and> c \<notin> test
      \<and> cl_goal cl = GPending \<and> \<not> cl_paused cl \<and> cl_user cl \<noteq> None
      \<and> (case cl_due_date cl of None \<Rightarrow> False | Some d \<Rightarrow> date_shaped d \<and> text_less d today)
      \<and> c \<notin> of_notified s)"

text \<open>\<open>ids\<close> is the table in the order the database returns it; \<open>test\<close> the admin's test clients.\<close>

definition list_overdue_for_agent_types :: "id list \<Rightarrow> id set \<Rightarrow> string \<Rightarrow> string list \<Rightarrow> 'q office \<Rightarrow> (id \<times> client_row) list" where
  "list_overdue_for_agent_types ids test today types s =
     List.map_filter (\<lambda>c. case w_clients (of_world s) c of None \<Rightarrow> None
       | Some cl \<Rightarrow> if is_overdue today types test c cl s then Some (c, cl) else None) ids"

definition mark_overdue_stopped :: "id \<Rightarrow> 'q office \<Rightarrow> 'q office option" where
  "mark_overdue_stopped c s =
     (case client_by_id c (of_world s) of None \<Rightarrow> None
      | Some cl \<Rightarrow>
          if cl_goal cl = GPending \<and> \<not> cl_paused cl \<and> c \<notin> of_notified s
          then Some ((on_world (set_paused c True) s)\<lparr>of_notified := insert c (of_notified s), of_stopped := insert c (of_stopped s)\<rparr>)
          else None)"

definition set_due_date :: "id \<Rightarrow> id \<Rightarrow> string option \<Rightarrow> 'q office \<Rightarrow> bool \<times> 'q office" where
  "set_due_date c inst d s =
     (case w_clients (of_world s) c of None \<Rightarrow> (False, s)
      | Some cl \<Rightarrow>
          if cl_instance cl \<noteq> Some inst then (False, s)
          else (True, s\<lparr>of_send := (of_send s)\<lparr>dw_world := update_client c (\<lambda>cl. cl\<lparr>cl_due_date := d\<rparr>) (of_world s),
                                             dw_declined := of_declined s - {c}\<rparr>,
                        of_notified := of_notified s - {c}, of_stopped := of_stopped s - {c},
                        of_log := of_log s @ [(c, DueDateSet)]\<rparr>))"

definition clear_handed_off :: "id \<Rightarrow> 'q office \<Rightarrow> 'q office" where
  "clear_handed_off c s = s\<lparr>of_send := (of_send s)\<lparr>dw_declined := of_declined s - {c}\<rparr>, of_stopped := of_stopped s - {c}\<rparr>"

definition is_handed_off :: "id \<Rightarrow> client_row \<Rightarrow> 'q office \<Rightarrow> bool" where
  "is_handed_off c cl s = (cl_paused cl \<and> (c \<in> of_stopped s \<or> c \<in> of_declined s))"

definition void_attestation :: "id \<Rightarrow> 'q office \<Rightarrow> 'q office" where
  "void_attestation c s = s\<lparr>of_request := (of_request s)(c := None), of_confirmed := (of_confirmed s)(c := None)\<rparr>"

text \<open>\<open>clients.getByIdForInstance\<close> of a write route; \<open>hidden\<close> are the test clients the session may not see.\<close>

definition client_for_instance :: "id \<Rightarrow> id set \<Rightarrow> id \<Rightarrow> 'q world \<Rightarrow> client_row option" where
  "client_for_instance inst hidden c w =
     (case client_by_id c w of None \<Rightarrow> None
      | Some cl \<Rightarrow> if cl_instance cl = Some inst \<and> c \<notin> hidden then Some cl else None)"

section \<open>The overdue scan\<close>

text \<open>\<open>sendOverdueEmail\<close> inside its guarded block; a client without an owner gets no mail.\<close>

definition send_overdue_email :: "'q office_env \<Rightarrow> id \<Rightarrow> utext list \<Rightarrow> 'q office \<Rightarrow> 'q office" where
  "send_overdue_email E c missing s =
     (case w_clients (of_world s) c of None \<Rightarrow> s
      | Some cl \<Rightarrow> if cl_user cl = None \<or> \<not> oe_mails E c then s
                  else s\<lparr>of_log := of_log s @ [(c, OverdueMailed missing)]\<rparr>)"

text \<open>One candidate, with the row as it was listed; the rest runs under the client's lock.\<close>

definition scan_candidate :: "'q office_env \<Rightarrow> id \<times> client_row \<Rightarrow> 'q office \<Rightarrow> 'q office" where
  "scan_candidate E cand s =
     (let (c, listed) = cand in
      if admin_comms_paused listed (of_world s) then s
      else (case mark_overdue_stopped c s of
          None \<Rightarrow> s
        | Some s1 \<Rightarrow>
            (let s2 = on_world (pause_future_email (oe_send E) c) (sync_documents_status c s1)
             in send_overdue_email E c (missing_document_names (documents_of_client c (of_docs s2))) s2)))"

definition run_overdue_scan :: "'q office_env \<Rightarrow> id list \<Rightarrow> id set \<Rightarrow> string \<Rightarrow> 'q office \<Rightarrow> 'q office" where
  "run_overdue_scan E ids test today s =
     (if w_kill_switch (of_world s) then s
      else fold (scan_candidate E) (list_overdue_for_agent_types ids test today [''declaration_of_capital''] s) s)"

section \<open>The routes of the hand-off\<close>

datatype office_error = NoSuchClient | NoSuchDocument | TransitionRefused document_status document_status | RouteFailed string

definition resume_client :: "'q office_env \<Rightarrow> id \<Rightarrow> ms \<Rightarrow> 'q office \<Rightarrow> (string, unit) result \<times> 'q office" where
  "resume_client E c now s =
     (let (r, w) = resume_future_email (oe_send E) c now (of_world s) in (r, on_world (\<lambda>_. w) s))"

text \<open>\<open>PUT /clients/:id/due-date\<close>. An exception of the resume ends the handler.\<close>

definition put_due_date ::
  "'q office_env \<Rightarrow> id \<Rightarrow> id set \<Rightarrow> id \<Rightarrow> string option \<Rightarrow> ms \<Rightarrow> 'q office \<Rightarrow> (office_error, unit) result \<times> 'q office"
where
  "put_due_date E inst hidden c d now s =
     (case client_for_instance inst hidden c (of_world s) of None \<Rightarrow> (Inl NoSuchClient, s)
      | Some cl \<Rightarrow>
          (let was = is_handed_off c cl s; (found, s1) = set_due_date c inst d s in
           if \<not> found then (Inl NoSuchClient, s1)
           else if \<not> was then (Inr (), s1)
           else (case resume_client E c now (on_world (set_paused c False) s1) of
               (Inl err, s2) \<Rightarrow> (Inl (RouteFailed err), s2)
             | (Inr _, s2) \<Rightarrow> (Inr (), sync_documents_status c s2))))"

text \<open>The stored questionnaire settles a checklist no resolution has touched yet.\<close>

definition intake_on_start :: "'q office_env \<Rightarrow> id \<Rightarrow> client_row \<Rightarrow> 'q office \<Rightarrow> 'q office" where
  "intake_on_start E c cl s =
     (case oe_form E c of None \<Rightarrow> s
      | Some form \<Rightarrow>
          (let docs = documents_of_client c (of_docs s) in
           if is_supervised (instance_of cl (of_world s)) \<and> form \<noteq> [] \<and> docs \<noteq> [] \<and> list_all (\<lambda>d. cd_status d = Unresolved) docs
           then s\<lparr>of_docs := snd (apply_form_intake (oe_form_env E c) form (of_docs s))\<rparr> else s))"

text \<open>\<open>PUT /clients/:id/pause\<close>.\<close>

definition put_pause ::
  "'q office_env \<Rightarrow> id \<Rightarrow> id set \<Rightarrow> id \<Rightarrow> bool \<Rightarrow> ms \<Rightarrow> 'q office \<Rightarrow> (office_error, unit) result \<times> 'q office"
where
  "put_pause E inst hidden c b now s =
     (case client_for_instance inst hidden c (of_world s) of None \<Rightarrow> (Inl NoSuchClient, s)
      | Some cl \<Rightarrow>
          (let s1 = on_world (set_paused c b) s in
           if b then (Inr (), on_world (pause_future_email (oe_send E) c) s1)
           else if cl_goal cl \<noteq> GPending then (Inr (), s1)
           else (let s2 = (if c \<in> of_stopped s1 \<or> c \<in> of_declined s1 then sync_documents_status c (clear_handed_off c s1) else s1);
                     starts = (case instance_of cl (of_world s2) of None \<Rightarrow> False
                        | Some i \<Rightarrow> manual_kickoff (in_agent_type i) \<and> list_for_client c (of_world s2) = []);
                     s3 = (if starts then sync_documents_status c (intake_on_start E c cl s2) else s2);
                     (r, s4) = resume_client E c now s3
                 in (case r of Inl err \<Rightarrow> (Inl (RouteFailed err), s4) | Inr _ \<Rightarrow> (Inr (), s4)))))"

section \<open>The accountant's edits of the checklist\<close>

text \<open>The statuses a row may be moved from by hand, per requested status.\<close>

fun MANUAL_TRANSITIONS :: "document_status \<Rightarrow> document_status set" where
  "MANUAL_TRANSITIONS Pending = {Unresolved, NotRequired, Claimed, Collected, Approved, Stated, Retired}"
| "MANUAL_TRANSITIONS Collected = {Pending, Claimed}"
| "MANUAL_TRANSITIONS NotRequired = {Unresolved, Pending, Claimed}"
| "MANUAL_TRANSITIONS Approved = {Collected, Claimed}"
| "MANUAL_TRANSITIONS _ = {}"

definition on_documents_changed :: "'q office_env \<Rightarrow> id \<Rightarrow> ms \<Rightarrow> 'q office \<Rightarrow> (string, unit) result \<times> 'q office" where
  "on_documents_changed E c now s =
     (case client_by_id c (of_world s) of None \<Rightarrow> (Inr (), s)
      | Some cl \<Rightarrow>
          (let settled = all_documents_settled (documents_of_client c (of_docs s));
               touched = (of_confirmed s c \<noteq> None \<or> of_request s c \<noteq> None);
               s1 = (if \<not> settled \<and> touched then void_attestation c s else s);
               all_collected = (settled \<and> of_confirmed s c \<noteq> None)
           in if all_collected \<and> cl_goal cl = GPending
              then (let s2 = sync_documents_status c (on_world (update_goal_status c GComplete) s1);
                        s3 = on_world (remove_future_email (oe_send E) c) s2
                    in (Inr (), on_world (\<lambda>w. snd (send_closing_message (se_fresh (oe_send E) w) (oe_accepted E c) c
                                   (oe_delivery E c w) now w)) s3))
              else if \<not> all_collected \<and> cl_goal cl = GComplete
              then (let s2 = sync_documents_status c (on_world (update_goal_status c GPending) s1);
                        (r, w) = replan (oe_send E) c now (of_world s2)
                    in (r, on_world (\<lambda>_. w) s2))
              else (Inr (), s1)))"

definition after_edit :: "(string, unit) result \<times> 'q office \<Rightarrow> (office_error, unit) result \<times> 'q office" where
  "after_edit p = (case fst p of Inl err \<Rightarrow> Inl (RouteFailed err) | Inr _ \<Rightarrow> Inr (), snd p)"

definition post_document ::
  "'q office_env \<Rightarrow> id \<Rightarrow> id set \<Rightarrow> id \<Rightarrow> id \<Rightarrow> utext \<Rightarrow> utext option \<Rightarrow> ms \<Rightarrow> 'q office \<Rightarrow> (office_error, unit) result \<times> 'q office"
where
  "post_document E inst hidden c new_id name description now s =
     (case client_for_instance inst hidden c (of_world s) of None \<Rightarrow> (Inl NoSuchClient, s)
      | Some cl \<Rightarrow> after_edit (on_documents_changed E c now
          (s\<lparr>of_docs := insert_document new_id c name description None None None (of_docs s)\<rparr>)))"

definition patch_document ::
  "'q office_env \<Rightarrow> id \<Rightarrow> id set \<Rightarrow> id \<Rightarrow> id \<Rightarrow> document_patch \<Rightarrow> ms \<Rightarrow> 'q office \<Rightarrow> (office_error, unit) result \<times> 'q office"
where
  "patch_document E inst hidden c i p now s =
     (case client_for_instance inst hidden c (of_world s) of None \<Rightarrow> (Inl NoSuchDocument, s)
      | Some cl \<Rightarrow>
          (case document_for_client i c (of_docs s) of None \<Rightarrow> (Inl NoSuchDocument, s)
           | Some current \<Rightarrow>
               (case pt_status p of
                  Some requested \<Rightarrow>
                    if requested \<noteq> cd_status current \<and> cd_status current \<notin> MANUAL_TRANSITIONS requested
                    then (Inl (TransitionRefused (cd_status current) requested), s)
                    else after_edit (on_documents_changed E c now
                      (s\<lparr>of_docs := fst (update_document i c
                          (p\<lparr>pt_clear_evidence := requested = Pending \<and> cd_status current = Stated\<rparr>) (of_docs s))\<rparr>))
                | None \<Rightarrow> after_edit (on_documents_changed E c now
                      (s\<lparr>of_docs := fst (update_document i c (p\<lparr>pt_clear_evidence := False\<rparr>) (of_docs s))\<rparr>)))))"

definition delete_document ::
  "'q office_env \<Rightarrow> id \<Rightarrow> id set \<Rightarrow> id \<Rightarrow> id \<Rightarrow> ms \<Rightarrow> 'q office \<Rightarrow> (office_error, unit) result \<times> 'q office"
where
  "delete_document E inst hidden c i now s =
     (case client_for_instance inst hidden c (of_world s) of None \<Rightarrow> (Inl NoSuchDocument, s)
      | Some cl \<Rightarrow>
          (let (t, removed) = remove_document i c (of_docs s) in
           if \<not> removed then (Inl NoSuchDocument, s)
           else after_edit (on_documents_changed E c now (s\<lparr>of_docs := t\<rparr>))))"

end
