(* ===== verification/OfficeProps.thy ===== *)
theory OfficeProps
  imports Office
begin

text \<open>
  The theorems on the accountant's side: over every run the accountant is mailed about a
  passed due date once; a stopped client hears nothing until handed back, and then the very
  draft that was pending; an edit of the checklist keeps the goal and the attestation in step
  with it, within the manual transitions.
\<close>

lemma on_world_frames [simp]:
  "of_world (on_world f s) = f (of_world s)" "of_declined (on_world f s) = of_declined s"
  "dw_emails (of_send (on_world f s)) = dw_emails (of_send s)"
  "of_docs (on_world f s) = of_docs s" "of_request (on_world f s) = of_request s"
  "of_confirmed (on_world f s) = of_confirmed s" "of_notified (on_world f s) = of_notified s"
  "of_stopped (on_world f s) = of_stopped s" "of_mapped (on_world f s) = of_mapped s"
  "of_board (on_world f s) = of_board s" "of_log (on_world f s) = of_log s"
  by (simp_all add: on_world_def)

lemma sync_frames [simp]:
  "of_send (sync_documents_status c s) = of_send s" "of_docs (sync_documents_status c s) = of_docs s"
  "of_request (sync_documents_status c s) = of_request s" "of_confirmed (sync_documents_status c s) = of_confirmed s"
  "of_notified (sync_documents_status c s) = of_notified s" "of_stopped (sync_documents_status c s) = of_stopped s"
  "of_log (sync_documents_status c s) = of_log s"
  by (simp_all add: sync_documents_status_def split: option.split)

lemma mail_frames [simp]:
  "of_send (send_overdue_email E c ms s) = of_send s" "of_docs (send_overdue_email E c ms s) = of_docs s"
  "of_notified (send_overdue_email E c ms s) = of_notified s" "of_stopped (send_overdue_email E c ms s) = of_stopped s"
  by (simp_all add: send_overdue_email_def split: option.split)

lemma small_frames [simp]:
  "of_world (void_attestation c s) = of_world s" "of_docs (void_attestation c s) = of_docs s"
  "of_notified (void_attestation c s) = of_notified s" "of_log (void_attestation c s) = of_log s"
  "of_world (clear_handed_off c s) = of_world s"
  "of_notified (clear_handed_off c s) = of_notified s" "of_log (clear_handed_off c s) = of_log s"
  "of_world (intake_on_start E c cl s) = of_world s"
  "of_notified (intake_on_start E c cl s) = of_notified s" "of_log (intake_on_start E c cl s) = of_log s"
  by (simp_all add: void_attestation_def clear_handed_off_def intake_on_start_def Let_def split: option.split)

lemma resume_client_frames [simp]:
  "of_notified (snd (resume_client E c now s)) = of_notified s" "of_log (snd (resume_client E c now s)) = of_log s"
  "of_docs (snd (resume_client E c now s)) = of_docs s"
  by (simp_all add: resume_client_def split: prod.split)

section \<open>One dot\<close>

text \<open>The board's label is the workspace's dot, for every stored state.\<close>

fun label_of_dot :: "client_dot_state \<Rightarrow> documents_label" where
  "label_of_dot DotRefused = AgentRefused"
| "label_of_dot DotDone = SuccessfullyDone"
| "label_of_dot DotWindowEnded = PartlyEnded"
| "label_of_dot DotInProgress = InTreatment"

lemma board_label_is_dot:
  "documents_status_label_of (documents_status_input_of c cl s)
   = label_of_dot (client_dot_state_of (cl_goal cl) (is_overdue_stopped c cl s) (is_declined c cl s))"
  by (cases "cl_goal cl") (simp_all add: documents_status_label_of_def documents_status_input_of_def client_dot_state_of_def
      is_overdue_stopped_def is_declined_def)

section \<open>Runs\<close>

text \<open>
  Everything that may happen around a client: the send machinery (\<open>send_step\<close>), the work of
  the planner on the checklist and the attestation, a decline, the scan as a whole or one
  candidate of a scan that listed its rows some time ago, and the accountant's routes.
\<close>

inductive office_step :: "'q office_env \<Rightarrow> 'q office \<Rightarrow> 'q office \<Rightarrow> bool" for E where
  Sending: "send_step (oe_send E) (of_world s) w \<Longrightarrow> office_step E s (on_world (\<lambda>_. w) s)"
| Planning: "office_step E s (s\<lparr>of_docs := t, of_request := q, of_confirmed := k\<rparr>)"
| Decline: "office_step E s (s\<lparr>of_send := snd (handle_client_decline (oe_send E) inp c now (of_send s))\<rparr>)"
| Candidate: "office_step E s (scan_candidate E cand s)"
| Scan: "office_step E s (run_overdue_scan E ids test today s)"
| DueDate: "office_step E s (snd (put_due_date E inst hidden c d now s))"
| PauseSwitch: "office_step E s (snd (put_pause E inst hidden c b now s))"
| AddDocument: "office_step E s (snd (post_document E inst hidden c i name descr now s))"
| EditDocument: "office_step E s (snd (patch_document E inst hidden c i p now s))"
| RemoveDocument: "office_step E s (snd (delete_document E inst hidden c i now s))"

definition office_run :: "'q office_env \<Rightarrow> 'q office \<Rightarrow> 'q office \<Rightarrow> bool" where
  "office_run E = (office_step E)\<^sup>*\<^sup>*"

section \<open>One mail per due date\<close>

definition mails_apart :: "id \<Rightarrow> (id \<times> office_event) list \<Rightarrow> bool" where
  "mails_apart c es = (\<forall>xs a ys b zs. es = xs @ (c, OverdueMailed a) # ys @ (c, OverdueMailed b) # zs
     \<longrightarrow> (c, DueDateSet) \<in> set ys)"

text \<open>The last mail is still covered by the marker, unless the date was changed after it.\<close>

definition mail_inv :: "id \<Rightarrow> 'q office \<Rightarrow> bool" where
  "mail_inv c s = (mails_apart c (of_log s) \<and>
     (\<forall>xs a ys. of_log s = xs @ (c, OverdueMailed a) # ys \<longrightarrow> (c, DueDateSet) \<in> set ys \<or> c \<in> of_notified s))"

lemma mail_inv_frame:
  "mail_inv c s \<Longrightarrow> of_log s' = of_log s \<Longrightarrow> of_notified s \<subseteq> of_notified s' \<Longrightarrow> mail_inv c s'"
  unfolding mail_inv_def by (metis subsetD)

lemma mails_apart_snoc:
  assumes "mails_apart c es"
    and "\<And>b xs a ys. e = (c, OverdueMailed b) \<Longrightarrow> es = xs @ (c, OverdueMailed a) # ys \<Longrightarrow> (c, DueDateSet) \<in> set ys"
  shows "mails_apart c (es @ [e])"
  unfolding mails_apart_def
proof (intro allI impI)
  fix xs a ys b zs
  assume eq: "es @ [e] = xs @ (c, OverdueMailed a) # ys @ (c, OverdueMailed b) # zs"
  show "(c, DueDateSet) \<in> set ys"
  proof (cases zs rule: rev_cases)
    case Nil
    then have "es @ [e] = (xs @ (c, OverdueMailed a) # ys) @ [(c, OverdueMailed b)]" using eq by simp
    then show ?thesis using assms(2) by simp
  next
    case (snoc zs' z)
    then have "es @ [e] = (xs @ (c, OverdueMailed a) # ys @ (c, OverdueMailed b) # zs') @ [z]" using eq by simp
    then have "es = xs @ (c, OverdueMailed a) # ys @ (c, OverdueMailed b) # zs'" by (simp only: append1_eq_conv)
    then show ?thesis using assms(1) unfolding mails_apart_def by blast
  qed
qed

lemma mail_inv_event:
  assumes "mail_inv c s" and "of_log s' = of_log s @ [e]"
    and "\<And>b. e = (c, OverdueMailed b) \<Longrightarrow> c \<notin> of_notified s \<and> c \<in> of_notified s'"
    and "e = (c, DueDateSet) \<or> (c \<in> of_notified s \<longrightarrow> c \<in> of_notified s')"
  shows "mail_inv c s'"
proof -
  have old: "(c, DueDateSet) \<in> set ys \<or> c \<in> of_notified s" if "of_log s = xs @ (c, OverdueMailed a) # ys" for xs a ys
    using assms(1) that by (simp add: mail_inv_def)
  have "mails_apart c (of_log s')"
    unfolding assms(2)
  proof (rule mails_apart_snoc)
    show "mails_apart c (of_log s)" using assms(1) by (simp add: mail_inv_def)
  qed (use old assms(3) in blast)
  moreover have "(c, DueDateSet) \<in> set ys \<or> c \<in> of_notified s'" if eq: "of_log s' = xs @ (c, OverdueMailed a) # ys" for xs a ys
  proof (cases ys rule: rev_cases)
    case Nil
    then show ?thesis using eq assms(2,3) by simp
  next
    case (snoc ys' y)
    then have "of_log s @ [e] = (xs @ (c, OverdueMailed a) # ys') @ [y]" using eq assms(2) by simp
    then have y: "y = e" and "of_log s = xs @ (c, OverdueMailed a) # ys'" by simp_all
    then have "(c, DueDateSet) \<in> set ys' \<or> c \<in> of_notified s" using old by blast
    then show ?thesis using assms(4) y snoc by auto
  qed
  ultimately show ?thesis by (simp add: mail_inv_def)
qed

lemma mail_inv_candidate:
  assumes "mail_inv c s"
  shows "mail_inv c (scan_candidate E cand s)"
proof (cases "scan_candidate E cand s = s")
  case False
  obtain d cl where cand: "cand = (d, cl)" by (cases cand)
  with False obtain s1 where m: "mark_overdue_stopped d s = Some s1"
    by (cases "mark_overdue_stopped d s") (auto simp: scan_candidate_def split: if_splits)
  have m1: "d \<notin> of_notified s" "of_notified s1 = insert d (of_notified s)" "of_log s1 = of_log s"
    using m by (auto simp: mark_overdue_stopped_def split: option.splits if_splits)
  define s2 where "s2 = on_world (pause_future_email (oe_send E) d) (sync_documents_status d s1)"
  have s2: "of_log s2 = of_log s" "of_notified s2 = insert d (of_notified s)" by (simp_all add: s2_def m1)
  have eq: "scan_candidate E cand s = send_overdue_email E d (missing_document_names (documents_of_client d (of_docs s2))) s2"
    using False m by (auto simp: scan_candidate_def cand s2_def Let_def split: if_splits)
  show ?thesis
  proof (cases "send_overdue_email E d (missing_document_names (documents_of_client d (of_docs s2))) s2 = s2")
    case True
    then show ?thesis unfolding eq by (intro mail_inv_frame [OF assms]) (auto simp: s2)
  next
    case sent: False
    then show ?thesis unfolding eq
      by (intro mail_inv_event [OF assms, where e = "(d, OverdueMailed (missing_document_names (documents_of_client d (of_docs s2))))"])
        (use m1(1) in \<open>auto simp: send_overdue_email_def s2 split: option.splits if_splits\<close>)
  qed
qed (use assms in simp)

lemma mail_inv_scan:
  assumes "mail_inv c s"
  shows "mail_inv c (run_overdue_scan E ids test today s)"
proof -
  have "mail_inv c s \<Longrightarrow> mail_inv c (fold (scan_candidate E) cs s)" for cs s
    by (induction cs arbitrary: s) (simp_all add: mail_inv_candidate)
  then show ?thesis using assms by (simp add: run_overdue_scan_def)
qed

lemma set_due_date_cases:
  obtains (refused) "set_due_date c inst d s = (False, s)"
  | (written) s1 where "set_due_date c inst d s = (True, s1)" "of_log s1 = of_log s @ [(c, DueDateSet)]"
      "of_notified s1 = of_notified s - {c}"
proof (cases "fst (set_due_date c inst d s)")
  case True
  then show thesis by (intro written) (auto simp: set_due_date_def split: option.splits if_splits)
next
  case False
  then show thesis by (intro refused) (auto simp: set_due_date_def split: option.splits if_splits)
qed

lemma mail_inv_put_due_date:
  assumes "mail_inv c s"
  shows "mail_inv c (snd (put_due_date E inst hidden c' d now s))"
proof (cases rule: set_due_date_cases [of c' inst d s])
  case refused
  then show ?thesis using assms by (simp add: put_due_date_def Let_def split: option.split)
next
  case (written s1)
  have "mail_inv c s1"
    by (rule mail_inv_event [OF assms written(2)]) (use written(3) in auto)
  moreover have "of_log s2 = of_log s1 \<and> of_notified s2 = of_notified s1" if "resume_client E c' now (on_world f s1) = (r, s2)" for f r s2
    using that resume_client_frames(1,2) [of E c' now "on_world f s1"] by simp
  ultimately show ?thesis
    using written(1) assms
    by (auto simp: put_due_date_def Let_def intro: mail_inv_frame [where s = s1] split: option.split prod.split sum.split)
qed

lemma edit_frames [simp]:
  "of_log (snd (on_documents_changed E c now s)) = of_log s"
  "of_notified (snd (on_documents_changed E c now s)) = of_notified s"
  by (simp_all add: on_documents_changed_def Let_def split: option.split prod.split)

lemma snd_after_edit [simp]: "snd (after_edit p) = snd p"
  by (simp add: after_edit_def)

lemma put_pause_frames [simp]:
  "of_log (snd (put_pause E inst hidden c b now s)) = of_log s"
  "of_notified (snd (put_pause E inst hidden c b now s)) = of_notified s"
proof -
  have r: "of_log s2 = of_log t \<and> of_notified s2 = of_notified t" if "resume_client E c now t = (r, s2)" for t r s2
    using that resume_client_frames(1,2) [of E c now t] by simp
  show "of_log (snd (put_pause E inst hidden c b now s)) = of_log s"
    and "of_notified (snd (put_pause E inst hidden c b now s)) = of_notified s"
    by (auto simp: put_pause_def Let_def split: option.split prod.split sum.split dest!: r)
qed

lemma route_frames [simp]:
  "of_log (snd (post_document E inst hidden c i n d now s)) = of_log s"
  "of_notified (snd (post_document E inst hidden c i n d now s)) = of_notified s"
  "of_log (snd (patch_document E inst hidden c i p now s)) = of_log s"
  "of_notified (snd (patch_document E inst hidden c i p now s)) = of_notified s"
  "of_log (snd (delete_document E inst hidden c i now s)) = of_log s"
  "of_notified (snd (delete_document E inst hidden c i now s)) = of_notified s"
  by (simp_all add: post_document_def patch_document_def delete_document_def Let_def split: option.split prod.split)

lemma mail_inv_step:
  assumes "office_step E s s'" and "mail_inv c s"
  shows "mail_inv c s'"
  using assms(1)
proof cases
  case DueDate
  then show ?thesis using mail_inv_put_due_date [OF assms(2)] by simp
next
  case Candidate
  then show ?thesis using mail_inv_candidate [OF assms(2)] by simp
next
  case Scan
  then show ?thesis using mail_inv_scan [OF assms(2)] by simp
qed (auto intro: mail_inv_frame [OF assms(2)])

text \<open>C22: The accountant is mailed once per due date: in every run, between two overdue mails about one client that client's due date was changed, however the scans, restarts, resumes, declines and edits interleave.\<close>

theorem overdue_mailed_once_per_date:
  assumes "office_run E s s'" and "of_log s = []"
    and "of_log s' = xs @ (c, OverdueMailed a) # ys @ (c, OverdueMailed b) # zs"
  shows "(c, DueDateSet) \<in> set ys"
proof -
  have start: "mail_inv c s" using assms(2) by (simp add: mail_inv_def mails_apart_def)
  have "mail_inv c s'"
    using assms(1) unfolding office_run_def by (induction rule: rtranclp_induct) (auto intro: start mail_inv_step)
  then have "mails_apart c (of_log s')" by (simp add: mail_inv_def)
  then show ?thesis using assms(3) unfolding mails_apart_def by blast
qed

section \<open>A concrete office\<close>

definition office_env_demo :: "job_table office_env" where
  "office_env_demo = \<lparr>oe_send = demo_env, oe_mails = (\<lambda>_. True), oe_delivery = (\<lambda>_ _. Inl WindowClosed), oe_accepted = (\<lambda>_. True),
     oe_form = (\<lambda>_. None), oe_form_env = (\<lambda>c. \<lparr>fx_client = c, fx_screen = (\<lambda>_. Inr False), fx_map = (\<lambda>_ _. None),
       fx_uuid = (\<lambda>i _. i)\<rparr>)\<rparr>"

definition office_client :: client_row where
  "office_client = demo_client\<lparr>cl_user := Some ''u'', cl_due_date := Some ''2026-01-10''\<rparr>"

definition office_row :: client_document where
  "office_row = sample_row ''r'' Pending"

definition office_demo :: "job_table office" where
  "office_demo = \<lparr>of_send = \<lparr>dw_world = (demo_world False EDraft None)\<lparr>w_clients := [''c'' \<mapsto> office_client],
       w_emails := [demo_draft EDraft None, (demo_draft EReceived None)\<lparr>em_id := ''in''\<rparr>]\<rparr>, dw_declined = {}, dw_emails = []\<rparr>,
     of_docs = [office_row], of_request = (\<lambda>_. None), of_confirmed = (\<lambda>_. None), of_notified = {}, of_stopped = {},
     of_mapped = {''c''}, of_board = (\<lambda>_. None), of_log = []\<rparr>"

lemmas office_demo_defs = office_demo_def office_env_demo_def office_client_def office_row_def

definition stopped_demo :: "job_table office" where
  "stopped_demo = scan_candidate office_env_demo (''c'', office_client) office_demo"

lemma listed_demo:
  "list_overdue_for_agent_types [''c''] {} ''2026-01-11'' [''declaration_of_capital''] office_demo = [(''c'', office_client)]"
  by (simp add: list_overdue_for_agent_types_def is_overdue_def office_demo_defs demo_defs instance_of_def date_shaped_def
      List.map_filter_simps upt_rec)

lemma stopped_demo_eq: "run_overdue_scan office_env_demo [''c''] {} ''2026-01-11'' office_demo = stopped_demo"
  using listed_demo by (simp add: run_overdue_scan_def stopped_demo_def) (simp add: office_demo_def demo_world_def)

section \<open>What a plan leaves alone\<close>

definition standing :: "id \<Rightarrow> 'q world \<Rightarrow> (id option \<times> bool \<times> ms option \<times> string option) option" where
  "standing c w = map_option (\<lambda>cl. (cl_instance cl, cl_paused cl, cl_deleted_at cl, cl_due_date cl)) (w_clients w c)"

definition goal_of :: "id \<Rightarrow> 'q world \<Rightarrow> goal_status option" where
  "goal_of c w = map_option cl_goal (w_clients w c)"

lemma standing_writes [simp]:
  "standing c (mark_drafting_started d n w) = standing c w" "goal_of c (mark_drafting_started d n w) = goal_of c w"
  "standing c (mark_drafting_failed d n w) = standing c w" "goal_of c (mark_drafting_failed d n w) = goal_of c w"
  "standing c (clear_drafting_state d w) = standing c w" "goal_of c (clear_drafting_state d w) = goal_of c w"
  "standing c (update_goal_status d g w) = standing c w"
  by (auto simp: standing_def goal_of_def mark_drafting_started_def mark_drafting_failed_def clear_drafting_state_def
      update_goal_status_def update_client_def map_option.compositionality comp_def)

lemma standing_cong: "w_clients w' = w_clients w \<Longrightarrow> standing c w' = standing c w \<and> goal_of c w' = goal_of c w"
  by (simp add: standing_def goal_of_def)

lemma schedule_clients [simp]: "w_clients (snd (schedule_draft_message E c ch b sid dl h now w)) = w_clients w"
  by (simp add: schedule_draft_message_def insert_draft_def mark_review_pending_def Let_def split: prod.split option.split)

lemma remove_clients [simp]: "w_clients (remove_future_email E c w) = w_clients w"
  by (simp add: remove_future_email_def supersede_pending_review_def Let_def split: option.split)

lemma standing_record [simp]:
  "standing c (record_audit a t w) = standing c w" "goal_of c (record_audit a t w) = goal_of c w"
  by (simp_all add: standing_def goal_of_def)

lemma run_plan_standing:
  "standing d (snd (run_plan E c cl h now w)) = standing d w"
  "(\<And>hold v. se_plan E c hold v \<noteq> Inr PlanComplete) \<Longrightarrow> goal_of d (snd (run_plan E c cl h now w)) = goal_of d w"
proof -
  have sched: "standing d w2 = standing d w \<and> goal_of d w2 = goal_of d w"
    if "schedule_draft_message E c ch b sid dl h now w = (q, w2)" for ch b sid dl q w2
    using standing_cong [OF schedule_clients [of E c ch b sid dl h now w], of d] that by simp
  show "standing d (snd (run_plan E c cl h now w)) = standing d w"
    by (auto simp: run_plan_def dest!: sched split: option.split sum.split plan_outcome.split prod.split)
  show "(\<And>hold v. se_plan E c hold v \<noteq> Inr PlanComplete) \<Longrightarrow> goal_of d (snd (run_plan E c cl h now w)) = goal_of d w"
    by (auto simp: run_plan_def dest!: sched split: option.split sum.split plan_outcome.split prod.split)
qed

lemma drafting_outcome:
  assumes "\<And>v. f (mark_drafting_failed c now v) = f v" and "\<And>v. f (clear_drafting_state c v) = f v"
  shows "f (snd (case p of (Inl err, w1) \<Rightarrow> (Inl err, mark_drafting_failed c now w1) | (Inr _, w1) \<Rightarrow> (Inr (), clear_drafting_state c w1)))
    = f (snd p)"
  by (auto simp: assms split: prod.split sum.split)

lemma set_future_email_standing: "standing d (snd (set_future_email E c now w)) = standing d w"
proof -
  have "standing d (snd (case run_plan E c cl h now (mark_drafting_started c now w) of
      (Inl err, w1) \<Rightarrow> (Inl err, mark_drafting_failed c now w1) | (Inr _, w1) \<Rightarrow> (Inr (), clear_drafting_state c w1))) = standing d w" for cl h
    by (subst drafting_outcome) (simp_all add: run_plan_standing(1))
  then show ?thesis by (simp add: set_future_email_def split: option.split)
qed

lemma set_future_email_goal:
  assumes "\<And>hold v. se_plan E c hold v \<noteq> Inr PlanComplete"
  shows "goal_of d (snd (set_future_email E c now w)) = goal_of d w"
proof -
  have "goal_of d (snd (case run_plan E c cl h now (mark_drafting_started c now w) of
      (Inl err, w1) \<Rightarrow> (Inl err, mark_drafting_failed c now w1) | (Inr _, w1) \<Rightarrow> (Inr (), clear_drafting_state c w1))) = goal_of d w" for cl h
    by (subst drafting_outcome) (simp_all add: run_plan_standing(2) [OF assms])
  then show ?thesis by (simp add: set_future_email_def split: option.split)
qed

lemma replan_standing: "standing d (snd (replan E c now w)) = standing d w"
  using standing_cong [OF remove_clients, of d E c w] by (simp add: replan_def set_future_email_standing)

lemma replan_goal:
  assumes "\<And>hold v. se_plan E c hold v \<noteq> Inr PlanComplete"
  shows "goal_of d (snd (replan E c now w)) = goal_of d w"
  using standing_cong [OF remove_clients, of d E c w] by (simp add: replan_def set_future_email_goal [OF assms])

lemma resume_standing: "standing d (snd (resume_future_email E c now w)) = standing d w"
proof -
  have now: "standing d (snd (enqueue_preserved_send_now E c j now w)) = standing d w" for j
    by (simp add: enqueue_preserved_send_now_def standing_def split: option.split)
  have queue: "standing d (w\<lparr>w_queue := q\<rparr>) = standing d w" for q by (simp add: standing_def)
  show ?thesis
    by (auto simp: resume_future_email_def Let_def replan_standing now queue split: option.split resume_action.split)
qed

lemma closing_clients [simp]:
  "w_clients (snd (send_closing_message e ok c d now w)) = w_clients w"
  "job_for_client k (snd (send_closing_message e ok c d now w)) = job_for_client k w"
  by (auto simp: send_closing_message_def send_text_and_record_def insert_draft_def mark_sent_def log_sent_def
      job_for_client_def update_emails_def record_audit_def Let_def split: sum.split prod.split option.split)

lemma pause_frames [simp]:
  "w_clients (pause_future_email E c w) = w_clients w" "w_emails (pause_future_email E c w) = w_emails w"
  "w_jobs (pause_future_email E c w) = w_jobs w" "w_instances (pause_future_email E c w) = w_instances w"
  by (simp_all add: pause_future_email_def split: option.split)

section \<open>A stopped client\<close>

lemma paused_client:
  "client_by_id c w = Some cl \<Longrightarrow> client_by_id c (set_paused c b w) = Some (cl\<lparr>cl_paused := b\<rparr>)"
  by (auto simp: set_paused_def update_client_def client_by_id_def split: option.splits if_splits)

lemma client_by_id_cong: "w_clients w' = w_clients w \<Longrightarrow> client_by_id c w' = client_by_id c w"
  by (simp add: client_by_id_def)

lemma candidate_claimed:
  assumes "mark_overdue_stopped c s = Some s1" and "\<not> admin_comms_paused listed (of_world s)"
  shows "scan_candidate E (c, listed) s = send_overdue_email E c (missing_document_names (documents_of_client c (of_docs s1)))
      (on_world (pause_future_email (oe_send E) c) (sync_documents_status c s1))"
  using assms by (simp add: scan_candidate_def Let_def)

lemma marked_state:
  assumes "mark_overdue_stopped c s = Some s1"
  obtains cl where "client_by_id c (of_world s) = Some cl" and "cl_goal cl = GPending" and "\<not> cl_paused cl" and "c \<notin> of_notified s"
    and "of_world s1 = set_paused c True (of_world s)" and "of_stopped s1 = insert c (of_stopped s)"
    and "of_notified s1 = insert c (of_notified s)" and "of_docs s1 = of_docs s" and "of_log s1 = of_log s"
    and "of_declined s1 = of_declined s" and "of_mapped s1 = of_mapped s"
  using assms by (auto simp: mark_overdue_stopped_def split: option.splits if_splits)

lemma paused_is_silent:
  assumes "client_by_id c w = Some cl" and "cl_paused cl"
    and "m \<in> set (w_emails w)" and "em_client m = c" and "em_status m \<in> {ESent, EReceived}"
  shows "set_future_email E c later w = (Inr (), w)" and "on_scheduled_send E (c, e) later w = (Inr (), w)"
proof -
  have "m \<in> set (list_for_client c w)" using assms(3-5) by (auto simp: list_for_client_def)
  then have "\<not> is_held_first_message_client c cl w"
    by (auto simp: is_held_first_message_client_def holds_first_message_def split: option.splits)
  then show "set_future_email E c later w = (Inr (), w)" using assms(1,2) by (simp add: set_future_email_def)
  show "on_scheduled_send E (c, e) later w = (Inr (), w)" using assms(1,2) by (simp add: on_scheduled_send_def send_blocked_def)
qed

text \<open>C23: A client stopped because the due date passed is handed over whole: paused and marked, the pending draft and its row kept, the accountant mailed exactly the documents still missing, no plan and no due job sends anything while the client stays paused, and a second scan does nothing.\<close>

theorem overdue_stop_hands_over:
  assumes "mark_overdue_stopped c s = Some s1" and "\<not> admin_comms_paused listed (of_world s)"
    and "client_by_id c (of_world s) = Some cl"
    and "m \<in> set (w_emails (of_world s))" and "em_client m = c" and "em_status m \<in> {ESent, EReceived}"
  shows "let s' = scan_candidate E (c, listed) s in
     (\<exists>cl'. client_by_id c (of_world s') = Some cl' \<and> is_handed_off c cl' s')
     \<and> job_for_client c (of_world s') = job_for_client c (of_world s) \<and> w_emails (of_world s') = w_emails (of_world s)
     \<and> of_log s' = of_log s @ (if cl_user cl \<noteq> None \<and> oe_mails E c
          then [(c, OverdueMailed (missing_document_names (documents_of_client c (of_docs s))))] else [])
     \<and> set_future_email (oe_send E) c later (of_world s') = (Inr (), of_world s')
     \<and> on_scheduled_send (oe_send E) (c, e) later (of_world s') = (Inr (), of_world s')
     \<and> scan_candidate E (c, listed') s' = s'"
proof -
  define s' where "s' = scan_candidate E (c, listed) s"
  note mk = marked_state [OF assms(1)]
  have s1: "of_world s1 = set_paused c True (of_world s)" "of_stopped s1 = insert c (of_stopped s)"
    "of_notified s1 = insert c (of_notified s)" "of_docs s1 = of_docs s" "of_log s1 = of_log s"
    by (rule mk, simp)+
  have w: "w_clients (of_world s') = w_clients (set_paused c True (of_world s))" "w_emails (of_world s') = w_emails (of_world s)"
    "w_jobs (of_world s') = w_jobs (of_world s)" "of_stopped s' = insert c (of_stopped s)" "of_notified s' = insert c (of_notified s)"
    by (simp_all add: s'_def candidate_claimed [OF assms(1,2)] s1 set_paused_def)
  have cl: "client_by_id c (of_world s') = Some (cl\<lparr>cl_paused := True\<rparr>)"
    using client_by_id_cong [OF w(1)] paused_client [OF assms(3)] by simp
  have "w_clients (of_world s) c = Some cl" using assms(3) by (auto simp: client_by_id_def split: option.splits if_splits)
  then have log: "of_log s' = of_log s @ (if cl_user cl \<noteq> None \<and> oe_mails E c
      then [(c, OverdueMailed (missing_document_names (documents_of_client c (of_docs s))))] else [])"
    by (simp add: s'_def candidate_claimed [OF assms(1,2)] send_overdue_email_def s1 set_paused_def update_client_def)
  have again: "scan_candidate E (c, listed') s' = s'"
    by (simp add: scan_candidate_def mark_overdue_stopped_def cl)
  have off: "is_handed_off c (cl\<lparr>cl_paused := True\<rparr>) s'" by (simp add: is_handed_off_def w)
  show ?thesis
    using cl off again log w(2,3) paused_is_silent [OF cl _ _ assms(5,6)] assms(4)
    by (simp add: s'_def [symmetric] Let_def job_for_client_def)
qed

text \<open>Handing the client back before the planned time queues the very draft that was pending.\<close>

lemma pause_commutes:
  "set_paused c b (pause_future_email E c w) = pause_future_email E c (set_paused c b w)"
  by (simp add: pause_future_email_def set_paused_def update_client_def job_for_client_def split: option.split)

theorem handed_back_sends_same_draft:
  assumes "send_queue_laws Q view" and "se_queue (oe_send E) = Q"
    and "mark_overdue_stopped c s = Some s1" and "\<not> admin_comms_paused listed (of_world s)"
    and "job_for_client c (of_world s) = Some r" and "sj_job_id r = send_job_id c e" and "plain_id c" and "plain_id e"
    and "\<not> is_draft_held (sj_job_id r) (of_world s)"
    and "view (sj_job_id r) (w_queue (of_world s)) = Some (st, (c, e), t)" and "st \<in> CANCELABLE" and "now < sj_scheduled_for r"
    and "client_for_instance inst hidden c (of_world s) = Some cl"
    and "list_for_client c (of_world s) \<noteq> []"
  shows "let s' = snd (put_pause E inst hidden c False now (scan_candidate E (c, listed) s))
    in view (sj_job_id r) (w_queue (of_world s')) = Some (''delayed'', (c, e), sj_scheduled_for r)
     \<and> w_emails (of_world s') = w_emails (of_world s) \<and> w_jobs (of_world s') = w_jobs (of_world s)
     \<and> c \<notin> of_stopped s' \<and> c \<notin> of_declined s' \<and> c \<in> of_notified s'"
proof -
  define t1 where "t1 = scan_candidate E (c, listed) s"
  define w0 where "w0 = set_paused c False (set_paused c True (of_world s))"
  have s1: "of_world s1 = set_paused c True (of_world s)" "of_stopped s1 = insert c (of_stopped s)"
    "of_notified s1 = insert c (of_notified s)"
    by (rule marked_state [OF assms(3)], simp)+
  have t1: "of_world t1 = pause_future_email (oe_send E) c (set_paused c True (of_world s))"
    "of_stopped t1 = insert c (of_stopped s)" "of_notified t1 = insert c (of_notified s)"
    by (simp_all add: t1_def candidate_claimed [OF assms(3,4)] s1)
  have cl: "client_by_id c (of_world s) = Some cl" "cl_goal cl = GPending"
    using assms(13) by (auto simp: client_for_instance_def split: option.splits if_splits)
      (rule marked_state [OF assms(3)], auto simp: client_for_instance_def)
  have by_id: "client_by_id c (of_world t1) = Some (cl\<lparr>cl_paused := True\<rparr>)"
    using client_by_id_cong [of "of_world t1" "set_paused c True (of_world s)"] paused_client [OF cl(1)] by (simp add: t1)
  have vis: "client_for_instance inst hidden c (of_world t1) = Some (cl\<lparr>cl_paused := True\<rparr>)"
    using assms(13) by (simp add: client_for_instance_def by_id split: option.splits if_splits)
  have w: "set_paused c False (of_world t1) = pause_future_email (oe_send E) c w0"
    by (simp add: t1 w0_def pause_commutes)
  have frames: "job_for_client c w0 = job_for_client c (of_world s)" "w_queue w0 = w_queue (of_world s)"
    "w_emails w0 = w_emails (of_world s)" "w_jobs w0 = w_jobs (of_world s)"
    "is_draft_held j w0 = is_draft_held j (of_world s)" for j
    by (simp_all add: w0_def set_paused_def is_draft_held_def draft_of_job_def split: option.split)
  have mails: "list_for_client c (set_paused c False (of_world t1)) \<noteq> []"
    using assms(14) by (simp add: w list_for_client_def frames)
  define s2 where "s2 = sync_documents_status c (clear_handed_off c (on_world (set_paused c False) t1))"
  have s2: "of_world s2 = pause_future_email (oe_send E) c w0" "c \<notin> of_stopped s2" "c \<notin> of_declined s2" "of_notified s2 = of_notified t1"
    by (simp_all add: s2_def w clear_handed_off_def)
  have out: "snd (put_pause E inst hidden c False now t1) = snd (resume_client E c now s2)"
    using mails cl(2) by (simp add: put_pause_def vis Let_def t1(2) s2_def [symmetric] s2(1) w [symmetric]
        split: option.split prod.split sum.split)
  have "let w' = snd (resume_future_email (oe_send E) c now (pause_future_email (oe_send E) c w0))
    in view (sj_job_id r) (w_queue w') = Some (''delayed'', (c, e), sj_scheduled_for r)
     \<and> w_emails w' = w_emails w0 \<and> w_jobs w' = w_jobs w0 \<and> w_clients w' = w_clients w0
     \<and> (\<forall>k. k \<noteq> sj_job_id r \<longrightarrow> view k (w_queue w') = view k (w_queue w0))"
    by (rule send_queue_laws.pause_then_resume [OF assms(1,2)]) (use assms(5-12) in \<open>simp_all add: frames\<close>)
  then show ?thesis
    unfolding t1_def [symmetric]
    by (auto simp: Let_def out resume_client_def s2 frames t1(3) split: prod.split)
qed

section \<open>The accountant's edits\<close>


text \<open>C25: By hand a row becomes approved only from collected or claimed, collected only from pending or claimed, not required only from an open state, and otherwise only pending again: a patch changes no other row, keeps the row's type, paper and stored verdict, and drops the evidence only of a stated row returned to pending.\<close>

theorem manual_patch_bounded:
  assumes "distinct (map cd_id (of_docs s))"
  shows "list_all2 (\<lambda>r r'. r' = r \<or> (is_row i c r \<and> same_row r r' \<and> cd_paper_key r' = cd_paper_key r
       \<and> cd_verification r' = cd_verification r
       \<and> (cd_status r' = cd_status r \<or> cd_status r' = Pending \<or> cd_status r' = Collected \<and> cd_status r \<in> {Pending, Claimed}
            \<or> cd_status r' = NotRequired \<and> cd_status r \<in> {Unresolved, Pending, Claimed}
            \<or> cd_status r' = Approved \<and> cd_status r \<in> {Collected, Claimed})
       \<and> (cd_evidence r' = cd_evidence r \<or> cd_status r = Stated \<and> cd_status r' = Pending \<and> cd_evidence r' = None)))
     (of_docs s) (of_docs (snd (patch_document E inst hidden c i p now s)))"
proof -
  have keeps: "of_docs (snd (on_documents_changed E c now t)) = of_docs t" for t
    by (simp add: on_documents_changed_def Let_def split: option.split prod.split)
  have same: "r = current" if "document_for_client i c (of_docs s) = Some current" "r \<in> set (of_docs s)" "is_row i c r" for r current
  proof -
    have "current \<in> set (of_docs s)" "is_row i c current"
      using that(1) by (auto simp: document_for_client_def find_Some_iff)
    then show ?thesis using that(2,3) assms by (auto simp: is_row_def dest: inj_onD [OF distinct_map [THEN iffD1, THEN conjunct2]])
  qed
  have moves: "x \<in> MANUAL_TRANSITIONS y \<longleftrightarrow> x \<noteq> y \<and> (y = Pending \<or> y = Collected \<and> x \<in> {Pending, Claimed}
      \<or> y = NotRequired \<and> x \<in> {Unresolved, Pending, Claimed} \<or> y = Approved \<and> x \<in> {Collected, Claimed})" for x y
    by (cases y; cases x) auto
  show ?thesis
    by (auto simp: patch_document_def moves keeps update_document_def update_where_def list.rel_map apply_patch_def same_row_def
        split: option.split dest!: same intro!: list.rel_refl_strong)
qed

section \<open>Where the scan and the board go wrong\<close>

text \<open>C40: The claim of the overdue scan does not look at the due date again: a client listed as overdue whose accountant then moves the date is still stopped and the accountant mailed, with the new date already marked as notified.\<close>

theorem extended_date_still_stopped:
  assumes "(c, cl) \<in> set (list_overdue_for_agent_types ids test today types s)" and "\<not> admin_comms_paused cl (of_world s)"
    and "cl_instance cl = Some inst" and "c \<notin> hidden"
  shows "let s1 = snd (put_due_date E inst hidden c (Some later) now s); s2 = scan_candidate E (c, cl) s1
    in (\<exists>cl'. client_by_id c (of_world s2) = Some cl' \<and> cl_due_date cl' = Some later \<and> is_handed_off c cl' s2)
     \<and> c \<in> of_notified s2
     \<and> of_log s2 = of_log s @ (c, DueDateSet) # (if oe_mails E c
         then [(c, OverdueMailed (missing_document_names (documents_of_client c (of_docs s))))] else [])"
proof -
  define s1 where "s1 = snd (put_due_date E inst hidden c (Some later) now s)"
  have row: "w_clients (of_world s) c = Some cl" "is_overdue today types test c cl s"
    using assms(1) by (auto simp: list_overdue_for_agent_types_def List.map_filter_def split: option.splits if_splits)
  then have cl: "client_by_id c (of_world s) = Some cl" "cl_goal cl = GPending" "\<not> cl_paused cl" "cl_user cl \<noteq> None"
      "c \<notin> of_notified s"
    by (auto simp: is_overdue_def client_by_id_def)
  have s1: "of_world s1 = update_client c (\<lambda>cl. cl\<lparr>cl_due_date := Some later\<rparr>) (of_world s)" "c \<notin> of_notified s1"
      "of_log s1 = of_log s @ [(c, DueDateSet)]" "of_docs s1 = of_docs s"
    using cl row assms(3,4) by (simp_all add: s1_def put_due_date_def client_for_instance_def is_handed_off_def set_due_date_def)
  have by_id: "client_by_id c (of_world s1) = Some (cl\<lparr>cl_due_date := Some later\<rparr>)"
    using cl(1) row(1) by (simp add: s1 update_client_def client_by_id_def split: if_splits)
  have quiet: "\<not> admin_comms_paused cl (of_world s1)"
    using assms(2) by (simp add: s1 admin_comms_paused_def instance_of_def split: option.splits)
  obtain s2 where m: "mark_overdue_stopped c s1 = Some s2"
    using by_id cl s1(2) by (auto simp: mark_overdue_stopped_def)
  have s2: "of_world s2 = set_paused c True (of_world s1)" "of_stopped s2 = insert c (of_stopped s1)"
    "of_notified s2 = insert c (of_notified s1)" "of_docs s2 = of_docs s1" "of_log s2 = of_log s1"
    by (rule marked_state [OF m], simp)+
  have end_row: "client_by_id c (set_paused c True (of_world s1)) = Some (cl\<lparr>cl_due_date := Some later, cl_paused := True\<rparr>)"
    using paused_client [OF by_id, of True] by simp
  then have raw: "w_clients (set_paused c True (of_world s1)) c = Some (cl\<lparr>cl_due_date := Some later, cl_paused := True\<rparr>)"
    by (auto simp: client_by_id_def split: option.splits if_splits)
  show ?thesis
    using end_row raw cl(4)
    by (simp add: client_by_id_cong [OF pause_frames(1)] Let_def s1_def [symmetric] candidate_claimed [OF m quiet] s2 is_handed_off_def send_overdue_email_def s1(3,4))
qed

text \<open>
  The route of the due date writes the board's label only after the resume: when the plan the
  resume asks for fails, the client is back with the agent and the board still shows the old end.
\<close>

lemma failed_resume_leaves_board:
  assumes "client_for_instance inst hidden c (of_world s) = Some cl" and "is_handed_off c cl s"
    and "put_due_date E inst hidden c d now s = (Inl (RouteFailed err), s')"
  shows "of_board s' = of_board s \<and> c \<notin> of_stopped s' \<and> c \<notin> of_declined s'
     \<and> (\<exists>cl'. client_by_id c (of_world s') = Some cl' \<and> \<not> cl_paused cl' \<and> cl_due_date cl' = d)"
proof -
  have row: "w_clients (of_world s) c = Some cl" "cl_instance cl = Some inst" "cl_deleted_at cl = None"
    using assms(1) by (auto simp: client_for_instance_def client_by_id_def split: option.splits if_splits)
  define s1 where "s1 = on_world (set_paused c False) (snd (set_due_date c inst d s))"
  have out: "resume_client E c now s1 = (Inl err, s')"
    using assms row by (auto simp: put_due_date_def set_due_date_def s1_def Let_def split: prod.splits sum.splits)
  have s1: "of_board s1 = of_board s" "c \<notin> of_stopped s1" "c \<notin> of_declined s1"
    "standing c (of_world s1) = Some (cl_instance cl, False, None, d)"
    using row by (simp_all add: s1_def set_due_date_def standing_def set_paused_def update_client_def)
  have "standing c (of_world s') = standing c (of_world s1)" "of_board s' = of_board s1" "of_stopped s' = of_stopped s1"
    "of_declined s' = of_declined s1"
    using out resume_standing [of c "oe_send E" c now "of_world s1"] by (auto simp: resume_client_def split: prod.splits)
  then show ?thesis using s1 by (auto simp: standing_def client_by_id_def)
qed

text \<open>A date the accountant clears before the first contact is set again by the collection window.\<close>

lemma cleared_date_comes_back:
  assumes "client_for_instance inst hidden c (of_world s) = Some cl"
  shows "fst (set_due_date_if_absent c d (of_world (snd (set_due_date c inst None s))))"
  using assms by (auto simp: client_for_instance_def client_by_id_def set_due_date_def set_due_date_if_absent_def update_client_def
      split: option.splits if_splits)

section \<open>The theorems on the concrete office\<close>

definition returned_demo :: "job_table office" where
  "returned_demo = on_world (\<lambda>_. set_paused ''c'' False (of_world stopped_demo)) stopped_demo"

definition extended_demo :: "job_table office" where
  "extended_demo = snd (put_due_date office_env_demo ''i'' {} ''c'' (Some ''2026-02-10'') 400 returned_demo)"

lemma office_world [simp]:
  "w_clients (of_world office_demo) = [''c'' \<mapsto> office_client]" "w_instances (of_world office_demo) = [''i'' \<mapsto> demo_instance False]"
  "of_notified office_demo = {}" "of_log office_demo = []" "of_docs office_demo = [office_row]"
  "cl_deleted_at office_client = None" "cl_goal office_client = GPending" "\<not> cl_paused office_client"
  "cl_user office_client = Some ''u''" "cl_instance office_client = Some ''i''" "cl_admin_paused office_client = False"
  "in_admin_paused (demo_instance b) = False" "oe_mails office_env_demo c = True"
  "missing_document_names (documents_of_client ''c'' [office_row]) = [[1488]]"
  by (simp_all add: office_demo_def office_client_def demo_client_def demo_world_def demo_instance_def office_env_demo_def
      office_row_def missing_document_names_def documents_of_client_def sample_row_def)

lemma demo_claim: "\<exists>s1. mark_overdue_stopped ''c'' office_demo = Some s1" "\<not> admin_comms_paused office_client (of_world office_demo)"
  "client_by_id ''c'' (of_world office_demo) = Some office_client"
  by (simp_all add: mark_overdue_stopped_def client_by_id_def admin_comms_paused_def instance_of_def)

lemma stopped_demo_state [simp]:
  "w_clients (of_world stopped_demo) = [''c'' \<mapsto> office_client\<lparr>cl_paused := True\<rparr>]"
  "w_instances (of_world stopped_demo) = [''i'' \<mapsto> demo_instance False]"
  "of_notified stopped_demo = {''c''}" "of_docs stopped_demo = [office_row]"
  "of_log stopped_demo = [(''c'', OverdueMailed [[1488]])]"
proof -
  obtain s1 where m: "mark_overdue_stopped ''c'' office_demo = Some s1" using demo_claim(1) ..
  have s1: "of_world s1 = set_paused ''c'' True (of_world office_demo)" "of_notified s1 = {''c''}" "of_docs s1 = [office_row]" "of_log s1 = []"
    by (rule marked_state [OF m], simp)+
  show "w_clients (of_world stopped_demo) = [''c'' \<mapsto> office_client\<lparr>cl_paused := True\<rparr>]"
    "w_instances (of_world stopped_demo) = [''i'' \<mapsto> demo_instance False]"
    "of_notified stopped_demo = {''c''}" "of_docs stopped_demo = [office_row]"
    "of_log stopped_demo = [(''c'', OverdueMailed [[1488]])]"
    by (simp_all add: stopped_demo_def candidate_claimed [OF m demo_claim(2)] s1 set_paused_def update_client_def send_overdue_email_def)
qed

lemma extended_demo_state [simp]:
  "w_clients (of_world extended_demo) = [''c'' \<mapsto> office_client\<lparr>cl_due_date := Some ''2026-02-10''\<rparr>]"
  "w_instances (of_world extended_demo) = [''i'' \<mapsto> demo_instance False]"
  "of_notified extended_demo = {}" "of_docs extended_demo = [office_row]"
  "of_log extended_demo = [(''c'', OverdueMailed [[1488]]), (''c'', DueDateSet)]"
proof -
  have w: "w_clients (of_world returned_demo) = [''c'' \<mapsto> office_client]" "of_notified returned_demo = {''c''}"
    "of_docs returned_demo = [office_row]" "of_log returned_demo = [(''c'', OverdueMailed [[1488]])]"
    "w_instances (of_world returned_demo) = [''i'' \<mapsto> demo_instance False]"
    by (simp_all add: returned_demo_def set_paused_def update_client_def)
      (simp add: office_client_def demo_client_def)
  then show "w_clients (of_world extended_demo) = [''c'' \<mapsto> office_client\<lparr>cl_due_date := Some ''2026-02-10''\<rparr>]"
    "w_instances (of_world extended_demo) = [''i'' \<mapsto> demo_instance False]"
    "of_notified extended_demo = {}" "of_docs extended_demo = [office_row]"
    "of_log extended_demo = [(''c'', OverdueMailed [[1488]]), (''c'', DueDateSet)]"
    by (simp_all add: extended_demo_def put_due_date_def client_for_instance_def client_by_id_def is_handed_off_def set_due_date_def
        update_client_def)
qed

lemma demo_run: "office_run office_env_demo office_demo (scan_candidate office_env_demo (''c'', office_client) extended_demo)"
proof -
  have "office_step office_env_demo stopped_demo returned_demo"
    unfolding returned_demo_def by (intro office_step.Sending send_step.SetPaused)
  then show ?thesis
    unfolding office_run_def extended_demo_def stopped_demo_def
    by (meson office_step.Candidate office_step.DueDate rtranclp.intros)
qed

lemma overdue_mailed_once_per_date_witness:
  "(''c'', DueDateSet) \<in> set [(''c'', DueDateSet)]
   \<and> of_log (scan_candidate office_env_demo (''c'', office_client) extended_demo)
     = [(''c'', OverdueMailed [[1488]]), (''c'', DueDateSet), (''c'', OverdueMailed [[1488]])]"
proof -
  have by_id: "client_by_id ''c'' (of_world extended_demo) = Some (office_client\<lparr>cl_due_date := Some ''2026-02-10''\<rparr>)"
    by (simp add: client_by_id_def)
  then obtain s1 where m: "mark_overdue_stopped ''c'' extended_demo = Some s1" by (simp add: mark_overdue_stopped_def)
  have a: "\<not> admin_comms_paused office_client (of_world extended_demo)" by (simp add: admin_comms_paused_def instance_of_def)
  have s1: "of_world s1 = set_paused ''c'' True (of_world extended_demo)" "of_docs s1 = [office_row]"
    "of_log s1 = [(''c'', OverdueMailed [[1488]]), (''c'', DueDateSet)]"
    by (rule marked_state [OF m], simp)+
  have final: "of_log (scan_candidate office_env_demo (''c'', office_client) extended_demo)
     = [] @ (''c'', OverdueMailed [[1488]]) # [(''c'', DueDateSet)] @ (''c'', OverdueMailed [[1488]]) # []"
    by (simp add: candidate_claimed [OF m a] s1 send_overdue_email_def set_paused_def update_client_def)
  show ?thesis
    using overdue_mailed_once_per_date [OF demo_run office_world(4) final] final by simp
qed

lemma overdue_stop_hands_over_witness:
  "let s' = scan_candidate office_env_demo (''c'', office_client) office_demo in
     of_log s' = [(''c'', OverdueMailed [[1488]])]
     \<and> set_future_email demo_env ''c'' 600 (of_world s') = (Inr (), of_world s')
     \<and> on_scheduled_send demo_env (''c'', ''d'') 600 (of_world s') = (Inr (), of_world s')"
proof -
  obtain s1 where m: "mark_overdue_stopped ''c'' office_demo = Some s1" using demo_claim(1) ..
  have mail: "(demo_draft EReceived None)\<lparr>em_id := ''in''\<rparr> \<in> set (w_emails (of_world office_demo))"
    by (simp add: office_demo_def demo_world_def)
  have env: "oe_send office_env_demo = demo_env" by (simp add: office_env_demo_def)
  show ?thesis
    using overdue_stop_hands_over [OF m demo_claim(2,3) mail, where E = office_env_demo and later = 600 and e = "''d''"]
    by (simp add: Let_def env) (simp add: demo_draft_def)
qed

lemma extended_date_still_stopped_witness:
  "(\<exists>cl'. client_by_id ''c'' (of_world (scan_candidate office_env_demo (''c'', office_client)
       (snd (put_due_date office_env_demo ''i'' {} ''c'' (Some ''2026-12-31'') 400 office_demo)))) = Some cl'
     \<and> cl_due_date cl' = Some ''2026-12-31'' \<and> cl_paused cl')"
  using extended_date_still_stopped [where c = "''c''" and cl = office_client and ids = "[''c'']" and test = "{}" and today = "''2026-01-11''"
      and types = "[''declaration_of_capital'']" and s = office_demo and inst = "''i''" and hidden = "{}" and E = office_env_demo
      and later = "''2026-12-31''" and now = 400]
  by (auto simp: listed_demo demo_claim(2) Let_def is_handed_off_def)


lemma manual_patch_bounded_witness:
  "cd_verification (hd (of_docs (snd (patch_document office_env_demo ''i'' {} ''c'' ''r''
     \<lparr>pt_name = None, pt_description = None, pt_status = Some Collected, pt_clear_evidence = False\<rparr> 400 office_demo)))) = None"
proof -
  have "distinct (map cd_id (of_docs office_demo))" by simp
  from manual_patch_bounded [OF this, where i = "''r''" and c = "''c''" and E = office_env_demo and inst = "''i''" and hidden = "{}" and now = 400
      and p = "\<lparr>pt_name = None, pt_description = None, pt_status = Some Collected, pt_clear_evidence = False\<rparr>"]
  show ?thesis by (auto simp: list_all2_Cons1 office_row_def sample_row_def)
qed

end
