(* ===== verification/Spec2Isabelle.thy ===== *)
theory Spec2Isabelle
  imports ReplanWorker Institutions Verification IntakeProps FormIntake GateProps PlanGoal MessageProps OfficeProps
begin

text \<open>
  A verification development of the agent core of the platform: a server that collects,
  over WhatsApp, the documents of an accountant's clients for their declarations of
  capital. A model proposes; the code decides. The development models the code that decides.

  The parts and how they meet. An inbound message (InboundMessage) is counted and asks for a
  plan (\<open>orchestration/inboundTurn*.ts\<close>: theory InboundTurn); the replan worker waits until the
  client has been quiet (\<open>queue/replanWorker.ts\<close>: ReplanWorker) and calls \<open>setFutureEmail\<close>
  (SendOps). The plan of the declaration agent is one planning cycle (\<open>plan.ts\<close>: Planner,
  PlanApply, PlanCycle): it reads the checklist, the files and the thread, asks the
  model, gates the answer, applies it to the checklist, verifies what was collected and ends
  in a reply, a completed goal or a refusal. A reply is stored as a draft behind a delayed
  job and goes out through the send worker (SendWorker), or waits for a reviewer.

  Groups of theories, under \<open>src/src/\<close> unless named otherwise:

  Prelude. Texts as lists of UTF-16 units, results as sums, the string and number
  functions of the language that the sources use, updates of a table by a condition.

  Sending (\<open>orchestration/\<close>, \<open>queue/\<close>, \<open>db/queries/emails.ts\<close>, \<open>scheduledJobs.ts\<close>):
  SendState holds the rows and queries, SendOps the operations from scheduling to resuming,
  SendQueue the delayed queue as a locale of the laws the operations rely on, interpreted on
  a table of jobs, SendWorker the job handler and what an operation may do to the messages,
  SendRuns the runs of all operations, SendProps their theorems: a message is delivered at
  most once and only behind the guards, a cancel leaves nothing pending, pause and resume
  round-trip. ReplanWorker and InboundTurn hold the debounce: its waiting is bounded and no
  inbound message stays without a plan.

  Documents (\<open>agents/declarationOfCapital/\<close>): Catalog, Institutions, Identity, VerifyChecks,
  DocumentTypes translate the tables and the checks of \<open>catalog.ts\<close>, \<open>institutions.ts\<close>,
  \<open>spouseIdentity.ts\<close>, \<open>verifyChecks.ts\<close>, \<open>documentTypes/\<close>. Checklist has every write of
  \<open>db/queries/clientDocuments.ts\<close> and the state machine they add up to (\<open>checklist_op\<close>,
  \<open>checklist_run\<close>, \<open>may_become\<close>); Files the received files and their ties to rows;
  FileIntake what is done with a file on arrival (\<open>analyzeInboundFile.ts\<close>: the screen, the cut
  into documents behind the gate of \<open>splitFileRules.ts\<close>, the classification behind the gate of
  \<open>analyzeFileRules.ts\<close>), with its theorems in IntakeProps; FormIntake how the submitted
  questionnaire settles open rows (\<open>formIntake.ts\<close>, \<open>formIntakeRules.ts\<close>);
  Verification the pipeline that approves or reopens a collected row, at most twice.

  The gate: Statements (amounts and vehicle facts in a quoted text), DecisionGate
  (\<open>decisionSchema.ts\<close>), PlannerTools (\<open>decisionTools.ts\<close>), with the theorems in GateProps: an
  accepted change rests on the client's stored words or on a file that proves it, a
  confirmation on a reply to the summary.

  Inbound: InboundFiles stores the files of a message with a bounded retry and lists the lost
  ones (\<open>webhook/ingest*.ts\<close>, \<open>lostFiles.ts\<close>), with InboundProps; OtpCode reads a one-time code in
  a reply (\<open>inboundOtp.ts\<close>); InboundMessage is the handler of a WhatsApp message down to the
  agent's hook (\<open>onInboundWhatsApp.ts\<close>, \<open>declarationOfCapital/index.ts\<close>, \<open>screenInbound.ts\<close>). Its
  theorems in MessageProps: a new message ends as a code for the fetch, a decline or a
  request for a plan, with nothing outdated left to send; a redelivery changes nothing.

  The fetch: TaxFetch (the document fetch as the planner steers it), FetchRunner the worker
  that carries it out (\<open>taxFetch/runner.ts\<close>, \<open>sessionTracker.ts\<close>, \<open>deliver.ts\<close>), FetchProps its
  theorems: over every run of jobs, expired waits, restarts and planner steps the login that
  sends a real code to the client fires at most once per session, and only behind its guards.

  The accountant's side: Office has the hand-off of a client whose due date passed
  (\<open>overdueScan.ts\<close>), the routes of the pause switch and the due date (\<open>api/workspace.ts\<close>,
  \<open>declarationOfCapital/router.ts\<close>), the edits of the checklist with what they do to the goal
  and the attestation, and the label written to the board. It puts the send world, the decline,
  the checklist and the form intake together in one state. OfficeProps shows over every
  interleaving that the accountant is mailed once per due date, that a stopped client
  hears nothing and a hand-back queues the very draft that was pending, that the goal
  follows the edited list, and which moves of a row by hand are possible.

  Planning: CompanySplit, Timing (the
  send time), Sanitize (the text a prompt may carry), Planner (what a cycle reads and the
  corrective retry), PlanApply (the apply steps), Closing (the fixed messages and the
  decline), PlanCycle (the cycle). The database of a cycle is \<open>plan_world\<close>; a step is a
  function from it to a result and the database as far as the step got (\<open>planning\<close>), so an
  exception in the middle keeps the writes before it, as in the code. PlanProps states as a
  locale what a relation on databases needs to hold from the start of a cycle to
  its end; its interpretations in PlanProps and PlanOutcomes give the refinement of the
  checklist machine, the integrity of the received files, and that nothing is collected
  without a legible file. PlanOutcomes also shows that the cycle ends, PlanGoal that the goal
  is reached only over a settled and confirmed list.

  Bounds and fuel. Only \<open>planFollowUp\<close> needs fuel, because it calls itself after a
  verification: \<open>planning_terminates\<close> shows that two units are enough for every input. The
  rolling of a send time stops after the code's own bound of days, which is shown to be
  enough. All other recursions end by their measures. Instants are integers of
  milliseconds; numbers the code reads from text are rationals, since no claim depends on
  the rounding of a double.

  Parameters. What is not under \<open>src/\<close>: the queue, the clock, fresh ids, the answers of the
  models, the Hebrew calendar, the zone of the accountant (a function on instants), upper
  and lower case. The institutions table and the schema check of a tool call are
  arguments too.

  Not modelled, and why: the web workspace, the landing site, the evaluations and
  scripts (no decision of the agent); HTTP routes and the e-mail channel, storage, mail and
  provider clients, the model adapters (I/O around the modelled operations); prompt texts;
  audit rows and logs of the planner; the browser on the providers' sites and the imports
  of client lists (third-party sites); the injection screens (patterns and a model call,
  whose verdict is an input); the anomaly scans for the operators (alerts only).
\<close>

end
